(* ===== verification/Prelude.thy ===== *)
theory Prelude
  imports Main
begin

text \<open>
  Shared vocabulary of the development: Go pointers, Go panics as values, the sequential loop over a
  slice whose body may panic, the collections of rewrite rules the component theories extend, and the
  generic facts on lists and strings that more than one component needs.
\<close>

named_theorems name_defs "definitions of the resource names"
named_theorems object_defs "definitions of the desired objects"
named_theorems pod_defs "definitions of the containers, volumes and variables the webhook injects"
named_theorems config_defs "definitions of the configuration switches"

subsection \<open>Pointers\<close>

text \<open>
  A Go pointer to a value that is only read is an option: \<open>nil\<close> is \<open>None\<close>. \<open>Deref p d\<close> is the value
  \<open>p\<close> points to, or the default \<open>d\<close> when \<open>p\<close> is \<open>nil\<close> (the documented contract of
  \<^verbatim>\<open>k8s.io/utils/ptr.Deref\<close>).
\<close>

fun Deref :: "'a option \<Rightarrow> 'a \<Rightarrow> 'a" where
  "Deref None d = d"
| "Deref (Some x) d = x"

subsection \<open>Panics\<close>

text \<open>
  A Go function that may panic returns a value of \<open>'a go\<close>. \<open>IndexOutOfRange i n\<close> is the run-time
  error of reading index \<open>i\<close> of a slice of length \<open>n\<close>, \<open>NilDereference\<close> the one of reading a field
  through a \<open>nil\<close> pointer, \<open>PanicCall\<close> an explicit call of \<open>panic\<close>.
\<close>

datatype go_panic = IndexOutOfRange nat nat | NilDereference | PanicCall string

datatype 'a go = Ok (value_of: 'a) | Panics go_panic

fun go_bind :: "'a go \<Rightarrow> ('a \<Rightarrow> 'b go) \<Rightarrow> 'b go" where
  "go_bind (Ok x) f = f x"
| "go_bind (Panics e) f = Panics e"

fun go_map :: "('a \<Rightarrow> 'b) \<Rightarrow> 'a go \<Rightarrow> 'b go" where
  "go_map f (Ok x) = Ok (f x)"
| "go_map f (Panics e) = Panics e"

text \<open>\<^verbatim>\<open>for _, x := range xs { body }\<close>, where the body updates the state \<open>s\<close> or panics.\<close>

fun for_each :: "('a \<Rightarrow> 's \<Rightarrow> 's go) \<Rightarrow> 'a list \<Rightarrow> 's \<Rightarrow> 's go" where
  "for_each body [] s = Ok s"
| "for_each body (x # xs) s = go_bind (body x s) (for_each body xs)"

text \<open>\<^verbatim>\<open>for i := range xs { p := &xs[i]; ... }\<close>, where the body updates the element in place.\<close>

fun update_each :: "('a \<Rightarrow> 'a go) \<Rightarrow> 'a list \<Rightarrow> 'a list go" where
  "update_each body [] = Ok []"
| "update_each body (x # xs) =
     go_bind (body x) (\<lambda>x'. go_bind (update_each body xs) (\<lambda>xs'. Ok (x' # xs')))"

text \<open>\<^verbatim>\<open>xs[0] = f(xs[0])\<close>.\<close>

fun update_first :: "('a \<Rightarrow> 'a) \<Rightarrow> 'a list \<Rightarrow> 'a list go" where
  "update_first f [] = Panics (IndexOutOfRange 0 0)"
| "update_first f (x # xs) = Ok (f x # xs)"

lemma go_bind_eq_Ok:
  "go_bind m f = Ok y \<longleftrightarrow> (\<exists>x. m = Ok x \<and> f x = Ok y)"
  by (cases m) auto

lemma for_each_Ok:
  assumes "\<And>x s. x \<in> set xs \<Longrightarrow> body x s = Ok (f x s)"
  shows "for_each body xs s = Ok (fold f xs s)"
  using assms by (induction xs arbitrary: s) simp_all

lemma update_each_Ok:
  "(\<And>x. x \<in> set xs \<Longrightarrow> body x = Ok (f x)) \<Longrightarrow> update_each body xs = Ok (map f xs)"
  by (induction xs) simp_all

lemma update_each_eq_Ok:
  "update_each body xs = Ok ys \<longleftrightarrow> list_all2 (\<lambda>x y. body x = Ok y) xs ys"
  by (induction xs arbitrary: ys) (auto simp: go_bind_eq_Ok list_all2_Cons1)

lemma update_each_Panics:
  assumes "x \<in> set xs" and "\<And>y. body x \<noteq> Ok y"
  shows "\<exists>e. update_each body xs = Panics e"
proof (cases "update_each body xs")
  case (Ok ys)
  then have "list_all2 (\<lambda>x y. body x = Ok y) xs ys" by (simp add: update_each_eq_Ok)
  with assms(1) obtain y where "body x = Ok y"
    by (auto simp: list_all2_conv_all_nth in_set_conv_nth)
  with assms(2) [of y] show ?thesis by blast
qed simp

lemma update_each_guarded:
  assumes "\<And>x. body x = (if bad x then Panics e else Ok (f x))"
  shows "update_each body xs = (if \<exists>x\<in>set xs. bad x then Panics e else Ok (map f xs))"
  by (induction xs) (auto simp: assms)

subsection \<open>Strings\<close>

lemma append_same_suffix_length:
  "length s = length t \<Longrightarrow> xs @ s = ys @ t \<longleftrightarrow> xs = ys \<and> s = t"
  by simp

lemma append_neq_suffix:
  assumes "length s \<le> length t" and "drop (length t - length s) t \<noteq> s"
  shows "xs @ s \<noteq> ys @ t"
proof
  assume eq: "xs @ s = ys @ t"
  have len: "length xs + length s = length ys + length t"
    using arg_cong [OF eq, of length] by simp
  have "s = drop (length xs) (ys @ t)" by (simp flip: eq)
  also have "\<dots> = drop (length xs - length ys) t" using len assms(1) by simp
  also have "length xs - length ys = length t - length s" using len assms(1) by linarith
  finally show False using assms(2) by simp
qed

end
