(* ===== verification/Config.thy ===== *)
theory Config
  imports Prelude Complex_Main
begin

text \<open>
  The operator's configuration (\<^verbatim>\<open>pkg/config/config.go\<close>) and the switches the controllers derive from
  it. The configuration of the AppWrapper controller and the leader-election record are types of other
  modules; of the first only its presence matters here, of the second the fields \<^verbatim>\<open>main\<close> reads.
\<close>

record KubeRayConfiguration =
  RayDashboardOAuthEnabled :: "bool option"
  IngressDomain :: string
  MTLSEnabled :: "bool option"

record ClientConnection =
  QPS :: "rat option"
  Burst :: "int option"

record MetricsConfiguration =
  Metrics_BindAddress :: string

record HealthConfiguration =
  Health_BindAddress :: string
  ReadinessEndpointName :: string
  LivenessEndpointName :: string

record LeaderElectionConfiguration =
  LeaderElect :: "bool option"
  ResourceName :: string
  ResourceNamespace :: string
  ResourceLock :: string
  LeaseDuration :: int
  RetryPeriod :: int
  RenewDeadline :: int

record ControllerManager =
  Metrics :: MetricsConfiguration
  Health :: HealthConfiguration
  LeaderElection :: "LeaderElectionConfiguration option"

record AppWrapperConfiguration =
  AppWrapper_Enabled :: "bool option"
  AppWrapper_Config :: string

record CodeFlareOperatorConfiguration =
  CFO_ClientConnection :: "ClientConnection option"
  CFO_ControllerManager :: ControllerManager
  CFO_KubeRay :: "KubeRayConfiguration option"
  CFO_AppWrapper :: "AppWrapperConfiguration option"

text \<open>A \<open>nil\<close> configuration and an unset flag both mean \<open>true\<close>.\<close>

definition isRayDashboardOAuthEnabled :: "KubeRayConfiguration option \<Rightarrow> bool" where
  [config_defs]: "isRayDashboardOAuthEnabled cfg =
     (case cfg of None \<Rightarrow> True | Some c \<Rightarrow> Deref (RayDashboardOAuthEnabled c) True)"

definition isMTLSEnabled :: "KubeRayConfiguration option \<Rightarrow> bool" where
  [config_defs]: "isMTLSEnabled cfg =
     (case cfg of None \<Rightarrow> True | Some c \<Rightarrow> Deref (MTLSEnabled c) True)"

end
