(* ===== verification/KubeTypes.thy ===== *)
theory KubeTypes
  imports Prelude
begin

text \<open>
  The Kubernetes and KubeRay API types the operator reads and writes, as records with the fields the
  code touches. Every other field of a Go struct is kept in one opaque component (\<open>..._rest\<close>: JSON name
  and serialised value), so an update that leaves it alone is seen to leave it alone. Maps of strings
  are partial functions; a \<open>nil\<close> map and an empty one are the same to every read of the code.

  \<^verbatim>\<open>equality.Semantic.DeepDerivative\<close> (k8s.io/apimachinery) is code outside the repository: it is a
  parameter of the model, one component of the record \<open>deep_derivative\<close> for each type it is used at.
\<close>

type_synonym strmap = "string \<rightharpoonup> string"
type_synonym other_fields = "(string \<times> string) list"

subsection \<open>Errors\<close>

text \<open>
  API status errors by their reason, errors made by \<^verbatim>\<open>fmt.Errorf\<close>, and errors wrapped with the
  \<^verbatim>\<open>%w\<close> verb. The predicates of \<^verbatim>\<open>k8s.io/apimachinery/pkg/api/errors\<close> look through wrapping.
\<close>

datatype error =
    StatusNotFound string
  | StatusConflict string
  | StatusOther string
  | Errorf string
  | Wrapped string error

fun Error :: "error \<Rightarrow> string" where
  "Error (StatusNotFound m) = m"
| "Error (StatusConflict m) = m"
| "Error (StatusOther m) = m"
| "Error (Errorf m) = m"
| "Error (Wrapped prefix e) = prefix @ Error e"

fun IsNotFound :: "error \<Rightarrow> bool" where
  "IsNotFound (StatusNotFound _) = True"
| "IsNotFound (Wrapped _ e) = IsNotFound e"
| "IsNotFound _ = False"

fun IsConflict :: "error \<Rightarrow> bool" where
  "IsConflict (StatusConflict _) = True"
| "IsConflict (Wrapped _ e) = IsConflict e"
| "IsConflict _ = False"

text \<open>\<^verbatim>\<open>client.IgnoreNotFound\<close>: \<open>None\<close> is the \<open>nil\<close> error.\<close>

definition IgnoreNotFound :: "error \<Rightarrow> error option" where
  "IgnoreNotFound e = (if IsNotFound e then None else Some e)"

subsection \<open>Pods\<close>

record ObjectFieldSelector =
  ofs_APIVersion :: string
  ofs_FieldPath :: string

record SecretKeySelector =
  sks_Name :: string
  sks_Key :: string
  sks_Optional :: "bool option"

record EnvVarSource =
  evs_FieldRef :: "ObjectFieldSelector option"
  evs_SecretKeyRef :: "SecretKeySelector option"
  evs_rest :: other_fields

record EnvVar =
  ev_Name :: string
  ev_Value :: string
  ev_ValueFrom :: "EnvVarSource option"

record VolumeMount =
  vm_Name :: string
  vm_ReadOnly :: bool
  vm_MountPath :: string
  vm_rest :: other_fields

record ContainerPort =
  cp_Name :: string
  cp_ContainerPort :: int
  cp_rest :: other_fields

record Container =
  c_Name :: string
  c_Image :: string
  c_Command :: "string list"
  c_Args :: "string list"
  c_Ports :: "ContainerPort list"
  c_Env :: "EnvVar list"
  c_VolumeMounts :: "VolumeMount list"
  c_rest :: other_fields

record SecretVolumeSource =
  svs_SecretName :: string
  svs_rest :: other_fields

record EmptyDirVolumeSource =
  eds_Medium :: string
  eds_SizeLimit :: "string option"

record Volume =
  v_Name :: string
  v_Secret :: "SecretVolumeSource option"
  v_EmptyDir :: "EmptyDirVolumeSource option"
  v_rest :: other_fields

record PodSpec =
  ps_Volumes :: "Volume list"
  ps_InitContainers :: "Container list"
  ps_Containers :: "Container list"
  ps_ServiceAccountName :: string
  ps_ImagePullSecrets :: "string list"
  ps_rest :: other_fields

record PodTemplateSpec =
  pt_Spec :: PodSpec
  pt_rest :: other_fields

subsection \<open>RayCluster\<close>

text \<open>
  \<open>om_DeletionTimestamp\<close> is a pointer to a time; the zero time is 0, and \<^verbatim>\<open>IsZero\<close> holds of \<open>nil\<close> and
  of the zero time.
\<close>

record ObjectMeta =
  om_Name :: string
  om_Namespace :: string
  om_UID :: string
  om_Annotations :: strmap
  om_DeletionTimestamp :: "nat option"
  om_Finalizers :: "string list"
  om_rest :: other_fields

record HeadGroupSpec =
  hg_EnableIngress :: "bool option"
  hg_Template :: PodTemplateSpec
  hg_rest :: other_fields

record WorkerGroupSpec =
  wg_Template :: PodTemplateSpec
  wg_rest :: other_fields

record RayCluster =
  rc_Kind :: string
  rc_APIVersion :: string
  rc_Meta :: ObjectMeta
  rc_Suspend :: "bool option"
  rc_Head :: HeadGroupSpec
  rc_Workers :: "WorkerGroupSpec list"
  rc_rest :: other_fields

abbreviation Name :: "RayCluster \<Rightarrow> string" where
  "Name rc \<equiv> om_Name (rc_Meta rc)"

abbreviation Namespace :: "RayCluster \<Rightarrow> string" where
  "Namespace rc \<equiv> om_Namespace (rc_Meta rc)"

abbreviation Annotations :: "RayCluster \<Rightarrow> strmap" where
  "Annotations rc \<equiv> om_Annotations (rc_Meta rc)"

abbreviation Finalizers :: "RayCluster \<Rightarrow> string list" where
  "Finalizers rc \<equiv> om_Finalizers (rc_Meta rc)"

text \<open>\<^verbatim>\<open>Spec.HeadGroupSpec.Template.Spec\<close> and \<^verbatim>\<open>Template.Spec\<close> of a worker group.\<close>

abbreviation head_pod :: "RayCluster \<Rightarrow> PodSpec" where
  "head_pod rc \<equiv> pt_Spec (hg_Template (rc_Head rc))"

abbreviation worker_pod :: "WorkerGroupSpec \<Rightarrow> PodSpec" where
  "worker_pod wg \<equiv> pt_Spec (wg_Template wg)"

definition set_head_pod :: "PodSpec \<Rightarrow> RayCluster \<Rightarrow> RayCluster" where
  "set_head_pod p rc = rc\<lparr>rc_Head := (rc_Head rc)\<lparr>hg_Template := (hg_Template (rc_Head rc))\<lparr>pt_Spec := p\<rparr>\<rparr>\<rparr>"

definition set_worker_pod :: "PodSpec \<Rightarrow> WorkerGroupSpec \<Rightarrow> WorkerGroupSpec" where
  "set_worker_pod p wg = wg\<lparr>wg_Template := (wg_Template wg)\<lparr>pt_Spec := p\<rparr>\<rparr>"

lemma set_head_pod_simps [simp]:
  "head_pod (set_head_pod p rc) = p"
  "rc_Meta (set_head_pod p rc) = rc_Meta rc"
  "rc_Kind (set_head_pod p rc) = rc_Kind rc"
  "rc_APIVersion (set_head_pod p rc) = rc_APIVersion rc"
  "rc_Suspend (set_head_pod p rc) = rc_Suspend rc"
  "rc_Workers (set_head_pod p rc) = rc_Workers rc"
  "rc_rest (set_head_pod p rc) = rc_rest rc"
  "hg_EnableIngress (rc_Head (set_head_pod p rc)) = hg_EnableIngress (rc_Head rc)"
  "hg_rest (rc_Head (set_head_pod p rc)) = hg_rest (rc_Head rc)"
  "pt_rest (hg_Template (rc_Head (set_head_pod p rc))) = pt_rest (hg_Template (rc_Head rc))"
  by (simp_all add: set_head_pod_def)

lemma set_head_pod_twice [simp]: "set_head_pod p (set_head_pod q rc) = set_head_pod p rc"
  by (simp add: set_head_pod_def)

lemma set_head_pod_id [simp]: "set_head_pod (head_pod rc) rc = rc"
  by (simp add: set_head_pod_def)

lemma set_worker_pod_simps [simp]:
  "worker_pod (set_worker_pod p wg) = p"
  "wg_rest (set_worker_pod p wg) = wg_rest wg"
  "pt_rest (wg_Template (set_worker_pod p wg)) = pt_rest (wg_Template wg)"
  "set_worker_pod p (set_worker_pod q wg) = set_worker_pod p wg"
  "set_worker_pod (worker_pod wg) wg = wg"
  by (simp_all add: set_worker_pod_def)

definition IsZero :: "nat option \<Rightarrow> bool" where
  "IsZero t = (case t of None \<Rightarrow> True | Some n \<Rightarrow> n = 0)"

text \<open>The documented contract of the finalizer helpers of \<^verbatim>\<open>controllerutil\<close>.\<close>

definition ContainsFinalizer :: "RayCluster \<Rightarrow> string \<Rightarrow> bool" where
  "ContainsFinalizer rc f \<longleftrightarrow> f \<in> set (Finalizers rc)"

definition set_finalizers :: "string list \<Rightarrow> RayCluster \<Rightarrow> RayCluster" where
  "set_finalizers fs rc = rc\<lparr>rc_Meta := (rc_Meta rc)\<lparr>om_Finalizers := fs\<rparr>\<rparr>"

definition AddFinalizer :: "string \<Rightarrow> RayCluster \<Rightarrow> RayCluster" where
  "AddFinalizer f rc =
     (if ContainsFinalizer rc f then rc else set_finalizers (Finalizers rc @ [f]) rc)"

definition RemoveFinalizer :: "string \<Rightarrow> RayCluster \<Rightarrow> RayCluster" where
  "RemoveFinalizer f rc = set_finalizers (removeAll f (Finalizers rc)) rc"

lemma AddFinalizer_contains [simp]: "ContainsFinalizer (AddFinalizer f rc) f"
  by (simp add: AddFinalizer_def ContainsFinalizer_def set_finalizers_def)

lemma RemoveFinalizer_contains [simp]:
  "ContainsFinalizer (RemoveFinalizer f rc) g \<longleftrightarrow> g \<noteq> f \<and> ContainsFinalizer rc g"
  by (auto simp: RemoveFinalizer_def ContainsFinalizer_def set_finalizers_def)

subsection \<open>Validation errors\<close>

text \<open>
  \<^verbatim>\<open>field.Error\<close>: its kind, its path as the list of names given to \<^verbatim>\<open>field.NewPath\<close>, the offending value
  (an \<open>interface{}\<close> in Go, so a tagged union here) and the detail message. An aggregate of no errors is
  the \<open>nil\<close> error.
\<close>

datatype field_error_type = ErrorTypeInvalid | ErrorTypeRequired

datatype bad_value =
    BadContainer Container
  | BadVolume Volume
  | BadEnvVar EnvVar
  | BadBool "bool option"
  | BadString string
  | NoValue

record FieldError =
  fe_Type :: field_error_type
  fe_Field :: "string list"
  fe_BadValue :: bad_value
  fe_Detail :: string

definition field_Invalid :: "string list \<Rightarrow> bad_value \<Rightarrow> string \<Rightarrow> FieldError" where
  "field_Invalid path v msg =
     \<lparr>fe_Type = ErrorTypeInvalid, fe_Field = path, fe_BadValue = v, fe_Detail = msg\<rparr>"

definition field_Required :: "string list \<Rightarrow> string \<Rightarrow> FieldError" where
  "field_Required path msg =
     \<lparr>fe_Type = ErrorTypeRequired, fe_Field = path, fe_BadValue = NoValue, fe_Detail = msg\<rparr>"

definition ToAggregate :: "FieldError list \<Rightarrow> FieldError list option" where
  "ToAggregate errs = (if errs = [] then None else Some errs)"

lemma ToAggregate_None [simp]: "ToAggregate errs = None \<longleftrightarrow> errs = []"
  by (simp add: ToAggregate_def)

subsection \<open>The deep comparison\<close>

record deep_derivative =
  dd_Container :: "Container \<Rightarrow> Container \<Rightarrow> bool"
  dd_Volume :: "Volume \<Rightarrow> Volume \<Rightarrow> bool"
  dd_EnvVar :: "EnvVar \<Rightarrow> EnvVar \<Rightarrow> bool"

text \<open>
  Its documentation: the comparison is a deep equality that ignores the unset fields of the first
  argument. Two consequences are all the model ever asks for: a value is a derivative of itself, and
  the (non-empty) string fields the first argument sets must agree.
\<close>

definition dd_reflexive :: "deep_derivative \<Rightarrow> bool" where
  "dd_reflexive dd \<longleftrightarrow>
     (\<forall>c. dd_Container dd c c) \<and> (\<forall>v. dd_Volume dd v v) \<and> (\<forall>e. dd_EnvVar dd e e)"

definition dd_compares_set_fields :: "deep_derivative \<Rightarrow> bool" where
  "dd_compares_set_fields dd \<longleftrightarrow>
     (\<forall>a b. dd_Container dd a b \<longrightarrow> c_Image a \<noteq> [] \<longrightarrow> c_Image b = c_Image a) \<and>
     (\<forall>a b. dd_EnvVar dd a b \<longrightarrow> ev_Value a \<noteq> [] \<longrightarrow> ev_Value b = ev_Value a) \<and>
     (\<forall>a b s. dd_Volume dd a b \<longrightarrow> v_Secret a = Some s \<longrightarrow> svs_SecretName s \<noteq> [] \<longrightarrow>
        (\<exists>s'. v_Secret b = Some s' \<and> svs_SecretName s' = svs_SecretName s))"

lemma dd_reflexiveD [simp]:
  assumes "dd_reflexive dd"
  shows "dd_Container dd c c" and "dd_Volume dd v v" and "dd_EnvVar dd e e"
  using assms by (simp_all add: dd_reflexive_def)

text \<open>Plain equality meets both, and serves as the concrete comparison of the witnesses.\<close>

definition strict_dd :: deep_derivative where
  "strict_dd = \<lparr>dd_Container = (\<lambda>a b. a = b), dd_Volume = (\<lambda>a b. a = b), dd_EnvVar = (\<lambda>a b. a = b)\<rparr>"

lemma strict_dd_laws [simp]: "dd_reflexive strict_dd" "dd_compares_set_fields strict_dd"
  by (simp_all add: strict_dd_def dd_reflexive_def dd_compares_set_fields_def)

end
