(* ===== verification/GoStd.thy ===== *)
theory GoStd
  imports Prelude "HOL-Library.Word"
begin

text \<open>
  The parts of the Go standard library the operator computes with, as executable functions on byte
  lists: \<^verbatim>\<open>crypto/sha256\<close> and \<^verbatim>\<open>crypto/sha1\<close> (FIPS 180-4), the \<^verbatim>\<open>%x\<close> verb of \<^verbatim>\<open>fmt\<close>,
  \<^verbatim>\<open>encoding/base64.StdEncoding\<close>, \<^verbatim>\<open>strconv.Itoa\<close> and the predicates of \<^verbatim>\<open>strings\<close>. A Go string
  is a sequence of bytes, and so is a HOL \<^typ>\<open>string\<close>.
\<close>

unbundle bit_operations_syntax

type_synonym byte = "8 word"
type_synonym u32 = "32 word"

definition bytes :: "string \<Rightarrow> byte list" where
  "bytes s = map of_char s"

lemma length_bytes [simp]: "length (bytes s) = length s"
  by (simp add: bytes_def)

subsection \<open>Hexadecimal\<close>

definition hex_digit :: "nat \<Rightarrow> char" where
  "hex_digit n = ''0123456789abcdef'' ! n"

text \<open>\<^verbatim>\<open>fmt.Sprintf("%x", bs)\<close> on a byte slice or array: two lower-case digits for each byte.\<close>

fun hex :: "byte list \<Rightarrow> string" where
  "hex [] = []"
| "hex (b # bs) = hex_digit (unat b div 16) # hex_digit (unat b mod 16) # hex bs"

lemma length_hex [simp]: "length (hex bs) = 2 * length bs"
  by (induction bs) simp_all

definition hex_chars :: "char set" where
  "hex_chars = set ''0123456789abcdef''"

lemma hex_digit_in: "n < 16 \<Longrightarrow> hex_digit n \<in> hex_chars"
  unfolding hex_digit_def hex_chars_def by (rule nth_mem) simp

lemma set_hex: "set (hex bs) \<subseteq> hex_chars"
proof (induction bs)
  case (Cons b bs)
  have "unat b < 2 ^ LENGTH(8)" by (rule unsigned_less)
  then have "unat b div 16 < 16" by simp
  with Cons show ?case by (simp add: hex_digit_in)
qed simp

subsection \<open>Message padding and words\<close>

text \<open>A 64-bit big-endian length, and the padding of FIPS 180-4 to a multiple of 64 bytes.\<close>

fun be_bytes :: "nat \<Rightarrow> nat \<Rightarrow> byte list" where
  "be_bytes 0 n = []"
| "be_bytes (Suc k) n = be_bytes k (n div 256) @ [word_of_nat n]"

lemma length_be_bytes [simp]: "length (be_bytes k n) = k"
  by (induction k arbitrary: n) simp_all

definition pad :: "byte list \<Rightarrow> byte list" where
  "pad msg = msg @ 0x80 # replicate ((119 - length msg mod 64) mod 64) 0
               @ be_bytes 8 (8 * length msg)"

fun parse_words :: "byte list \<Rightarrow> u32 list" where
  "parse_words (a # b # c # d # bs) =
     (push_bit 24 (ucast a) OR push_bit 16 (ucast b) OR push_bit 8 (ucast c) OR ucast d)
       # parse_words bs"
| "parse_words _ = []"

definition word_bytes :: "u32 \<Rightarrow> byte list" where
  "word_bytes w = [ucast (drop_bit 24 w), ucast (drop_bit 16 w), ucast (drop_bit 8 w), ucast w]"

definition rotr :: "nat \<Rightarrow> u32 \<Rightarrow> u32" where
  "rotr n x = drop_bit n x OR push_bit (32 - n) x"

definition rotl :: "nat \<Rightarrow> u32 \<Rightarrow> u32" where
  "rotl n x = push_bit n x OR drop_bit (32 - n) x"

lemma length_pad: "64 dvd length (pad msg)"
proof -
  obtain q r where qr: "length msg = 64 * q + r" "r < 64"
    by (metis div_mult_mod_eq mod_less_divisor mult.commute zero_less_numeral)
  then have len: "length (pad msg) = 64 * q + r + 9 + (119 - r) mod 64"
    by (simp add: pad_def)
  show ?thesis
  proof (cases "r \<le> 55")
    case True
    then have "119 - r = 55 - r + 1 * 64" by simp
    then have "(119 - r) mod 64 = 55 - r" by (simp only: mod_mult_self1) simp
    with len True have "length (pad msg) = 64 * (q + 1)" by simp
    then show ?thesis by simp
  next
    case False
    with qr have "(119 - r) mod 64 = 119 - r" by simp
    with len qr have "length (pad msg) = 64 * (q + 2)" by simp
    then show ?thesis by simp
  qed
qed

text \<open>Fold the compression of each 16-word block over the parsed message.\<close>

function digest_blocks :: "(u32 list \<Rightarrow> 'st \<Rightarrow> 'st) \<Rightarrow> u32 list \<Rightarrow> 'st \<Rightarrow> 'st" where
  "digest_blocks f ws st =
     (if ws = [] then st else digest_blocks f (drop 16 ws) (f (take 16 ws) st))"
  by pat_completeness auto
termination
  by (relation "measure (\<lambda>(f, ws, st). length ws)") auto

declare digest_blocks.simps [simp del]

subsection \<open>SHA-256\<close>

text \<open>The round constants (in decimal), and the eight working variables as a tuple.\<close>

definition K256 :: "u32 list" where
  "K256 = [
    1116352408, 1899447441, 3049323471, 3921009573, 961987163, 1508970993, 2453635748,
    2870763221, 3624381080, 310598401, 607225278, 1426881987, 1925078388, 2162078206,
    2614888103, 3248222580, 3835390401, 4022224774, 264347078, 604807628, 770255983,
    1249150122, 1555081692, 1996064986, 2554220882, 2821834349, 2952996808, 3210313671,
    3336571891, 3584528711, 113926993, 338241895, 666307205, 773529912, 1294757372,
    1396182291, 1695183700, 1986661051, 2177026350, 2456956037, 2730485921, 2820302411,
    3259730800, 3345764771, 3516065817, 3600352804, 4094571909, 275423344, 430227734,
    506948616, 659060556, 883997877, 958139571, 1322822218, 1537002063, 1747873779,
    1955562222, 2024104815, 2227730452, 2361852424, 2428436474, 2756734187, 3204031479,
    3329325298]"

type_synonym sha256_state = "u32 \<times> u32 \<times> u32 \<times> u32 \<times> u32 \<times> u32 \<times> u32 \<times> u32"

definition sha256_init :: sha256_state where
  "sha256_init = (1779033703, 3144134277, 1013904242, 2773480762,
                  1359893119, 2600822924, 528734635, 1541459225)"

definition Ch :: "u32 \<Rightarrow> u32 \<Rightarrow> u32 \<Rightarrow> u32" where
  "Ch x y z = (x AND y) XOR (NOT x AND z)"

definition Maj :: "u32 \<Rightarrow> u32 \<Rightarrow> u32 \<Rightarrow> u32" where
  "Maj x y z = (x AND y) XOR (x AND z) XOR (y AND z)"

definition big_sigma0 :: "u32 \<Rightarrow> u32" where
  "big_sigma0 x = rotr 2 x XOR rotr 13 x XOR rotr 22 x"

definition big_sigma1 :: "u32 \<Rightarrow> u32" where
  "big_sigma1 x = rotr 6 x XOR rotr 11 x XOR rotr 25 x"

definition small_sigma0 :: "u32 \<Rightarrow> u32" where
  "small_sigma0 x = rotr 7 x XOR rotr 18 x XOR drop_bit 3 x"

definition small_sigma1 :: "u32 \<Rightarrow> u32" where
  "small_sigma1 x = rotr 17 x XOR rotr 19 x XOR drop_bit 10 x"

fun sha256_round :: "u32 \<Rightarrow> u32 \<Rightarrow> sha256_state \<Rightarrow> sha256_state" where
  "sha256_round k w (a, b, c, d, e, f, g, h) =
     (let t1 = h + big_sigma1 e + Ch e f g + k + w;
          t2 = big_sigma0 a + Maj a b c
      in (t1 + t2, a, b, c, d + t1, e, f, g))"

text \<open>The message schedule is a window of the last 16 words: the next word enters at its end.\<close>

definition sha256_next :: "u32 list \<Rightarrow> u32" where
  "sha256_next w = small_sigma1 (w ! 14) + w ! 9 + small_sigma0 (w ! 1) + w ! 0"

fun sha256_rounds :: "u32 list \<Rightarrow> u32 list \<Rightarrow> sha256_state \<Rightarrow> sha256_state" where
  "sha256_rounds [] w st = st"
| "sha256_rounds (k # ks) w st =
     sha256_rounds ks (tl w @ [sha256_next w]) (sha256_round k (hd w) st)"

fun sha256_add :: "sha256_state \<Rightarrow> sha256_state \<Rightarrow> sha256_state" where
  "sha256_add (a, b, c, d, e, f, g, h) (a', b', c', d', e', f', g', h') =
     (a + a', b + b', c + c', d + d', e + e', f + f', g + g', h + h')"

definition sha256_block :: "u32 list \<Rightarrow> sha256_state \<Rightarrow> sha256_state" where
  "sha256_block w st = sha256_add st (sha256_rounds K256 w st)"

fun sha256_output :: "sha256_state \<Rightarrow> byte list" where
  "sha256_output (a, b, c, d, e, f, g, h) = concat (map word_bytes [a, b, c, d, e, f, g, h])"

text \<open>\<^verbatim>\<open>sha256.Sum256\<close>.\<close>

definition Sum256 :: "byte list \<Rightarrow> byte list" where
  "Sum256 msg = sha256_output (digest_blocks sha256_block (parse_words (pad msg)) sha256_init)"

lemma length_sha256_output: "length (sha256_output st) = 32"
  by (cases st rule: sha256_output.cases) (simp add: word_bytes_def)

lemma length_Sum256 [simp]: "length (Sum256 msg) = 32"
  by (simp add: Sum256_def length_sha256_output)

subsection \<open>SHA-1\<close>

type_synonym sha1_state = "u32 \<times> u32 \<times> u32 \<times> u32 \<times> u32"

definition sha1_init :: sha1_state where
  "sha1_init = (0x67452301, 0xefcdab89, 0x98badcfe, 0x10325476, 0xc3d2e1f0)"

fun sha1_f :: "nat \<Rightarrow> u32 \<Rightarrow> u32 \<Rightarrow> u32 \<Rightarrow> u32" where
  "sha1_f t b c d =
     (if t < 20 then Ch b c d
      else if t < 40 then b XOR c XOR d
      else if t < 60 then Maj b c d
      else b XOR c XOR d)"

fun sha1_k :: "nat \<Rightarrow> u32" where
  "sha1_k t =
     (if t < 20 then 0x5a827999
      else if t < 40 then 0x6ed9eba1
      else if t < 60 then 0x8f1bbcdc
      else 0xca62c1d6)"

fun sha1_round :: "nat \<Rightarrow> u32 \<Rightarrow> sha1_state \<Rightarrow> sha1_state" where
  "sha1_round t w (a, b, c, d, e) =
     (rotl 5 a + sha1_f t b c d + e + sha1_k t + w, a, rotl 30 b, c, d)"

definition sha1_next :: "u32 list \<Rightarrow> u32" where
  "sha1_next w = rotl 1 (w ! 13 XOR w ! 8 XOR w ! 2 XOR w ! 0)"

fun sha1_rounds :: "nat list \<Rightarrow> u32 list \<Rightarrow> sha1_state \<Rightarrow> sha1_state" where
  "sha1_rounds [] w st = st"
| "sha1_rounds (t # ts) w st =
     sha1_rounds ts (tl w @ [sha1_next w]) (sha1_round t (hd w) st)"

fun sha1_add :: "sha1_state \<Rightarrow> sha1_state \<Rightarrow> sha1_state" where
  "sha1_add (a, b, c, d, e) (a', b', c', d', e') = (a + a', b + b', c + c', d + d', e + e')"

definition sha1_block :: "u32 list \<Rightarrow> sha1_state \<Rightarrow> sha1_state" where
  "sha1_block w st = sha1_add st (sha1_rounds [0..<80] w st)"

fun sha1_output :: "sha1_state \<Rightarrow> byte list" where
  "sha1_output (a, b, c, d, e) = concat (map word_bytes [a, b, c, d, e])"

text \<open>\<^verbatim>\<open>sha1.New\<close>, one \<^verbatim>\<open>Write\<close> and \<^verbatim>\<open>Sum(nil)\<close>.\<close>

definition Sha1Sum :: "byte list \<Rightarrow> byte list" where
  "Sha1Sum msg = sha1_output (digest_blocks sha1_block (parse_words (pad msg)) sha1_init)"

lemma length_Sha1Sum [simp]: "length (Sha1Sum msg) = 20"
proof -
  have "length (sha1_output st) = 20" for st
    by (cases st rule: sha1_output.cases) (simp add: word_bytes_def)
  then show ?thesis by (simp add: Sha1Sum_def)
qed

subsection \<open>Base64\<close>

definition b64_digit :: "nat \<Rightarrow> char" where
  "b64_digit n =
     ''ABCDEFGHIJKLMNOPQRSTUVWXYZabcdefghijklmnopqrstuvwxyz0123456789+/'' ! n"

text \<open>\<^verbatim>\<open>base64.StdEncoding.EncodeToString\<close>.\<close>

fun EncodeToString :: "byte list \<Rightarrow> string" where
  "EncodeToString [] = []"
| "EncodeToString [a] =
     (let n = unat a * 65536
      in [b64_digit (n div 262144), b64_digit (n div 4096 mod 64), CHR ''='', CHR ''=''])"
| "EncodeToString [a, b] =
     (let n = unat a * 65536 + unat b * 256
      in [b64_digit (n div 262144), b64_digit (n div 4096 mod 64), b64_digit (n div 64 mod 64),
          CHR ''=''])"
| "EncodeToString (a # b # c # bs) =
     (let n = unat a * 65536 + unat b * 256 + unat c
      in b64_digit (n div 262144) # b64_digit (n div 4096 mod 64) # b64_digit (n div 64 mod 64)
         # b64_digit (n mod 64) # EncodeToString bs)"

lemma length_EncodeToString: "length (EncodeToString bs) = 4 * ((length bs + 2) div 3)"
proof (induction bs rule: EncodeToString.induct)
  case (4 a b c bs)
  have "(length (a # b # c # bs) + 2) div 3 = Suc ((length bs + 2) div 3)" by simp
  with 4 show ?case by (simp add: Let_def)
qed (simp_all add: Let_def)

subsection \<open>PEM\<close>

text \<open>
  \<^verbatim>\<open>pem.EncodeToMemory\<close> of a block without headers: the base64 text in lines of 64 characters between
  the two delimiter lines.
\<close>

definition newline :: string where
  "newline = [CHR 0x0A]"

function break_lines :: "string \<Rightarrow> string" where
  "break_lines s = (if s = [] then [] else take 64 s @ newline @ break_lines (drop 64 s))"
  by pat_completeness auto
termination
  by (relation "measure length") auto

declare break_lines.simps [simp del]

definition pem_EncodeToMemory :: "string \<Rightarrow> byte list \<Rightarrow> byte list" where
  "pem_EncodeToMemory blockType bs =
     bytes (''-----BEGIN '' @ blockType @ ''-----'' @ newline @ break_lines (EncodeToString bs)
            @ ''-----END '' @ blockType @ ''-----'' @ newline)"

subsection \<open>Integers and substrings\<close>

text \<open>\<^verbatim>\<open>strconv.Itoa\<close> on a non-negative number.\<close>

fun Itoa :: "nat \<Rightarrow> string" where
  "Itoa n = (if n < 10 then [hex_digit n] else Itoa (n div 10) @ [hex_digit (n mod 10)])"

declare Itoa.simps [simp del]

text \<open>\<^verbatim>\<open>strings.HasSuffix\<close>.\<close>

definition HasSuffix :: "string \<Rightarrow> string \<Rightarrow> bool" where
  "HasSuffix s suffix \<longleftrightarrow>
     length suffix \<le> length s \<and> drop (length s - length suffix) s = suffix"

lemma HasSuffix_iff: "HasSuffix s suffix \<longleftrightarrow> (\<exists>p. s = p @ suffix)"
proof
  assume "HasSuffix s suffix"
  then show "\<exists>p. s = p @ suffix"
    unfolding HasSuffix_def by (metis append_take_drop_id)
qed (auto simp: HasSuffix_def)

end
