(* ===== verification/Names.thy ===== *)
theory Names
  imports KubeTypes Config GoStd
begin

text \<open>
  The names of the objects that belong to a RayCluster (\<^verbatim>\<open>raycluster_controller.go\<close>, \<^verbatim>\<open>support.go\<close>). A
  cluster that carries the version annotation uses hashed names, an older one the plain names. The
  lemmas say which names can collide: \<open>suffix_named\<close> is the contract the name functions of
  namespaced objects share, the ClusterRoleBinding's does not meet it.
\<close>

subsection \<open>Constants\<close>

definition controllerName :: string where
  "controllerName = ''codeflare-raycluster-controller''"

definition versionAnnotation :: string where
  "versionAnnotation = ''ray.openshift.ai/version''"

definition oAuthFinalizer :: string where
  "oAuthFinalizer = ''ray.openshift.ai/oauth-finalizer''"

definition RayClusterNameLabel :: string where
  "RayClusterNameLabel = ''ray.openshift.ai/cluster-name''"

definition hashLength :: nat where
  "hashLength = 8"

subsection \<open>Hashed names\<close>

definition seededHash :: "string \<Rightarrow> string \<Rightarrow> string" where
  "seededHash seed s = take hashLength (hex (Sum256 (bytes (seed @ s))))"

definition RCCUniqueName :: "string \<Rightarrow> string" where
  "RCCUniqueName s = s @ ''-'' @ seededHash controllerName s"

definition shouldUseOldName :: "RayCluster \<Rightarrow> bool" where
  "shouldUseOldName cluster \<longleftrightarrow> Annotations cluster versionAnnotation = None"

subsection \<open>Name functions\<close>

definition crbNameFromCluster :: "RayCluster \<Rightarrow> string" where
  [name_defs]: "crbNameFromCluster cluster =
     (if shouldUseOldName cluster then Name cluster @ ''-'' @ Namespace cluster @ ''-auth''
      else RCCUniqueName (Name cluster @ ''-'' @ Namespace cluster @ ''-auth''))"

definition oauthServiceAccountNameFromCluster :: "RayCluster \<Rightarrow> string" where
  [name_defs]: "oauthServiceAccountNameFromCluster cluster =
     (if shouldUseOldName cluster then Name cluster @ ''-oauth-proxy''
      else RCCUniqueName (Name cluster @ ''-oauth-proxy''))"

definition dashboardNameFromCluster :: "RayCluster \<Rightarrow> string" where
  "dashboardNameFromCluster cluster = ''ray-dashboard-'' @ Name cluster"

definition rayClientNameFromCluster :: "RayCluster \<Rightarrow> string" where
  "rayClientNameFromCluster cluster = ''rayclient-'' @ Name cluster"

definition serviceNameFromCluster :: "RayCluster \<Rightarrow> string" where
  "serviceNameFromCluster cluster = Name cluster @ ''-head-svc''"

definition oauthServiceNameFromCluster :: "RayCluster \<Rightarrow> string" where
  [name_defs]: "oauthServiceNameFromCluster cluster =
     (if shouldUseOldName cluster then Name cluster @ ''-oauth''
      else RCCUniqueName (Name cluster @ ''-oauth''))"

definition oauthServiceTLSSecretName :: "RayCluster \<Rightarrow> string" where
  [name_defs]: "oauthServiceTLSSecretName cluster =
     (if shouldUseOldName cluster then Name cluster @ ''-proxy-tls-secret''
      else RCCUniqueName (Name cluster @ ''-proxy-tls-secret''))"

definition oauthSecretNameFromCluster :: "RayCluster \<Rightarrow> string" where
  [name_defs]: "oauthSecretNameFromCluster cluster =
     (if shouldUseOldName cluster then Name cluster @ ''-oauth-config''
      else RCCUniqueName (Name cluster @ ''-oauth-config''))"

definition caSecretNameFromCluster :: "RayCluster \<Rightarrow> string" where
  [name_defs]: "caSecretNameFromCluster cluster =
     (if shouldUseOldName cluster then ''ca-secret-'' @ Name cluster
      else RCCUniqueName (Name cluster @ ''-ca-secret''))"

definition workerNWPNameFromCluster :: "RayCluster \<Rightarrow> string" where
  [name_defs]: "workerNWPNameFromCluster cluster =
     (if shouldUseOldName cluster then Name cluster @ ''-workers''
      else RCCUniqueName (Name cluster @ ''-workers''))"

definition headNWPNameFromCluster :: "RayCluster \<Rightarrow> string" where
  [name_defs]: "headNWPNameFromCluster cluster =
     (if shouldUseOldName cluster then Name cluster @ ''-head''
      else RCCUniqueName (Name cluster @ ''-head''))"

text \<open>
  The host of an Ingress: an error without a configured domain, otherwise
  \<open>name-namespace.domain\<close> (\<^verbatim>\<open>fmt.Sprintf("%s-%s.%s", ...)\<close>).
\<close>

definition missingIngressDomain :: error where
  "missingIngressDomain =
     Errorf (''missing IngressDomain configuration in ConfigMap '' @ CHR 0x27
             # ''codeflare-operator-config'' @ [CHR 0x27])"

definition getIngressHost ::
    "KubeRayConfiguration option \<Rightarrow> RayCluster \<Rightarrow> string \<Rightarrow> error + string" where
  "getIngressHost cfg cluster ingressNameFromCluster =
     (case cfg of
        None \<Rightarrow> Inl missingIngressDomain
      | Some c \<Rightarrow>
          if IngressDomain c \<noteq> [] then
            Inr (ingressNameFromCluster @ ''-'' @ Namespace cluster @ ''.'' @ IngressDomain c)
          else Inl missingIngressDomain)"

subsection \<open>The hash\<close>

lemma length_seededHash [simp]: "length (seededHash seed s) = 8"
  by (simp add: seededHash_def hashLength_def)

lemma set_seededHash: "set (seededHash seed s) \<subseteq> hex_chars"
  unfolding seededHash_def using set_take_subset set_hex by (rule subset_trans)

lemma length_RCCUniqueName [simp]: "length (RCCUniqueName s) = length s + 9"
  by (simp add: RCCUniqueName_def)

lemma RCCUniqueName_inject [simp]: "RCCUniqueName s = RCCUniqueName t \<longleftrightarrow> s = t"
  by (auto simp: RCCUniqueName_def)

text \<open>
  A string with a non-hexadecimal character among the last eight is no hashed name.
\<close>

lemma RCCUniqueName_neq:
  assumes "\<not> set (drop (length suffix - 8) suffix) \<subseteq> hex_chars"
  shows "xs @ suffix \<noteq> RCCUniqueName s"
proof
  let ?h = "seededHash controllerName s"
  assume eq: "xs @ suffix = RCCUniqueName s"
  then have split: "xs @ suffix = (s @ ''-'') @ ?h" by (simp add: RCCUniqueName_def)
  have "drop (length (xs @ suffix) - 8) (xs @ suffix) = ?h" by (simp add: split)
  moreover have "set (drop (length suffix - 8) suffix) \<subseteq> set (drop (length (xs @ suffix) - 8) (xs @ suffix))"
    by (cases "8 \<le> length suffix") auto
  ultimately show False using set_seededHash assms by (metis subset_trans)
qed

subsection \<open>Contracts of the name functions\<close>

locale hashed_name =
  fixes nameOf :: "RayCluster \<Rightarrow> string" and suffix :: string
  assumes hashed: "\<not> shouldUseOldName c \<Longrightarrow> nameOf c = RCCUniqueName (Name c @ suffix)"
begin

lemma hashed_length:
  "\<not> shouldUseOldName c \<Longrightarrow> length (nameOf c) = length (Name c) + length suffix + 9"
  by (simp add: hashed)

lemma hashed_inject:
  "\<not> shouldUseOldName c \<Longrightarrow> \<not> shouldUseOldName d \<Longrightarrow> nameOf c = nameOf d \<longleftrightarrow> Name c = Name d"
  by (simp add: hashed)

end

locale suffix_named = hashed_name +
  assumes plain: "shouldUseOldName c \<Longrightarrow> nameOf c = Name c @ suffix"
    and not_hex: "\<not> set (drop (length suffix - 8) suffix) \<subseteq> hex_chars"
begin

text \<open>The name determines the cluster's name and which of the two schemes it uses.\<close>

lemma name_inject:
  "nameOf c = nameOf d \<longleftrightarrow> Name c = Name d \<and> shouldUseOldName c = shouldUseOldName d"
  using RCCUniqueName_neq [OF not_hex] RCCUniqueName_neq [OF not_hex, THEN not_sym]
  by (cases "shouldUseOldName c"; cases "shouldUseOldName d") (auto simp: hashed plain)

lemma name_length_le: "length (nameOf c) \<le> length (Name c) + length suffix + 9"
  by (cases "shouldUseOldName c") (simp_all add: hashed plain)

end

text \<open>Two kinds of name with suffixes that do not end each other.\<close>

locale apart_names = A: hashed_name nameA suffixA + B: hashed_name nameB suffixB
  for nameA :: "RayCluster \<Rightarrow> string" and suffixA :: string
    and nameB :: "RayCluster \<Rightarrow> string" and suffixB :: string +
  assumes apart: "xs @ suffixA \<noteq> ys @ suffixB"
begin

lemma hashed_apart:
  "\<not> shouldUseOldName c \<Longrightarrow> \<not> shouldUseOldName d \<Longrightarrow> nameA c \<noteq> nameB d"
  by (simp add: A.hashed B.hashed apart)

end

interpretation sa: suffix_named oauthServiceAccountNameFromCluster "''-oauth-proxy''"
  by unfold_locales (simp_all add: name_defs hex_chars_def)

interpretation svc: suffix_named oauthServiceNameFromCluster "''-oauth''"
  by unfold_locales (simp_all add: name_defs hex_chars_def)

interpretation tls: suffix_named oauthServiceTLSSecretName "''-proxy-tls-secret''"
  by unfold_locales (simp_all add: name_defs hex_chars_def)

interpretation oauth_secret: suffix_named oauthSecretNameFromCluster "''-oauth-config''"
  by unfold_locales (simp_all add: name_defs hex_chars_def)

interpretation worker_nwp: suffix_named workerNWPNameFromCluster "''-workers''"
  by unfold_locales (simp_all add: name_defs hex_chars_def)

interpretation head_nwp: suffix_named headNWPNameFromCluster "''-head''"
  by unfold_locales (simp_all add: name_defs hex_chars_def)

interpretation ca_secret: hashed_name caSecretNameFromCluster "''-ca-secret''"
  by unfold_locales (simp add: name_defs)

interpretation ca_oauth: apart_names
  caSecretNameFromCluster "''-ca-secret''" oauthSecretNameFromCluster "''-oauth-config''"
  by unfold_locales (rule append_neq_suffix; simp)

interpretation ca_tls: apart_names
  caSecretNameFromCluster "''-ca-secret''" oauthServiceTLSSecretName "''-proxy-tls-secret''"
  by unfold_locales (rule append_neq_suffix; simp)

interpretation oauth_tls: apart_names
  oauthSecretNameFromCluster "''-oauth-config''" oauthServiceTLSSecretName "''-proxy-tls-secret''"
  by unfold_locales (rule append_neq_suffix; simp)

interpretation head_worker: apart_names
  headNWPNameFromCluster "''-head''" workerNWPNameFromCluster "''-workers''"
  by unfold_locales (rule append_neq_suffix; simp)

end
