(* ===== verification/Setup.thy ===== *)
theory Setup
  imports Config Names
begin

text \<open>
  The sequential part of \<^verbatim>\<open>main.go\<close>: helpers, configuration loading, the derived options, and \<open>main\<close> up
  to the start of the manager. The outside world is the record \<open>externals\<close>: what each call into a
  library or the API server answers. Logging is left out.
\<close>

subsection \<open>Helpers\<close>

text \<open>
  \<^verbatim>\<open>strings.TrimSpace\<close> on ASCII; the further Unicode spaces it trims cannot occur in a namespace name.
\<close>

definition IsSpace :: "char \<Rightarrow> bool" where
  "IsSpace ch \<longleftrightarrow> ch \<in> {CHR 0x09, CHR 0x0A, CHR 0x0B, CHR 0x0C, CHR 0x0D, CHR '' ''}"

definition TrimSpace :: "string \<Rightarrow> string" where
  "TrimSpace s = rev (dropWhile IsSpace (rev (dropWhile IsSpace s)))"

text \<open>\<open>env\<close> is the process environment; \<^verbatim>\<open>os.Getenv\<close> reads an unset variable as the empty string.\<close>

definition Getenv :: "strmap \<Rightarrow> string \<Rightarrow> string" where
  "Getenv env key = (case env key of None \<Rightarrow> [] | Some v \<Rightarrow> v)"

definition namespaceOrDie :: "strmap \<Rightarrow> (error + string) \<Rightarrow> string go" where
  "namespaceOrDie env tokenNamespace =
     (let ns = Getenv env ''NAMESPACE'' in
      if ns \<noteq> [] then Ok ns
      else case tokenNamespace of
             Inr data \<Rightarrow>
               let ns = TrimSpace data in
               if length ns > 0 then Ok ns
               else Panics (PanicCall ''unable to determine current namespace'')
           | Inl _ \<Rightarrow> Panics (PanicCall ''unable to determine current namespace''))"

text \<open>The names of the server's API groups, or the failure to list them.\<close>

definition isOpenShift :: "error + string list \<Rightarrow> bool" where
  "isOpenShift serverGroups =
     (case serverGroups of
        Inl _ \<Rightarrow> False
      | Inr groups \<Rightarrow> list_ex (\<lambda>g. HasSuffix g ''.openshift.io'') groups)"

text \<open>The Ingress configuration's domain; the error is formatted with \<^verbatim>\<open>%v\<close>, so its kind is lost.\<close>

definition getClusterDomain :: "error + string \<Rightarrow> error + string" where
  "getClusterDomain ingress =
     (case ingress of
        Inl err \<Rightarrow> Inl (Errorf (''failed to get Ingress object: '' @ Error err))
      | Inr domain \<Rightarrow>
          if domain = [] then Inl (Errorf ''domain is not set in the Ingress object'')
          else Inr domain)"

text \<open>A step of the process goes on with a value, ends it with status 1 and a message, or panics.\<close>

datatype 'a process = Continue 'a | Exit string error | Crash go_panic

fun then_do :: "'a process \<Rightarrow> ('a \<Rightarrow> 'b process) \<Rightarrow> 'b process" where
  "then_do (Continue x) f = f x"
| "then_do (Exit msg err) f = Exit msg err"
| "then_do (Crash e) f = Crash e"

fun exitOnError :: "error option \<Rightarrow> string \<Rightarrow> unit process" where
  "exitOnError None msg = Continue ()"
| "exitOnError (Some err) msg = Exit msg err"

fun crash_on_panic :: "'a go \<Rightarrow> 'a process" where
  "crash_on_panic (Ok x) = Continue x"
| "crash_on_panic (Panics e) = Crash e"

lemma then_do_Continue:
  "then_do m f = Continue y \<longleftrightarrow> (\<exists>x. m = Continue x \<and> f x = Continue y)"
  by (cases m) auto

lemma exitOnError_Continue [simp]: "exitOnError err msg = Continue u \<longleftrightarrow> err = None"
  by (cases err) auto

lemma crash_on_panic_Continue [simp]: "crash_on_panic m = Continue x \<longleftrightarrow> m = Ok x"
  by (cases m) auto

subsection \<open>The configuration\<close>

text \<open>The built-in configuration; the AppWrapper part comes from that library.\<close>

definition defaultConfiguration :: "string \<Rightarrow> CodeFlareOperatorConfiguration" where
  "defaultConfiguration newAppWrapperConfig =
     \<lparr>CFO_ClientConnection = Some \<lparr>QPS = Some 50, Burst = Some 100\<rparr>,
      CFO_ControllerManager =
        \<lparr>Metrics = \<lparr>Metrics_BindAddress = '':8080''\<rparr>,
         Health = \<lparr>Health_BindAddress = '':8081'', ReadinessEndpointName = ''readyz'',
                   LivenessEndpointName = ''healthz''\<rparr>,
         LeaderElection = Some \<lparr>LeaderElect = None, ResourceName = [], ResourceNamespace = [],
           ResourceLock = [], LeaseDuration = 0, RetryPeriod = 0, RenewDeadline = 0\<rparr>\<rparr>,
      CFO_KubeRay =
        Some \<lparr>RayDashboardOAuthEnabled = Some True, IngressDomain = [], MTLSEnabled = Some True\<rparr>,
      CFO_AppWrapper =
        Some \<lparr>AppWrapper_Enabled = Some False, AppWrapper_Config = newAppWrapperConfig\<rparr>\<rparr>"

record ConfigMap =
  cm_Kind :: string
  cm_APIVersion :: string
  cm_Name :: string
  cm_Namespace :: string
  cm_Data :: "(string \<times> string) list"

definition configMapFor :: "string \<Rightarrow> string \<Rightarrow> string \<Rightarrow> ConfigMap" where
  "configMapFor ns name content =
     \<lparr>cm_Kind = ''ConfigMap'', cm_APIVersion = ''v1'', cm_Name = name, cm_Namespace = ns,
      cm_Data = [(''config.yaml'', content)]\<rparr>"

text \<open>
  \<open>marshal\<close> and \<open>unmarshal\<close> are \<^verbatim>\<open>sigs.k8s.io/yaml\<close>; \<open>unmarshal\<close> reads a document into an existing value and
  gives the value afterwards with the error, if any.
\<close>

type_synonym marshaller = "CodeFlareOperatorConfiguration \<Rightarrow> error + string"
type_synonym unmarshaller =
  "string \<Rightarrow> CodeFlareOperatorConfiguration \<Rightarrow> CodeFlareOperatorConfiguration \<times> error option"

definition createConfigMap ::
    "marshaller \<Rightarrow> (string \<Rightarrow> ConfigMap \<Rightarrow> error option) \<Rightarrow> string \<Rightarrow> string
      \<Rightarrow> CodeFlareOperatorConfiguration \<Rightarrow> error option" where
  "createConfigMap marshal create ns name cfg =
     (case marshal cfg of
        Inl err \<Rightarrow> Some err
      | Inr content \<Rightarrow> create ns (configMapFor ns name content))"

definition cannotResolve :: "ConfigMap \<Rightarrow> error" where
  "cannotResolve cm =
     Errorf (''cannot resolve config from ConfigMap '' @ cm_Namespace cm @ ''/'' @ cm_Name cm)"

definition loadIntoOrCreate ::
    "marshaller \<Rightarrow> unmarshaller \<Rightarrow> (string \<Rightarrow> string \<Rightarrow> error + ConfigMap)
      \<Rightarrow> (string \<Rightarrow> ConfigMap \<Rightarrow> error option) \<Rightarrow> string \<Rightarrow> string
      \<Rightarrow> CodeFlareOperatorConfiguration \<Rightarrow> CodeFlareOperatorConfiguration \<times> error option" where
  "loadIntoOrCreate marshal unmarshal get create ns name cfg =
     (case get ns name of
        Inl err \<Rightarrow>
          if IsNotFound err then (cfg, createConfigMap marshal create ns name cfg)
          else (cfg, Some err)
      | Inr configMap \<Rightarrow>
          if length (cm_Data configMap) \<noteq> 1 then (cfg, Some (cannotResolve configMap))
          else case cm_Data configMap of
                 (_, data) # _ \<Rightarrow> unmarshal data cfg
               | [] \<Rightarrow> (cfg, None))"

subsection \<open>Derived options\<close>

text \<open>
  The client's rate limits; the defaults are client-go's. Reading them dereferences the connection
  settings.
\<close>

definition clientLimits :: "rat \<Rightarrow> int \<Rightarrow> CodeFlareOperatorConfiguration \<Rightarrow> (rat \<times> int) go" where
  "clientLimits defaultQPS defaultBurst cfg =
     (case CFO_ClientConnection cfg of
        None \<Rightarrow> Panics NilDereference
      | Some cc \<Rightarrow> Ok (Deref (QPS cc) defaultQPS, Deref (Burst cc) defaultBurst))"

datatype kind =
    KSecret | KService | KServiceAccount | KIngress | KNetworkPolicy | KClusterRoleBinding | KRoute

definition appWrapperDisabled :: "CodeFlareOperatorConfiguration \<Rightarrow> bool" where
  "appWrapperDisabled cfg \<longleftrightarrow>
     (case CFO_AppWrapper cfg of None \<Rightarrow> True | Some aw \<Rightarrow> \<not> Deref (AppWrapper_Enabled aw) False)"

text \<open>The kinds the cache filters, with the label their objects must carry to be seen.\<close>

definition cacheByObject ::
    "CodeFlareOperatorConfiguration \<Rightarrow> bool \<Rightarrow> (kind \<times> string) list" where
  "cacheByObject cfg openShift =
     (if appWrapperDisabled cfg then
        map (\<lambda>k. (k, RayClusterNameLabel))
          ([KSecret, KService, KServiceAccount, KIngress, KNetworkPolicy, KClusterRoleBinding]
           @ (if openShift then [KRoute] else []))
      else [])"

record ManagerOptions =
  mo_Metrics_BindAddress :: string
  mo_HealthProbeBindAddress :: string
  mo_LeaderElection :: bool
  mo_LeaderElectionID :: string
  mo_LeaderElectionNamespace :: string
  mo_LeaderElectionResourceLock :: string
  mo_LeaseDuration :: int
  mo_RetryPeriod :: int
  mo_RenewDeadline :: int
  mo_CacheByObject :: "(kind \<times> string) list"

definition managerOptions ::
    "CodeFlareOperatorConfiguration \<Rightarrow> (kind \<times> string) list \<Rightarrow> ManagerOptions go" where
  "managerOptions cfg cacheOpts =
     (let cm = CFO_ControllerManager cfg in
      case LeaderElection cm of
        None \<Rightarrow> Panics NilDereference
      | Some le \<Rightarrow> Ok
          \<lparr>mo_Metrics_BindAddress = Metrics_BindAddress (Metrics cm),
           mo_HealthProbeBindAddress = Health_BindAddress (Health cm),
           mo_LeaderElection = Deref (LeaderElect le) False,
           mo_LeaderElectionID = ResourceName le,
           mo_LeaderElectionNamespace = ResourceNamespace le,
           mo_LeaderElectionResourceLock = ResourceLock le,
           mo_LeaseDuration = LeaseDuration le,
           mo_RetryPeriod = RetryPeriod le,
           mo_RenewDeadline = RenewDeadline le,
           mo_CacheByObject = cacheOpts\<rparr>)"

text \<open>The certificate rotator that \<^verbatim>\<open>setupCertManagement\<close> registers.\<close>

datatype webhook_type = Validating | Mutating

record CertRotator =
  cr_SecretKey :: "string \<times> string"
  cr_CertDir :: string
  cr_CAName :: string
  cr_CAOrganization :: string
  cr_DNSName :: string
  cr_Webhooks :: "(webhook_type \<times> string) list"
  cr_RequireLeaderElection :: bool

definition certRotator :: "string \<Rightarrow> CertRotator" where
  "certRotator namespace =
     \<lparr>cr_SecretKey = (namespace, ''codeflare-operator-webhook-server-cert''),
      cr_CertDir = ''/tmp/k8s-webhook-server/serving-certs'',
      cr_CAName = ''codeflare'',
      cr_CAOrganization = ''openshift.ai'',
      cr_DNSName = ''codeflare-operator-webhook-service'' @ ''.'' @ namespace @ ''.svc'',
      cr_Webhooks =
        [(Validating, ''codeflare-operator-validating-webhook-configuration''),
         (Mutating, ''codeflare-operator-mutating-webhook-configuration'')],
      cr_RequireLeaderElection = False\<rparr>"

text \<open>
  The two probe endpoints. The readiness check answers for the webhook server once the certificates
  are ready, and with an error before.
\<close>

definition readyzCheck :: "bool \<Rightarrow> error option \<Rightarrow> error option" where
  "readyzCheck certsReady webhookStarted =
     (if certsReady then webhookStarted else Some (Errorf ''certificates are not ready''))"

definition setupProbeEndpoints ::
    "(string \<Rightarrow> error option) \<Rightarrow> (string \<Rightarrow> error option) \<Rightarrow> CodeFlareOperatorConfiguration
      \<Rightarrow> error option" where
  "setupProbeEndpoints addHealthzCheck addReadyzCheck cfg =
     (let health = Health (CFO_ControllerManager cfg) in
      case addHealthzCheck (LivenessEndpointName health) of
        Some err \<Rightarrow> Some err
      | None \<Rightarrow> addReadyzCheck (ReadinessEndpointName health))"

end
