(* ===== verification/MainProgram.thy ===== *)
theory MainProgram
  imports Setup
begin

text \<open>
  \<open>main\<close> of \<^verbatim>\<open>main.go\<close> from the built-in configuration to the start of the manager, with its early exits,
  and what it establishes for the controllers it starts. The two goroutines it spawns on the way are
  the subject of \<open>Startup\<close>; here they are the values they are given.
\<close>

record externals =
  x_env :: strmap
  x_tokenNamespace :: "error + string"
  x_newAppWrapperConfig :: string
  x_getConfig :: "error option"
  x_userAgent :: string
  x_newKubeClient :: "error option"
  x_marshal :: marshaller
  x_unmarshal :: unmarshaller
  x_getConfigMap :: "string \<Rightarrow> string \<Rightarrow> error + ConfigMap"
  x_createConfigMap :: "string \<Rightarrow> ConfigMap \<Rightarrow> error option"
  x_defaultQPS :: rat
  x_defaultBurst :: int
  x_parseSelector :: "error option"
  x_serverGroups :: "error + string list"
  x_serverGroupsAgain :: "error + string list"
  x_newManager :: "ManagerOptions \<Rightarrow> error option"
  x_addRotator :: "CertRotator \<Rightarrow> error option"
  x_newConfigClient :: "error option"
  x_getIngress :: "error + string"
  x_addHealthzCheck :: "string \<Rightarrow> error option"
  x_addReadyzCheck :: "string \<Rightarrow> error option"
  x_setupIndexers :: "error option"

text \<open>
  What the started controllers are built from. The platform is asked for twice, for the cache and for
  the controller, so the two answers are separate fields of \<open>externals\<close>.
\<close>

record started =
  st_Config :: CodeFlareOperatorConfiguration
  st_IsOpenShift :: bool
  st_UserAgent :: string
  st_Limits :: "rat \<times> int"
  st_Manager :: ManagerOptions
  st_Rotator :: CertRotator

text \<open>The user agent of the client configuration, when it has none of its own (lines 155 to 157).\<close>

definition clientUserAgent :: "string \<Rightarrow> string" where
  "clientUserAgent userAgent = (if userAgent = [] then ''codeflare-operator'' else userAgent)"

text \<open>The fallback for a missing Ingress domain (lines 220 to 225).\<close>

definition resolveIngressDomain ::
    "externals \<Rightarrow> CodeFlareOperatorConfiguration \<Rightarrow> CodeFlareOperatorConfiguration process" where
  "resolveIngressDomain x cfg =
     (case CFO_KubeRay cfg of
        None \<Rightarrow> Crash NilDereference
      | Some k \<Rightarrow>
          if IngressDomain k \<noteq> [] then Continue cfg
          else
            then_do (exitOnError (x_newConfigClient x) ''unable to create Route Client Set'') (\<lambda>_.
            case getClusterDomain (x_getIngress x) of
              Inr domain \<Rightarrow> Continue (cfg\<lparr>CFO_KubeRay := Some (k\<lparr>IngressDomain := domain\<rparr>)\<rparr>)
            | Inl err \<Rightarrow> Exit [] err))"

definition setupAppWrapperComponents ::
    "externals \<Rightarrow> CodeFlareOperatorConfiguration \<Rightarrow> error option" where
  "setupAppWrapperComponents x cfg =
     (if appWrapperDisabled cfg then None else x_setupIndexers x)"

definition main_setup :: "externals \<Rightarrow> string \<Rightarrow> started process" where
  "main_setup x configMapName =
     (let cfg = defaultConfiguration (x_newAppWrapperConfig x) in
      then_do (exitOnError (x_getConfig x) ''unable to get client config'') (\<lambda>_.
      then_do (exitOnError (x_newKubeClient x) ''unable to create Kubernetes client'') (\<lambda>_.
      then_do (crash_on_panic (namespaceOrDie (x_env x) (x_tokenNamespace x))) (\<lambda>namespace.
      let (cfg, err) = loadIntoOrCreate (x_marshal x) (x_unmarshal x) (x_getConfigMap x)
            (x_createConfigMap x) namespace configMapName cfg in
      then_do (exitOnError err ''unable to initialise configuration'') (\<lambda>_.
      then_do (crash_on_panic (clientLimits (x_defaultQPS x) (x_defaultBurst x) cfg)) (\<lambda>limits.
      then_do (if appWrapperDisabled cfg
               then exitOnError (x_parseSelector x) ''unable to parse label selector''
               else Continue ()) (\<lambda>_.
      let cacheOpts = cacheByObject cfg (isOpenShift (x_serverGroups x)) in
      then_do (crash_on_panic (managerOptions cfg cacheOpts)) (\<lambda>options.
      then_do (exitOnError (x_newManager x options) ''unable to create manager'') (\<lambda>_.
      let rotator = certRotator namespace in
      then_do (exitOnError (x_addRotator x rotator) ''unable to setup cert-controller'') (\<lambda>_.
      then_do (resolveIngressDomain x cfg) (\<lambda>cfg.
      then_do (exitOnError (setupProbeEndpoints (x_addHealthzCheck x) (x_addReadyzCheck x) cfg)
                 ''unable to set up health check'') (\<lambda>_.
      then_do (exitOnError (setupAppWrapperComponents x cfg) ''unable to setup AppWrapper'') (\<lambda>_.
      Continue \<lparr>st_Config = cfg, st_IsOpenShift = isOpenShift (x_serverGroupsAgain x),
                st_UserAgent = clientUserAgent (x_userAgent x), st_Limits = limits, st_Manager = options, st_Rotator = rotator\<rparr>)))))))))))))"

subsection \<open>Loading the configuration\<close>

text \<open>
  C39 Loading never invents a configuration: it succeeds only when the ConfigMap did not exist and was
  created, which leaves the given configuration in force, or when it has exactly one entry that the
  decoder accepts, which gives the decoder's result.
\<close>

theorem loadIntoOrCreate_succeeds_iff:
  "loadIntoOrCreate marshal unmarshal get create ns name cfg = (cfg', None) \<longleftrightarrow>
     (\<exists>err content. get ns name = Inl err \<and> IsNotFound err \<and> marshal cfg = Inr content \<and>
        create ns (configMapFor ns name content) = None \<and> cfg' = cfg) \<or>
     (\<exists>cm key content. get ns name = Inr cm \<and> cm_Data cm = [(key, content)] \<and>
        unmarshal content cfg = (cfg', None))"
  by (auto simp: loadIntoOrCreate_def createConfigMap_def length_Suc_conv
      split: sum.splits list.splits)

subsection \<open>Namespace and platform\<close>

lemma dropWhile_not_space: "dropWhile P s = [] \<or> \<not> P (hd (dropWhile P s))"
  using hd_dropWhile [of P s] by blast

lemma TrimSpace_hd:
  assumes "TrimSpace s \<noteq> []"
  shows "\<not> IsSpace (hd (TrimSpace s))" and "\<not> IsSpace (last (TrimSpace s))"
proof -
  let ?l = "dropWhile IsSpace s" and ?r = "dropWhile IsSpace (rev (dropWhile IsSpace s))"
  have trim: "TrimSpace s = rev ?r" by (simp add: TrimSpace_def)
  with assms have r: "?r \<noteq> []" by simp
  then show "\<not> IsSpace (last (TrimSpace s))"
    using hd_dropWhile [of IsSpace "rev ?l"] by (simp add: trim last_rev)
  obtain p where "rev ?l = p @ ?r" by (metis takeWhile_dropWhile_id)
  then have l: "?l = rev ?r @ rev p" by (metis rev_append rev_rev_ident)
  have "hd ?l = hd (TrimSpace s)" unfolding trim using l r by (metis hd_append2 rev_is_Nil_conv)
  moreover have "?l \<noteq> []" using l r by (metis append_is_Nil_conv rev_is_Nil_conv)
  ultimately show "\<not> IsSpace (hd (TrimSpace s))" using hd_dropWhile [of IsSpace s] by metis
qed

text \<open>
  The operator's namespace is never empty: it is the environment variable when that is set, otherwise
  the service account's namespace without surrounding white space; with neither the process panics.
\<close>

theorem namespaceOrDie_cases:
  "namespaceOrDie env token =
     (if Getenv env ''NAMESPACE'' \<noteq> [] then Ok (Getenv env ''NAMESPACE'')
      else if \<exists>data. token = Inr data \<and> TrimSpace data \<noteq> [] then Ok (TrimSpace (projr token))
      else Panics (PanicCall ''unable to determine current namespace'')) \<and>
   (TrimSpace data = [] \<or> \<not> IsSpace (hd (TrimSpace data)) \<and> \<not> IsSpace (last (TrimSpace data)))"
  using TrimSpace_hd [of data] by (auto simp: namespaceOrDie_def Let_def split: sum.split)

theorem namespaceOrDie_cases_witness:
  "namespaceOrDie Map.empty (Inr (newline @ ''operators '' @ newline)) = Ok ''operators''"
proof -
  have "TrimSpace (newline @ ''operators '' @ newline) = ''operators''" by code_simp
  then show ?thesis
    using namespaceOrDie_cases [of Map.empty "Inr (newline @ ''operators '' @ newline)" "[]"]
    by (simp add: Getenv_def)
qed

text \<open>
  OpenShift is recognised by an API group under openshift.io; a failure to list the groups counts as
  plain Kubernetes.
\<close>

theorem isOpenShift_iff:
  "isOpenShift serverGroups \<longleftrightarrow>
     (\<exists>groups prefix. serverGroups = Inr groups \<and> prefix @ ''.openshift.io'' \<in> set groups)"
  by (auto simp: isOpenShift_def list_ex_iff HasSuffix_iff split: sum.split)

subsection \<open>What the started operator can rely on\<close>

lemma resolveIngressDomain_Continue:
  assumes "resolveIngressDomain x cfg = Continue cfg'"
  shows "\<exists>k. CFO_KubeRay cfg' = Some k \<and> IngressDomain k \<noteq> []"
  using assms
  by (auto simp: resolveIngressDomain_def getClusterDomain_def then_do_Continue
      split: option.splits sum.splits if_splits)

lemma main_setup_Continue:
  assumes "main_setup x configMapName = Continue s"
  obtains cfg ns where
    "loadIntoOrCreate (x_marshal x) (x_unmarshal x) (x_getConfigMap x) (x_createConfigMap x) ns
       configMapName (defaultConfiguration (x_newAppWrapperConfig x)) = (cfg, None)"
    and "resolveIngressDomain x cfg = Continue (st_Config s)"
    and "managerOptions cfg (cacheByObject cfg (isOpenShift (x_serverGroups x))) = Ok (st_Manager s)"
    and "st_IsOpenShift s = isOpenShift (x_serverGroupsAgain x)"
    and "namespaceOrDie (x_env x) (x_tokenNamespace x) = Ok ns"
    and "st_Rotator s = certRotator ns"
proof -
  let ?load = "\<lambda>ns. loadIntoOrCreate (x_marshal x) (x_unmarshal x) (x_getConfigMap x)
    (x_createConfigMap x) ns configMapName (defaultConfiguration (x_newAppWrapperConfig x))"
  from assms obtain ns where ns: "namespaceOrDie (x_env x) (x_tokenNamespace x) = Ok ns"
    by (auto simp: main_setup_def Let_def then_do_Continue)
  obtain cfg err where "?load ns = (cfg, err)" by fastforce
  with assms ns show ?thesis
    by (auto simp: main_setup_def Let_def then_do_Continue intro!: that)
qed

text \<open>
  When the manager starts, there is a RayCluster configuration and its Ingress domain is set, by the
  ConfigMap or by the cluster's Ingress configuration; otherwise the process has ended before.
\<close>

theorem started_has_domain:
  assumes "main_setup x configMapName = Continue s"
  shows "\<exists>k. CFO_KubeRay (st_Config s) = Some k \<and> IngressDomain k \<noteq> []"
  using assms by (rule main_setup_Continue) (rule resolveIngressDomain_Continue)

definition openshift_world :: externals where
  "openshift_world =
     \<lparr>x_env = [''NAMESPACE'' \<mapsto> ''operators''], x_tokenNamespace = Inr [],
      x_newAppWrapperConfig = [], x_getConfig = None, x_userAgent = [], x_newKubeClient = None,
      x_marshal = (\<lambda>_. Inr ''yaml''), x_unmarshal = (\<lambda>_ cfg. (cfg, None)),
      x_getConfigMap = (\<lambda>_ _. Inl (StatusNotFound ''no config'')), x_createConfigMap = (\<lambda>_ _. None),
      x_defaultQPS = 5, x_defaultBurst = 10, x_parseSelector = None,
      x_serverGroups = Inr [''apps'', ''route.openshift.io''],
      x_serverGroupsAgain = Inr [''apps'', ''route.openshift.io''], x_newManager = (\<lambda>_. None),
      x_addRotator = (\<lambda>_. None), x_newConfigClient = None, x_getIngress = Inr ''apps.example.com'',
      x_addHealthzCheck = (\<lambda>_. None), x_addReadyzCheck = (\<lambda>_. None), x_setupIndexers = None\<rparr>"

definition openshift_started :: started where
  "openshift_started =
     (case main_setup openshift_world ''codeflare-operator-config'' of Continue s \<Rightarrow> s | _ \<Rightarrow> undefined)"

lemma openshift_starts:
  "main_setup openshift_world ''codeflare-operator-config'' = Continue openshift_started"
  by (simp add: openshift_started_def main_setup_def openshift_world_def Let_def Getenv_def
      namespaceOrDie_def loadIntoOrCreate_def createConfigMap_def defaultConfiguration_def
      clientLimits_def appWrapperDisabled_def managerOptions_def resolveIngressDomain_def
      getClusterDomain_def setupProbeEndpoints_def setupAppWrapperComponents_def)

theorem started_has_domain_witness:
  "\<exists>k. CFO_KubeRay (st_Config openshift_started) = Some k \<and> IngressDomain k \<noteq> []"
  by (rule started_has_domain [OF openshift_starts])

text \<open>
  When the cluster's Ingress configuration cannot be used, the process exits with an empty message:
  the text that is logged is the domain, which is empty in just this case.
\<close>

theorem domain_failure_has_no_message:
  assumes "CFO_KubeRay cfg = Some k" and "IngressDomain k = []" and "x_newConfigClient x = None"
    and "getClusterDomain (x_getIngress x) = Inl err"
  shows "resolveIngressDomain x cfg = Exit [] err"
  using assms by (simp add: resolveIngressDomain_def)

theorem domain_failure_has_no_message_witness:
  "resolveIngressDomain (openshift_world\<lparr>x_getIngress := Inr []\<rparr>) (defaultConfiguration []) =
     Exit [] (Errorf ''domain is not set in the Ingress object'')"
  by (rule domain_failure_has_no_message [where k = "the (CFO_KubeRay (defaultConfiguration []))"])
    (simp_all add: defaultConfiguration_def openshift_world_def getClusterDomain_def)

end
