(* ===== verification/Startup.thy ===== *)
theory Startup
  imports MainProgram
begin

text \<open>
  The concurrent part of \<^verbatim>\<open>main.go\<close>: the wait for the RayCluster API, and the three threads of control of
  a starting operator, \<open>main\<close> itself, the goroutine that sets up the RayCluster webhook and
  controller, and the one that sets up the AppWrapper components, with the certificate rotator as
  their common signal.
\<close>

subsection \<open>Waiting for an API\<close>

record Condition =
  cond_Type :: string
  cond_Status :: string

record CRD =
  crd_Name :: string
  crd_Conditions :: "Condition list"

text \<open>The API is taken to be available when a definition with its name is listed.\<close>

definition listed :: "CRD list \<Rightarrow> string \<Rightarrow> bool" where
  "listed crds apiName = list_ex (\<lambda>crd. crd_Name crd = apiName) crds"

definition isAPIAvailable :: "error option \<Rightarrow> error + CRD list \<Rightarrow> string \<Rightarrow> bool process" where
  "isAPIAvailable newClient crdList apiName =
     then_do (exitOnError newClient ''unable to create CRD client'') (\<lambda>_.
       case crdList of
         Inl err \<Rightarrow> Exit ''unable to list CRDs'' err
       | Inr items \<Rightarrow> Continue (listed items apiName))"

text \<open>
  What one round of the select statement receives: the context is done, or an event of the watch. A
  closed channel delivers the zero event, which has no type.
\<close>

datatype watch_event = WatchError error | Added CRD | Modified CRD | Deleted CRD | Bookmark | ZeroEvent

datatype select = CtxDone | Received watch_event

definition Established :: string where
  "Established = ''Established''"

definition established :: "CRD \<Rightarrow> bool" where
  "established crd =
     list_ex (\<lambda>c. cond_Type c = Established \<and> cond_Status c = ''True'') (crd_Conditions crd)"

text \<open>How the wait ends; \<open>StillWaiting\<close> when it has not, after the given rounds.\<close>

datatype wait_result = ActionInvoked | WaitCancelled | WaitExit string error | StillWaiting

definition watchErrorMessage :: "string \<Rightarrow> string" where
  "watchErrorMessage apiName = ''error watching for API '' @ apiName"

fun wait_loop :: "string \<Rightarrow> select list \<Rightarrow> wait_result" where
  "wait_loop apiName [] = StillWaiting"
| "wait_loop apiName (CtxDone # rounds) = WaitCancelled"
| "wait_loop apiName (Received (WatchError err) # rounds) = WaitExit (watchErrorMessage apiName) err"
| "wait_loop apiName (Received (Added crd) # rounds) =
     (if crd_Name crd = apiName \<and> established crd then ActionInvoked else wait_loop apiName rounds)"
| "wait_loop apiName (Received (Modified crd) # rounds) =
     (if crd_Name crd = apiName \<and> established crd then ActionInvoked else wait_loop apiName rounds)"
| "wait_loop apiName (Received (Deleted crd) # rounds) = wait_loop apiName rounds"
| "wait_loop apiName (Received Bookmark # rounds) = wait_loop apiName rounds"
| "wait_loop apiName (Received ZeroEvent # rounds) = wait_loop apiName rounds"

definition waitForAPI ::
    "error option \<Rightarrow> error + CRD list \<Rightarrow> error option \<Rightarrow> string \<Rightarrow> select list \<Rightarrow> wait_result" where
  "waitForAPI newClient crdList newWatcher apiName rounds =
     (case isAPIAvailable newClient crdList apiName of
        Crash e \<Rightarrow> StillWaiting
      | Exit msg err \<Rightarrow> WaitExit msg err
      | Continue True \<Rightarrow> ActionInvoked
      | Continue False \<Rightarrow>
          (case newWatcher of
             Some err \<Rightarrow> WaitExit ''unable to create retry watcher'' err
           | None \<Rightarrow> wait_loop apiName rounds))"

text \<open>The rounds that change nothing, and the ones that invoke the action.\<close>

fun idle :: "string \<Rightarrow> select \<Rightarrow> bool" where
  "idle apiName CtxDone = False"
| "idle apiName (Received (WatchError _)) = False"
| "idle apiName (Received (Added crd)) = (\<not> (crd_Name crd = apiName \<and> established crd))"
| "idle apiName (Received (Modified crd)) = (\<not> (crd_Name crd = apiName \<and> established crd))"
| "idle apiName (Received _) = True"

fun announces :: "string \<Rightarrow> select \<Rightarrow> bool" where
  "announces apiName (Received (Added crd)) = (crd_Name crd = apiName \<and> established crd)"
| "announces apiName (Received (Modified crd)) = (crd_Name crd = apiName \<and> established crd)"
| "announces apiName _ = False"

lemma wait_loop_idle: "list_all (idle apiName) rounds \<Longrightarrow> wait_loop apiName (rounds @ rest) = wait_loop apiName rest"
  by (induction apiName rounds rule: wait_loop.induct) auto

text \<open>
  The wait invokes the action exactly when some round announces the API as established and every
  round before it was idle: neither a cancellation, nor a watch error, nor an announcement came first.
\<close>

theorem wait_loop_invokes_iff:
  "wait_loop apiName rounds = ActionInvoked \<longleftrightarrow>
     (\<exists>before e after. rounds = before @ e # after \<and> list_all (idle apiName) before \<and>
        announces apiName e)"
proof
  assume "wait_loop apiName rounds = ActionInvoked"
  then show "\<exists>before e after. rounds = before @ e # after \<and> list_all (idle apiName) before \<and>
        announces apiName e"
  proof (induction rounds)
    case (Cons x rounds)
    show ?case
    proof (cases "announces apiName x")
      case True
      then show ?thesis by (intro exI [of _ "[]"]) auto
    next
      case False
      with Cons.prems have "idle apiName x" and "wait_loop apiName rounds = ActionInvoked"
        by (cases "(apiName, x)" rule: announces.cases; auto split: if_splits;
            cases x; auto)+
      with Cons.IH show ?thesis by (metis append_Cons list.pred_inject(2))
    qed
  qed simp
next
  assume "\<exists>before e after. rounds = before @ e # after \<and> list_all (idle apiName) before \<and>
        announces apiName e"
  then obtain before e after where "rounds = before @ e # after" "list_all (idle apiName) before"
      "announces apiName e" by blast
  then show "wait_loop apiName rounds = ActionInvoked"
    by (cases "(apiName, e)" rule: announces.cases) (auto simp: wait_loop_idle)
qed

text \<open>
  The two ways of finding the API differ: a definition that is only listed, whatever its conditions,
  invokes the action at once, while one that arrives by the watch must be established.
\<close>

theorem listed_api_needs_no_condition:
  "waitForAPI None (Inr crds) newWatcher apiName rounds = ActionInvoked \<longleftrightarrow>
     apiName \<in> crd_Name ` set crds \<or>
     newWatcher = None \<and> wait_loop apiName rounds = ActionInvoked"
  by (auto simp: waitForAPI_def isAPIAvailable_def listed_def list_ex_iff
      split: bool.split option.split)

subsection \<open>The threads of a starting operator\<close>

text \<open>
  Program counters. \<open>RayCheckAPI\<close> is the start of \<^verbatim>\<open>waitForRayClusterAPIandSetupController\<close>, \<open>RayWatch\<close> its
  wait, the other three the body of \<^verbatim>\<open>setupRayClusterController\<close>; \<open>MainAppWrapper\<close> is the call of
  \<^verbatim>\<open>setupAppWrapperComponents\<close>, which comes after the RayCluster goroutine has been spawned.
\<close>

datatype main_pc = MainAppWrapper | MainIndexers | MainStart | MainRunning

datatype ray_pc =
  RayCheckAPI | RayWatch | RayAwaitCerts | RaySetupWebhook | RaySetupController | RayDone | RayCancelled

datatype aw_pc = AwNotSpawned | AwAwaitCerts | AwSetupControllers | AwSetupWebhooks | AwDone

record startup =
  su_main :: main_pc
  su_ray :: ray_pc
  su_aw :: aw_pc
  su_certsReady :: bool
  su_webhooks :: "string list"
  su_controllers :: "string list"
  su_exited :: bool

definition initial :: startup where
  "initial =
     \<lparr>su_main = MainAppWrapper, su_ray = RayCheckAPI, su_aw = AwNotSpawned, su_certsReady = False,
      su_webhooks = [], su_controllers = [], su_exited = False\<rparr>"

text \<open>
  One atomic step of one thread, for a configuration. Every call that \<^verbatim>\<open>exitOnError\<close> guards can fail and
  end the process. The rotator is a runnable of the manager, so it closes the channel only once the
  manager runs.
\<close>

inductive startup_step :: "CodeFlareOperatorConfiguration \<Rightarrow> startup \<Rightarrow> startup \<Rightarrow> bool"
  for cfg :: CodeFlareOperatorConfiguration where
  aw_disabled:
    "\<lbrakk>\<not> su_exited s; su_main s = MainAppWrapper; appWrapperDisabled cfg\<rbrakk>
     \<Longrightarrow> startup_step cfg s (s\<lparr>su_main := MainStart\<rparr>)"
| aw_spawn:
    "\<lbrakk>\<not> su_exited s; su_main s = MainAppWrapper; \<not> appWrapperDisabled cfg\<rbrakk>
     \<Longrightarrow> startup_step cfg s (s\<lparr>su_main := MainIndexers, su_aw := AwAwaitCerts\<rparr>)"
| indexers_ok:
    "\<lbrakk>\<not> su_exited s; su_main s = MainIndexers\<rbrakk>
     \<Longrightarrow> startup_step cfg s (s\<lparr>su_main := MainStart\<rparr>)"
| indexers_fail:
    "\<lbrakk>\<not> su_exited s; su_main s = MainIndexers\<rbrakk>
     \<Longrightarrow> startup_step cfg s (s\<lparr>su_exited := True\<rparr>)"
| manager_starts:
    "\<lbrakk>\<not> su_exited s; su_main s = MainStart\<rbrakk>
     \<Longrightarrow> startup_step cfg s (s\<lparr>su_main := MainRunning\<rparr>)"
| manager_ends:
    "\<lbrakk>\<not> su_exited s; su_main s = MainRunning\<rbrakk>
     \<Longrightarrow> startup_step cfg s (s\<lparr>su_exited := True\<rparr>)"
| certs_ready:
    "\<lbrakk>\<not> su_exited s; su_main s = MainRunning; \<not> su_certsReady s\<rbrakk>
     \<Longrightarrow> startup_step cfg s (s\<lparr>su_certsReady := True\<rparr>)"
| ray_api_listed:
    "\<lbrakk>\<not> su_exited s; su_ray s = RayCheckAPI\<rbrakk>
     \<Longrightarrow> startup_step cfg s (s\<lparr>su_ray := RayAwaitCerts\<rparr>)"
| ray_api_missing:
    "\<lbrakk>\<not> su_exited s; su_ray s = RayCheckAPI\<rbrakk>
     \<Longrightarrow> startup_step cfg s (s\<lparr>su_ray := RayWatch\<rparr>)"
| ray_api_arrives:
    "\<lbrakk>\<not> su_exited s; su_ray s = RayWatch\<rbrakk>
     \<Longrightarrow> startup_step cfg s (s\<lparr>su_ray := RayAwaitCerts\<rparr>)"
| ray_cancelled:
    "\<lbrakk>\<not> su_exited s; su_ray s = RayWatch\<rbrakk>
     \<Longrightarrow> startup_step cfg s (s\<lparr>su_ray := RayCancelled\<rparr>)"
| ray_api_fail:
    "\<lbrakk>\<not> su_exited s; su_ray s \<in> {RayCheckAPI, RayWatch}\<rbrakk>
     \<Longrightarrow> startup_step cfg s (s\<lparr>su_exited := True\<rparr>)"
| ray_certs:
    "\<lbrakk>\<not> su_exited s; su_ray s = RayAwaitCerts; su_certsReady s\<rbrakk>
     \<Longrightarrow> startup_step cfg s (s\<lparr>su_ray := RaySetupWebhook\<rparr>)"
| ray_webhook:
    "\<lbrakk>\<not> su_exited s; su_ray s = RaySetupWebhook\<rbrakk>
     \<Longrightarrow> startup_step cfg s
           (s\<lparr>su_ray := RaySetupController, su_webhooks := ''RayCluster'' # su_webhooks s\<rparr>)"
| ray_controller:
    "\<lbrakk>\<not> su_exited s; su_ray s = RaySetupController\<rbrakk>
     \<Longrightarrow> startup_step cfg s
           (s\<lparr>su_ray := RayDone, su_controllers := ''RayCluster'' # su_controllers s\<rparr>)"
| ray_setup_fail:
    "\<lbrakk>\<not> su_exited s; su_ray s \<in> {RaySetupWebhook, RaySetupController}\<rbrakk>
     \<Longrightarrow> startup_step cfg s (s\<lparr>su_exited := True\<rparr>)"
| aw_certs:
    "\<lbrakk>\<not> su_exited s; su_aw s = AwAwaitCerts; su_certsReady s\<rbrakk>
     \<Longrightarrow> startup_step cfg s (s\<lparr>su_aw := AwSetupControllers\<rparr>)"
| aw_controllers:
    "\<lbrakk>\<not> su_exited s; su_aw s = AwSetupControllers\<rbrakk>
     \<Longrightarrow> startup_step cfg s
           (s\<lparr>su_aw := AwSetupWebhooks, su_controllers := ''AppWrapper'' # su_controllers s\<rparr>)"
| aw_webhooks:
    "\<lbrakk>\<not> su_exited s; su_aw s = AwSetupWebhooks\<rbrakk>
     \<Longrightarrow> startup_step cfg s (s\<lparr>su_aw := AwDone, su_webhooks := ''AppWrapper'' # su_webhooks s\<rparr>)"
| aw_setup_fail:
    "\<lbrakk>\<not> su_exited s; su_aw s \<in> {AwSetupControllers, AwSetupWebhooks}\<rbrakk>
     \<Longrightarrow> startup_step cfg s (s\<lparr>su_exited := True\<rparr>)"

inductive startup_reachable :: "CodeFlareOperatorConfiguration \<Rightarrow> startup \<Rightarrow> bool"
  for cfg :: CodeFlareOperatorConfiguration where
  start: "startup_reachable cfg initial"
| step: "startup_reachable cfg s \<Longrightarrow> startup_step cfg s t \<Longrightarrow> startup_reachable cfg t"

subsection \<open>The invariant\<close>

text \<open>What each program counter means for the signal and the registrations.\<close>

fun ray_past_certs :: "ray_pc \<Rightarrow> bool" where
  "ray_past_certs RaySetupWebhook = True"
| "ray_past_certs RaySetupController = True"
| "ray_past_certs RayDone = True"
| "ray_past_certs _ = False"

fun aw_past_certs :: "aw_pc \<Rightarrow> bool" where
  "aw_past_certs AwNotSpawned = False"
| "aw_past_certs AwAwaitCerts = False"
| "aw_past_certs _ = True"

fun ray_registered :: "ray_pc \<Rightarrow> nat \<times> nat" where
  "ray_registered RaySetupController = (1, 0)"
| "ray_registered RayDone = (1, 1)"
| "ray_registered _ = (0, 0)"

fun aw_registered :: "aw_pc \<Rightarrow> nat \<times> nat" where
  "aw_registered AwSetupWebhooks = (0, 1)"
| "aw_registered AwDone = (1, 1)"
| "aw_registered _ = (0, 0)"

text \<open>How often a component has registered its webhooks and its controllers.\<close>

definition registered :: "startup \<Rightarrow> string \<Rightarrow> nat \<times> nat" where
  "registered s component =
     (count_list (su_webhooks s) component, count_list (su_controllers s) component)"

definition order_inv :: "CodeFlareOperatorConfiguration \<Rightarrow> startup \<Rightarrow> bool" where
  "order_inv cfg s \<longleftrightarrow>
     (su_certsReady s \<longrightarrow> su_main s = MainRunning) \<and>
     (ray_past_certs (su_ray s) \<longrightarrow> su_certsReady s) \<and>
     (aw_past_certs (su_aw s) \<longrightarrow> su_certsReady s) \<and>
     (su_aw s \<noteq> AwNotSpawned \<longrightarrow> \<not> appWrapperDisabled cfg)"

definition registered_inv :: "startup \<Rightarrow> bool" where
  "registered_inv s \<longleftrightarrow>
     registered s ''RayCluster'' = ray_registered (su_ray s) \<and>
     registered s ''AppWrapper'' = aw_registered (su_aw s) \<and>
     (su_main s = MainAppWrapper \<longrightarrow> su_aw s = AwNotSpawned)"

lemma order_inv_step: "startup_step cfg s t \<Longrightarrow> order_inv cfg s \<Longrightarrow> order_inv cfg t"
  by (cases rule: startup_step.cases, assumption) (auto simp: order_inv_def)

lemma registered_inv_step: "startup_step cfg s t \<Longrightarrow> registered_inv s \<Longrightarrow> registered_inv t"
  by (cases rule: startup_step.cases, assumption) (auto simp: registered_inv_def registered_def)

lemma startup_inv_reachable:
  "startup_reachable cfg s \<Longrightarrow> order_inv cfg s \<and> registered_inv s"
proof (induction rule: startup_reachable.induct)
  case start
  show ?case by (simp add: order_inv_def registered_inv_def registered_def initial_def)
next
  case (step s t)
  then show ?case using order_inv_step registered_inv_step by blast
qed

text \<open>
  C30 Whatever the interleaving: webhooks and controllers are registered at most once, the RayCluster
  controller only after its webhook, and nothing before the certificates are ready and the manager
  runs; the AppWrapper components only when the configuration enables them.
\<close>

theorem startup_safe:
  assumes "startup_reachable cfg s"
  shows "registered s ''RayCluster'' \<in> {(0, 0), (1, 0), (1, 1)} \<and>
    registered s ''AppWrapper'' \<in> {(0, 0), (0, 1), (1, 1)} \<and>
    (registered s ''RayCluster'' = (0, 0) \<or> su_certsReady s \<and> su_main s = MainRunning) \<and>
    (registered s ''AppWrapper'' = (0, 0) \<or>
       su_certsReady s \<and> su_main s = MainRunning \<and> \<not> appWrapperDisabled cfg)"
proof -
  have order: "order_inv cfg s" and reg: "registered s ''RayCluster'' = ray_registered (su_ray s)"
      "registered s ''AppWrapper'' = aw_registered (su_aw s)"
    using startup_inv_reachable [OF assms] by (simp_all add: registered_inv_def)
  show ?thesis
    unfolding reg using order by (cases "su_ray s"; cases "su_aw s") (auto simp: order_inv_def)
qed

subsection \<open>The startup can always complete\<close>

fun ray_rank :: "ray_pc \<Rightarrow> nat" where
  "ray_rank RayCheckAPI = 5"
| "ray_rank RayWatch = 4"
| "ray_rank RayAwaitCerts = 3"
| "ray_rank RaySetupWebhook = 2"
| "ray_rank RaySetupController = 1"
| "ray_rank RayDone = 0"
| "ray_rank RayCancelled = 0"

fun aw_rank :: "aw_pc \<Rightarrow> nat" where
  "aw_rank AwNotSpawned = 0"
| "aw_rank AwAwaitCerts = 3"
| "aw_rank AwSetupControllers = 2"
| "aw_rank AwSetupWebhooks = 1"
| "aw_rank AwDone = 0"

fun main_rank :: "main_pc \<Rightarrow> nat" where
  "main_rank MainAppWrapper = 3"
| "main_rank MainIndexers = 2"
| "main_rank MainStart = 1"
| "main_rank MainRunning = 0"

text \<open>The work left: first for main, then the certificates, then the two goroutines.\<close>

definition work_left :: "startup \<Rightarrow> nat" where
  "work_left s =
     8 * main_rank (su_main s) + (if su_certsReady s then 0 else 1) + ray_rank (su_ray s)
       + aw_rank (su_aw s)"

lemma progress:
  assumes "\<not> su_exited s" and "work_left s \<noteq> 0"
  obtains t where "startup_step cfg s t" and "work_left t < work_left s" and "\<not> su_exited t"
proof (cases "su_main s")
  case MainAppWrapper
  with assms(1) that show ?thesis
    by (cases "appWrapperDisabled cfg"; cases "su_aw s")
      (fastforce simp: work_left_def dest: aw_disabled aw_spawn)+
next
  case MainIndexers
  with assms(1) show ?thesis by (intro that [OF indexers_ok]) (auto simp: work_left_def)
next
  case MainStart
  with assms(1) show ?thesis by (intro that [OF manager_starts]) (auto simp: work_left_def)
next
  case MainRunning
  show ?thesis
  proof (cases "su_certsReady s")
    case False
    with MainRunning assms(1) show ?thesis
      by (intro that [OF certs_ready]) (auto simp: work_left_def)
  next
    case True
    consider "ray_rank (su_ray s) \<noteq> 0" | "aw_rank (su_aw s) \<noteq> 0"
      using assms(2) MainRunning True by (auto simp: work_left_def)
    then show ?thesis
    proof cases
      case 1
      with True assms(1) that show ?thesis
        by (cases "su_ray s")
          (fastforce simp: work_left_def
             dest: ray_api_listed ray_api_arrives ray_certs ray_webhook ray_controller)+
    next
      case 2
      with True assms(1) that show ?thesis
        by (cases "su_aw s")
          (fastforce simp: work_left_def dest: aw_certs aw_controllers aw_webhooks)+
    qed
  qed
qed

lemma can_finish:
  "\<not> su_exited s \<Longrightarrow> \<exists>t. (startup_step cfg)\<^sup>*\<^sup>* s t \<and> work_left t = 0 \<and> \<not> su_exited t"
proof (induction "work_left s" arbitrary: s rule: less_induct)
  case less
  show ?case
  proof (cases "work_left s = 0")
    case True
    with less.prems show ?thesis by blast
  next
    case False
    with less.prems obtain t where "startup_step cfg s t" "work_left t < work_left s" "\<not> su_exited t"
      by (rule progress)
    with less.hyps show ?thesis by (meson converse_rtranclp_into_rtranclp)
  qed
qed

lemma finished_threads:
  assumes "work_left t = 0"
  shows "su_main t = MainRunning" and "su_certsReady t"
    and "su_ray t = RayDone \<or> su_ray t = RayCancelled" and "su_aw t = AwNotSpawned \<or> su_aw t = AwDone"
  using assms by (cases "su_main t"; cases "su_ray t"; cases "su_aw t"; simp add: work_left_def split: if_splits)+

text \<open>
  C31 The threads never block each other for good: from every reachable state of a process that has not
  exited, the start can be completed, with the manager running, the certificates ready and both
  goroutines finished. (The certificates are made under the manager, so this would fail if main waited
  for them.)
\<close>

theorem startup_completes:
  assumes "startup_reachable cfg s" and "\<not> su_exited s"
  shows "\<exists>t. (startup_step cfg)\<^sup>*\<^sup>* s t \<and> startup_reachable cfg t \<and> \<not> su_exited t \<and>
    su_main t = MainRunning \<and> su_certsReady t \<and> su_ray t \<in> {RayDone, RayCancelled} \<and>
    su_aw t \<in> {AwNotSpawned, AwDone}"
proof -
  obtain t where t: "(startup_step cfg)\<^sup>*\<^sup>* s t" "work_left t = 0" "\<not> su_exited t"
    using can_finish [OF assms(2)] by blast
  from t(1) have "startup_reachable cfg t"
    using assms(1) by (induction rule: rtranclp_induct) (auto intro: startup_reachable.step)
  with t finished_threads [OF t(2)] show ?thesis by blast
qed

text \<open>A state of the middle: the manager runs, the API is there, the certificates are awaited.\<close>

definition awaiting :: startup where
  "awaiting = initial\<lparr>su_main := MainRunning, su_ray := RayAwaitCerts\<rparr>"

lemma awaiting_reachable: "startup_reachable (defaultConfiguration []) awaiting"
proof -
  let ?cfg = "defaultConfiguration []"
  have "startup_step ?cfg initial (initial\<lparr>su_main := MainStart\<rparr>)"
    by (rule aw_disabled) (simp_all add: initial_def appWrapperDisabled_def defaultConfiguration_def)
  moreover have "startup_step ?cfg (initial\<lparr>su_main := MainStart\<rparr>) (initial\<lparr>su_main := MainRunning\<rparr>)"
    using manager_starts [of "initial\<lparr>su_main := MainStart\<rparr>" ?cfg] by (simp add: initial_def)
  moreover have "startup_step ?cfg (initial\<lparr>su_main := MainRunning\<rparr>) awaiting"
    using ray_api_listed [of "initial\<lparr>su_main := MainRunning\<rparr>" ?cfg]
    by (simp add: initial_def awaiting_def)
  ultimately show ?thesis by (meson startup_reachable.intros)
qed

theorem startup_safe_witness:
  "registered awaiting ''RayCluster'' \<in> {(0, 0), (1, 0), (1, 1)} \<and>
    registered awaiting ''AppWrapper'' \<in> {(0, 0), (0, 1), (1, 1)}"
  using startup_safe [OF awaiting_reachable] by blast

theorem startup_completes_witness:
  "\<exists>t. (startup_step (defaultConfiguration []))\<^sup>*\<^sup>* awaiting t \<and>
    su_main t = MainRunning \<and> su_certsReady t"
  using startup_completes [OF awaiting_reachable] by (auto simp: awaiting_def initial_def)

text \<open>
  The readiness probe agrees with that: before the certificates are ready it fails whatever the webhook
  server says, afterwards it is the webhook server's own answer.
\<close>

lemma readyz_iff:
  "readyzCheck certsReady webhookStarted = None \<longleftrightarrow> certsReady \<and> webhookStarted = None"
  by (simp add: readyzCheck_def)

subsection \<open>The RayCluster goroutine as a function\<close>

text \<open>
  The sequential code behind the steps of the RayCluster goroutine up to the call of
  \<^verbatim>\<open>setupRayClusterController\<close>, which is what \<open>ActionInvoked\<close> stands for: a first listing of the
  definitions, then the wait with a second listing and a watch.
\<close>

definition rayclusterAPI :: string where
  "rayclusterAPI = ''rayclusters.ray.io''"

definition waitForRayClusterAPIandSetupController ::
    "error option \<times> (error + CRD list) \<Rightarrow> error option \<times> (error + CRD list) \<Rightarrow> error option
      \<Rightarrow> select list \<Rightarrow> wait_result" where
  "waitForRayClusterAPIandSetupController firstList secondList newWatcher rounds =
     (case isAPIAvailable (fst firstList) (snd firstList) rayclusterAPI of
        Crash e \<Rightarrow> StillWaiting
      | Exit msg err \<Rightarrow> WaitExit msg err
      | Continue True \<Rightarrow> ActionInvoked
      | Continue False \<Rightarrow> waitForAPI (fst secondList) (snd secondList) newWatcher rayclusterAPI rounds)"

text \<open>What a result of the goroutine means for the state of the starting process.\<close>

fun goroutine_effect :: "wait_result \<Rightarrow> startup \<Rightarrow> startup" where
  "goroutine_effect ActionInvoked s = s\<lparr>su_ray := RayAwaitCerts\<rparr>"
| "goroutine_effect WaitCancelled s = s\<lparr>su_ray := RayCancelled\<rparr>"
| "goroutine_effect StillWaiting s = s\<lparr>su_ray := RayWatch\<rparr>"
| "goroutine_effect (WaitExit msg err) s = s\<lparr>su_exited := True\<rparr>"

lemma goroutine_steps:
  assumes "\<not> su_exited s" and "su_ray s = RayCheckAPI"
  shows "(startup_step cfg)\<^sup>*\<^sup>* s (goroutine_effect res s)"
proof -
  have watch: "startup_step cfg s (s\<lparr>su_ray := RayWatch\<rparr>)" using assms by (rule ray_api_missing)
  have cancel: "startup_step cfg (s\<lparr>su_ray := RayWatch\<rparr>) (s\<lparr>su_ray := RayCancelled\<rparr>)"
    using ray_cancelled [of "s\<lparr>su_ray := RayWatch\<rparr>" cfg] assms by simp
  show ?thesis
    using assms watch cancel
    by (cases res) (auto intro: ray_api_listed ray_api_fail converse_rtranclp_into_rtranclp)
qed

lemma isAPIAvailable_eq:
  "isAPIAvailable newClient crdList apiName =
     (case newClient of
        Some err \<Rightarrow> Exit ''unable to create CRD client'' err
      | None \<Rightarrow>
          (case crdList of
             Inl err \<Rightarrow> Exit ''unable to list CRDs'' err
           | Inr crds \<Rightarrow> Continue (listed crds apiName)))"
  by (cases newClient) (simp_all add: isAPIAvailable_def)

lemma goroutine_invokes:
  "waitForRayClusterAPIandSetupController (c1, l1) (c2, l2) newWatcher rounds = ActionInvoked \<longleftrightarrow>
     c1 = None \<and> (\<exists>crds1. l1 = Inr crds1 \<and> (listed crds1 rayclusterAPI \<or>
       c2 = None \<and> (\<exists>crds2. l2 = Inr crds2 \<and> (listed crds2 rayclusterAPI \<or>
         newWatcher = None \<and> wait_loop rayclusterAPI rounds = ActionInvoked))))"
  by (cases c1; cases l1; cases c2; cases l2; cases newWatcher)
    (auto simp: waitForRayClusterAPIandSetupController_def waitForAPI_def isAPIAvailable_eq
      split: bool.split)

text \<open>
  C36 The goroutine sets the controller up exactly when the API is in the first listing, or in the second,
  or is announced as established to the watch before a cancellation or an error; no failure of a call on
  the way is passed over. Every way it can go is a sequence of steps of the threads.
\<close>

theorem ray_goroutine_refines:
  assumes "\<not> su_exited s" and "su_ray s = RayCheckAPI"
  shows "(startup_step cfg)\<^sup>*\<^sup>* s (goroutine_effect
      (waitForRayClusterAPIandSetupController (c1, l1) (c2, l2) newWatcher rounds) s) \<and>
    (waitForRayClusterAPIandSetupController (c1, l1) (c2, l2) newWatcher rounds = ActionInvoked \<longleftrightarrow>
      c1 = None \<and> (\<exists>crds1. l1 = Inr crds1 \<and> (listed crds1 rayclusterAPI \<or>
        c2 = None \<and> (\<exists>crds2. l2 = Inr crds2 \<and> (listed crds2 rayclusterAPI \<or>
          newWatcher = None \<and> (\<exists>before e after. rounds = before @ e # after \<and>
            list_all (idle rayclusterAPI) before \<and> announces rayclusterAPI e))))))"
  using goroutine_steps [OF assms]
  by (simp add: goroutine_invokes wait_loop_invokes_iff)

text \<open>The definition is missing at first, and installed later in two steps.\<close>

theorem ray_goroutine_refines_witness:
  "(startup_step (defaultConfiguration []))\<^sup>*\<^sup>* initial (initial\<lparr>su_ray := RayAwaitCerts\<rparr>)"
proof -
  let ?pending = "\<lparr>crd_Name = rayclusterAPI, crd_Conditions = []\<rparr>"
  let ?ready = "?pending\<lparr>crd_Conditions := [\<lparr>cond_Type = ''Established'', cond_Status = ''True''\<rparr>]\<rparr>"
  have "waitForRayClusterAPIandSetupController (None, Inr []) (None, Inr []) None
      [Received (Added ?pending), Received Bookmark, Received (Modified ?ready)] = ActionInvoked"
    by (simp add: waitForRayClusterAPIandSetupController_def waitForAPI_def isAPIAvailable_eq
        listed_def established_def Established_def)
  then show ?thesis
    using ray_goroutine_refines [of initial "defaultConfiguration []" None "Inr []" None "Inr []" None
        "[Received (Added ?pending), Received Bookmark, Received (Modified ?ready)]"]
    by (simp add: initial_def)
qed

end
