(* ===== verification/Desired.thy ===== *)
theory Desired
  imports Names
begin

text \<open>
  The desired objects of a RayCluster: the apply configurations built by the \<^verbatim>\<open>desired...\<close> functions of
  \<^verbatim>\<open>raycluster_controller.go\<close> and \<^verbatim>\<open>support.go\<close>, as records of the fields those functions set. A field
  of an apply configuration that is not set is \<open>None\<close> or empty. \<open>Ownership\<close> says what
  the reconciler, its watches and the filtered cache rely on of each of them.
\<close>

subsection \<open>Apply configurations\<close>

record OwnerReference =
  or_APIVersion :: string
  or_Kind :: string
  or_Name :: string
  or_UID :: string
  or_Controller :: "bool option"

record MetaAC =
  ma_Name :: string
  ma_Namespace :: "string option"
  ma_Labels :: strmap
  ma_Annotations :: strmap
  ma_OwnerReferences :: "OwnerReference list"

record RouteAC =
  ro_Meta :: MetaAC
  ro_ToKind :: string
  ro_ToName :: string
  ro_ToWeight :: "int option"
  ro_TargetPort :: string
  ro_Termination :: string
  ro_InsecureEdgeTerminationPolicy :: "string option"

record SecretAC =
  se_Meta :: MetaAC
  se_StringData :: strmap
  se_Data :: "string \<rightharpoonup> byte list"

record ServicePortAC =
  sp_Name :: string
  sp_Port :: int
  sp_TargetPort :: string
  sp_Protocol :: string

record ServiceAC =
  sv_Meta :: MetaAC
  sv_Ports :: "ServicePortAC list"
  sv_Selector :: strmap

record ServiceAccountAC =
  sa_Meta :: MetaAC

record SubjectAC =
  su_Kind :: string
  su_Name :: string
  su_Namespace :: string

record ClusterRoleBindingAC =
  cb_Meta :: MetaAC
  cb_Subjects :: "SubjectAC list"
  cb_RoleRefAPIGroup :: string
  cb_RoleRefKind :: string
  cb_RoleRefName :: string

datatype ServiceBackendPort = PortName string | PortNumber int

record HTTPIngressPathAC =
  hp_Path :: string
  hp_PathType :: string
  hp_ServiceName :: string
  hp_ServicePort :: ServiceBackendPort

record IngressRuleAC =
  ir_Host :: string
  ir_Paths :: "HTTPIngressPathAC list"

record IngressAC =
  in_Meta :: MetaAC
  in_ClassName :: "string option"
  in_Rules :: "IngressRuleAC list"

record LabelSelectorRequirement =
  lr_Key :: string
  lr_Operator :: string
  lr_Values :: "string list"

record LabelSelector =
  ls_MatchLabels :: "(string \<times> string) list"
  ls_MatchExpressions :: "LabelSelectorRequirement list"

record NetworkPolicyPeer =
  np_PodSelector :: "LabelSelector option"
  np_NamespaceSelector :: "LabelSelector option"

record NetworkPolicyPort =
  npp_Protocol :: string
  npp_Port :: int

record NetworkPolicyIngressRule =
  nr_Ports :: "NetworkPolicyPort list"
  nr_From :: "NetworkPolicyPeer list"

record NetworkPolicyAC =
  nw_Meta :: MetaAC
  nw_PodSelector :: LabelSelector
  nw_Ingress :: "NetworkPolicyIngressRule list"

datatype ApplyConfig =
    ARoute RouteAC
  | ASecret SecretAC
  | AService ServiceAC
  | AServiceAccount ServiceAccountAC
  | AClusterRoleBinding ClusterRoleBindingAC
  | AIngress IngressAC
  | ANetworkPolicy NetworkPolicyAC

fun obj_meta :: "ApplyConfig \<Rightarrow> MetaAC" where
  "obj_meta (ARoute r) = ro_Meta r"
| "obj_meta (ASecret s) = se_Meta s"
| "obj_meta (AService s) = sv_Meta s"
| "obj_meta (AServiceAccount s) = sa_Meta s"
| "obj_meta (AClusterRoleBinding c) = cb_Meta c"
| "obj_meta (AIngress i) = in_Meta i"
| "obj_meta (ANetworkPolicy n) = nw_Meta n"

subsection \<open>Shared metadata\<close>

definition ownerRefForRayCluster :: "RayCluster \<Rightarrow> OwnerReference" where
  "ownerRefForRayCluster cluster =
     \<lparr>or_APIVersion = rc_APIVersion cluster, or_Kind = rc_Kind cluster, or_Name = Name cluster,
      or_UID = om_UID (rc_Meta cluster), or_Controller = Some True\<rparr>"

text \<open>
  \<^verbatim>\<open><Kind>(name, cluster.Namespace).WithLabels({RayClusterNameLabel: cluster.Name})\<close> together with
  \<^verbatim>\<open>WithAnnotations\<close> and \<^verbatim>\<open>WithOwnerReferences(ownerRefForRayCluster(cluster))\<close>.
\<close>

definition ownedMeta :: "RayCluster \<Rightarrow> string \<Rightarrow> strmap \<Rightarrow> MetaAC" where
  "ownedMeta cluster name annotations =
     \<lparr>ma_Name = name, ma_Namespace = Some (Namespace cluster),
      ma_Labels = [RayClusterNameLabel \<mapsto> Name cluster], ma_Annotations = annotations,
      ma_OwnerReferences = [ownerRefForRayCluster cluster]\<rparr>"

definition clusterNamespaceLabel :: string where
  "clusterNamespaceLabel = ''ray.openshift.ai/cluster-namespace''"

subsection \<open>OAuth objects\<close>

definition desiredOAuthClusterRoleBinding :: "RayCluster \<Rightarrow> ClusterRoleBindingAC" where
  [object_defs]: "desiredOAuthClusterRoleBinding cluster =
     \<lparr>cb_Meta =
        \<lparr>ma_Name = crbNameFromCluster cluster, ma_Namespace = None,
         ma_Labels = [RayClusterNameLabel \<mapsto> Name cluster,
                      clusterNamespaceLabel \<mapsto> Namespace cluster],
         ma_Annotations = Map.empty, ma_OwnerReferences = []\<rparr>,
      cb_Subjects =
        [\<lparr>su_Kind = ''ServiceAccount'', su_Name = oauthServiceAccountNameFromCluster cluster,
          su_Namespace = Namespace cluster\<rparr>],
      cb_RoleRefAPIGroup = ''rbac.authorization.k8s.io'',
      cb_RoleRefKind = ''ClusterRole'',
      cb_RoleRefName = ''system:auth-delegator''\<rparr>"

definition oauthRedirectReference :: "RayCluster \<Rightarrow> string" where
  \<open>oauthRedirectReference cluster =
     ''{"kind":"OAuthRedirectReference","apiVersion":"v1","reference":{"kind":"Route","name":"''
     @ dashboardNameFromCluster cluster @ ''"}}''\<close>

definition desiredServiceAccount :: "RayCluster \<Rightarrow> ServiceAccountAC" where
  [object_defs]: "desiredServiceAccount cluster =
     \<lparr>sa_Meta = ownedMeta cluster (oauthServiceAccountNameFromCluster cluster)
        [''serviceaccounts.openshift.io/oauth-redirectreference.first''
           \<mapsto> oauthRedirectReference cluster]\<rparr>"

definition oAuthServicePort :: int where
  "oAuthServicePort = 443"

definition oAuthServicePortName :: string where
  "oAuthServicePortName = ''oauth-proxy''"

definition ingressServicePortName :: string where
  "ingressServicePortName = ''dashboard''"

definition desiredClusterRoute :: "RayCluster \<Rightarrow> RouteAC" where
  [object_defs]: "desiredClusterRoute cluster =
     \<lparr>ro_Meta = ownedMeta cluster (dashboardNameFromCluster cluster) Map.empty,
      ro_ToKind = ''Service'', ro_ToName = oauthServiceNameFromCluster cluster, ro_ToWeight = None,
      ro_TargetPort = oAuthServicePortName,
      ro_Termination = ''reencrypt'',
      ro_InsecureEdgeTerminationPolicy = Some ''Redirect''\<rparr>"

definition headSelector :: "RayCluster \<Rightarrow> string \<Rightarrow> (string \<times> string) list" where
  "headSelector cluster nodeType =
     [(''ray.io/cluster'', Name cluster), (''ray.io/node-type'', nodeType)]"

definition desiredOAuthService :: "RayCluster \<Rightarrow> ServiceAC" where
  [object_defs]: "desiredOAuthService cluster =
     \<lparr>sv_Meta = ownedMeta cluster (oauthServiceNameFromCluster cluster)
        [''service.beta.openshift.io/serving-cert-secret-name'' \<mapsto> oauthServiceTLSSecretName cluster],
      sv_Ports =
        [\<lparr>sp_Name = oAuthServicePortName, sp_Port = oAuthServicePort,
          sp_TargetPort = oAuthServicePortName, sp_Protocol = ''TCP''\<rparr>],
      sv_Selector = map_of (headSelector cluster ''head'')\<rparr>"

text \<open>The cookie secret is the base64 form of the SHA-1 digest of the name and the salt.\<close>

definition cookieSecret :: "RayCluster \<Rightarrow> string \<Rightarrow> string" where
  "cookieSecret cluster cookieSalt =
     EncodeToString (Sha1Sum (bytes (Name cluster @ cookieSalt)))"

definition desiredOAuthSecret :: "RayCluster \<Rightarrow> string \<Rightarrow> SecretAC" where
  [object_defs]: "desiredOAuthSecret cluster cookieSalt =
     \<lparr>se_Meta = ownedMeta cluster (oauthSecretNameFromCluster cluster) Map.empty,
      se_StringData = [''cookie_secret'' \<mapsto> cookieSecret cluster cookieSalt],
      se_Data = Map.empty\<rparr>"

subsection \<open>Certificates\<close>

definition CAPrivateKeyKey :: string where
  "CAPrivateKeyKey = ''ca.key''"

definition CACertKey :: string where
  "CACertKey = ''ca.crt''"

definition desiredCASecret :: "RayCluster \<Rightarrow> byte list \<Rightarrow> byte list \<Rightarrow> SecretAC" where
  [object_defs]: "desiredCASecret cluster key cert =
     \<lparr>se_Meta = ownedMeta cluster (caSecretNameFromCluster cluster) Map.empty,
      se_StringData = Map.empty,
      se_Data = [CAPrivateKeyKey \<mapsto> key, CACertKey \<mapsto> cert]\<rparr>"

subsection \<open>Routes and Ingresses of the Ray client and the dashboard\<close>

definition desiredRayClientRoute :: "RayCluster \<Rightarrow> RouteAC" where
  [object_defs]: "desiredRayClientRoute cluster =
     \<lparr>ro_Meta = ownedMeta cluster (rayClientNameFromCluster cluster) Map.empty,
      ro_ToKind = ''Service'', ro_ToName = serviceNameFromCluster cluster, ro_ToWeight = Some 100,
      ro_TargetPort = ''client'',
      ro_Termination = ''passthrough'',
      ro_InsecureEdgeTerminationPolicy = None\<rparr>"

definition desiredRayClientIngress :: "RayCluster \<Rightarrow> string \<Rightarrow> IngressAC" where
  [object_defs]: "desiredRayClientIngress cluster ingressHost =
     \<lparr>in_Meta = ownedMeta cluster (rayClientNameFromCluster cluster)
        [''nginx.ingress.kubernetes.io/rewrite-target'' \<mapsto> ''/'',
         ''nginx.ingress.kubernetes.io/ssl-redirect'' \<mapsto> ''true'',
         ''nginx.ingress.kubernetes.io/ssl-passthrough'' \<mapsto> ''true''],
      in_ClassName = Some ''nginx'',
      in_Rules =
        [\<lparr>ir_Host = ingressHost,
          ir_Paths =
            [\<lparr>hp_Path = ''/'', hp_PathType = ''ImplementationSpecific'',
              hp_ServiceName = serviceNameFromCluster cluster,
              hp_ServicePort = PortNumber 10001\<rparr>]\<rparr>]\<rparr>"

definition desiredClusterIngress :: "RayCluster \<Rightarrow> string \<Rightarrow> IngressAC" where
  [object_defs]: "desiredClusterIngress cluster ingressHost =
     \<lparr>in_Meta = ownedMeta cluster (dashboardNameFromCluster cluster) Map.empty,
      in_ClassName = None,
      in_Rules =
        [\<lparr>ir_Host = ingressHost,
          ir_Paths =
            [\<lparr>hp_Path = ''/'', hp_PathType = ''Prefix'',
              hp_ServiceName = serviceNameFromCluster cluster,
              hp_ServicePort = PortName ingressServicePortName\<rparr>]\<rparr>]\<rparr>"

subsection \<open>Network policies\<close>

definition matchLabels :: "(string \<times> string) list \<Rightarrow> LabelSelector" where
  "matchLabels ls = \<lparr>ls_MatchLabels = ls, ls_MatchExpressions = []\<rparr>"

definition namespaceIn :: "string list \<Rightarrow> LabelSelector" where
  "namespaceIn nss =
     \<lparr>ls_MatchLabels = [],
      ls_MatchExpressions =
        [\<lparr>lr_Key = ''kubernetes.io/metadata.name'', lr_Operator = ''In'', lr_Values = nss\<rparr>]\<rparr>"

definition podPeer :: "LabelSelector \<Rightarrow> NetworkPolicyPeer" where
  "podPeer s = \<lparr>np_PodSelector = Some s, np_NamespaceSelector = None\<rparr>"

definition tcp :: "int \<Rightarrow> NetworkPolicyPort" where
  "tcp port = \<lparr>npp_Protocol = ''TCP'', npp_Port = port\<rparr>"

definition desiredWorkersNetworkPolicy :: "RayCluster \<Rightarrow> NetworkPolicyAC" where
  [object_defs]: "desiredWorkersNetworkPolicy cluster =
     \<lparr>nw_Meta = ownedMeta cluster (workerNWPNameFromCluster cluster) Map.empty,
      nw_PodSelector = matchLabels (headSelector cluster ''worker''),
      nw_Ingress =
        [\<lparr>nr_Ports = [],
          nr_From = [podPeer (matchLabels [(''ray.io/cluster'', Name cluster)])]\<rparr>]\<rparr>"

definition kubeRayOperatorNamespace :: string where
  "kubeRayOperatorNamespace = ''kuberay-operator''"

definition headNetworkPolicyRules ::
    "RayCluster \<Rightarrow> NetworkPolicyPort list \<Rightarrow> string list \<Rightarrow> NetworkPolicyIngressRule list" where
  [object_defs]: "headNetworkPolicyRules cluster allSecuredPorts kubeRayNamespaces =
     [\<lparr>nr_Ports = [],
       nr_From = [podPeer (matchLabels [(''ray.io/cluster'', Name cluster)])]\<rparr>,
      \<lparr>nr_Ports = [tcp 10001, tcp 8265],
       nr_From = [podPeer (matchLabels [])]\<rparr>,
      \<lparr>nr_Ports = [tcp 8265, tcp 10001],
       nr_From =
         [\<lparr>np_PodSelector =
             Some (matchLabels [(''app.kubernetes.io/component'', kubeRayOperatorNamespace)]),
           np_NamespaceSelector = Some (namespaceIn kubeRayNamespaces)\<rparr>]\<rparr>,
      \<lparr>nr_Ports = [tcp 8080],
       nr_From =
         [\<lparr>np_PodSelector = None,
           np_NamespaceSelector = Some (namespaceIn [''openshift-monitoring''])\<rparr>]\<rparr>,
      \<lparr>nr_Ports = allSecuredPorts, nr_From = []\<rparr>]"

text \<open>\<^verbatim>\<open>cfg.MTLSEnabled\<close> is read through \<open>cfg\<close> without a \<open>nil\<close> check.\<close>

definition desiredHeadNetworkPolicy ::
    "RayCluster \<Rightarrow> KubeRayConfiguration option \<Rightarrow> string list \<Rightarrow> NetworkPolicyAC go" where
  [object_defs]: "desiredHeadNetworkPolicy cluster cfg kubeRayNamespaces =
     (case cfg of
        None \<Rightarrow> Panics NilDereference
      | Some c \<Rightarrow>
          let allSecuredPorts = [tcp 8443];
              allSecuredPorts = (if Deref (MTLSEnabled c) True then allSecuredPorts @ [tcp 10001]
                                 else allSecuredPorts)
          in Ok \<lparr>nw_Meta = ownedMeta cluster (headNWPNameFromCluster cluster) Map.empty,
                 nw_PodSelector = matchLabels (headSelector cluster ''head''),
                 nw_Ingress = headNetworkPolicyRules cluster allSecuredPorts kubeRayNamespaces\<rparr>)"

end
