(* ===== verification/NameProps.thy ===== *)
theory NameProps
  imports Desired
begin

text \<open>
  Which objects of which clusters can have the same name. Names of namespaced objects only compete
  within a namespace, the ClusterRoleBinding's in the whole cluster, the Ingress host's everywhere.
\<close>

text \<open>A cluster with the given name, namespace and annotations.\<close>

definition named_cluster :: "string \<Rightarrow> string \<Rightarrow> strmap \<Rightarrow> RayCluster" where
  "named_cluster name ns annotations =
     \<lparr>rc_Kind = ''RayCluster'', rc_APIVersion = ''ray.io/v1'',
      rc_Meta = \<lparr>om_Name = name, om_Namespace = ns, om_UID = [], om_Annotations = annotations,
                 om_DeletionTimestamp = None, om_Finalizers = [], om_rest = []\<rparr>,
      rc_Suspend = None,
      rc_Head = \<lparr>hg_EnableIngress = None,
                 hg_Template = \<lparr>pt_Spec = \<lparr>ps_Volumes = [], ps_InitContainers = [], ps_Containers = [],
                   ps_ServiceAccountName = [], ps_ImagePullSecrets = [], ps_rest = []\<rparr>, pt_rest = []\<rparr>,
                 hg_rest = []\<rparr>,
      rc_Workers = [], rc_rest = []\<rparr>"

abbreviation hashed_cluster :: "string \<Rightarrow> string \<Rightarrow> RayCluster" where
  "hashed_cluster name ns \<equiv> named_cluster name ns [versionAnnotation \<mapsto> ''v1'']"

lemma named_cluster_simps [simp]:
  "Name (named_cluster name ns annotations) = name"
  "Namespace (named_cluster name ns annotations) = ns"
  "shouldUseOldName (named_cluster name ns annotations) \<longleftrightarrow> annotations versionAnnotation = None"
  by (simp_all add: named_cluster_def shouldUseOldName_def)

text \<open>
  Two clusters of a namespace never share a service account, service, TLS secret, OAuth secret or
  network policy: for each kind, equal names mean the same cluster name under the same naming scheme.
\<close>

theorem object_names_injective:
  "(oauthServiceAccountNameFromCluster c = oauthServiceAccountNameFromCluster d) =
     (Name c = Name d \<and> shouldUseOldName c = shouldUseOldName d) \<and>
   (oauthServiceNameFromCluster c = oauthServiceNameFromCluster d) =
     (Name c = Name d \<and> shouldUseOldName c = shouldUseOldName d) \<and>
   (oauthServiceTLSSecretName c = oauthServiceTLSSecretName d) =
     (Name c = Name d \<and> shouldUseOldName c = shouldUseOldName d) \<and>
   (oauthSecretNameFromCluster c = oauthSecretNameFromCluster d) =
     (Name c = Name d \<and> shouldUseOldName c = shouldUseOldName d) \<and>
   (workerNWPNameFromCluster c = workerNWPNameFromCluster d) =
     (Name c = Name d \<and> shouldUseOldName c = shouldUseOldName d) \<and>
   (headNWPNameFromCluster c = headNWPNameFromCluster d) =
     (Name c = Name d \<and> shouldUseOldName c = shouldUseOldName d)"
  by (intro conjI sa.name_inject svc.name_inject tls.name_inject oauth_secret.name_inject
      worker_nwp.name_inject head_nwp.name_inject)

text \<open>
  In the hashed scheme the three secrets and the two network policies of any clusters of a namespace
  are kept apart: no CA secret has the name of an OAuth or TLS secret, and so on.
\<close>

theorem hashed_kinds_apart:
  assumes "\<not> shouldUseOldName c" and "\<not> shouldUseOldName d"
  shows "caSecretNameFromCluster c \<noteq> oauthSecretNameFromCluster d \<and>
    caSecretNameFromCluster c \<noteq> oauthServiceTLSSecretName d \<and>
    oauthSecretNameFromCluster c \<noteq> oauthServiceTLSSecretName d \<and>
    headNWPNameFromCluster c \<noteq> workerNWPNameFromCluster d"
  using assms ca_oauth.hashed_apart ca_tls.hashed_apart oauth_tls.hashed_apart
    head_worker.hashed_apart
  by blast

theorem hashed_kinds_apart_witness:
  "caSecretNameFromCluster (hashed_cluster ''ray'' ''ns'') \<noteq>
     oauthSecretNameFromCluster (hashed_cluster ''ca'' ''ns'')"
  using hashed_kinds_apart [of "hashed_cluster ''ray'' ''ns''" "hashed_cluster ''ca'' ''ns''"] by simp

text \<open>
  In the old scheme this fails: the CA secret of a cluster named x-oauth-config and the OAuth secret
  of a cluster named ca-secret-x have the same name, for every x.
\<close>

theorem old_secret_names_collide:
  assumes "shouldUseOldName c" and "Name c = x @ ''-oauth-config''"
    and "shouldUseOldName d" and "Name d = ''ca-secret-'' @ x"
  shows "caSecretNameFromCluster c = oauthSecretNameFromCluster d"
  using assms by (simp add: name_defs)

theorem old_secret_names_collide_witness:
  "caSecretNameFromCluster (named_cluster ''x-oauth-config'' ''ns'' Map.empty) =
   oauthSecretNameFromCluster (named_cluster ''ca-secret-x'' ''ns'' Map.empty)"
  by (rule old_secret_names_collide [where x = "''x''"]) simp_all

subsection \<open>The ClusterRoleBinding\<close>

lemma auth_not_hashed: "xs @ ''-auth'' \<noteq> RCCUniqueName s"
  by (rule RCCUniqueName_neq) (simp add: hex_chars_def)

lemma crb_name_eq:
  "crbNameFromCluster c = crbNameFromCluster d \<longleftrightarrow>
     shouldUseOldName c = shouldUseOldName d \<and>
     Name c @ ''-'' @ Namespace c = Name d @ ''-'' @ Namespace d"
proof -
  have join: "Name c @ ''-'' @ Namespace c @ ''-auth'' = Name d @ ''-'' @ Namespace d @ ''-auth'' \<longleftrightarrow>
      Name c @ ''-'' @ Namespace c = Name d @ ''-'' @ Namespace d"
    using append_same_suffix_length [of "''-auth''" "''-auth''" "Name c @ ''-'' @ Namespace c"
        "Name d @ ''-'' @ Namespace d"]
    by simp
  have "Name e @ ''-'' @ Namespace e @ ''-auth'' \<noteq> RCCUniqueName s" for e s
    using auth_not_hashed [of "Name e @ ''-'' @ Namespace e" s] by simp
  note apart = this this [THEN not_sym]
  show ?thesis
    by (cases "shouldUseOldName c"; cases "shouldUseOldName d")
      (simp_all add: crbNameFromCluster_def join apart [simplified])
qed

text \<open>
  The ClusterRoleBinding's name is decided by the joined cluster name and namespace, so it does not
  determine the cluster: moving a part between dashes from one to the other gives the same name.
\<close>

theorem crb_name_eq_iff:
  "crbNameFromCluster c = crbNameFromCluster d \<longleftrightarrow>
     shouldUseOldName c = shouldUseOldName d \<and>
     Name c @ ''-'' @ Namespace c = Name d @ ''-'' @ Namespace d"
  by (rule crb_name_eq)

text \<open>
  Two clusters of different namespaces can therefore fight over one ClusterRoleBinding: same object,
  different subjects. Each reconciliation of one overwrites the binding of the other.
\<close>

theorem crb_collision:
  "let c = hashed_cluster ''a-b'' ''c''; d = hashed_cluster ''a'' ''b-c'' in
     ma_Name (cb_Meta (desiredOAuthClusterRoleBinding c)) =
       ma_Name (cb_Meta (desiredOAuthClusterRoleBinding d)) \<and>
     cb_Subjects (desiredOAuthClusterRoleBinding c) \<noteq> cb_Subjects (desiredOAuthClusterRoleBinding d)"
  by (simp add: Let_def desiredOAuthClusterRoleBinding_def crbNameFromCluster_def)

subsection \<open>Lengths and hosts\<close>

text \<open>
  Names grow by a bounded number of characters over the cluster's name; the OAuth service's, which has
  to fit a DNS label, by exactly 6 in the old scheme and 15 in the hashed one.
\<close>

lemma name_lengths:
  "length (oauthServiceAccountNameFromCluster c) \<le> length (Name c) + 21 \<and>
   length (oauthServiceTLSSecretName c) \<le> length (Name c) + 26 \<and>
   length (oauthSecretNameFromCluster c) \<le> length (Name c) + 22 \<and>
   length (headNWPNameFromCluster c) \<le> length (Name c) + 14 \<and>
   length (workerNWPNameFromCluster c) \<le> length (Name c) + 17 \<and>
   length (oauthServiceNameFromCluster c) =
     length (Name c) + (if shouldUseOldName c then 6 else 15)"
  using sa.name_length_le [of c] tls.name_length_le [of c] oauth_secret.name_length_le [of c]
    head_nwp.name_length_le [of c] worker_nwp.name_length_le [of c] svc.hashed_length [of c]
    svc.plain [of c]
  by simp

text \<open>
  An Ingress host is made exactly when a domain is configured; the dashboard and the client of any two
  clusters never get the same host.
\<close>

theorem ingress_hosts:
  "(\<exists>h. getIngressHost cfg c name = Inr h) = (\<exists>k. cfg = Some k \<and> IngressDomain k \<noteq> []) \<and>
   (\<forall>h. getIngressHost cfg c (dashboardNameFromCluster c) = Inr h \<longrightarrow>
        getIngressHost cfg d (rayClientNameFromCluster d) \<noteq> Inr h)"
  by (auto simp: getIngressHost_def dashboardNameFromCluster_def rayClientNameFromCluster_def
      split: option.split)

theorem ingress_hosts_witness:
  "getIngressHost (Some \<lparr>RayDashboardOAuthEnabled = None, IngressDomain = ''d'', MTLSEnabled = None\<rparr>)
     (hashed_cluster ''ray'' ''ns'') (rayClientNameFromCluster (hashed_cluster ''ray'' ''ns'')) \<noteq>
   Inr ''ray-dashboard-ray-ns.d''"
  using ingress_hosts [of "Some \<lparr>RayDashboardOAuthEnabled = None, IngressDomain = ''d'', MTLSEnabled = None\<rparr>"
      "hashed_cluster ''ray'' ''ns''" "[]" "hashed_cluster ''ray'' ''ns''"]
  by (simp add: getIngressHost_def dashboardNameFromCluster_def)

end
