(* ===== verification/NetPolicy.thy ===== *)
theory NetPolicy
  imports NameProps
begin

text \<open>
  What the network policies of \<open>Desired\<close> let through. \<open>policy_admits\<close> is the documented meaning of an
  ingress NetworkPolicy: traffic to a selected pod is admitted when some rule matches both its source
  and its port; a rule without peers matches every source, one without ports every port. It is a
  specification, not code of the operator.
\<close>

text \<open>A pod with its labels and those of its namespace, or an address that is no pod.\<close>

datatype source =
    Pod (src_namespace: string) (src_namespace_labels: strmap) (src_labels: strmap)
  | Outside

fun requirement_holds :: "LabelSelectorRequirement \<Rightarrow> strmap \<Rightarrow> bool" where
  "requirement_holds r labels =
     (if lr_Operator r = ''In'' then
        (case labels (lr_Key r) of Some v \<Rightarrow> v \<in> set (lr_Values r) | None \<Rightarrow> False)
      else if lr_Operator r = ''NotIn'' then
        (case labels (lr_Key r) of Some v \<Rightarrow> v \<notin> set (lr_Values r) | None \<Rightarrow> True)
      else if lr_Operator r = ''Exists'' then labels (lr_Key r) \<noteq> None
      else if lr_Operator r = ''DoesNotExist'' then labels (lr_Key r) = None
      else False)"

definition selects :: "LabelSelector \<Rightarrow> strmap \<Rightarrow> bool" where
  "selects s labels \<longleftrightarrow>
     list_all (\<lambda>(k, v). labels k = Some v) (ls_MatchLabels s) \<and>
     list_all (\<lambda>r. requirement_holds r labels) (ls_MatchExpressions s)"

fun peer_matches :: "string \<Rightarrow> NetworkPolicyPeer \<Rightarrow> source \<Rightarrow> bool" where
  "peer_matches policy_ns peer Outside = False"
| "peer_matches policy_ns peer (Pod ns ns_labels labels) =
     ((case np_NamespaceSelector peer of
         None \<Rightarrow> ns = policy_ns | Some s \<Rightarrow> selects s ns_labels) \<and>
      (case np_PodSelector peer of None \<Rightarrow> True | Some s \<Rightarrow> selects s labels))"

definition rule_admits :: "string \<Rightarrow> NetworkPolicyIngressRule \<Rightarrow> source \<Rightarrow> int \<Rightarrow> bool" where
  "rule_admits policy_ns r src port \<longleftrightarrow>
     (nr_From r = [] \<or> list_ex (\<lambda>p. peer_matches policy_ns p src) (nr_From r)) \<and>
     (nr_Ports r = [] \<or> list_ex (\<lambda>p. npp_Protocol p = ''TCP'' \<and> npp_Port p = port) (nr_Ports r))"

definition policy_admits :: "NetworkPolicyAC \<Rightarrow> source \<Rightarrow> int \<Rightarrow> bool" where
  "policy_admits policy src port \<longleftrightarrow>
     list_ex (\<lambda>r. rule_admits (case ma_Namespace (nw_Meta policy) of Some ns \<Rightarrow> ns | None \<Rightarrow> []) r src port)
       (nw_Ingress policy)"

text \<open>The three kinds of pod the head policy singles out.\<close>

definition same_ray_cluster :: "RayCluster \<Rightarrow> source \<Rightarrow> bool" where
  "same_ray_cluster cluster src \<longleftrightarrow>
     (case src of Outside \<Rightarrow> False
      | Pod ns _ labels \<Rightarrow> ns = Namespace cluster \<and> labels ''ray.io/cluster'' = Some (Name cluster))"

definition same_namespace :: "RayCluster \<Rightarrow> source \<Rightarrow> bool" where
  "same_namespace cluster src \<longleftrightarrow>
     (case src of Outside \<Rightarrow> False | Pod ns _ _ \<Rightarrow> ns = Namespace cluster)"

definition kuberay_operator :: "string list \<Rightarrow> source \<Rightarrow> bool" where
  "kuberay_operator nss src \<longleftrightarrow>
     (case src of Outside \<Rightarrow> False
      | Pod _ ns_labels labels \<Rightarrow>
          labels ''app.kubernetes.io/component'' = Some ''kuberay-operator'' \<and>
          (case ns_labels ''kubernetes.io/metadata.name'' of Some v \<Rightarrow> v \<in> set nss | None \<Rightarrow> False))"

definition monitoring :: "source \<Rightarrow> bool" where
  "monitoring src \<longleftrightarrow>
     (case src of Outside \<Rightarrow> False
      | Pod _ ns_labels _ \<Rightarrow> ns_labels ''kubernetes.io/metadata.name'' = Some ''openshift-monitoring'')"

lemma selects_simps [simp]:
  "selects (matchLabels ls) labels \<longleftrightarrow> list_all (\<lambda>(k, v). labels k = Some v) ls"
  "selects (namespaceIn nss) labels \<longleftrightarrow>
     (case labels ''kubernetes.io/metadata.name'' of Some v \<Rightarrow> v \<in> set nss | None \<Rightarrow> False)"
  by (simp_all add: selects_def matchLabels_def namespaceIn_def split: option.split)

lemma peer_simps [simp]:
  "peer_matches (Namespace c) (podPeer (matchLabels [])) src \<longleftrightarrow> same_namespace c src"
  "peer_matches (Namespace c) (podPeer (matchLabels [(''ray.io/cluster'', Name c)])) src \<longleftrightarrow>
     same_ray_cluster c src"
  by (cases src; simp add: podPeer_def same_namespace_def same_ray_cluster_def)+

lemma operator_peer [simp]:
  "peer_matches ns
     \<lparr>np_PodSelector = Some (matchLabels [(''app.kubernetes.io/component'', kubeRayOperatorNamespace)]),
      np_NamespaceSelector = Some (namespaceIn nss)\<rparr> src \<longleftrightarrow> kuberay_operator nss src"
  by (cases src) (auto simp: kuberay_operator_def kubeRayOperatorNamespace_def)

lemma monitoring_peer [simp]:
  "peer_matches ns
     \<lparr>np_PodSelector = None,
      np_NamespaceSelector = Some (namespaceIn [''openshift-monitoring''])\<rparr> src \<longleftrightarrow> monitoring src"
  by (cases src) (auto simp: monitoring_def split: option.split)

lemma tcp_simps [simp]: "npp_Protocol (tcp p) = ''TCP''" "npp_Port (tcp p) = p"
  by (simp_all add: tcp_def)

lemma same_ray_cluster_namespace: "same_ray_cluster c src \<Longrightarrow> same_namespace c src"
  by (auto simp: same_ray_cluster_def same_namespace_def split: source.splits)

text \<open>C11 The head pod's policy, decided for every source and port.\<close>

theorem head_policy_admits:
  assumes "desiredHeadNetworkPolicy cluster (Some cfg) nss = Ok policy"
  shows "policy_admits policy src port \<longleftrightarrow>
           same_ray_cluster cluster src \<or>
           port = 8443 \<or>
           port = 10001 \<and> (Deref (MTLSEnabled cfg) True \<or> same_namespace cluster src \<or>
                           kuberay_operator nss src) \<or>
           port = 8265 \<and> (same_namespace cluster src \<or> kuberay_operator nss src) \<or>
           port = 8080 \<and> monitoring src"
proof -
  have policy: "policy =
      \<lparr>nw_Meta = ownedMeta cluster (headNWPNameFromCluster cluster) Map.empty,
       nw_PodSelector = matchLabels (headSelector cluster ''head''),
       nw_Ingress = headNetworkPolicyRules cluster
         (if Deref (MTLSEnabled cfg) True then [tcp 8443, tcp 10001] else [tcp 8443]) nss\<rparr>"
    using assms by (simp add: desiredHeadNetworkPolicy_def Let_def split: if_splits)
  show ?thesis
    by (auto simp: policy policy_admits_def rule_admits_def ownedMeta_def headNetworkPolicyRules_def)
qed

theorem head_policy_admits_witness:
  "let p = value_of (desiredHeadNetworkPolicy (hashed_cluster ''ray'' ''ns'')
             (Some \<lparr>RayDashboardOAuthEnabled = None, IngressDomain = [], MTLSEnabled = None\<rparr>) [])
   in policy_admits p Outside 8443 \<and> policy_admits p Outside 10001 \<and>
      \<not> policy_admits p Outside 8265 \<and> \<not> policy_admits p Outside 6379"
proof -
  let ?cfg = "\<lparr>RayDashboardOAuthEnabled = None, IngressDomain = [], MTLSEnabled = None\<rparr>"
  have "desiredHeadNetworkPolicy (hashed_cluster ''ray'' ''ns'') (Some ?cfg) [] =
      Ok (value_of (desiredHeadNetworkPolicy (hashed_cluster ''ray'' ''ns'') (Some ?cfg) []))"
    by (simp add: desiredHeadNetworkPolicy_def Let_def)
  note admits = head_policy_admits [OF this]
  show ?thesis
    unfolding Let_def admits
    by (simp add: same_ray_cluster_def same_namespace_def kuberay_operator_def monitoring_def)
qed

end
