(* ===== verification/HashVectors.thy ===== *)
theory HashVectors
  imports NameProps
begin

text \<open>
  The hash of the naming scheme, checked against the names that the repository's tests expect
  (\<^verbatim>\<open>raycluster_webhook_test.go\<close>). The two blocks of the padded message are evaluated eight rounds at a
  time.
\<close>

lemmas sha256_defs = sha256_next_def small_sigma0_def small_sigma1_def big_sigma0_def big_sigma1_def
  rotr_def Ch_def Maj_def

lemma block1_rounds0:
    "sha256_rounds (0x428a2f98 # 0x71374491 # 0xb5c0fbcf # 0xe9b5dba5 # 0x3956c25b #
      0x59f111f1 # 0x923f82a4 # 0xab1c5ed5 # ks) [0x636f6465, 0x666c6172, 0x652d7261,
      0x79636c75, 0x73746572, 0x2d636f6e, 0x74726f6c, 0x6c657274, 0x6573742d, 0x72617963,
      0x6c757374, 0x65722d6f, 0x61757468, 0x2d70726f, 0x78798000, 0x00000000] (0x6a09e667,
      0xbb67ae85, 0x3c6ef372, 0xa54ff53a, 0x510e527f, 0x9b05688c, 0x1f83d9ab, 0x5be0cd19) =
     sha256_rounds ks [0x6573742d, 0x72617963, 0x6c757374, 0x65722d6f, 0x61757468, 0x2d70726f,
       0x78798000, 0x00000000, 0xb64cd892, 0x65d982c9, 0x00da33b7, 0xbfd2c1cd, 0x02bf4f46,
       0x2c8b4040, 0x7c875dfa, 0x76454d3b] (0x03342294, 0xd18cf1fa, 0xd701cc8c, 0x86647ee1,
       0x7887044a, 0x046cccbf, 0x50ef2405, 0xd6dc1519)"
  by (simp add: sha256_defs) (rule arg_cong2 [where f = "sha256_rounds ks"]; simp)

lemma block1_rounds8:
    "sha256_rounds (0xd807aa98 # 0x12835b01 # 0x243185be # 0x550c7dc3 # 0x72be5d74 #
      0x80deb1fe # 0x9bdc06a7 # 0xc19bf174 # ks) [0x6573742d, 0x72617963, 0x6c757374,
      0x65722d6f, 0x61757468, 0x2d70726f, 0x78798000, 0x00000000, 0xb64cd892, 0x65d982c9,
      0x00da33b7, 0xbfd2c1cd, 0x02bf4f46, 0x2c8b4040, 0x7c875dfa, 0x76454d3b] (0x03342294,
      0xd18cf1fa, 0xd701cc8c, 0x86647ee1, 0x7887044a, 0x046cccbf, 0x50ef2405, 0xd6dc1519) =
     sha256_rounds ks [0xb64cd892, 0x65d982c9, 0x00da33b7, 0xbfd2c1cd, 0x02bf4f46, 0x2c8b4040,
       0x7c875dfa, 0x76454d3b, 0xa79a7840, 0x3bee5168, 0xf8894f8c, 0xccbfba0b, 0xe3799ba3,
       0x446f5dad, 0xed5c20f0, 0xf28e38dd] (0x812f03b4, 0xc3fe2ba2, 0x4a7493bd, 0x10bb194c,
       0xd8387a84, 0x69688abc, 0x8564decb, 0x9bce2c24)"
  by (simp add: sha256_defs) (rule arg_cong2 [where f = "sha256_rounds ks"]; simp)

lemma block1_rounds16:
    "sha256_rounds (0xe49b69c1 # 0xefbe4786 # 0x0fc19dc6 # 0x240ca1cc # 0x2de92c6f #
      0x4a7484aa # 0x5cb0a9dc # 0x76f988da # ks) [0xb64cd892, 0x65d982c9, 0x00da33b7,
      0xbfd2c1cd, 0x02bf4f46, 0x2c8b4040, 0x7c875dfa, 0x76454d3b, 0xa79a7840, 0x3bee5168,
      0xf8894f8c, 0xccbfba0b, 0xe3799ba3, 0x446f5dad, 0xed5c20f0, 0xf28e38dd] (0x812f03b4,
      0xc3fe2ba2, 0x4a7493bd, 0x10bb194c, 0xd8387a84, 0x69688abc, 0x8564decb, 0x9bce2c24) =
     sha256_rounds ks [0xa79a7840, 0x3bee5168, 0xf8894f8c, 0xccbfba0b, 0xe3799ba3, 0x446f5dad,
       0xed5c20f0, 0xf28e38dd, 0x855b4031, 0x1ca3e914, 0xd2d024e6, 0x8c7f1a88, 0xb3e229d8,
       0xb43523cb, 0xec7c4c8a, 0x3cfe815e] (0x7dddf8af, 0xc74dac59, 0x939d97d0, 0xa310080b,
       0x71493a36, 0xf26f644b, 0xb76efd51, 0xbcfcf8cc)"
  by (simp add: sha256_defs) (rule arg_cong2 [where f = "sha256_rounds ks"]; simp)

lemma block1_rounds24:
    "sha256_rounds (0x983e5152 # 0xa831c66d # 0xb00327c8 # 0xbf597fc7 # 0xc6e00bf3 #
      0xd5a79147 # 0x06ca6351 # 0x14292967 # ks) [0xa79a7840, 0x3bee5168, 0xf8894f8c,
      0xccbfba0b, 0xe3799ba3, 0x446f5dad, 0xed5c20f0, 0xf28e38dd, 0x855b4031, 0x1ca3e914,
      0xd2d024e6, 0x8c7f1a88, 0xb3e229d8, 0xb43523cb, 0xec7c4c8a, 0x3cfe815e] (0x7dddf8af,
      0xc74dac59, 0x939d97d0, 0xa310080b, 0x71493a36, 0xf26f644b, 0xb76efd51, 0xbcfcf8cc) =
     sha256_rounds ks [0x855b4031, 0x1ca3e914, 0xd2d024e6, 0x8c7f1a88, 0xb3e229d8, 0xb43523cb,
       0xec7c4c8a, 0x3cfe815e, 0xb77dae6a, 0xf44d61da, 0xc86ab768, 0xdace5477, 0x2a888b18,
       0x05bc56ea, 0xaac3fc4e, 0xef62d493] (0x1ad374b9, 0xc34fab80, 0xc5d3c3dd, 0x663bea1c,
       0xdb8fe7d0, 0x6a5131df, 0x4b049990, 0xcabff15d)"
  by (simp add: sha256_defs) (rule arg_cong2 [where f = "sha256_rounds ks"]; simp)

lemma block1_rounds32:
    "sha256_rounds (0x27b70a85 # 0x2e1b2138 # 0x4d2c6dfc # 0x53380d13 # 0x650a7354 #
      0x766a0abb # 0x81c2c92e # 0x92722c85 # ks) [0x855b4031, 0x1ca3e914, 0xd2d024e6,
      0x8c7f1a88, 0xb3e229d8, 0xb43523cb, 0xec7c4c8a, 0x3cfe815e, 0xb77dae6a, 0xf44d61da,
      0xc86ab768, 0xdace5477, 0x2a888b18, 0x05bc56ea, 0xaac3fc4e, 0xef62d493] (0x1ad374b9,
      0xc34fab80, 0xc5d3c3dd, 0x663bea1c, 0xdb8fe7d0, 0x6a5131df, 0x4b049990, 0xcabff15d) =
     sha256_rounds ks [0xb77dae6a, 0xf44d61da, 0xc86ab768, 0xdace5477, 0x2a888b18, 0x05bc56ea,
       0xaac3fc4e, 0xef62d493, 0xcd1510a9, 0xf4b503c5, 0x9e465244, 0x061cbcbc, 0x6607f174,
       0x4436ef12, 0xfe1e0172, 0x5ca9dc7b] (0xa88a34fd, 0xe354db36, 0x462642e9, 0x81fa2c11,
       0x3b1f6727, 0x1f1d28de, 0xa7f0b31d, 0xef30c945)"
  by (simp add: sha256_defs) (rule arg_cong2 [where f = "sha256_rounds ks"]; simp)

lemma block1_rounds40:
    "sha256_rounds (0xa2bfe8a1 # 0xa81a664b # 0xc24b8b70 # 0xc76c51a3 # 0xd192e819 #
      0xd6990624 # 0xf40e3585 # 0x106aa070 # ks) [0xb77dae6a, 0xf44d61da, 0xc86ab768,
      0xdace5477, 0x2a888b18, 0x05bc56ea, 0xaac3fc4e, 0xef62d493, 0xcd1510a9, 0xf4b503c5,
      0x9e465244, 0x061cbcbc, 0x6607f174, 0x4436ef12, 0xfe1e0172, 0x5ca9dc7b] (0xa88a34fd,
      0xe354db36, 0x462642e9, 0x81fa2c11, 0x3b1f6727, 0x1f1d28de, 0xa7f0b31d, 0xef30c945) =
     sha256_rounds ks [0xcd1510a9, 0xf4b503c5, 0x9e465244, 0x061cbcbc, 0x6607f174, 0x4436ef12,
       0xfe1e0172, 0x5ca9dc7b, 0x5ff2e566, 0xcd81556d, 0x5e812d77, 0xd8c08fe7, 0xe2c8d224,
       0xd131d278, 0x09f29cb5, 0x30aff434] (0xa01687f4, 0x11512a94, 0xd85ff2c4, 0x5cef50ae,
       0x9df561dd, 0x59dd86c8, 0x3f796ab2, 0xaab8ec9b)"
  by (simp add: sha256_defs) (rule arg_cong2 [where f = "sha256_rounds ks"]; simp)

lemma block1_rounds48:
    "sha256_rounds (0x19a4c116 # 0x1e376c08 # 0x2748774c # 0x34b0bcb5 # 0x391c0cb3 #
      0x4ed8aa4a # 0x5b9cca4f # 0x682e6ff3 # ks) [0xcd1510a9, 0xf4b503c5, 0x9e465244,
      0x061cbcbc, 0x6607f174, 0x4436ef12, 0xfe1e0172, 0x5ca9dc7b, 0x5ff2e566, 0xcd81556d,
      0x5e812d77, 0xd8c08fe7, 0xe2c8d224, 0xd131d278, 0x09f29cb5, 0x30aff434] (0xa01687f4,
      0x11512a94, 0xd85ff2c4, 0x5cef50ae, 0x9df561dd, 0x59dd86c8, 0x3f796ab2, 0xaab8ec9b) =
     sha256_rounds ks [0x5ff2e566, 0xcd81556d, 0x5e812d77, 0xd8c08fe7, 0xe2c8d224, 0xd131d278,
       0x09f29cb5, 0x30aff434, 0x8df376c8, 0x662c4878, 0xa485bd2e, 0xae622bee, 0x381f8cda,
       0x192de9e9, 0xf0f911b2, 0xb28566a6] (0xbf2bb077, 0x65f87594, 0x1343bd28, 0x2cfe8d7b,
       0x0bb24c95, 0x5f8e8c7d, 0x3621d62d, 0x819d42d4)"
  by (simp add: sha256_defs) (rule arg_cong2 [where f = "sha256_rounds ks"]; simp)

lemma block1_rounds56:
    "sha256_rounds (0x748f82ee # 0x78a5636f # 0x84c87814 # 0x8cc70208 # 0x90befffa #
      0xa4506ceb # 0xbef9a3f7 # 0xc67178f2 # ks) [0x5ff2e566, 0xcd81556d, 0x5e812d77,
      0xd8c08fe7, 0xe2c8d224, 0xd131d278, 0x09f29cb5, 0x30aff434, 0x8df376c8, 0x662c4878,
      0xa485bd2e, 0xae622bee, 0x381f8cda, 0x192de9e9, 0xf0f911b2, 0xb28566a6] (0xbf2bb077,
      0x65f87594, 0x1343bd28, 0x2cfe8d7b, 0x0bb24c95, 0x5f8e8c7d, 0x3621d62d, 0x819d42d4) =
     sha256_rounds ks [0x8df376c8, 0x662c4878, 0xa485bd2e, 0xae622bee, 0x381f8cda, 0x192de9e9,
       0xf0f911b2, 0xb28566a6, 0x0862a16c, 0x3fe3313a, 0x08cd5dcd, 0x70ab70d4, 0xa06e3fdc,
       0x64987599, 0x282f9055, 0xca90f9aa] (0x779df827, 0xd41a749b, 0xa5d89960, 0x96a8712a,
       0xe6ef6ff8, 0x734ea202, 0xe7f3bf92, 0xcb912435)"
  by (simp add: sha256_defs) (rule arg_cong2 [where f = "sha256_rounds ks"]; simp)

lemma block1:
    "sha256_block [0x636f6465, 0x666c6172, 0x652d7261, 0x79636c75, 0x73746572, 0x2d636f6e,
      0x74726f6c, 0x6c657274, 0x6573742d, 0x72617963, 0x6c757374, 0x65722d6f, 0x61757468,
      0x2d70726f, 0x78798000, 0x00000000] (0x6a09e667, 0xbb67ae85, 0x3c6ef372, 0xa54ff53a,
      0x510e527f, 0x9b05688c, 0x1f83d9ab, 0x5be0cd19) =
     (0xe1a7de8e, 0x8f822320, 0xe2478cd2, 0x3bf86664, 0x37fdc277, 0x0e540a8e, 0x0777993d,
       0x2771f14e)"
  by (simp only: sha256_block_def K256_def block1_rounds0 block1_rounds8 block1_rounds16 block1_rounds24 block1_rounds32 block1_rounds40 block1_rounds48 block1_rounds56 sha256_rounds.simps(1)) simp

lemma block2_rounds0:
    "sha256_rounds (0x428a2f98 # 0x71374491 # 0xb5c0fbcf # 0xe9b5dba5 # 0x3956c25b #
      0x59f111f1 # 0x923f82a4 # 0xab1c5ed5 # ks) [0x00000000, 0x00000000, 0x00000000,
      0x00000000, 0x00000000, 0x00000000, 0x00000000, 0x00000000, 0x00000000, 0x00000000,
      0x00000000, 0x00000000, 0x00000000, 0x00000000, 0x00000000, 0x000001d0] (0xe1a7de8e,
      0x8f822320, 0xe2478cd2, 0x3bf86664, 0x37fdc277, 0x0e540a8e, 0x0777993d, 0x2771f14e) =
     sha256_rounds ks [0x00000000, 0x00000000, 0x00000000, 0x00000000, 0x00000000, 0x00000000,
       0x00000000, 0x000001d0, 0x00000000, 0x00d20000, 0x00000000, 0x400034f3, 0x00000000,
       0x1cf7c80d, 0x000001d0, 0x1d001017] (0xc1e627a5, 0x922b5ca7, 0x6dc629d7, 0x56db63fe,
       0x355efdd0, 0xe58fa500, 0xb87d1faa, 0xd6905add)"
  by (simp add: sha256_defs) (rule arg_cong2 [where f = "sha256_rounds ks"]; simp)

lemma block2_rounds8:
    "sha256_rounds (0xd807aa98 # 0x12835b01 # 0x243185be # 0x550c7dc3 # 0x72be5d74 #
      0x80deb1fe # 0x9bdc06a7 # 0xc19bf174 # ks) [0x00000000, 0x00000000, 0x00000000,
      0x00000000, 0x00000000, 0x00000000, 0x00000000, 0x000001d0, 0x00000000, 0x00d20000,
      0x00000000, 0x400034f3, 0x00000000, 0x1cf7c80d, 0x000001d0, 0x1d001017] (0xc1e627a5,
      0x922b5ca7, 0x6dc629d7, 0x56db63fe, 0x355efdd0, 0xe58fa500, 0xb87d1faa, 0xd6905add) =
     sha256_rounds ks [0x00000000, 0x00d20000, 0x00000000, 0x400034f3, 0x00000000, 0x1cf7c80d,
       0x000001d0, 0x1d001017, 0x01a40000, 0x0a0e2d24, 0xc0009ed9, 0xd33407cd, 0x797fa034,
       0x832ba0cd, 0xe176fcc8, 0xa603bce8] (0xb68ba283, 0x8eb8a253, 0xcc6b8d77, 0xdac0e849,
       0x2604090f, 0x7c106e38, 0x9b47b681, 0x3b6b8925)"
  by (simp add: sha256_defs) (rule arg_cong2 [where f = "sha256_rounds ks"]; simp)

lemma block2_rounds16:
    "sha256_rounds (0xe49b69c1 # 0xefbe4786 # 0x0fc19dc6 # 0x240ca1cc # 0x2de92c6f #
      0x4a7484aa # 0x5cb0a9dc # 0x76f988da # ks) [0x00000000, 0x00d20000, 0x00000000,
      0x400034f3, 0x00000000, 0x1cf7c80d, 0x000001d0, 0x1d001017, 0x01a40000, 0x0a0e2d24,
      0xc0009ed9, 0xd33407cd, 0x797fa034, 0x832ba0cd, 0xe176fcc8, 0xa603bce8] (0xb68ba283,
      0x8eb8a253, 0xcc6b8d77, 0xdac0e849, 0x2604090f, 0x7c106e38, 0x9b47b681, 0x3b6b8925) =
     sha256_rounds ks [0x01a40000, 0x0a0e2d24, 0xc0009ed9, 0xd33407cd, 0x797fa034, 0x832ba0cd,
       0xe176fcc8, 0xa603bce8, 0x2bef4282, 0x6a936607, 0x000c8a1e, 0x9959d1e9, 0x431cb59e,
       0x71d26f01, 0x9c0fb2da, 0xc3a3fd4a] (0x7d1da4ec, 0xcdec4f1f, 0xb501a57e, 0xf5a6725b,
       0xcac7fad3, 0x9715c1c6, 0x0bda4f8f, 0xd3b142aa)"
  by (simp add: sha256_defs) (rule arg_cong2 [where f = "sha256_rounds ks"]; simp)

lemma block2_rounds24:
    "sha256_rounds (0x983e5152 # 0xa831c66d # 0xb00327c8 # 0xbf597fc7 # 0xc6e00bf3 #
      0xd5a79147 # 0x06ca6351 # 0x14292967 # ks) [0x01a40000, 0x0a0e2d24, 0xc0009ed9,
      0xd33407cd, 0x797fa034, 0x832ba0cd, 0xe176fcc8, 0xa603bce8, 0x2bef4282, 0x6a936607,
      0x000c8a1e, 0x9959d1e9, 0x431cb59e, 0x71d26f01, 0x9c0fb2da, 0xc3a3fd4a] (0x7d1da4ec,
      0xcdec4f1f, 0xb501a57e, 0xf5a6725b, 0xcac7fad3, 0x9715c1c6, 0x0bda4f8f, 0xd3b142aa) =
     sha256_rounds ks [0x2bef4282, 0x6a936607, 0x000c8a1e, 0x9959d1e9, 0x431cb59e, 0x71d26f01,
       0x9c0fb2da, 0xc3a3fd4a, 0x5d655fee, 0x178deb82, 0xddabc946, 0xeed57cd1, 0xec5f3259,
       0x63e2ddd3, 0x4f2e2fde, 0x0a3efe3e] (0xaebae552, 0x64f6f9dc, 0x95d81edc, 0xc1965bcb,
       0x452cb25c, 0x75f1645f, 0x277c74fb, 0xd08642ae)"
  by (simp add: sha256_defs) (rule arg_cong2 [where f = "sha256_rounds ks"]; simp)

lemma block2_rounds32:
    "sha256_rounds (0x27b70a85 # 0x2e1b2138 # 0x4d2c6dfc # 0x53380d13 # 0x650a7354 #
      0x766a0abb # 0x81c2c92e # 0x92722c85 # ks) [0x2bef4282, 0x6a936607, 0x000c8a1e,
      0x9959d1e9, 0x431cb59e, 0x71d26f01, 0x9c0fb2da, 0xc3a3fd4a, 0x5d655fee, 0x178deb82,
      0xddabc946, 0xeed57cd1, 0xec5f3259, 0x63e2ddd3, 0x4f2e2fde, 0x0a3efe3e] (0xaebae552,
      0x64f6f9dc, 0x95d81edc, 0xc1965bcb, 0x452cb25c, 0x75f1645f, 0x277c74fb, 0xd08642ae) =
     sha256_rounds ks [0x5d655fee, 0x178deb82, 0xddabc946, 0xeed57cd1, 0xec5f3259, 0x63e2ddd3,
       0x4f2e2fde, 0x0a3efe3e, 0xef8ae4a5, 0x079f8388, 0xd2439f44, 0xd0f0283d, 0xfa97ac49,
       0x1c3d5b88, 0x3c83a1c5, 0x3acedad9] (0x514482f5, 0x595c30ac, 0x99558fd1, 0xd8c948de,
       0xa109a52d, 0x21d75543, 0xfc19c111, 0xdbe64434)"
  by (simp add: sha256_defs) (rule arg_cong2 [where f = "sha256_rounds ks"]; simp)

lemma block2_rounds40:
    "sha256_rounds (0xa2bfe8a1 # 0xa81a664b # 0xc24b8b70 # 0xc76c51a3 # 0xd192e819 #
      0xd6990624 # 0xf40e3585 # 0x106aa070 # ks) [0x5d655fee, 0x178deb82, 0xddabc946,
      0xeed57cd1, 0xec5f3259, 0x63e2ddd3, 0x4f2e2fde, 0x0a3efe3e, 0xef8ae4a5, 0x079f8388,
      0xd2439f44, 0xd0f0283d, 0xfa97ac49, 0x1c3d5b88, 0x3c83a1c5, 0x3acedad9] (0x514482f5,
      0x595c30ac, 0x99558fd1, 0xd8c948de, 0xa109a52d, 0x21d75543, 0xfc19c111, 0xdbe64434) =
     sha256_rounds ks [0xef8ae4a5, 0x079f8388, 0xd2439f44, 0xd0f0283d, 0xfa97ac49, 0x1c3d5b88,
       0x3c83a1c5, 0x3acedad9, 0x86181ff3, 0x046a2e1e, 0x9bf5a621, 0x9f002485, 0x8e5dd8c7,
       0xf5e84670, 0xa431ccfe, 0xab296f48] (0x0a3e6412, 0x8dc6f254, 0x3d97b3d6, 0x4ecc82a5,
       0xf9524067, 0x04ce760a, 0xc979d0be, 0xfba77640)"
  by (simp add: sha256_defs) (rule arg_cong2 [where f = "sha256_rounds ks"]; simp)

lemma block2_rounds48:
    "sha256_rounds (0x19a4c116 # 0x1e376c08 # 0x2748774c # 0x34b0bcb5 # 0x391c0cb3 #
      0x4ed8aa4a # 0x5b9cca4f # 0x682e6ff3 # ks) [0xef8ae4a5, 0x079f8388, 0xd2439f44,
      0xd0f0283d, 0xfa97ac49, 0x1c3d5b88, 0x3c83a1c5, 0x3acedad9, 0x86181ff3, 0x046a2e1e,
      0x9bf5a621, 0x9f002485, 0x8e5dd8c7, 0xf5e84670, 0xa431ccfe, 0xab296f48] (0x0a3e6412,
      0x8dc6f254, 0x3d97b3d6, 0x4ecc82a5, 0xf9524067, 0x04ce760a, 0xc979d0be, 0xfba77640) =
     sha256_rounds ks [0x86181ff3, 0x046a2e1e, 0x9bf5a621, 0x9f002485, 0x8e5dd8c7, 0xf5e84670,
       0xa431ccfe, 0xab296f48, 0xc3dd6c41, 0xb23a7499, 0xf88c8402, 0x3bf7073f, 0x089cc9f8,
       0x897dec25, 0xe9083bd9, 0x3a94444b] (0xe7608899, 0x4afc3ce6, 0x1290beb3, 0x4a442d81,
       0x2910c053, 0x89508998, 0xf1499c85, 0xf2039d89)"
  by (simp add: sha256_defs) (rule arg_cong2 [where f = "sha256_rounds ks"]; simp)

lemma block2_rounds56:
    "sha256_rounds (0x748f82ee # 0x78a5636f # 0x84c87814 # 0x8cc70208 # 0x90befffa #
      0xa4506ceb # 0xbef9a3f7 # 0xc67178f2 # ks) [0x86181ff3, 0x046a2e1e, 0x9bf5a621,
      0x9f002485, 0x8e5dd8c7, 0xf5e84670, 0xa431ccfe, 0xab296f48, 0xc3dd6c41, 0xb23a7499,
      0xf88c8402, 0x3bf7073f, 0x089cc9f8, 0x897dec25, 0xe9083bd9, 0x3a94444b] (0xe7608899,
      0x4afc3ce6, 0x1290beb3, 0x4a442d81, 0x2910c053, 0x89508998, 0xf1499c85, 0xf2039d89) =
     sha256_rounds ks [0xc3dd6c41, 0xb23a7499, 0xf88c8402, 0x3bf7073f, 0x089cc9f8, 0x897dec25,
       0xe9083bd9, 0x3a94444b, 0x0a0230bc, 0xe15a4a9e, 0x48371546, 0xfca8cbcf, 0x6ec08afc,
       0xf683a146, 0x12e171e0, 0x1ace0d24] (0x0b081bd4, 0x2016ab2c, 0xb44c46af, 0xa5811dbf,
       0xd8e7b255, 0xbad28cf5, 0x2fb4050f, 0xc97679cb)"
  by (simp add: sha256_defs) (rule arg_cong2 [where f = "sha256_rounds ks"]; simp)

lemma block2:
    "sha256_block [0x00000000, 0x00000000, 0x00000000, 0x00000000, 0x00000000, 0x00000000,
      0x00000000, 0x00000000, 0x00000000, 0x00000000, 0x00000000, 0x00000000, 0x00000000,
      0x00000000, 0x00000000, 0x000001d0] (0xe1a7de8e, 0x8f822320, 0xe2478cd2, 0x3bf86664,
      0x37fdc277, 0x0e540a8e, 0x0777993d, 0x2771f14e) =
     (0xecaffa62, 0xaf98ce4c, 0x9693d381, 0xe1798423, 0x10e574cc, 0xc9269783, 0x372b9e4c,
       0xf0e86b19)"
  by (simp only: sha256_block_def K256_def block2_rounds0 block2_rounds8 block2_rounds16 block2_rounds24 block2_rounds32 block2_rounds40 block2_rounds48 block2_rounds56 sha256_rounds.simps(1)) simp

definition test_message :: string where
  "test_message = controllerName @ ''test-raycluster-oauth-proxy''"

lemma test_words:
    "parse_words (pad (bytes test_message)) = [0x636f6465, 0x666c6172, 0x652d7261, 0x79636c75,
      0x73746572, 0x2d636f6e, 0x74726f6c, 0x6c657274, 0x6573742d, 0x72617963, 0x6c757374,
      0x65722d6f, 0x61757468, 0x2d70726f, 0x78798000, 0x00000000, 0x00000000, 0x00000000,
      0x00000000, 0x00000000, 0x00000000, 0x00000000, 0x00000000, 0x00000000, 0x00000000,
      0x00000000, 0x00000000, 0x00000000, 0x00000000, 0x00000000, 0x00000000, 0x000001d0]"
  by code_simp

lemma test_digest:
    "digest_blocks sha256_block (parse_words (pad (bytes test_message))) sha256_init =
      (0xecaffa62, 0xaf98ce4c, 0x9693d381, 0xe1798423, 0x10e574cc, 0xc9269783, 0x372b9e4c,
      0xf0e86b19)"
  unfolding test_words sha256_init_def
  by (subst digest_blocks.simps, subst digest_blocks.simps, subst digest_blocks.simps)
    (simp add: block1 block2)

text \<open>
  The service account of the cluster of the webhook tests gets the name those tests expect.
\<close>

theorem test_vector:
  "oauthServiceAccountNameFromCluster (hashed_cluster ''test-raycluster'' ''test-namespace'') =
     ''test-raycluster-oauth-proxy-ecaffa62''"
proof -
  have "hex (sha256_output (0xecaffa62, 0xaf98ce4c, 0x9693d381, 0xe1798423, 0x10e574cc, 0xc9269783, 0x372b9e4c, 0xf0e86b19)) =
      ''ecaffa62af98ce4c9693d381e179842310e574ccc9269783372b9e4cf0e86b19''"
    by code_simp
  then have "seededHash controllerName ''test-raycluster-oauth-proxy'' = ''ecaffa62''"
    by (simp add: seededHash_def Sum256_def hashLength_def test_digest [unfolded test_message_def])
  then show ?thesis
    by (simp add: oauthServiceAccountNameFromCluster_def RCCUniqueName_def)
qed

end
