(* ===== verification/Api.thy ===== *)
theory Api
  imports Desired
begin

text \<open>
  The outside world of the reconciler. A Go function that talks to the API server (or to the clock and
  the cryptographic random source) is a program tree: each node is one call with its arguments and a
  continuation that takes the response. The server itself is no part of the model: a response can be
  anything of its type, so a statement about all runs of a program holds for every server, every
  failure and every interference of other clients between two calls. \<open>runs p tr out\<close> says that \<open>p\<close> can
  make exactly the calls of the trace \<open>tr\<close>, with the responses recorded there, and end with \<open>out\<close>.
\<close>

subsection \<open>Objects read from the server\<close>

record Secret =
  sec_Data :: "string \<rightharpoonup> byte list"

record ServiceAccount =
  sac_ImagePullSecrets :: "string list"

record Pod =
  pod_Name :: string
  pod_Namespace :: string
  pod_ImagePullSecrets :: "string list"

record DSCInitialization =
  dsci_ApplicationsNamespace :: string

datatype DeletionPropagation = DeletePropagationForeground | DeletePropagationDefault

record ApplyOptions =
  FieldManager :: string
  Force :: bool

subsection \<open>Cryptography\<close>

text \<open>
  A point in time by its calendar date and the time of day in nanoseconds; a private key by its PKCS 1
  encoding; the fields of \<^verbatim>\<open>x509.Certificate\<close> the operator sets.
\<close>

record Time =
  t_Year :: int
  t_Month :: nat
  t_Day :: nat
  t_Nanos :: nat

record PrivateKey =
  pk_PKCS1 :: "byte list"

record Certificate =
  cert_SerialNumber :: int
  cert_Subject :: string
  cert_Issuer :: string
  cert_NotBefore :: Time
  cert_NotAfter :: Time
  cert_IsCA :: bool
  cert_ExtKeyUsage :: "string list"
  cert_KeyUsage :: u32
  cert_BasicConstraintsValid :: bool

subsection \<open>Programs\<close>

datatype 'a prog =
    Ret 'a
  | Panic go_panic
  | GetRayCluster "string \<times> string" "error + RayCluster \<Rightarrow> 'a prog"
  | UpdateRayCluster RayCluster "error + RayCluster \<Rightarrow> 'a prog"
  | DeleteClusterRoleBinding DeletionPropagation string "error option \<Rightarrow> 'a prog"
  | GetSecret string string "error + Secret \<Rightarrow> 'a prog"
  | ApplyObject ApplyOptions "string option" ApplyConfig "error option \<Rightarrow> 'a prog"
  | GetServiceAccount string string "error + ServiceAccount \<Rightarrow> 'a prog"
  | ListPods string string "error + Pod list \<Rightarrow> 'a prog"
  | DeletePod string string "error option \<Rightarrow> 'a prog"
  | GetDSCInitialization string "error + DSCInitialization \<Rightarrow> 'a prog"
  | RandInt63 "int \<Rightarrow> 'a prog"
  | Now "Time \<Rightarrow> 'a prog"
  | GenerateKey nat "error + PrivateKey \<Rightarrow> 'a prog"
  | CreateCertificate Certificate PrivateKey "error + byte list \<Rightarrow> 'a prog"

primrec bind :: "'a prog \<Rightarrow> ('a \<Rightarrow> 'b prog) \<Rightarrow> 'b prog" where
  "bind (Ret x) f = f x"
| "bind (Panic e) f = Panic e"
| "bind (GetRayCluster a k) f = GetRayCluster a (\<lambda>r. bind (k r) f)"
| "bind (UpdateRayCluster a k) f = UpdateRayCluster a (\<lambda>r. bind (k r) f)"
| "bind (DeleteClusterRoleBinding a b k) f = DeleteClusterRoleBinding a b (\<lambda>r. bind (k r) f)"
| "bind (GetSecret a b k) f = GetSecret a b (\<lambda>r. bind (k r) f)"
| "bind (ApplyObject a b c k) f = ApplyObject a b c (\<lambda>r. bind (k r) f)"
| "bind (GetServiceAccount a b k) f = GetServiceAccount a b (\<lambda>r. bind (k r) f)"
| "bind (ListPods a b k) f = ListPods a b (\<lambda>r. bind (k r) f)"
| "bind (DeletePod a b k) f = DeletePod a b (\<lambda>r. bind (k r) f)"
| "bind (GetDSCInitialization a k) f = GetDSCInitialization a (\<lambda>r. bind (k r) f)"
| "bind (RandInt63 k) f = RandInt63 (\<lambda>r. bind (k r) f)"
| "bind (Now k) f = Now (\<lambda>r. bind (k r) f)"
| "bind (GenerateKey a k) f = GenerateKey a (\<lambda>r. bind (k r) f)"
| "bind (CreateCertificate a b k) f = CreateCertificate a b (\<lambda>r. bind (k r) f)"

text \<open>A recorded call with its response.\<close>

datatype event =
    EGetRayCluster "string \<times> string" "error + RayCluster"
  | EUpdateRayCluster RayCluster "error + RayCluster"
  | EDeleteClusterRoleBinding DeletionPropagation string "error option"
  | EGetSecret string string "error + Secret"
  | EApplyObject ApplyOptions "string option" ApplyConfig "error option"
  | EGetServiceAccount string string "error + ServiceAccount"
  | EListPods string string "error + Pod list"
  | EDeletePod string string "error option"
  | EGetDSCInitialization string "error + DSCInitialization"
  | ERandInt63 int
  | ENow Time
  | EGenerateKey nat "error + PrivateKey"
  | ECreateCertificate Certificate PrivateKey "error + byte list"

datatype 'a outcome = Returned 'a | Panicked go_panic

inductive runs :: "'a prog \<Rightarrow> event list \<Rightarrow> 'a outcome \<Rightarrow> bool" where
  runs_Ret: "runs (Ret x) [] (Returned x)"
| runs_Panic: "runs (Panic e) [] (Panicked e)"
| runs_GetRayCluster:
    "runs (k r) tr out \<Longrightarrow> runs (GetRayCluster a k) (EGetRayCluster a r # tr) out"
| runs_UpdateRayCluster:
    "runs (k r) tr out \<Longrightarrow> runs (UpdateRayCluster a k) (EUpdateRayCluster a r # tr) out"
| runs_DeleteClusterRoleBinding:
    "runs (k r) tr out \<Longrightarrow> runs (DeleteClusterRoleBinding a b k) (EDeleteClusterRoleBinding a b r # tr) out"
| runs_GetSecret:
    "runs (k r) tr out \<Longrightarrow> runs (GetSecret a b k) (EGetSecret a b r # tr) out"
| runs_ApplyObject:
    "runs (k r) tr out \<Longrightarrow> runs (ApplyObject a b c k) (EApplyObject a b c r # tr) out"
| runs_GetServiceAccount:
    "runs (k r) tr out \<Longrightarrow> runs (GetServiceAccount a b k) (EGetServiceAccount a b r # tr) out"
| runs_ListPods:
    "runs (k r) tr out \<Longrightarrow> runs (ListPods a b k) (EListPods a b r # tr) out"
| runs_DeletePod:
    "runs (k r) tr out \<Longrightarrow> runs (DeletePod a b k) (EDeletePod a b r # tr) out"
| runs_GetDSCInitialization:
    "runs (k r) tr out \<Longrightarrow> runs (GetDSCInitialization a k) (EGetDSCInitialization a r # tr) out"
| runs_RandInt63:
    "runs (k r) tr out \<Longrightarrow> runs (RandInt63 k) (ERandInt63 r # tr) out"
| runs_Now:
    "runs (k r) tr out \<Longrightarrow> runs (Now k) (ENow r # tr) out"
| runs_GenerateKey:
    "runs (k r) tr out \<Longrightarrow> runs (GenerateKey a k) (EGenerateKey a r # tr) out"
| runs_CreateCertificate:
    "runs (k r) tr out \<Longrightarrow> runs (CreateCertificate a b k) (ECreateCertificate a b r # tr) out"

inductive_simps runs_simps [simp]:
  "runs (Ret x) tr out"
  "runs (Panic e) tr out"
  "runs (GetRayCluster a k) tr out"
  "runs (UpdateRayCluster a k) tr out"
  "runs (DeleteClusterRoleBinding a b k) tr out"
  "runs (GetSecret a b k) tr out"
  "runs (ApplyObject a b c k) tr out"
  "runs (GetServiceAccount a b k) tr out"
  "runs (ListPods a b k) tr out"
  "runs (DeletePod a b k) tr out"
  "runs (GetDSCInitialization a k) tr out"
  "runs (RandInt63 k) tr out"
  "runs (Now k) tr out"
  "runs (GenerateKey a k) tr out"
  "runs (CreateCertificate a b k) tr out"

text \<open>Case distinction on a response.\<close>

lemmas response_cases = split_sum_ex split_option_ex split_paired_Ex

lemma bind_assoc: "bind (bind p f) g = bind p (\<lambda>x. bind (f x) g)"
  by (induction p) auto

lemma bind_Ret [simp]: "bind p Ret = p"
  by (induction p) auto

text \<open>Runs of a sequence: the first part panics, or returns and the second part continues.\<close>

lemma runs_bind:
  "runs (bind p f) tr out \<longleftrightarrow>
     (\<exists>e. runs p tr (Panicked e) \<and> out = Panicked e) \<or>
     (\<exists>x tr1 tr2. runs p tr1 (Returned x) \<and> runs (f x) tr2 out \<and> tr = tr1 @ tr2)"
proof
  assume "runs (bind p f) tr out"
  then show "(\<exists>e. runs p tr (Panicked e) \<and> out = Panicked e) \<or>
     (\<exists>x tr1 tr2. runs p tr1 (Returned x) \<and> runs (f x) tr2 out \<and> tr = tr1 @ tr2)"
  proof (induction p arbitrary: tr)
    case (Ret x)
    then show ?case by auto
  next
    case (Panic e)
    then show ?case by auto
  qed (clarsimp; metis append_Cons rangeI)+
next
  have "runs p tr1 (Returned x) \<Longrightarrow> runs (f x) tr2 out \<Longrightarrow> runs (bind p f) (tr1 @ tr2) out"
    for x tr1 tr2
    by (induction p arbitrary: tr1) auto
  moreover have "runs p tr (Panicked e) \<Longrightarrow> runs (bind p f) tr (Panicked e)" for e
    by (induction p arbitrary: tr) auto
  ultimately show "(\<exists>e. runs p tr (Panicked e) \<and> out = Panicked e) \<or>
     (\<exists>x tr1 tr2. runs p tr1 (Returned x) \<and> runs (f x) tr2 out \<and> tr = tr1 @ tr2) \<Longrightarrow>
     runs (bind p f) tr out" by blast
qed

text \<open>Every program can run to its end: there is a response of every type.\<close>

lemma runs_total: "\<exists>tr out. runs p tr out"
  by (induction p) (simp; metis rangeI)+

end
