(* ===== verification/Certificates.thy ===== *)
theory Certificates
  imports Api
begin

text \<open>
  \<^verbatim>\<open>generateCACertificate\<close> of \<^verbatim>\<open>raycluster_controller.go\<close>: a self-signed CA certificate, valid for one
  year, and its RSA key, both PEM encoded. The random serial, the clock, RSA key generation and the
  signing of the certificate are calls of the program; the template and the encoding are computed.
\<close>

text \<open>\<^verbatim>\<open>t.AddDate(1, 0, 0)\<close>: the 29th of February, which the next year lacks, becomes the 1st of March.\<close>

definition addYear :: "Time \<Rightarrow> Time" where
  "addYear t =
     (if t_Month t = 2 \<and> t_Day t = 29
      then t\<lparr>t_Year := t_Year t + 1, t_Month := 3, t_Day := 1\<rparr>
      else t\<lparr>t_Year := t_Year t + 1\<rparr>)"

definition KeyUsageDigitalSignature :: u32 where
  "KeyUsageDigitalSignature = push_bit 0 1"

definition KeyUsageCertSign :: u32 where
  "KeyUsageCertSign = push_bit 5 1"

definition caTemplate :: "int \<Rightarrow> Time \<Rightarrow> Time \<Rightarrow> Certificate" where
  "caTemplate serialNumber notBefore now2 =
     \<lparr>cert_SerialNumber = serialNumber,
      cert_Subject = ''root-ca'',
      cert_Issuer = ''root-ca'',
      cert_NotBefore = notBefore,
      cert_NotAfter = addYear now2,
      cert_IsCA = True,
      cert_ExtKeyUsage = [''ExtKeyUsageClientAuth'', ''ExtKeyUsageServerAuth''],
      cert_KeyUsage = or KeyUsageDigitalSignature KeyUsageCertSign,
      cert_BasicConstraintsValid = True\<rparr>"

definition generateCACertificate :: "(error + byte list \<times> byte list) prog" where
  "generateCACertificate =
     RandInt63 (\<lambda>serialNumber.
     Now (\<lambda>notBefore.
     Now (\<lambda>now2.
     GenerateKey 2048 (\<lambda>res.
       case res of
         Inl err \<Rightarrow> Ret (Inl err)
       | Inr certPrivateKey \<Rightarrow>
           let privateKeyPem = pem_EncodeToMemory ''RSA PRIVATE KEY'' (pk_PKCS1 certPrivateKey)
           in CreateCertificate (caTemplate serialNumber notBefore now2) certPrivateKey (\<lambda>res.
                case res of
                  Inl err \<Rightarrow> Ret (Inl err)
                | Inr certBytes \<Rightarrow>
                    Ret (Inr (privateKeyPem, pem_EncodeToMemory ''CERTIFICATE'' certBytes)))))))"

lemma runs_generateCACertificate:
  "runs generateCACertificate tr out \<longleftrightarrow>
     (\<exists>n t1 t2 e. tr = [ERandInt63 n, ENow t1, ENow t2, EGenerateKey 2048 (Inl e)] \<and>
                  out = Returned (Inl e)) \<or>
     (\<exists>n t1 t2 k e. tr = [ERandInt63 n, ENow t1, ENow t2, EGenerateKey 2048 (Inr k),
                         ECreateCertificate (caTemplate n t1 t2) k (Inl e)] \<and>
                  out = Returned (Inl e)) \<or>
     (\<exists>n t1 t2 k c. tr = [ERandInt63 n, ENow t1, ENow t2, EGenerateKey 2048 (Inr k),
                         ECreateCertificate (caTemplate n t1 t2) k (Inr c)] \<and>
                  out = Returned (Inr (pem_EncodeToMemory ''RSA PRIVATE KEY'' (pk_PKCS1 k),
                                       pem_EncodeToMemory ''CERTIFICATE'' c)))"
  by (simp add: generateCACertificate_def Let_def response_cases) blast

end
