(* ===== verification/Reconciler.thy ===== *)
theory Reconciler
  imports Certificates
begin

text \<open>
  The reconcile loop body of \<^verbatim>\<open>raycluster_controller.go\<close>. Each block of \<^verbatim>\<open>Reconcile\<close> is a program that
  either makes it return early (\<open>Inl\<close>) or lets it go on (\<open>Inr\<close>); \<open>Reconcile\<close> is their sequence in the
  code's order. Logging is left out.
\<close>

subsection \<open>Types and constants\<close>

text \<open>\<^verbatim>\<open>ctrl.Result\<close>; a duration is a number of nanoseconds.\<close>

record Result =
  Requeue :: bool
  RequeueAfter :: int

type_synonym outcome_pair = "Result \<times> error option"

record RayClusterReconciler =
  CookieSalt :: string
  rec_Config :: "KubeRayConfiguration option"
  IsOpenShift :: bool

definition requeueTime :: int where
  "requeueTime = 10"

abbreviation deletePolicy :: DeletionPropagation where
  "deletePolicy \<equiv> DeletePropagationForeground"

definition emptyResult :: Result where
  "emptyResult = \<lparr>Requeue = False, RequeueAfter = 0\<rparr>"

definition failWith :: "error \<Rightarrow> outcome_pair" where
  "failWith err = (\<lparr>Requeue = False, RequeueAfter = requeueTime\<rparr>, Some err)"

definition finished :: outcome_pair where
  "finished = (emptyResult, None)"

definition applyOptions :: ApplyOptions where
  "applyOptions = \<lparr>FieldManager = controllerName, Force = True\<rparr>"

definition kubeRayDefaultNamespace :: string where
  "kubeRayDefaultNamespace = ''ray-system''"

definition defaultDSCINamespace :: string where
  "defaultDSCINamespace = ''default-dsci''"

definition odhNamespace :: string where
  "odhNamespace = ''opendatahub''"

definition rhdsAppsNamespace :: string where
  "rhdsAppsNamespace = ''redhat-ods-applications''"

definition isRayClusterSuspended :: "RayCluster \<Rightarrow> bool" where
  "isRayClusterSuspended cluster \<longleftrightarrow> rc_Suspend cluster \<noteq> None \<and> Deref (rc_Suspend cluster) False"

subsection \<open>Helpers\<close>

text \<open>Continue unless the block has returned from \<^verbatim>\<open>Reconcile\<close>.\<close>

definition and_then :: "('r + 'a) prog \<Rightarrow> ('a \<Rightarrow> ('r + 'b) prog) \<Rightarrow> ('r + 'b) prog" where
  "and_then p k = bind p (\<lambda>x. case x of Inl r \<Rightarrow> Ret (Inl r) | Inr a \<Rightarrow> k a)"

text \<open>\<^verbatim>\<open>_, err = ...Apply(...); if err != nil { return ctrl.Result{RequeueAfter: requeueTime}, err }\<close>.\<close>

definition applyOrFail ::
    "string option \<Rightarrow> ApplyConfig \<Rightarrow> (outcome_pair + 'a) prog \<Rightarrow> (outcome_pair + 'a) prog" where
  "applyOrFail ns obj k =
     ApplyObject applyOptions ns obj (\<lambda>res.
       case res of Some err \<Rightarrow> Ret (Inl (failWith err)) | None \<Rightarrow> k)"

definition headPodSelector :: "RayCluster \<Rightarrow> string" where
  "headPodSelector cluster = ''ray.io/node-type=head,ray.io/cluster='' @ Name cluster"

definition getHeadPod :: "RayCluster \<Rightarrow> (error + Pod option) prog" where
  "getHeadPod cluster =
     ListPods (Namespace cluster) (headPodSelector cluster) (\<lambda>res.
       case res of
         Inl err \<Rightarrow> Ret (Inl err)
       | Inr items \<Rightarrow> Ret (Inr (case items of [] \<Rightarrow> None | pod # _ \<Rightarrow> Some pod)))"

text \<open>The secrets of the service account that the pod lacks; the Go map is a list used as a set.\<close>

definition missingSecrets :: "ServiceAccount \<Rightarrow> Pod \<Rightarrow> string list" where
  "missingSecrets sa pod =
     fold removeAll (pod_ImagePullSecrets pod) (fold List.insert (sac_ImagePullSecrets sa) [])"

definition deleteHeadPodIfMissingImagePullSecrets :: "RayCluster \<Rightarrow> error option prog" where
  "deleteHeadPodIfMissingImagePullSecrets cluster =
     GetServiceAccount (Namespace cluster) (oauthServiceAccountNameFromCluster cluster) (\<lambda>res.
       case res of
         Inl err \<Rightarrow> Ret (Some (Wrapped ''failed to get OAuth ServiceAccount: '' err))
       | Inr serviceAccount \<Rightarrow>
           bind (getHeadPod cluster) (\<lambda>res.
             case res of
               Inl err \<Rightarrow> Ret (Some (Wrapped ''failed to get head pod: '' err))
             | Inr None \<Rightarrow> Ret None
             | Inr (Some headPod) \<Rightarrow>
                 if missingSecrets serviceAccount headPod \<noteq> [] then
                   DeletePod (pod_Namespace headPod) (pod_Name headPod) (\<lambda>res.
                     case res of
                       Some err \<Rightarrow> Ret (Some (Wrapped ''failed to delete head pod: '' err))
                     | None \<Rightarrow> Ret None)
                 else Ret None))"

text \<open>The error case also returns the default namespace, which the caller ignores.\<close>

definition getKubeRayOperatorNamespace :: "(error + string) prog" where
  "getKubeRayOperatorNamespace =
     ListPods [] ''app.kubernetes.io/component=kuberay-operator'' (\<lambda>res.
       case res of
         Inl err \<Rightarrow> Ret (Inl err)
       | Inr [] \<Rightarrow> Ret (Inr kubeRayDefaultNamespace)
       | Inr (pod # _) \<Rightarrow> Ret (Inr (pod_Namespace pod)))"

subsection \<open>The blocks of Reconcile\<close>

text \<open>Finalizer handling and the deletion path.\<close>

definition reconcileFinalizer :: "RayCluster \<Rightarrow> (outcome_pair + RayCluster) prog" where
  "reconcileFinalizer cluster =
     (if IsZero (om_DeletionTimestamp (rc_Meta cluster)) then
        if \<not> ContainsFinalizer cluster oAuthFinalizer then
          UpdateRayCluster (AddFinalizer oAuthFinalizer cluster) (\<lambda>res.
            case res of
              Inl err \<Rightarrow> Ret (Inl (failWith err))
            | Inr cluster' \<Rightarrow> Ret (Inr cluster'))
        else Ret (Inr cluster)
      else if ContainsFinalizer cluster oAuthFinalizer then
        DeleteClusterRoleBinding deletePolicy (crbNameFromCluster cluster) (\<lambda>res.
          case Option.bind res IgnoreNotFound of
            Some err \<Rightarrow> Ret (Inl (failWith err))
          | None \<Rightarrow>
              UpdateRayCluster (RemoveFinalizer oAuthFinalizer cluster) (\<lambda>res.
                case res of
                  Inl err \<Rightarrow> Ret (Inl (failWith err))
                | Inr _ \<Rightarrow> Ret (Inl finished)))
      else Ret (Inr cluster))"

text \<open>A missing key of the secret's data reads as an empty byte slice.\<close>

definition dataOf :: "Secret \<Rightarrow> string \<Rightarrow> byte list" where
  "dataOf secret key = (case sec_Data secret key of Some bs \<Rightarrow> bs | None \<Rightarrow> [])"

definition reconcileCASecret :: "RayClusterReconciler \<Rightarrow> RayCluster \<Rightarrow> (outcome_pair + unit) prog" where
  "reconcileCASecret r cluster =
     (if isMTLSEnabled (rec_Config r) then
        GetSecret (Namespace cluster) (caSecretNameFromCluster cluster) (\<lambda>res.
          case res of
            Inl err \<Rightarrow>
              if IsNotFound err then
                bind generateCACertificate (\<lambda>res.
                  case res of
                    Inl err \<Rightarrow> Ret (Inl (failWith err))
                  | Inr (key, cert) \<Rightarrow>
                      applyOrFail (Some (Namespace cluster))
                        (ASecret (desiredCASecret cluster key cert)) (Ret (Inr ())))
              else Ret (Inl (failWith err))
          | Inr caSecret \<Rightarrow>
              applyOrFail (Some (Namespace cluster))
                (ASecret (desiredCASecret cluster (dataOf caSecret CAPrivateKeyKey)
                   (dataOf caSecret CACertKey))) (Ret (Inr ())))
      else Ret (Inr ()))"

definition reconcileOAuth :: "RayClusterReconciler \<Rightarrow> RayCluster \<Rightarrow> (outcome_pair + unit) prog" where
  "reconcileOAuth r cluster =
     (let ns = Some (Namespace cluster) in
      applyOrFail ns (ARoute (desiredClusterRoute cluster)) (
      applyOrFail ns (ASecret (desiredOAuthSecret cluster (CookieSalt r))) (
      applyOrFail ns (AService (desiredOAuthService cluster)) (
      applyOrFail ns (AServiceAccount (desiredServiceAccount cluster)) (
      and_then
        (if ps_ImagePullSecrets (head_pod cluster) = [] then
           bind (deleteHeadPodIfMissingImagePullSecrets cluster) (\<lambda>err.
             case err of Some e \<Rightarrow> Ret (Inl (failWith e)) | None \<Rightarrow> Ret (Inr ()))
         else Ret (Inr ())) (\<lambda>_.
      applyOrFail None (AClusterRoleBinding (desiredOAuthClusterRoleBinding cluster)) (
      applyOrFail ns (ARoute (desiredRayClientRoute cluster)) (Ret (Inr ())))))))))"

definition reconcileIngress :: "RayClusterReconciler \<Rightarrow> RayCluster \<Rightarrow> (outcome_pair + unit) prog" where
  "reconcileIngress r cluster =
     (let ns = Some (Namespace cluster) in
      case getIngressHost (rec_Config r) cluster (dashboardNameFromCluster cluster) of
        Inl err \<Rightarrow> Ret (Inl (failWith err))
      | Inr dashboardIngressHost \<Rightarrow>
          applyOrFail ns (AIngress (desiredClusterIngress cluster dashboardIngressHost)) (
          case getIngressHost (rec_Config r) cluster (rayClientNameFromCluster cluster) of
            Inl err \<Rightarrow> Ret (Inl (failWith err))
          | Inr rayClientIngressHost \<Rightarrow>
              applyOrFail ns (AIngress (desiredRayClientIngress cluster rayClientIngressHost))
                (Ret (Inr ()))))"

definition reconcileExposure :: "RayClusterReconciler \<Rightarrow> RayCluster \<Rightarrow> (outcome_pair + unit) prog" where
  "reconcileExposure r cluster =
     (if \<not> isRayClusterSuspended cluster \<and> isRayDashboardOAuthEnabled (rec_Config r) \<and> IsOpenShift r
      then reconcileOAuth r cluster
      else if \<not> isRayClusterSuspended cluster \<and> \<not> isRayDashboardOAuthEnabled (rec_Config r)
              \<and> \<not> IsOpenShift r
      then reconcileIngress r cluster
      else Ret (Inr ()))"

text \<open>The namespaces whose KubeRay operator may reach the head pod.\<close>

definition kubeRayNamespaces :: "RayClusterReconciler \<Rightarrow> (outcome_pair + string list) prog" where
  "kubeRayNamespaces r =
     bind getKubeRayOperatorNamespace (\<lambda>res.
       case res of
         Inl err \<Rightarrow> Ret (Inl (failWith err))
       | Inr kubeRayNamespace \<Rightarrow>
           if IsOpenShift r then
             GetDSCInitialization defaultDSCINamespace (\<lambda>res.
               case res of
                 Inl err \<Rightarrow>
                   if IsNotFound err then Ret (Inr [odhNamespace, rhdsAppsNamespace])
                   else Ret (Inl (emptyResult, Some err))
               | Inr dsci \<Rightarrow> Ret (Inr [dsci_ApplicationsNamespace dsci]))
           else Ret (Inr [kubeRayNamespace]))"

text \<open>An error of either Apply is logged and dropped.\<close>

definition reconcileNetworkPolicies ::
    "RayClusterReconciler \<Rightarrow> RayCluster \<Rightarrow> string list \<Rightarrow> (outcome_pair + unit) prog" where
  "reconcileNetworkPolicies r cluster nss =
     (case desiredHeadNetworkPolicy cluster (rec_Config r) nss of
        Panics e \<Rightarrow> Panic e
      | Ok headPolicy \<Rightarrow>
          ApplyObject applyOptions (Some (Namespace cluster)) (ANetworkPolicy headPolicy) (\<lambda>_.
          ApplyObject applyOptions (Some (Namespace cluster))
            (ANetworkPolicy (desiredWorkersNetworkPolicy cluster)) (\<lambda>_.
          Ret (Inr ()))))"

subsection \<open>Reconcile\<close>

definition reconcileCluster :: "RayClusterReconciler \<Rightarrow> RayCluster \<Rightarrow> (outcome_pair + unit) prog" where
  "reconcileCluster r cluster =
     and_then (reconcileFinalizer cluster) (\<lambda>cluster.
     and_then (reconcileCASecret r cluster) (\<lambda>_.
     and_then (reconcileExposure r cluster) (\<lambda>_.
     and_then (kubeRayNamespaces r) (\<lambda>nss.
     reconcileNetworkPolicies r cluster nss))))"

definition Reconcile :: "RayClusterReconciler \<Rightarrow> string \<times> string \<Rightarrow> outcome_pair prog" where
  "Reconcile r req =
     GetRayCluster req (\<lambda>res.
       case res of
         Inl err \<Rightarrow> Ret (emptyResult, IgnoreNotFound err)
       | Inr cluster \<Rightarrow>
           bind (reconcileCluster r cluster) (\<lambda>res.
             case res of Inl early \<Rightarrow> Ret early | Inr _ \<Rightarrow> Ret finished))"

end
