(* ===== verification/Traces.thy ===== *)
theory Traces
  imports Reconciler
begin

text \<open>
  A small calculus for statements about every run of a program. \<open>always p Q\<close>: every run of \<open>p\<close>, with
  whatever responses the outside world gives, has a trace and an outcome that satisfy \<open>Q\<close>. The rules
  compute it through the program, so that a property of \<open>Reconcile\<close> is a walk over its branches.
\<close>

definition always :: "'a prog \<Rightarrow> (event list \<Rightarrow> 'a outcome \<Rightarrow> bool) \<Rightarrow> bool" where
  "always p Q \<longleftrightarrow> (\<forall>tr out. runs p tr out \<longrightarrow> Q tr out)"

lemma alwaysD: "always p Q \<Longrightarrow> runs p tr out \<Longrightarrow> Q tr out"
  by (simp add: always_def)

lemma always_mono: "always p Q \<Longrightarrow> (\<And>tr out. Q tr out \<Longrightarrow> R tr out) \<Longrightarrow> always p R"
  by (simp add: always_def)

lemma always_conj: "always p (\<lambda>tr out. Q tr out \<and> R tr out) \<longleftrightarrow> always p Q \<and> always p R"
  by (auto simp: always_def)

lemma always_Ret [simp]: "always (Ret x) Q \<longleftrightarrow> Q [] (Returned x)"
  by (auto simp: always_def)

lemma always_Panic [simp]: "always (Panic e) Q \<longleftrightarrow> Q [] (Panicked e)"
  by (auto simp: always_def)

lemma always_call [simp]:
  "always (GetRayCluster a0 k0) Q \<longleftrightarrow> (\<forall>r. always (k0 r) (\<lambda>tr. Q (EGetRayCluster a0 r # tr)))"
  "always (UpdateRayCluster a1 k1) Q \<longleftrightarrow> (\<forall>r. always (k1 r) (\<lambda>tr. Q (EUpdateRayCluster a1 r # tr)))"
  "always (DeleteClusterRoleBinding a2 b2 k2) Q \<longleftrightarrow> (\<forall>r. always (k2 r) (\<lambda>tr. Q (EDeleteClusterRoleBinding a2 b2 r # tr)))"
  "always (GetSecret a3 b3 k3) Q \<longleftrightarrow> (\<forall>r. always (k3 r) (\<lambda>tr. Q (EGetSecret a3 b3 r # tr)))"
  "always (ApplyObject a4 b4 c4 k4) Q \<longleftrightarrow> (\<forall>r. always (k4 r) (\<lambda>tr. Q (EApplyObject a4 b4 c4 r # tr)))"
  "always (GetServiceAccount a5 b5 k5) Q \<longleftrightarrow> (\<forall>r. always (k5 r) (\<lambda>tr. Q (EGetServiceAccount a5 b5 r # tr)))"
  "always (ListPods a6 b6 k6) Q \<longleftrightarrow> (\<forall>r. always (k6 r) (\<lambda>tr. Q (EListPods a6 b6 r # tr)))"
  "always (DeletePod a7 b7 k7) Q \<longleftrightarrow> (\<forall>r. always (k7 r) (\<lambda>tr. Q (EDeletePod a7 b7 r # tr)))"
  "always (GetDSCInitialization a8 k8) Q \<longleftrightarrow> (\<forall>r. always (k8 r) (\<lambda>tr. Q (EGetDSCInitialization a8 r # tr)))"
  "always (RandInt63 k9) Q \<longleftrightarrow> (\<forall>r. always (k9 r) (\<lambda>tr. Q (ERandInt63 r # tr)))"
  "always (Now k10) Q \<longleftrightarrow> (\<forall>r. always (k10 r) (\<lambda>tr. Q (ENow r # tr)))"
  "always (GenerateKey a11 k11) Q \<longleftrightarrow> (\<forall>r. always (k11 r) (\<lambda>tr. Q (EGenerateKey a11 r # tr)))"
  "always (CreateCertificate a12 b12 k12) Q \<longleftrightarrow> (\<forall>r. always (k12 r) (\<lambda>tr. Q (ECreateCertificate a12 b12 r # tr)))"
  by (auto simp: always_def)

lemma always_bind:
  "always (bind p f) Q \<longleftrightarrow>
     always p (\<lambda>tr out. case out of
       Panicked e \<Rightarrow> Q tr (Panicked e)
     | Returned x \<Rightarrow> always (f x) (\<lambda>tr'. Q (tr @ tr')))"
  unfolding always_def runs_bind by (force split: outcome.splits)

lemma always_and_then:
  "always (and_then p k) Q \<longleftrightarrow>
     always p (\<lambda>tr out. case out of
       Panicked e \<Rightarrow> Q tr (Panicked e)
     | Returned (Inl r) \<Rightarrow> Q tr (Returned (Inl r))
     | Returned (Inr a) \<Rightarrow> always (k a) (\<lambda>tr'. Q (tr @ tr')))"
  unfolding and_then_def always_bind
  by (rule arg_cong [of _ _ "always p"]) (auto simp: fun_eq_iff split: outcome.splits sum.splits)

lemma always_applyOrFail:
  "always (applyOrFail ns obj k) Q \<longleftrightarrow>
     (\<forall>err. Q [EApplyObject applyOptions ns obj (Some err)] (Returned (Inl (failWith err)))) \<and>
     always k (\<lambda>tr. Q (EApplyObject applyOptions ns obj None # tr))"
  by (auto simp: applyOrFail_def split_option_all)

text \<open>The rule in the form proofs by blocks use: a summary of the first part is enough.\<close>

lemma always_and_thenI:
  assumes "always p S"
    and "\<And>tr e. S tr (Panicked e) \<Longrightarrow> Q tr (Panicked e)"
    and "\<And>tr r. S tr (Returned (Inl r)) \<Longrightarrow> Q tr (Returned (Inl r))"
    and "\<And>tr a. S tr (Returned (Inr a)) \<Longrightarrow> always (k a) (\<lambda>tr'. Q (tr @ tr'))"
  shows "always (and_then p k) Q"
  unfolding always_and_then
  by (rule always_mono [OF assms(1)]) (auto split: outcome.splits sum.splits intro: assms)

lemma always_bindI:
  assumes "always p S"
    and "\<And>tr e. S tr (Panicked e) \<Longrightarrow> Q tr (Panicked e)"
    and "\<And>tr a. S tr (Returned a) \<Longrightarrow> always (f a) (\<lambda>tr'. Q (tr @ tr'))"
  shows "always (bind p f) Q"
  unfolding always_bind
  by (rule always_mono [OF assms(1)]) (auto split: outcome.splits intro: assms)

subsection \<open>Observations on traces\<close>

text \<open>The objects applied, with or without success, in order.\<close>

fun attempts :: "event list \<Rightarrow> (string option \<times> ApplyConfig) list" where
  "attempts [] = []"
| "attempts (EApplyObject opts ns obj res # tr) = (ns, obj) # attempts tr"
| "attempts (_ # tr) = attempts tr"

fun applied :: "event list \<Rightarrow> ApplyConfig list" where
  "applied [] = []"
| "applied (EApplyObject opts ns obj None # tr) = obj # applied tr"
| "applied (_ # tr) = applied tr"

lemma attempts_append [simp]: "attempts (xs @ ys) = attempts xs @ attempts ys"
  by (induction xs rule: attempts.induct) simp_all

lemma applied_append [simp]: "applied (xs @ ys) = applied xs @ applied ys"
  by (induction xs rule: applied.induct) simp_all

lemma applied_attempted: "set (applied tr) \<subseteq> snd ` set (attempts tr)"
  by (induction tr rule: applied.induct) auto

fun is_network_policy :: "ApplyConfig \<Rightarrow> bool" where
  "is_network_policy (ANetworkPolicy _) = True"
| "is_network_policy _ = False"

text \<open>
  The failures \<open>Reconcile\<close> must report: every error response except the ones the code treats as an
  answer (a missing cluster, ClusterRoleBinding, CA secret or DSCInitialization).
\<close>

fun fails :: "event \<Rightarrow> bool" where
  "fails (EGetRayCluster _ (Inl e)) = (\<not> IsNotFound e)"
| "fails (EUpdateRayCluster _ (Inl _)) = True"
| "fails (EDeleteClusterRoleBinding _ _ (Some e)) = (\<not> IsNotFound e)"
| "fails (EGetSecret _ _ (Inl e)) = (\<not> IsNotFound e)"
| "fails (EApplyObject _ _ obj (Some _)) = (\<not> is_network_policy obj)"
| "fails (EGetServiceAccount _ _ (Inl _)) = True"
| "fails (EListPods _ _ (Inl _)) = True"
| "fails (EDeletePod _ _ (Some _)) = True"
| "fails (EGetDSCInitialization _ (Inl e)) = (\<not> IsNotFound e)"
| "fails (EGenerateKey _ (Inl _)) = True"
| "fails (ECreateCertificate _ _ (Inl _)) = True"
| "fails _ = False"

end
