(* ===== verification/Summaries.thy ===== *)
theory Summaries
  imports Traces
begin

text \<open>
  Summaries of the blocks of \<open>Reconcile\<close>, each proved by walking over the block once, and the rules
  that combine them along \<open>reconcileCluster\<close>.
\<close>

lemmas block_defs =
  reconcileFinalizer_def reconcileCASecret_def reconcileExposure_def reconcileOAuth_def
  reconcileIngress_def kubeRayNamespaces_def reconcileNetworkPolicies_def
  getKubeRayOperatorNamespace_def deleteHeadPodIfMissingImagePullSecrets_def getHeadPod_def
  generateCACertificate_def

lemmas always_rules = always_and_then always_bind always_applyOrFail Let_def

lemmas block_splits = sum.split prod.split option.split list.split go.split

subsection \<open>Reconcile by its blocks\<close>

fun final :: "(outcome_pair + unit) outcome \<Rightarrow> outcome_pair outcome" where
  "final (Panicked e) = Panicked e"
| "final (Returned (Inl early)) = Returned early"
| "final (Returned (Inr _)) = Returned finished"

lemma always_Reconcile:
  "always (Reconcile r req) Q \<longleftrightarrow>
     (\<forall>err. Q [EGetRayCluster req (Inl err)] (Returned (emptyResult, IgnoreNotFound err))) \<and>
     (\<forall>c. always (reconcileCluster r c) (\<lambda>tr out. Q (EGetRayCluster req (Inr c) # tr) (final out)))"
proof -
  have "always (bind (reconcileCluster r c)
          (\<lambda>res. case res of Inl early \<Rightarrow> Ret early | Inr _ \<Rightarrow> Ret finished)) R \<longleftrightarrow>
        always (reconcileCluster r c) (\<lambda>tr out. R tr (final out))" for c R
    unfolding always_bind
    by (rule arg_cong [of _ _ "always (reconcileCluster r c)"])
      (auto simp: fun_eq_iff split: outcome.splits sum.splits)
  then show ?thesis by (simp add: Reconcile_def split_sum_all)
qed

text \<open>A property of single events, and the failure-reporting property, go through block by block.\<close>

definition emits :: "(event \<Rightarrow> bool) \<Rightarrow> 'a prog \<Rightarrow> bool" where
  "emits P p \<longleftrightarrow> always p (\<lambda>tr _. list_all P tr)"

definition reports :: "('r \<times> error option + 'a) prog \<Rightarrow> bool" where
  "reports p \<longleftrightarrow> always p (\<lambda>tr out.
     list_ex fails tr \<longrightarrow> (\<exists>res err. out = Returned (Inl (res, Some err))))"

lemma emits_and_then:
  "emits P p \<Longrightarrow> (\<And>a. emits P (k a)) \<Longrightarrow> emits P (and_then p k)"
  unfolding emits_def
  by (erule always_and_thenI; (simp; fail)?; simp add: always_def)

lemma reports_and_then:
  "reports p \<Longrightarrow> (\<And>a. reports (k a)) \<Longrightarrow> reports (and_then p k)"
  unfolding reports_def
  by (erule always_and_thenI; (simp; fail)?; simp add: always_def)

lemma emits_reconcileCluster:
  assumes "emits P (reconcileFinalizer c)"
    and "\<And>c. emits P (reconcileCASecret r c)"
    and "\<And>c. emits P (reconcileExposure r c)"
    and "emits P (kubeRayNamespaces r)"
    and "\<And>c nss. emits P (reconcileNetworkPolicies r c nss)"
  shows "emits P (reconcileCluster r c)"
  unfolding reconcileCluster_def by (intro emits_and_then assms)

lemma emits_Reconcile:
  assumes "\<And>res. P (EGetRayCluster req res)" and "\<And>c. emits P (reconcileCluster r c)"
  shows "emits P (Reconcile r req)"
  using assms by (simp add: emits_def always_Reconcile)

subsection \<open>Failures\<close>

lemma reports_finalizer: "reports (reconcileFinalizer c)"
  by (auto simp: reports_def block_defs always_rules failWith_def IgnoreNotFound_def
      split_option_all split: block_splits)

lemma reports_ca: "reports (reconcileCASecret r c)"
  by (auto simp: reports_def block_defs always_rules failWith_def split: block_splits)

lemma reports_exposure: "reports (reconcileExposure r c)"
  by (auto simp: reports_def block_defs always_rules failWith_def split: block_splits)

lemma reports_namespaces: "reports (kubeRayNamespaces r)"
  by (auto simp: reports_def block_defs always_rules failWith_def split: block_splits)

lemma fails_policy [simp]: "fails (EApplyObject opts ns (ANetworkPolicy p) res) = False"
  by (cases res) simp_all

lemma reports_policies: "reports (reconcileNetworkPolicies r c nss)"
  by (auto simp: reports_def block_defs always_rules failWith_def split: block_splits)

lemma reports_reconcileCluster: "reports (reconcileCluster r c)"
  unfolding reconcileCluster_def
  by (intro reports_and_then reports_finalizer reports_ca reports_exposure reports_namespaces
      reports_policies)

end
