(* ===== verification/Ownership.thy ===== *)
theory Ownership
  imports Desired
begin

text \<open>
  What the watches of \<^verbatim>\<open>SetupWithManager\<close> and the label-filtered cache rely on. The locale
  \<open>owned_object\<close> is the contract of the namespaced objects: they live in the cluster's namespace, carry
  its name as a label and it as their controlling owner. The ClusterRoleBinding cannot have a
  namespaced owner; the controller finds its cluster again from two labels, which
  \<open>requestsForClusterRoleBinding\<close> reads.
\<close>

locale owned_object =
  fixes object :: "RayCluster \<Rightarrow> ApplyConfig" and nameOf :: "RayCluster \<Rightarrow> string"
  assumes owned: "\<exists>annotations. obj_meta (object c) = ownedMeta c (nameOf c) annotations"
begin

lemma name: "ma_Name (obj_meta (object c)) = nameOf c"
  using owned [of c] by (auto simp: ownedMeta_def)

lemma namespace: "ma_Namespace (obj_meta (object c)) = Some (Namespace c)"
  using owned [of c] by (auto simp: ownedMeta_def)

lemma label: "ma_Labels (obj_meta (object c)) = [RayClusterNameLabel \<mapsto> Name c]"
  using owned [of c] by (auto simp: ownedMeta_def)

lemma owner: "ma_OwnerReferences (obj_meta (object c)) = [ownerRefForRayCluster c]"
  using owned [of c] by (auto simp: ownedMeta_def)

text \<open>Objects of clusters in different namespaces, or with different UIDs, are told apart.\<close>

lemma namespace_differs:
  "Namespace c \<noteq> Namespace d \<Longrightarrow> obj_meta (object c) \<noteq> obj_meta (object d)"
  using namespace [of c] namespace [of d] by auto

lemma owner_identifies:
  "obj_meta (object c) = obj_meta (object d) \<Longrightarrow>
     Name c = Name d \<and> Namespace c = Namespace d \<and> om_UID (rc_Meta c) = om_UID (rc_Meta d)"
  using owner [of c] owner [of d] namespace [of c] namespace [of d]
  by (auto simp: ownerRefForRayCluster_def)

end

interpretation route: owned_object
  "\<lambda>c. ARoute (desiredClusterRoute c)" dashboardNameFromCluster
  by unfold_locales (auto simp: object_defs)

interpretation client_route: owned_object
  "\<lambda>c. ARoute (desiredRayClientRoute c)" rayClientNameFromCluster
  by unfold_locales (auto simp: object_defs)

interpretation cookie: owned_object
  "\<lambda>c. ASecret (desiredOAuthSecret c salt)" oauthSecretNameFromCluster for salt
  by unfold_locales (auto simp: object_defs)

interpretation ca: owned_object
  "\<lambda>c. ASecret (desiredCASecret c key cert)" caSecretNameFromCluster for key cert
  by unfold_locales (auto simp: object_defs)

interpretation proxy_service: owned_object
  "\<lambda>c. AService (desiredOAuthService c)" oauthServiceNameFromCluster
  by unfold_locales (auto simp: object_defs)

interpretation service_account: owned_object
  "\<lambda>c. AServiceAccount (desiredServiceAccount c)" oauthServiceAccountNameFromCluster
  by unfold_locales (auto simp: object_defs)

interpretation dashboard_ingress: owned_object
  "\<lambda>c. AIngress (desiredClusterIngress c host)" dashboardNameFromCluster for host
  by unfold_locales (auto simp: object_defs)

interpretation client_ingress: owned_object
  "\<lambda>c. AIngress (desiredRayClientIngress c host)" rayClientNameFromCluster for host
  by unfold_locales (auto simp: object_defs)

interpretation workers_policy: owned_object
  "\<lambda>c. ANetworkPolicy (desiredWorkersNetworkPolicy c)" workerNWPNameFromCluster
  by unfold_locales (auto simp: object_defs)

interpretation head_policy: owned_object
  "\<lambda>c. ANetworkPolicy (value_of (desiredHeadNetworkPolicy c (Some cfg) nss))" headNWPNameFromCluster
  for cfg nss
  by unfold_locales (auto simp: object_defs Let_def)

lemmas owned_namespace = route.namespace client_route.namespace cookie.namespace ca.namespace
  proxy_service.namespace service_account.namespace dashboard_ingress.namespace
  client_ingress.namespace workers_policy.namespace head_policy.namespace

lemmas owned_namespaces [simp] = owned_namespace [unfolded obj_meta.simps]

lemma head_policy_namespace:
  "desiredHeadNetworkPolicy c (Some cfg) nss = Ok p \<Longrightarrow> ma_Namespace (nw_Meta p) = Some (Namespace c)"
  using head_policy.namespace [of c cfg nss] by simp

lemmas owned_label = route.label client_route.label cookie.label ca.label
  proxy_service.label service_account.label dashboard_ingress.label
  client_ingress.label workers_policy.label head_policy.label

lemmas owned_owner = route.owner client_route.owner cookie.owner ca.owner
  proxy_service.owner service_account.owner dashboard_ingress.owner
  client_ingress.owner workers_policy.owner head_policy.owner

subsection \<open>The ClusterRoleBinding\<close>

text \<open>
  The map function of the ClusterRoleBinding watch: the labels of the changed object to the requests it
  enqueues, each a name and a namespace.
\<close>

record Request =
  req_Name :: string
  req_Namespace :: string

definition requestsForClusterRoleBinding :: "strmap \<Rightarrow> Request list" where
  "requestsForClusterRoleBinding objLabels =
     (case objLabels RayClusterNameLabel of
        None \<Rightarrow> []
      | Some name \<Rightarrow>
          (case objLabels clusterNamespaceLabel of
             None \<Rightarrow> []
           | Some namespace \<Rightarrow> [\<lparr>req_Name = name, req_Namespace = namespace\<rparr>]))"

lemma crb_labels_differ: "RayClusterNameLabel \<noteq> clusterNamespaceLabel"
  by (simp add: RayClusterNameLabel_def clusterNamespaceLabel_def)

text \<open>
  A change of the ClusterRoleBinding of a cluster enqueues exactly that cluster: reading its two
  labels back gives the name and namespace they were written from.
\<close>

theorem crb_watch_roundtrip:
  "requestsForClusterRoleBinding (ma_Labels (cb_Meta (desiredOAuthClusterRoleBinding c))) =
     [\<lparr>req_Name = Name c, req_Namespace = Namespace c\<rparr>]"
  by (simp add: requestsForClusterRoleBinding_def desiredOAuthClusterRoleBinding_def
      crb_labels_differ crb_labels_differ [symmetric])

text \<open>
  Who owns an applied object: its namespaced objects are owned by the cluster, the ClusterRoleBinding
  carries the two labels.
\<close>

definition owned_by :: "RayCluster \<Rightarrow> ApplyConfig \<Rightarrow> bool" where
  "owned_by c obj \<longleftrightarrow>
     ma_Labels (obj_meta obj) RayClusterNameLabel = Some (Name c) \<and>
     (case obj of
        AClusterRoleBinding _ \<Rightarrow>
          ma_Namespace (obj_meta obj) = None \<and> ma_OwnerReferences (obj_meta obj) = [] \<and>
          ma_Labels (obj_meta obj) clusterNamespaceLabel = Some (Namespace c)
      | _ \<Rightarrow>
          ma_Namespace (obj_meta obj) = Some (Namespace c) \<and>
          ma_OwnerReferences (obj_meta obj) = [ownerRefForRayCluster c])"

lemma desired_owned [simp]:
  "owned_by c (ARoute (desiredClusterRoute c))"
  "owned_by c (ARoute (desiredRayClientRoute c))"
  "owned_by c (ASecret (desiredOAuthSecret c salt))"
  "owned_by c (ASecret (desiredCASecret c key cert))"
  "owned_by c (AService (desiredOAuthService c))"
  "owned_by c (AServiceAccount (desiredServiceAccount c))"
  "owned_by c (AIngress (desiredClusterIngress c host))"
  "owned_by c (AIngress (desiredRayClientIngress c host))"
  "owned_by c (ANetworkPolicy (desiredWorkersNetworkPolicy c))"
  using owned_namespace [of c] owned_label [of c] owned_owner [of c]
  by (simp_all add: owned_by_def)

lemma head_policy_owned:
  "desiredHeadNetworkPolicy c (Some cfg) nss = Ok p \<Longrightarrow> owned_by c (ANetworkPolicy p)"
  using head_policy.namespace [of c cfg nss] head_policy.label [of c cfg nss]
    head_policy.owner [of c cfg nss]
  by (simp add: owned_by_def)

lemma crb_owned [simp]:
  "owned_by c (AClusterRoleBinding (desiredOAuthClusterRoleBinding c))"
  by (simp add: owned_by_def desiredOAuthClusterRoleBinding_def crb_labels_differ)

end
