(* ===== verification/ReconcileSpec.thy ===== *)
theory ReconcileSpec
  imports Summaries Ownership "HOL-Library.Sublist"
begin

text \<open>
  The abstract specification of \<open>Reconcile\<close>: the list of objects a RayCluster is entitled to, in the
  order in which they are applied. The refinement lemma says that every run of the program attempts a
  prefix of that list, and the whole of it when it reports no error.
\<close>

lemma head_policy_Panics [simp]:
  "desiredHeadNetworkPolicy c cfg nss = Panics e \<longleftrightarrow> cfg = None \<and> e = NilDereference"
  by (auto simp: desiredHeadNetworkPolicy_def Let_def split: option.split)

subsection \<open>The objects of a cluster\<close>

definition ca_objects :: "RayClusterReconciler \<Rightarrow> RayCluster \<Rightarrow> byte list \<times> byte list \<Rightarrow> ApplyConfig list" where
  "ca_objects r c ca =
     (if isMTLSEnabled (rec_Config r) then [ASecret (desiredCASecret c (fst ca) (snd ca))] else [])"

definition oauth_objects :: "RayClusterReconciler \<Rightarrow> RayCluster \<Rightarrow> ApplyConfig list" where
  "oauth_objects r c =
     [ARoute (desiredClusterRoute c),
      ASecret (desiredOAuthSecret c (CookieSalt r)),
      AService (desiredOAuthService c),
      AServiceAccount (desiredServiceAccount c),
      AClusterRoleBinding (desiredOAuthClusterRoleBinding c),
      ARoute (desiredRayClientRoute c)]"

definition ingress_host :: "KubeRayConfiguration option \<Rightarrow> RayCluster \<Rightarrow> string \<Rightarrow> string" where
  "ingress_host cfg c name =
     name @ ''-'' @ Namespace c @ ''.'' @ (case cfg of None \<Rightarrow> [] | Some k \<Rightarrow> IngressDomain k)"

definition ingress_objects :: "RayClusterReconciler \<Rightarrow> RayCluster \<Rightarrow> ApplyConfig list" where
  "ingress_objects r c =
     [AIngress (desiredClusterIngress c (ingress_host (rec_Config r) c (dashboardNameFromCluster c))),
      AIngress (desiredRayClientIngress c (ingress_host (rec_Config r) c (rayClientNameFromCluster c)))]"

definition exposure_objects :: "RayClusterReconciler \<Rightarrow> RayCluster \<Rightarrow> ApplyConfig list" where
  "exposure_objects r c =
     (if isRayClusterSuspended c then []
      else if isRayDashboardOAuthEnabled (rec_Config r) \<and> IsOpenShift r then oauth_objects r c
      else if \<not> isRayDashboardOAuthEnabled (rec_Config r) \<and> \<not> IsOpenShift r then ingress_objects r c
      else [])"

text \<open>Without a configuration there is no head policy: the loop panics before it applies one.\<close>

definition policy_objects :: "RayClusterReconciler \<Rightarrow> RayCluster \<Rightarrow> string list \<Rightarrow> ApplyConfig list" where
  "policy_objects r c nss =
     (case desiredHeadNetworkPolicy c (rec_Config r) nss of
        Panics e \<Rightarrow> []
      | Ok p \<Rightarrow> [ANetworkPolicy p, ANetworkPolicy (desiredWorkersNetworkPolicy c)])"

definition cluster_objects ::
    "RayClusterReconciler \<Rightarrow> RayCluster \<Rightarrow> byte list \<times> byte list \<Rightarrow> string list \<Rightarrow> ApplyConfig list" where
  "cluster_objects r c ca nss = ca_objects r c ca @ exposure_objects r c @ policy_objects r c nss"

text \<open>
  The cluster the rest of the loop works with, after the finalizer step: the one that was read when it
  holds the finalizer or is being deleted without it, the server's answer to the update otherwise.
\<close>

definition adopted :: "RayCluster \<Rightarrow> event list \<Rightarrow> RayCluster \<Rightarrow> bool" where
  "adopted c tr c' \<longleftrightarrow>
     (if IsZero (om_DeletionTimestamp (rc_Meta c)) \<and> \<not> ContainsFinalizer c oAuthFinalizer
      then \<exists>rest. tr = EUpdateRayCluster (AddFinalizer oAuthFinalizer c) (Inr c') # rest
      else c' = c \<and>
           (IsZero (om_DeletionTimestamp (rc_Meta c)) \<longleftrightarrow> ContainsFinalizer c oAuthFinalizer))"

subsection \<open>Stages\<close>

text \<open>
  A stage attempts a prefix of its list, and all of it when the loop goes on; it stops the loop only
  with an error.
\<close>

fun stage :: "ApplyConfig list \<Rightarrow> event list \<Rightarrow> (outcome_pair + 'a) outcome \<Rightarrow> bool" where
  "stage S tr (Returned (Inr _)) = (map snd (attempts tr) = S)"
| "stage S tr (Returned (Inl res)) = (prefix (map snd (attempts tr)) S \<and> snd res \<noteq> None)"
| "stage S tr (Panicked _) = prefix (map snd (attempts tr)) S"

lemma stage_prefix: "stage S tr out \<Longrightarrow> prefix (map snd (attempts tr)) S"
  by (cases "(S, tr, out)" rule: stage.cases) auto

lemma stage_append:
  "stage S tr (Returned (Inr a)) \<Longrightarrow> stage S' tr' out \<Longrightarrow> stage (S @ S') (tr @ tr') out"
  by (cases "(S', tr', out)" rule: stage.cases) auto

lemma stage_stop:
  "stage S tr (Returned (Inl x)) \<Longrightarrow> stage (S @ S') tr (Returned (Inl x))"
  "stage S tr (Panicked e) \<Longrightarrow> stage (S @ S') tr (Panicked e)"
  by (auto simp: prefix_append)

lemma stage_and_then:
  assumes "always p (stage S)" and "\<And>a. always (k a) (stage S')"
  shows "always (and_then p k) (stage (S @ S'))"
  by (rule always_and_thenI [OF assms(1)])
    (auto intro!: stage_stop stage_append always_mono [OF assms(2)] simp del: stage.simps)

lemma stage_exposure: "always (reconcileExposure r c) (stage (exposure_objects r c))"
  by (auto simp: failWith_def reconcileExposure_def exposure_objects_def oauth_objects_def ingress_objects_def
      reconcileOAuth_def reconcileIngress_def deleteHeadPodIfMissingImagePullSecrets_def
      getHeadPod_def getIngressHost_def ingress_host_def always_rules
      split: block_splits if_splits)

lemma stage_namespaces: "always (kubeRayNamespaces r) (stage [])"
  by (simp add: block_defs failWith_def always_rules split: block_splits)

lemma stage_policies: "always (reconcileNetworkPolicies r c nss) (stage (policy_objects r c nss))"
  by (simp add: reconcileNetworkPolicies_def policy_objects_def split: go.split)

lemma stage_ca: "always (reconcileCASecret r c) (\<lambda>tr out. \<exists>ca. stage (ca_objects r c ca) tr out)"
  by (auto simp: block_defs failWith_def ca_objects_def always_rules split: block_splits)

text \<open>After the CA secret, and after the finalizer step.\<close>

lemma stage_policies_for:
  "always (and_then (kubeRayNamespaces r) (\<lambda>nss. reconcileNetworkPolicies r c nss))
     (\<lambda>tr out. \<exists>nss. stage (policy_objects r c nss) tr out)"
  by (rule always_and_thenI [OF stage_namespaces])
    (auto intro!: always_mono [OF stage_policies] exI stage_append [where S = "[]", unfolded append_Nil]
      simp del: stage.simps intro: stage_stop [where S = "[]", unfolded append_Nil])

lemma stage_after_ca:
  "always (and_then (reconcileExposure r c) (\<lambda>_.
     and_then (kubeRayNamespaces r) (\<lambda>nss. reconcileNetworkPolicies r c nss)))
     (\<lambda>tr out. \<exists>nss. stage (exposure_objects r c @ policy_objects r c nss) tr out)"
  by (rule always_and_thenI [OF stage_exposure])
    (auto intro: stage_stop stage_append intro!: always_mono [OF stage_policies_for]
      simp del: stage.simps)

lemma stage_objects:
  "always (and_then (reconcileCASecret r c) (\<lambda>_. and_then (reconcileExposure r c) (\<lambda>_.
     and_then (kubeRayNamespaces r) (\<lambda>nss. reconcileNetworkPolicies r c nss))))
     (\<lambda>tr out. \<exists>ca nss. stage (cluster_objects r c ca nss) tr out)"
  unfolding cluster_objects_def
  by (rule always_and_thenI [OF stage_ca])
    (auto intro: stage_stop stage_append intro!: always_mono [OF stage_after_ca]
      simp del: stage.simps)

end
