(* ===== verification/ReconcileProps.thy ===== *)
theory ReconcileProps
  imports ReconcileSpec
begin

text \<open>
  The properties of \<open>Reconcile\<close>, over all its runs: what it applies and in which order, the life of the
  finalizer, which failures it reports, and how many calls it makes. The concrete clusters and
  reconcilers at the start serve the witnesses.
\<close>

subsection \<open>Concrete inputs\<close>

definition a_pod :: PodSpec where
  "a_pod = \<lparr>ps_Volumes = [], ps_InitContainers = [],
            ps_Containers = [\<lparr>c_Name = ''head'', c_Image = ''ray'', c_Command = [], c_Args = [],
              c_Ports = [], c_Env = [], c_VolumeMounts = [], c_rest = []\<rparr>],
            ps_ServiceAccountName = [], ps_ImagePullSecrets = [], ps_rest = []\<rparr>"

definition a_template :: PodTemplateSpec where
  "a_template = \<lparr>pt_Spec = a_pod, pt_rest = []\<rparr>"

text \<open>A cluster with the given finalizers and deletion timestamp.\<close>

definition a_cluster :: "string list \<Rightarrow> nat option \<Rightarrow> RayCluster" where
  "a_cluster finalizers deleted =
     \<lparr>rc_Kind = ''RayCluster'', rc_APIVersion = ''ray.io/v1'',
      rc_Meta = \<lparr>om_Name = ''ray'', om_Namespace = ''ns'', om_UID = ''1'', om_Annotations = Map.empty,
                 om_DeletionTimestamp = deleted, om_Finalizers = finalizers, om_rest = []\<rparr>,
      rc_Suspend = None,
      rc_Head = \<lparr>hg_EnableIngress = None, hg_Template = a_template, hg_rest = []\<rparr>,
      rc_Workers = [\<lparr>wg_Template = a_template, wg_rest = []\<rparr>], rc_rest = []\<rparr>"

definition a_config :: "bool \<Rightarrow> bool \<Rightarrow> KubeRayConfiguration" where
  "a_config oauth mtls =
     \<lparr>RayDashboardOAuthEnabled = Some oauth, IngressDomain = ''example.com'', MTLSEnabled = Some mtls\<rparr>"

definition a_reconciler :: "bool \<Rightarrow> bool \<Rightarrow> bool \<Rightarrow> RayClusterReconciler" where
  "a_reconciler oauth mtls openshift =
     \<lparr>CookieSalt = ''salt'', rec_Config = Some (a_config oauth mtls), IsOpenShift = openshift\<rparr>"

lemmas inputs = a_cluster_def a_config_def a_reconciler_def a_template_def a_pod_def

lemma input_facts [simp]:
  "Name (a_cluster fs d) = ''ray''" "Namespace (a_cluster fs d) = ''ns''"
  "om_DeletionTimestamp (rc_Meta (a_cluster fs d)) = d"
  "Annotations (a_cluster fs d) = Map.empty"
  "ContainsFinalizer (a_cluster fs d) f \<longleftrightarrow> f \<in> set fs"
  "isRayClusterSuspended (a_cluster fs d) = False"
  "ps_ImagePullSecrets (head_pod (a_cluster fs d)) = []"
  "rec_Config (a_reconciler oauth mtls openshift) = Some (a_config oauth mtls)"
  "isRayDashboardOAuthEnabled (Some (a_config oauth mtls)) = oauth"
  "isMTLSEnabled (Some (a_config oauth mtls)) = mtls"
  "IsOpenShift (a_reconciler oauth mtls openshift) = openshift"
  "CookieSalt (a_reconciler oauth mtls openshift) = ''salt''"
  "IngressDomain (a_config oauth mtls) = ''example.com''"
  by (simp_all add: inputs config_defs ContainsFinalizer_def isRayClusterSuspended_def)

lemma IsZero_simps [simp]: "IsZero None" "IsZero (Some n) \<longleftrightarrow> n = 0"
  by (simp_all add: IsZero_def)

subsection \<open>Runs of Reconcile\<close>

lemma runs_Reconcile:
  "runs (Reconcile r req) tr out \<longleftrightarrow>
     (\<exists>err. tr = [EGetRayCluster req (Inl err)] \<and> out = Returned (emptyResult, IgnoreNotFound err)) \<or>
     (\<exists>c tr' out'. tr = EGetRayCluster req (Inr c) # tr' \<and> runs (reconcileCluster r c) tr' out' \<and>
        out = final out')"
proof -
  have "runs (bind p (\<lambda>res. case res of Inl early \<Rightarrow> Ret early | Inr _ \<Rightarrow> Ret finished)) tr out \<longleftrightarrow>
        (\<exists>out'. runs p tr out' \<and> out = final out')" (is "?L \<longleftrightarrow> ?R")
    for p :: "(outcome_pair + unit) prog" and tr
  proof
    assume ?L
    then consider e where "runs p tr (Panicked e)" "out = Panicked e"
      | early where "runs p tr (Returned (Inl early))" "out = Returned early"
      | "runs p tr (Returned (Inr ()))" "out = Returned finished"
      unfolding runs_bind split_sum_ex by auto
    then show ?R by cases (metis final.simps)+
  next
    assume ?R
    then obtain out' where "runs p tr out'" "out = final out'" by blast
    then show ?L
      unfolding runs_bind split_sum_ex by (cases out' rule: final.cases) auto
  qed
  then show ?thesis by (auto simp: Reconcile_def split_sum_ex)
qed

text \<open>A program whose first block goes on is its continuation.\<close>

lemma and_then_Ret [simp]:
  "and_then (Ret (Inl x)) k = Ret (Inl x)" "and_then (Ret (Inr a)) k = k a"
  by (simp_all add: and_then_def)

lemma reconcileFinalizer_adopted:
  "always (reconcileFinalizer c) (\<lambda>tr out. attempts tr = [] \<and> (case out of
      Returned (Inr c') \<Rightarrow> adopted c tr c'
    | Returned (Inl (res, None)) \<Rightarrow>
        \<not> IsZero (om_DeletionTimestamp (rc_Meta c)) \<and> ContainsFinalizer c oAuthFinalizer
    | Returned (Inl (res, Some _)) \<Rightarrow> True
    | Panicked _ \<Rightarrow> False))"
  by (simp add: reconcileFinalizer_def adopted_def failWith_def finished_def split: block_splits)

lemma adopted_append: "adopted c tr c' \<Longrightarrow> adopted c (tr @ tr') c'"
  by (auto simp: adopted_def)

lemma reconcileCluster_objects:
  "always (reconcileCluster r c) (\<lambda>tr out.
     (attempts tr = [] \<and> (\<exists>res. out = Returned (Inl (res, None))) \<and>
        \<not> IsZero (om_DeletionTimestamp (rc_Meta c)) \<and> ContainsFinalizer c oAuthFinalizer) \<or>
     (attempts tr = [] \<and> (\<exists>res err. out = Returned (Inl (res, Some err)))) \<or>
     (\<exists>c' ca nss. adopted c tr c' \<and> stage (cluster_objects r c' ca nss) tr out))"
  unfolding reconcileCluster_def
proof (rule always_and_thenI [OF reconcileFinalizer_adopted], goal_cases)
  case (3 tr c')
  have "stage S (tr @ tr') out" if "stage S tr' out" for S tr' and out :: "(outcome_pair + unit) outcome"
    using that 3 by (cases "(S, tr', out)" rule: stage.cases) auto
  moreover have "adopted c tr c'" using 3 by simp
  ultimately show ?case
    by (intro always_mono [OF stage_objects] disjI2) (meson adopted_append)
qed (auto split: option.splits)

subsection \<open>Concrete runs\<close>

definition a_request :: "string \<times> string" where
  "a_request = (''ns'', ''ray'')"

text \<open>Vanilla Kubernetes, no OAuth, no mutual TLS, every call succeeds.\<close>

definition vanilla_trace :: "event list" where
  "vanilla_trace =
     (let c = a_cluster [oAuthFinalizer] None; ns = Some ''ns''; r = a_reconciler False False False in
      map (\<lambda>obj. EApplyObject applyOptions ns obj None) (ingress_objects r c) @
      [EListPods [] ''app.kubernetes.io/component=kuberay-operator'' (Inr [])] @
      map (\<lambda>obj. EApplyObject applyOptions ns obj None) (policy_objects r c [''ray-system'']))"

lemma vanilla_run:
  "runs (Reconcile (a_reconciler False False False) a_request)
     (EGetRayCluster a_request (Inr (a_cluster [oAuthFinalizer] None)) # vanilla_trace)
     (Returned finished)"
  by (simp add: Reconcile_def reconcileCluster_def reconcileFinalizer_def reconcileCASecret_def
      reconcileExposure_def reconcileIngress_def kubeRayNamespaces_def
      getKubeRayOperatorNamespace_def reconcileNetworkPolicies_def and_then_def applyOrFail_def
      vanilla_trace_def ingress_objects_def policy_objects_def ingress_host_def
      getIngressHost_def kubeRayDefaultNamespace_def Let_def
      split: go.split)

subsection \<open>What is applied\<close>

lemma applied_unless_fails:
  "\<not> list_ex fails tr \<Longrightarrow>
   filter (\<lambda>obj. \<not> is_network_policy obj) (applied tr) =
   filter (\<lambda>obj. \<not> is_network_policy obj) (map snd (attempts tr))"
  by (induction tr rule: applied.induct) auto

lemma final_None:
  "final out = Returned (res, None) \<longleftrightarrow>
     out = Returned (Inl (res, None)) \<or> (res = emptyResult \<and> (\<exists>u. out = Returned (Inr u)))"
  by (cases out rule: final.cases) (auto simp: finished_def)

lemma always_reconcileClusterD:
  assumes "always (reconcileCluster r c) Q" and "runs (Reconcile r req) (EGetRayCluster req (Inr c) # tr) out"
  obtains out' where "Q tr out'" "out = final out'" "runs (reconcileCluster r c) tr out'"
  using assms by (auto simp: runs_Reconcile dest: alwaysD)

lemma attempts_prefix:
  assumes "runs (reconcileCluster r c) tr out"
  shows "attempts tr = [] \<or>
    (\<exists>c' ca nss. adopted c tr c' \<and> prefix (map snd (attempts tr)) (cluster_objects r c' ca nss))"
  using reconcileCluster_objects [THEN alwaysD, OF assms] stage_prefix by metis

text \<open>
  C1 A reconciliation of a cluster that is not on the deletion path, when it reports no error, has attempted
  exactly the objects the cluster is entitled to, in the specified order, and all but the network
  policies have been accepted by the server.
\<close>

theorem reconcile_applies_objects:
  assumes "runs (Reconcile r req) (EGetRayCluster req (Inr c) # tr) (Returned (res, None))"
    and "IsZero (om_DeletionTimestamp (rc_Meta c)) \<or> \<not> ContainsFinalizer c oAuthFinalizer"
  shows "\<exists>c' ca nss. adopted c tr c' \<and>
           map snd (attempts tr) = cluster_objects r c' ca nss \<and>
           filter (\<lambda>obj. \<not> is_network_policy obj) (applied tr) =
             filter (\<lambda>obj. \<not> is_network_policy obj) (cluster_objects r c' ca nss)"
proof -
  obtain out where out: "Returned (res, None) = final out" "runs (reconcileCluster r c) tr out"
    using assms(1) by (auto simp: runs_Reconcile)
  then have cases: "out = Returned (Inl (res, None)) \<or> (\<exists>u. out = Returned (Inr u))"
    using final_None [of out res] by auto
  with reports_reconcileCluster [unfolded reports_def, THEN alwaysD, OF out(2)]
  have "\<not> list_ex fails tr" by auto
  note applied = applied_unless_fails [OF this]
  from reconcileCluster_objects [THEN alwaysD, OF out(2)] cases assms(2)
  obtain c' ca nss where "adopted c tr c'" and "map snd (attempts tr) = cluster_objects r c' ca nss"
    by auto
  with applied show ?thesis by metis
qed

theorem reconcile_applies_objects_witness:
  "\<exists>c' ca nss. adopted (a_cluster [oAuthFinalizer] None) vanilla_trace c' \<and>
     map snd (attempts vanilla_trace) = cluster_objects (a_reconciler False False False) c' ca nss \<and>
     filter (\<lambda>obj. \<not> is_network_policy obj) (applied vanilla_trace) =
       filter (\<lambda>obj. \<not> is_network_policy obj)
         (cluster_objects (a_reconciler False False False) c' ca nss)"
  using reconcile_applies_objects [OF vanilla_run [unfolded finished_def]] by simp

text \<open>
  C10 Whatever happens, Reconcile never applies anything else, and never out of order: the objects a run
  has attempted are a prefix of the list the cluster is entitled to.
\<close>

theorem reconcile_attempts_prefix:
  assumes "runs (Reconcile r req) (EGetRayCluster req (Inr c) # tr) out"
  shows "attempts tr = [] \<or>
    (\<exists>c' ca nss. adopted c tr c' \<and> prefix (map snd (attempts tr)) (cluster_objects r c' ca nss))"
proof -
  obtain out' where "runs (reconcileCluster r c) tr out'"
    using assms by (auto simp: runs_Reconcile)
  then show ?thesis by (rule attempts_prefix)
qed

theorem reconcile_attempts_prefix_witness:
  "attempts vanilla_trace = [] \<or>
    (\<exists>c' ca nss. adopted (a_cluster [oAuthFinalizer] None) vanilla_trace c' \<and>
       prefix (map snd (attempts vanilla_trace))
         (cluster_objects (a_reconciler False False False) c' ca nss))"
  by (rule reconcile_attempts_prefix [OF vanilla_run])

subsection \<open>Where it is applied\<close>

fun addressed :: "event \<Rightarrow> bool" where
  "addressed (EApplyObject opts ns obj _) =
     (opts = applyOptions \<and> ns = ma_Namespace (obj_meta obj))"
| "addressed _ = True"

lemma addressed_finalizer: "emits addressed (reconcileFinalizer c)"
  by (simp add: emits_def block_defs always_rules split: block_splits)

lemma addressed_ca: "emits addressed (reconcileCASecret r c)"
  by (simp add: emits_def block_defs always_rules split: block_splits)

lemma crb_namespace [simp]:
  "ma_Namespace (cb_Meta (desiredOAuthClusterRoleBinding c)) = None"
  by (simp add: desiredOAuthClusterRoleBinding_def)

lemma addressed_exposure: "emits addressed (reconcileExposure r c)"
  by (simp add: emits_def block_defs always_rules split: block_splits)

lemma addressed_namespaces: "emits addressed (kubeRayNamespaces r)"
  by (simp add: emits_def block_defs always_rules split: block_splits)

lemma addressed_policies: "emits addressed (reconcileNetworkPolicies r c nss)"
proof (cases "rec_Config r")
  case (Some cfg)
  then show ?thesis
    by (simp add: emits_def block_defs always_rules head_policy_namespace split: block_splits)
qed (simp add: emits_def block_defs desiredHeadNetworkPolicy_def)

lemma cluster_objects_owned:
  "obj \<in> set (cluster_objects r c ca nss) \<Longrightarrow> owned_by c obj"
  by (auto simp: cluster_objects_def ca_objects_def exposure_objects_def oauth_objects_def
      ingress_objects_def policy_objects_def head_policy_owned desiredHeadNetworkPolicy_def
      split: go.splits if_splits option.splits)

text \<open>Every object a run tries to apply is one of the cluster's.\<close>

lemma applied_object:
  assumes "runs (reconcileCluster r c) tr out" and "EApplyObject opts ns obj res \<in> set tr"
  obtains c' ca nss where "adopted c tr c'" and "obj \<in> set (cluster_objects r c' ca nss)"
proof -
  have obj: "obj \<in> set (map snd (attempts tr))"
    using assms(2) by (induction tr rule: attempts.induct) auto
  with attempts_prefix [OF assms(1)] obtain c' ca nss where "adopted c tr c'"
    and "prefix (map snd (attempts tr)) (cluster_objects r c' ca nss)"
    by auto
  with obj show thesis using set_mono_prefix that by blast
qed

text \<open>
  Every apply of a run goes to the namespace named in its object, is forced under the controller's
  field manager, and its object is owned by the cluster.
\<close>

theorem reconcile_applies_own:
  assumes "runs (Reconcile r req) (EGetRayCluster req (Inr c) # tr) out"
    and "EApplyObject opts ns obj res \<in> set tr"
  shows "opts = applyOptions \<and> ns = ma_Namespace (obj_meta obj) \<and>
    (\<exists>c'. adopted c tr c' \<and> owned_by c' obj)"
proof -
  obtain out' where run: "runs (reconcileCluster r c) tr out'"
    using assms by (auto simp: runs_Reconcile)
  have "emits addressed (reconcileCluster r c)"
    by (intro emits_reconcileCluster addressed_finalizer addressed_ca addressed_exposure
        addressed_namespaces addressed_policies)
  with run have "list_all addressed tr" by (auto simp: emits_def dest: alwaysD)
  then have "addressed (EApplyObject opts ns obj res)"
    using assms(2) unfolding list_all_iff by blast
  moreover obtain c' ca nss where "adopted c tr c'" and "obj \<in> set (cluster_objects r c' ca nss)"
    by (rule applied_object [OF run assms(2)])
  moreover from this(2) have "owned_by c' obj" by (rule cluster_objects_owned)
  ultimately show ?thesis by auto
qed

theorem reconcile_applies_own_witness:
  "\<exists>c'. adopted (a_cluster [oAuthFinalizer] None) vanilla_trace c' \<and>
     owned_by c' (hd (ingress_objects (a_reconciler False False False) (a_cluster [oAuthFinalizer] None)))"
proof -
  have "EApplyObject applyOptions (Some ''ns'')
      (hd (ingress_objects (a_reconciler False False False) (a_cluster [oAuthFinalizer] None))) None
      \<in> set vanilla_trace"
    by (simp add: vanilla_trace_def ingress_objects_def Let_def)
  from reconcile_applies_own [OF vanilla_run this] show ?thesis by simp
qed

end
