(* ===== verification/ReconcileSafety.thy ===== *)
theory ReconcileSafety
  imports ReconcileProps
begin

text \<open>
  The life of the finalizer and of the ClusterRoleBinding it protects, and which failures \<open>Reconcile\<close>
  reports.
\<close>

subsection \<open>Deletion\<close>

text \<open>\<open>client.IgnoreNotFound(r.Client.Delete(...))\<close> succeeded: deleted now, or gone before.\<close>

definition deleted_or_gone :: "error option \<Rightarrow> bool" where
  "deleted_or_gone res \<longleftrightarrow> Option.bind res IgnoreNotFound = None"

lemma deleted_or_gone_simps [simp]:
  "deleted_or_gone None" "deleted_or_gone (Some e) \<longleftrightarrow> IsNotFound e"
  by (simp_all add: deleted_or_gone_def IgnoreNotFound_def)

text \<open>
  C8 A cluster that is being deleted and still holds the operator's finalizer: the ClusterRoleBinding is
  deleted first; the finalizer is removed only when that succeeded or the binding was already gone;
  nothing is applied, and every failure makes the request be retried. These are all the runs there are
  that have read such a cluster.
\<close>

theorem deletion_path:
  assumes "\<not> IsZero (om_DeletionTimestamp (rc_Meta c))" and "ContainsFinalizer c oAuthFinalizer"
  shows "runs (Reconcile r req) (EGetRayCluster req (Inr c) # tr) out \<longleftrightarrow>
    (\<exists>err. \<not> IsNotFound err \<and> out = Returned (failWith err) \<and>
       tr = [EDeleteClusterRoleBinding DeletePropagationForeground (crbNameFromCluster c) (Some err)]) \<or>
    (\<exists>res err. deleted_or_gone res \<and> out = Returned (failWith err) \<and>
       tr = [EDeleteClusterRoleBinding DeletePropagationForeground (crbNameFromCluster c) res,
             EUpdateRayCluster (RemoveFinalizer oAuthFinalizer c) (Inl err)]) \<or>
    (\<exists>res c'. deleted_or_gone res \<and> out = Returned finished \<and>
       tr = [EDeleteClusterRoleBinding DeletePropagationForeground (crbNameFromCluster c) res,
             EUpdateRayCluster (RemoveFinalizer oAuthFinalizer c) (Inr c')])"
  using assms
  by (auto simp: Reconcile_def reconcileCluster_def reconcileFinalizer_def and_then_def
      response_cases IgnoreNotFound_def split: if_splits)

text \<open>The witness: a cluster whose ClusterRoleBinding is already gone.\<close>

theorem deletion_path_witness:
  "runs (Reconcile (a_reconciler True True True) a_request)
     [EGetRayCluster a_request (Inr (a_cluster [oAuthFinalizer] (Some 1))),
      EDeleteClusterRoleBinding DeletePropagationForeground
        (crbNameFromCluster (a_cluster [oAuthFinalizer] (Some 1))) (Some (StatusNotFound ''gone'')),
      EUpdateRayCluster (RemoveFinalizer oAuthFinalizer (a_cluster [oAuthFinalizer] (Some 1)))
        (Inr (a_cluster [] (Some 1)))]
     (Returned finished)"
  by (subst deletion_path) simp_all

subsection \<open>The finalizer protects the ClusterRoleBinding\<close>

text \<open>
  C14 For a cluster that is not being deleted, the ClusterRoleBinding is applied only under the
  finalizer: the cluster that was read holds it, or the first thing the run did was to add it, with
  success. The binding applied is the one of the cluster the server returned.
\<close>

theorem crb_applied_under_finalizer:
  assumes "runs (Reconcile r req) (EGetRayCluster req (Inr c) # tr) out"
    and "IsZero (om_DeletionTimestamp (rc_Meta c))"
    and "EApplyObject opts ns (AClusterRoleBinding b) res \<in> set tr"
  shows "\<exists>c'. b = desiredOAuthClusterRoleBinding c' \<and>
    (ContainsFinalizer c oAuthFinalizer \<and> c' = c \<or>
     (\<exists>rest. tr = EUpdateRayCluster (AddFinalizer oAuthFinalizer c) (Inr c') # rest))"
proof -
  obtain out' where run: "runs (reconcileCluster r c) tr out'"
    using assms by (auto simp: runs_Reconcile)
  have obj: "AClusterRoleBinding b \<in> set (map snd (attempts tr))"
    using assms(3) by (induction tr rule: attempts.induct) auto
  then obtain c' ca nss where c': "adopted c tr c'"
    and "prefix (map snd (attempts tr)) (cluster_objects r c' ca nss)"
    using attempts_prefix [OF run] by auto
  then have "AClusterRoleBinding b \<in> set (cluster_objects r c' ca nss)"
    using obj set_mono_prefix by blast
  then have "b = desiredOAuthClusterRoleBinding c'"
    by (auto simp: cluster_objects_def ca_objects_def exposure_objects_def oauth_objects_def
        ingress_objects_def policy_objects_def split: go.splits if_splits)
  with c' assms(2) show ?thesis by (auto simp: adopted_def split: if_splits)
qed

text \<open>A run on OpenShift with OAuth up to the failing apply of the ClusterRoleBinding.\<close>

definition until_crb :: "RayCluster \<Rightarrow> event list" where
  "until_crb c =
     map (\<lambda>obj. EApplyObject applyOptions (Some ''ns'') obj None)
       (take 4 (oauth_objects (a_reconciler True False True) c)) @
     [EGetServiceAccount ''ns'' (oauthServiceAccountNameFromCluster c)
        (Inr \<lparr>sac_ImagePullSecrets = []\<rparr>),
      EListPods ''ns'' (headPodSelector c) (Inr [])]"

lemmas oauth_run_simps = Reconcile_def reconcileCluster_def reconcileFinalizer_def
  reconcileCASecret_def reconcileExposure_def reconcileOAuth_def kubeRayNamespaces_def
  getKubeRayOperatorNamespace_def reconcileNetworkPolicies_def and_then_def applyOrFail_def
  deleteHeadPodIfMissingImagePullSecrets_def getHeadPod_def oauth_objects_def until_crb_def Let_def

lemma until_crb_run:
  assumes "fs = (if d = None then [oAuthFinalizer] else [])" and "d \<noteq> Some 0"
  shows "runs (Reconcile (a_reconciler True False True) a_request)
     (EGetRayCluster a_request (Inr (a_cluster fs d)) # until_crb (a_cluster fs d) @
      [EApplyObject applyOptions None
         (AClusterRoleBinding (desiredOAuthClusterRoleBinding (a_cluster fs d)))
         (Some (StatusConflict ''conflict''))])
     (Returned (failWith (StatusConflict ''conflict'')))"
  using assms by (cases d) (simp_all add: oauth_run_simps IsZero_def)

theorem crb_applied_under_finalizer_witness:
  "\<exists>c'. desiredOAuthClusterRoleBinding (a_cluster [oAuthFinalizer] None) =
          desiredOAuthClusterRoleBinding c' \<and>
        c' = a_cluster [oAuthFinalizer] None"
proof -
  let ?c = "a_cluster [oAuthFinalizer] None"
  let ?e = "EApplyObject applyOptions None (AClusterRoleBinding (desiredOAuthClusterRoleBinding ?c))
      (Some (StatusConflict ''conflict''))"
  have run: "runs (Reconcile (a_reconciler True False True) a_request)
      (EGetRayCluster a_request (Inr ?c) # until_crb ?c @ [?e])
      (Returned (failWith (StatusConflict ''conflict'')))"
    by (rule until_crb_run) simp_all
  have "?e \<in> set (until_crb ?c @ [?e])" by simp
  from crb_applied_under_finalizer [OF run _ this] show ?thesis
    by (auto simp: until_crb_def oauth_objects_def)
qed

text \<open>Every block can succeed without a call that deletes the binding or updates the cluster.\<close>

fun quiet :: "event \<Rightarrow> bool" where
  "quiet (EDeleteClusterRoleBinding _ _ _) = False"
| "quiet (EUpdateRayCluster _ _) = False"
| "quiet _ = True"

lemma ca_can_succeed: "\<exists>tr. runs (reconcileCASecret r c) tr (Returned (Inr ())) \<and> list_all quiet tr"
  by (cases "isMTLSEnabled (rec_Config r)")
    (auto simp: reconcileCASecret_def applyOrFail_def response_cases intro!: exI [of _ "\<lparr>sec_Data = Map.empty\<rparr>"])

lemma oauth_can_succeed:
  "\<exists>tr. runs (reconcileOAuth r c) tr (Returned (Inr ())) \<and> list_all quiet tr \<and>
     AClusterRoleBinding (desiredOAuthClusterRoleBinding c) \<in> set (applied tr)"
proof (cases "ps_ImagePullSecrets (head_pod c) = []")
  case True
  let ?ok = "map (\<lambda>obj. EApplyObject applyOptions (Some (Namespace c)) obj None)"
  let ?tr = "?ok (take 4 (oauth_objects r c)) @
    [EGetServiceAccount (Namespace c) (oauthServiceAccountNameFromCluster c)
       (Inr \<lparr>sac_ImagePullSecrets = []\<rparr>),
     EListPods (Namespace c) (headPodSelector c) (Inr []),
     EApplyObject applyOptions None (AClusterRoleBinding (desiredOAuthClusterRoleBinding c)) None,
     EApplyObject applyOptions (Some (Namespace c)) (ARoute (desiredRayClientRoute c)) None]"
  from True show ?thesis by (intro exI [of _ ?tr]) (simp add: oauth_run_simps)
next
  case False
  let ?tr = "map (\<lambda>obj. EApplyObject applyOptions (ma_Namespace (obj_meta obj)) obj None)
    (oauth_objects r c)"
  from False show ?thesis by (intro exI [of _ ?tr]) (simp add: oauth_run_simps)
qed

lemma namespaces_can_succeed:
  "\<exists>tr nss. runs (kubeRayNamespaces r) tr (Returned (Inr nss)) \<and> list_all quiet tr"
proof -
  let ?tr = "EListPods [] ''app.kubernetes.io/component=kuberay-operator'' (Inr []) #
    (if IsOpenShift r then [EGetDSCInitialization defaultDSCINamespace (Inl (StatusNotFound []))]
     else [])"
  let ?nss = "if IsOpenShift r then [odhNamespace, rhdsAppsNamespace] else [kubeRayDefaultNamespace]"
  have "runs (kubeRayNamespaces r) ?tr (Returned (Inr ?nss)) \<and> list_all quiet ?tr"
    by (simp add: kubeRayNamespaces_def getKubeRayOperatorNamespace_def)
  then show ?thesis by blast
qed

lemma policies_can_succeed:
  "rec_Config r = Some cfg \<Longrightarrow>
   \<exists>tr. runs (reconcileNetworkPolicies r c nss) tr (Returned (Inr ())) \<and> list_all quiet tr"
  by (cases "desiredHeadNetworkPolicy c (Some cfg) nss")
    (auto simp: reconcileNetworkPolicies_def response_cases)

lemma runs_and_then:
  "runs p tr (Returned (Inr a)) \<Longrightarrow> runs (k a) tr' out \<Longrightarrow> runs (and_then p k) (tr @ tr') out"
  unfolding and_then_def runs_bind by (intro disjI2 exI conjI) auto

text \<open>
  The protection has a gap. A cluster that is being deleted and no longer holds the operator's
  finalizer, because another finalizer keeps it, is reconciled like a live one: the ClusterRoleBinding
  that the deletion path removed is applied again, and no call of the run deletes it.
\<close>

theorem terminating_cluster_reapplies_crb:
  assumes "\<not> IsZero (om_DeletionTimestamp (rc_Meta c))" and "\<not> ContainsFinalizer c oAuthFinalizer"
    and "\<not> isRayClusterSuspended c" and "isRayDashboardOAuthEnabled (rec_Config r)"
    and "IsOpenShift r" and "rec_Config r = Some cfg"
  shows "\<exists>tr. runs (Reconcile r req) (EGetRayCluster req (Inr c) # tr) (Returned finished) \<and>
    AClusterRoleBinding (desiredOAuthClusterRoleBinding c) \<in> set (applied tr) \<and> list_all quiet tr"
proof -
  have fin: "runs (reconcileFinalizer c) [] (Returned (Inr c))"
    using assms by (simp add: reconcileFinalizer_def)
  have exp: "reconcileExposure r c = reconcileOAuth r c"
    using assms by (simp add: reconcileExposure_def)
  obtain tr1 where tr1: "runs (reconcileCASecret r c) tr1 (Returned (Inr ()))" "list_all quiet tr1"
    using ca_can_succeed by blast
  obtain tr2 where tr2: "runs (reconcileExposure r c) tr2 (Returned (Inr ()))" "list_all quiet tr2"
      "AClusterRoleBinding (desiredOAuthClusterRoleBinding c) \<in> set (applied tr2)"
    unfolding exp using oauth_can_succeed by blast
  obtain tr3 nss where tr3: "runs (kubeRayNamespaces r) tr3 (Returned (Inr nss))" "list_all quiet tr3"
    using namespaces_can_succeed by blast
  obtain tr4 where tr4: "runs (reconcileNetworkPolicies r c nss) tr4 (Returned (Inr ()))"
      "list_all quiet tr4"
    using policies_can_succeed [OF assms(6)] by blast
  have "runs (reconcileCluster r c) ([] @ tr1 @ tr2 @ tr3 @ tr4) (Returned (Inr ()))"
    unfolding reconcileCluster_def
    by (rule runs_and_then [OF fin], rule runs_and_then [OF tr1(1)],
        rule runs_and_then [OF tr2(1)], rule runs_and_then [OF tr3(1)], rule tr4(1))
  then have "runs (Reconcile r req) (EGetRayCluster req (Inr c) # tr1 @ tr2 @ tr3 @ tr4)
      (Returned finished)"
    by (auto simp: runs_Reconcile)
  with tr1 tr2 tr3 tr4 show ?thesis by (intro exI [of _ "tr1 @ tr2 @ tr3 @ tr4"]) auto
qed

theorem terminating_cluster_reapplies_crb_witness:
  "\<exists>tr. runs (Reconcile (a_reconciler True True True) a_request)
      (EGetRayCluster a_request (Inr (a_cluster [''ray.io/gcs-ft-redis-cleanup-finalizer''] (Some 1))) # tr)
      (Returned finished) \<and>
    AClusterRoleBinding (desiredOAuthClusterRoleBinding
      (a_cluster [''ray.io/gcs-ft-redis-cleanup-finalizer''] (Some 1))) \<in> set (applied tr) \<and>
    list_all quiet tr"
  by (rule terminating_cluster_reapplies_crb) (simp_all add: oAuthFinalizer_def)

subsection \<open>Failures\<close>

text \<open>
  C26 A run that reports success contains no failing call: every error response makes Reconcile return an
  error, so that the request is retried. The exceptions are the answers the code expects (an object not
  found where it may be missing) and the two network policies.
\<close>

theorem reconcile_reports_failures:
  assumes "runs (Reconcile r req) tr (Returned (res, None))"
  shows "\<not> list_ex fails tr"
proof -
  have "always (Reconcile r req) (\<lambda>tr out.
      list_ex fails tr \<longrightarrow> (\<exists>res err. out = Returned (res, Some err)))"
    unfolding always_Reconcile
  proof (intro conjI allI)
    fix c
    show "always (reconcileCluster r c) (\<lambda>tr out. list_ex fails (EGetRayCluster req (Inr c) # tr) \<longrightarrow>
        (\<exists>res err. final out = Returned (res, Some err)))"
      by (rule always_mono [OF reports_reconcileCluster [unfolded reports_def]]) auto
  qed (simp add: IgnoreNotFound_def)
  with assms show ?thesis by (auto dest!: alwaysD)
qed

theorem reconcile_reports_failures_witness:
  "\<not> list_ex fails
     (EGetRayCluster a_request (Inr (a_cluster [oAuthFinalizer] None)) # vanilla_trace)"
  by (rule reconcile_reports_failures [OF vanilla_run [unfolded finished_def]])

text \<open>
  The network policies are the exception: whatever the server answers to the two applies, the block
  goes on and Reconcile reports success, so a policy the server refused is not retried.
\<close>

theorem network_policy_failures_ignored:
  assumes "rec_Config r = Some cfg"
  shows "runs (reconcileNetworkPolicies r c nss) tr out \<longleftrightarrow>
    (\<exists>p res1 res2. desiredHeadNetworkPolicy c (Some cfg) nss = Ok p \<and> out = Returned (Inr ()) \<and>
       tr = [EApplyObject applyOptions (Some (Namespace c)) (ANetworkPolicy p) res1,
             EApplyObject applyOptions (Some (Namespace c))
               (ANetworkPolicy (desiredWorkersNetworkPolicy c)) res2])"
  using assms by (auto simp: reconcileNetworkPolicies_def split: go.split)

theorem network_policy_failures_ignored_witness:
  "\<exists>p. runs (reconcileNetworkPolicies (a_reconciler True True True) (a_cluster [] None) [])
     [EApplyObject applyOptions (Some ''ns'') (ANetworkPolicy p) (Some (StatusOther ''denied'')),
      EApplyObject applyOptions (Some ''ns'')
        (ANetworkPolicy (desiredWorkersNetworkPolicy (a_cluster [] None))) (Some (StatusOther ''denied''))]
     (Returned (Inr ()))"
proof -
  obtain p where "desiredHeadNetworkPolicy (a_cluster [] None) (Some (a_config True True)) [] = Ok p"
    by (cases "desiredHeadNetworkPolicy (a_cluster [] None) (Some (a_config True True)) []") auto
  then show ?thesis by (subst network_policy_failures_ignored) auto
qed

end
