(* ===== verification/ReconcileCare.thy ===== *)
theory ReconcileCare
  imports ReconcileSafety
begin

text \<open>
  The care \<open>Reconcile\<close> takes of what it finds: an existing CA key pair is kept, a new one is made only
  after the server has said that there is none, and the head pod is deleted only for a missing pull
  secret. Also the ways in which \<open>Reconcile\<close> can end.
\<close>

subsection \<open>Properties of traces\<close>

text \<open>
  A property of traces that is closed under concatenation and that the finalizer step cannot break holds
  of a whole run when it holds of the runs of each block, for the cluster the loop works with.
\<close>

fun finalizer_event :: "event \<Rightarrow> bool" where
  "finalizer_event (EUpdateRayCluster _ _) = True"
| "finalizer_event (EDeleteClusterRoleBinding _ _ _) = True"
| "finalizer_event _ = False"

lemma finalizer_events:
  "always (reconcileFinalizer c) (\<lambda>tr out. list_all finalizer_event tr \<and>
     (\<forall>c'. out = Returned (Inr c') \<longrightarrow> adopted c tr c'))"
  by (simp add: reconcileFinalizer_def adopted_def split: block_splits)

lemma traces_and_then:
  assumes "\<And>xs ys. P xs \<Longrightarrow> P ys \<Longrightarrow> P (xs @ ys)"
    and "always p (\<lambda>tr _. P tr)" and "\<And>a. always (k a) (\<lambda>tr _. P tr)"
  shows "always (and_then p k) (\<lambda>tr _. P tr)"
  by (rule always_and_thenI [OF assms(2)]) (auto intro: assms(1) always_mono [OF assms(3)])

lemma traces_reconcileCluster:
  assumes ca: "\<And>c. always (reconcileCASecret r c) (\<lambda>tr _. P c tr)"
    and exposure: "\<And>c. always (reconcileExposure r c) (\<lambda>tr _. P c tr)"
    and namespaces: "\<And>c. always (kubeRayNamespaces r) (\<lambda>tr _. P c tr)"
    and policies: "\<And>c nss. always (reconcileNetworkPolicies r c nss) (\<lambda>tr _. P c tr)"
    and append: "\<And>c xs ys. P c xs \<Longrightarrow> P c ys \<Longrightarrow> P c (xs @ ys)"
    and finalizer: "\<And>c xs. list_all finalizer_event xs \<Longrightarrow> P c xs"
  shows "always (reconcileCluster r c)
    (\<lambda>tr _. list_all finalizer_event tr \<or> (\<exists>c'. adopted c tr c' \<and> P c' tr))"
proof -
  have rest: "always (and_then (reconcileCASecret r c) (\<lambda>_. and_then (reconcileExposure r c) (\<lambda>_.
      and_then (kubeRayNamespaces r) (\<lambda>nss. reconcileNetworkPolicies r c nss)))) (\<lambda>tr _. P c tr)" for c
    by (intro traces_and_then append ca exposure namespaces policies)
  show ?thesis
    unfolding reconcileCluster_def
    by (rule always_and_thenI [OF finalizer_events])
      (auto intro!: always_mono [OF rest], metis adopted_append append finalizer)
qed

lemma traces_Reconcile:
  assumes "always (reconcileCluster r c)
      (\<lambda>tr _. list_all finalizer_event tr \<or> (\<exists>c'. adopted c tr c' \<and> P c' tr))"
    and "runs (Reconcile r req) (EGetRayCluster req (Inr c) # tr) out"
    and "ev \<in> set tr" and "\<not> finalizer_event ev"
  obtains c' where "adopted c tr c'" and "P c' tr"
  using assms by (fastforce simp: runs_Reconcile list_all_iff dest: alwaysD)

subsection \<open>The CA key pair\<close>

text \<open>
  When the CA secret exists, its key and certificate are applied again unchanged: the block makes one
  more call, with the data that was read, and reports its failure.
\<close>

theorem ca_secret_kept:
  assumes "isMTLSEnabled (rec_Config r)"
  shows "runs (reconcileCASecret r c)
      (EGetSecret (Namespace c) (caSecretNameFromCluster c) (Inr s) # tr) out \<longleftrightarrow>
    (\<exists>res. tr = [EApplyObject applyOptions (Some (Namespace c))
                  (ASecret (desiredCASecret c (dataOf s CAPrivateKeyKey) (dataOf s CACertKey))) res] \<and>
       out = Returned (case res of None \<Rightarrow> Inr () | Some err \<Rightarrow> Inl (failWith err)))"
  using assms by (auto simp: reconcileCASecret_def applyOrFail_def response_cases)

theorem ca_secret_kept_witness:
  "runs (reconcileCASecret (a_reconciler True True True) (a_cluster [] None))
     [EGetSecret ''ns'' (caSecretNameFromCluster (a_cluster [] None))
        (Inr \<lparr>sec_Data = [CAPrivateKeyKey \<mapsto> [1], CACertKey \<mapsto> [2]]\<rparr>),
      EApplyObject applyOptions (Some ''ns'') (ASecret (desiredCASecret (a_cluster [] None) [1] [2])) None]
     (Returned (Inr ()))"
  using ca_secret_kept [of "a_reconciler True True True" "a_cluster [] None"]
  by (simp add: dataOf_def CAPrivateKeyKey_def CACertKey_def)

definition key_needs_missing_secret :: "RayClusterReconciler \<Rightarrow> RayCluster \<Rightarrow> event list \<Rightarrow> bool" where
  "key_needs_missing_secret r c tr \<longleftrightarrow>
     (\<forall>bits res. EGenerateKey bits res \<in> set tr \<longrightarrow> bits = 2048 \<and> isMTLSEnabled (rec_Config r) \<and>
        (\<exists>err. IsNotFound err \<and>
           EGetSecret (Namespace c) (caSecretNameFromCluster c) (Inl err) \<in> set tr))"

text \<open>
  C28 A new CA key is generated only after the server has answered that the cluster's CA secret does not
  exist, and only with mutual TLS; any other failure to read the secret generates nothing.
\<close>

theorem ca_key_generated_only_if_missing:
  assumes "runs (Reconcile r req) (EGetRayCluster req (Inr c) # tr) out"
    and "EGenerateKey bits res \<in> set tr"
  shows "bits = 2048 \<and> isMTLSEnabled (rec_Config r) \<and>
    (\<exists>c' err. adopted c tr c' \<and> IsNotFound err \<and>
       EGetSecret (Namespace c') (caSecretNameFromCluster c') (Inl err) \<in> set tr)"
proof -
  have "always (reconcileCluster r c) (\<lambda>tr _. list_all finalizer_event tr \<or>
      (\<exists>c'. adopted c tr c' \<and> key_needs_missing_secret r c' tr))"
  proof (rule traces_reconcileCluster)
    fix c
    show "always (reconcileCASecret r c) (\<lambda>tr _. key_needs_missing_secret r c tr)"
      by (auto simp: key_needs_missing_secret_def block_defs always_rules split: block_splits)
    show "always (reconcileExposure r c) (\<lambda>tr _. key_needs_missing_secret r c tr)"
      by (simp add: key_needs_missing_secret_def block_defs always_rules split: block_splits)
    show "always (kubeRayNamespaces r) (\<lambda>tr _. key_needs_missing_secret r c tr)"
      by (simp add: key_needs_missing_secret_def block_defs always_rules split: block_splits)
    show "always (reconcileNetworkPolicies r c nss) (\<lambda>tr _. key_needs_missing_secret r c tr)" for nss
      by (simp add: key_needs_missing_secret_def block_defs always_rules split: block_splits)
  qed (auto simp: key_needs_missing_secret_def list_all_iff)
  then obtain c' where "adopted c tr c'" and "key_needs_missing_secret r c' tr"
    using assms by (rule traces_Reconcile) simp
  with assms(2) show ?thesis unfolding key_needs_missing_secret_def by blast
qed

definition a_time :: Time where
  "a_time = \<lparr>t_Year = 2024, t_Month = 2, t_Day = 29, t_Nanos = 0\<rparr>"

text \<open>The CA secret is missing, and key generation fails.\<close>

definition no_entropy_trace :: "RayCluster \<Rightarrow> event list" where
  "no_entropy_trace c =
     [EGetSecret ''ns'' (caSecretNameFromCluster c) (Inl (StatusNotFound ''missing'')),
      ERandInt63 7, ENow a_time, ENow a_time, EGenerateKey 2048 (Inl (StatusOther ''entropy''))]"

lemma no_entropy_run:
  "runs (Reconcile (a_reconciler False True False) a_request)
     (EGetRayCluster a_request (Inr (a_cluster [oAuthFinalizer] None)) #
      no_entropy_trace (a_cluster [oAuthFinalizer] None))
     (Returned (failWith (StatusOther ''entropy'')))"
  by (simp add: Reconcile_def reconcileCluster_def reconcileFinalizer_def reconcileCASecret_def
      and_then_def generateCACertificate_def no_entropy_trace_def)

theorem ca_key_generated_only_if_missing_witness:
  "\<exists>c' err. adopted (a_cluster [oAuthFinalizer] None) (no_entropy_trace (a_cluster [oAuthFinalizer] None)) c' \<and>
     IsNotFound err \<and>
     EGetSecret (Namespace c') (caSecretNameFromCluster c') (Inl err)
       \<in> set (no_entropy_trace (a_cluster [oAuthFinalizer] None))"
proof -
  have "EGenerateKey 2048 (Inl (StatusOther ''entropy''))
      \<in> set (no_entropy_trace (a_cluster [oAuthFinalizer] None))"
    by (simp add: no_entropy_trace_def)
  from ca_key_generated_only_if_missing [OF no_entropy_run this] show ?thesis by blast
qed

subsection \<open>The head pod\<close>

lemma set_missingSecrets:
  "set (missingSecrets sa pod) = set (sac_ImagePullSecrets sa) - set (pod_ImagePullSecrets pod)"
proof -
  have "set (fold removeAll xs ys) = set ys - set xs" for xs ys :: "string list"
    by (induction xs arbitrary: ys) auto
  moreover have "set (fold List.insert xs ys) = set ys \<union> set xs" for xs ys :: "string list"
    by (induction xs arbitrary: ys) auto
  ultimately show ?thesis by (simp add: missingSecrets_def)
qed

lemma missingSecrets_Nil:
  "missingSecrets sa pod = [] \<longleftrightarrow> set (sac_ImagePullSecrets sa) \<subseteq> set (pod_ImagePullSecrets pod)"
  using set_missingSecrets [of sa pod] by (metis Diff_eq_empty_iff set_empty)

text \<open>Why the head pod of a cluster may be deleted.\<close>

definition pod_lacks_secret :: "RayCluster \<Rightarrow> event list \<Rightarrow> string \<Rightarrow> string \<Rightarrow> bool" where
  "pod_lacks_secret c tr ns name \<longleftrightarrow>
     (\<exists>sa pod pods.
        EGetServiceAccount (Namespace c) (oauthServiceAccountNameFromCluster c) (Inr sa) \<in> set tr \<and>
        EListPods (Namespace c) (headPodSelector c) (Inr (pod # pods)) \<in> set tr \<and>
        pod_Namespace pod = ns \<and> pod_Name pod = name \<and>
        \<not> set (sac_ImagePullSecrets sa) \<subseteq> set (pod_ImagePullSecrets pod))"

definition deletes_for_secret :: "RayClusterReconciler \<Rightarrow> RayCluster \<Rightarrow> event list \<Rightarrow> bool" where
  "deletes_for_secret r c tr \<longleftrightarrow>
     (\<forall>ns name res. EDeletePod ns name res \<in> set tr \<longrightarrow>
        ps_ImagePullSecrets (head_pod c) = [] \<and> \<not> isRayClusterSuspended c \<and>
        isRayDashboardOAuthEnabled (rec_Config r) \<and> IsOpenShift r \<and> pod_lacks_secret c tr ns name)"

lemma pod_lacks_secret_append:
  "pod_lacks_secret c xs ns name \<Longrightarrow> pod_lacks_secret c (xs @ ys) ns name"
  "pod_lacks_secret c ys ns name \<Longrightarrow> pod_lacks_secret c (xs @ ys) ns name"
  by (auto simp: pod_lacks_secret_def)

text \<open>
  C29 The head pod is deleted only when the user gave it no pull secrets and the first pod the server
  listed lacks one that the OAuth service account has; and only while the OAuth objects of a running
  cluster are reconciled on OpenShift.
\<close>

theorem head_pod_deleted_only_for_secret:
  assumes "runs (Reconcile r req) (EGetRayCluster req (Inr c) # tr) out"
    and "EDeletePod ns name res \<in> set tr"
  shows "\<exists>c'. adopted c tr c' \<and> ps_ImagePullSecrets (head_pod c') = [] \<and>
    \<not> isRayClusterSuspended c' \<and> isRayDashboardOAuthEnabled (rec_Config r) \<and> IsOpenShift r \<and>
    pod_lacks_secret c' tr ns name"
proof -
  have "always (reconcileCluster r c) (\<lambda>tr _. list_all finalizer_event tr \<or>
      (\<exists>c'. adopted c tr c' \<and> deletes_for_secret r c' tr))"
  proof (rule traces_reconcileCluster)
    fix c
    show "always (reconcileExposure r c) (\<lambda>tr _. deletes_for_secret r c tr)"
      by (auto simp: deletes_for_secret_def pod_lacks_secret_def block_defs always_rules
          missingSecrets_Nil split: block_splits)
    show "always (reconcileCASecret r c) (\<lambda>tr _. deletes_for_secret r c tr)"
      by (simp add: deletes_for_secret_def block_defs always_rules split: block_splits)
    show "always (kubeRayNamespaces r) (\<lambda>tr _. deletes_for_secret r c tr)"
      by (simp add: deletes_for_secret_def block_defs always_rules split: block_splits)
    show "always (reconcileNetworkPolicies r c nss) (\<lambda>tr _. deletes_for_secret r c tr)" for nss
      by (simp add: deletes_for_secret_def block_defs always_rules split: block_splits)
    show "deletes_for_secret r c (xs @ ys)"
      if "deletes_for_secret r c xs" and "deletes_for_secret r c ys" for xs ys
      using that pod_lacks_secret_append unfolding deletes_for_secret_def by (metis Un_iff set_append)
  qed (auto simp: deletes_for_secret_def list_all_iff)
  then obtain c' where "adopted c tr c'" and "deletes_for_secret r c' tr"
    using assms by (rule traces_Reconcile) simp
  with assms(2) show ?thesis unfolding deletes_for_secret_def by blast
qed

text \<open>A run that finds a head pod without the service account's pull secret.\<close>

definition delete_pod_trace :: "RayCluster \<Rightarrow> event list" where
  "delete_pod_trace c =
     map (\<lambda>obj. EApplyObject applyOptions (Some ''ns'') obj None)
       (take 4 (oauth_objects (a_reconciler True False True) c)) @
     [EGetServiceAccount ''ns'' (oauthServiceAccountNameFromCluster c)
        (Inr \<lparr>sac_ImagePullSecrets = [''pull'', ''extra'']\<rparr>),
      EListPods ''ns'' (headPodSelector c)
        (Inr [\<lparr>pod_Name = ''head-1'', pod_Namespace = ''ns'', pod_ImagePullSecrets = [''pull'']\<rparr>]),
      EDeletePod ''ns'' ''head-1'' (Some (StatusOther ''denied''))]"

lemma delete_pod_run:
  "runs (Reconcile (a_reconciler True False True) a_request)
     (EGetRayCluster a_request (Inr (a_cluster [oAuthFinalizer] None)) #
      delete_pod_trace (a_cluster [oAuthFinalizer] None))
     (Returned (failWith (Wrapped ''failed to delete head pod: '' (StatusOther ''denied''))))"
  by (simp add: oauth_run_simps delete_pod_trace_def missingSecrets_def)

theorem head_pod_deleted_only_for_secret_witness:
  "\<exists>c'. adopted (a_cluster [oAuthFinalizer] None) (delete_pod_trace (a_cluster [oAuthFinalizer] None)) c' \<and>
     ps_ImagePullSecrets (head_pod c') = [] \<and>
     pod_lacks_secret c' (delete_pod_trace (a_cluster [oAuthFinalizer] None)) ''ns'' ''head-1''"
proof -
  have "EDeletePod ''ns'' ''head-1'' (Some (StatusOther ''denied''))
      \<in> set (delete_pod_trace (a_cluster [oAuthFinalizer] None))"
    by (simp add: delete_pod_trace_def)
  from head_pod_deleted_only_for_secret [OF delete_pod_run this] show ?thesis by blast
qed

end
