(* ===== verification/ReconcileEnds.thy ===== *)
theory ReconcileEnds
  imports ReconcileCare
begin

text \<open>How \<open>Reconcile\<close> ends: its result values, its only panic, and the search for the KubeRay operator.\<close>

definition orderly :: "RayClusterReconciler \<Rightarrow> (outcome_pair + 'a) outcome \<Rightarrow> bool" where
  "orderly r out \<longleftrightarrow>
     (case out of
        Panicked e \<Rightarrow> rec_Config r = None \<and> e = NilDereference
      | Returned (Inl res) \<Rightarrow> fst res = emptyResult \<or> (\<exists>e. res = failWith e)
      | Returned (Inr _) \<Rightarrow> True)"

lemma orderly_and_then:
  assumes "always p (\<lambda>_ out. orderly r out)" and "\<And>a. always (k a) (\<lambda>_ out. orderly r out)"
  shows "always (and_then p k) (\<lambda>_ out. orderly r out)"
  by (rule always_and_thenI [OF assms(1)]) (auto simp: orderly_def intro!: always_mono [OF assms(2)])

lemma orderly_reconcileCluster: "always (reconcileCluster r c) (\<lambda>_ out. orderly r out)"
  unfolding reconcileCluster_def
proof (intro orderly_and_then)
  show "always (reconcileFinalizer c) (\<lambda>_ out. orderly r out)"
    by (auto simp: orderly_def reconcileFinalizer_def finished_def split: block_splits)
  show "always (reconcileCASecret r c) (\<lambda>_ out. orderly r out)" for c
    by (auto simp: orderly_def block_defs always_rules split: block_splits)
  show "always (reconcileExposure r c) (\<lambda>_ out. orderly r out)" for c
    by (auto simp: orderly_def block_defs always_rules split: block_splits)
  show "always (kubeRayNamespaces r) (\<lambda>_ out. orderly r out)"
    by (auto simp: orderly_def block_defs always_rules split: block_splits)
  show "always (reconcileNetworkPolicies r c nss) (\<lambda>_ out. orderly r out)" for c nss
    by (auto simp: orderly_def block_defs always_rules split: block_splits)
qed

text \<open>
  A result asks for a requeue only together with an error, and then after 10 nanoseconds: the
  constant is used as a duration without a unit. It never sets the immediate requeue flag.
\<close>

theorem requeue_only_with_error:
  assumes "runs (Reconcile r req) tr (Returned (res, err))"
  shows "Requeue res = False \<and>
    (RequeueAfter res = 0 \<or> RequeueAfter res = 10 \<and> (\<exists>e. err = Some e))"
proof -
  from assms consider "res = emptyResult"
    | c tr' out where "runs (reconcileCluster r c) tr' out" "final out = Returned (res, err)"
    by (auto simp: runs_Reconcile)
  then show ?thesis
  proof cases
    case 2
    then have "orderly r out" using orderly_reconcileCluster by (auto dest: alwaysD)
    with 2(2) show ?thesis
      by (cases out rule: final.cases)
        (auto simp: orderly_def finished_def failWith_def emptyResult_def requeueTime_def)
  qed (simp add: emptyResult_def)
qed

theorem requeue_only_with_error_witness:
  "RequeueAfter (fst (failWith (StatusOther ''entropy''))) = 0 \<or>
   RequeueAfter (fst (failWith (StatusOther ''entropy''))) = 10 \<and>
     (\<exists>e. snd (failWith (StatusOther ''entropy'')) = Some e)"
  using requeue_only_with_error [OF no_entropy_run [unfolded failWith_def]] by (simp add: failWith_def)

text \<open>
  Reconcile can panic in one way only: without a configuration, when the head's network policy reads
  the mutual-TLS switch through the nil pointer.
\<close>

lemma panics_without_config:
  assumes "runs (Reconcile r req) tr (Panicked e)"
  shows "rec_Config r = None \<and> e = NilDereference"
proof -
  from assms obtain c tr' out where run: "runs (reconcileCluster r c) tr' out" "final out = Panicked e"
    by (auto simp: runs_Reconcile)
  then have "orderly r out" using orderly_reconcileCluster by (auto dest: alwaysD)
  with run(2) show ?thesis by (cases out rule: final.cases) (auto simp: orderly_def)
qed

lemma never_panics:
  assumes "rec_Config r = Some cfg"
  shows "always (Reconcile r req) (\<lambda>tr out. \<exists>res. out = Returned res)"
proof -
  have "\<exists>res. out = Returned res" if "runs (Reconcile r req) tr out" for tr out
    using that panics_without_config [of r req tr] assms by (cases out) auto
  then show ?thesis by (simp add: always_def)
qed

lemma nil_config_run:
  "runs (Reconcile \<lparr>CookieSalt = [], rec_Config = None, IsOpenShift = False\<rparr> a_request)
     [EGetRayCluster a_request (Inr (a_cluster [oAuthFinalizer] None)),
      EGetSecret ''ns'' (caSecretNameFromCluster (a_cluster [oAuthFinalizer] None))
        (Inr \<lparr>sec_Data = Map.empty\<rparr>),
      EApplyObject applyOptions (Some ''ns'')
        (ASecret (desiredCASecret (a_cluster [oAuthFinalizer] None) [] [])) None,
      EListPods [] ''app.kubernetes.io/component=kuberay-operator'' (Inr [])]
     (Panicked NilDereference)"
  by (simp add: oauth_run_simps config_defs dataOf_def desiredHeadNetworkPolicy_def)

text \<open>
  Without a configuration the switches read as on, yet no live cluster is ever reconciled: every run
  ends in the nil dereference or in an earlier error.
\<close>

theorem nil_config_never_succeeds:
  assumes "rec_Config r = None"
    and "runs (Reconcile r req) (EGetRayCluster req (Inr c) # tr) out"
    and "IsZero (om_DeletionTimestamp (rc_Meta c))"
  shows "out = Panicked NilDereference \<or> (\<exists>res err. out = Returned (res, Some err))"
proof -
  let ?Q = "\<lambda>_ out. \<forall>u. out \<noteq> Returned (Inr u)"
  have policies: "always (reconcileNetworkPolicies r c nss) ?Q" for c nss
    using assms(1) by (simp add: reconcileNetworkPolicies_def desiredHeadNetworkPolicy_def)
  have never: "always (reconcileCluster r c) ?Q"
    unfolding reconcileCluster_def always_and_then
    by (auto simp: always_def split: outcome.splits sum.splits dest: alwaysD [OF policies])
  obtain out' where run: "runs (reconcileCluster r c) tr out'" "out = final out'"
    using assms(2) by (auto simp: runs_Reconcile)
  have "orderly r out'" and "?Q tr out'"
    using run(1) orderly_reconcileCluster never by (auto dest: alwaysD)
  moreover have "out' \<noteq> Returned (Inl (res, None))" for res
    using reconcileCluster_objects [THEN alwaysD, OF run(1)] assms(3) by auto
  ultimately show ?thesis
    using run(2) by (cases out' rule: final.cases) (auto simp: orderly_def, metis option.exhaust)
qed

theorem nil_config_never_succeeds_witness:
  "(Panicked NilDereference :: outcome_pair outcome) = Panicked NilDereference \<or>
   (\<exists>res err. (Panicked NilDereference :: outcome_pair outcome) = Returned (res, Some err))"
  by (rule nil_config_never_succeeds [OF _ nil_config_run]) simp_all

subsection \<open>The KubeRay operator's namespaces\<close>

text \<open>
  Where the KubeRay operator is looked for: the pod listing always comes first and its failure stops
  the loop. On OpenShift its answer is then dropped and the namespace is the one of the
  DSCInitialization, or the two well-known ones when there is none; elsewhere it is the namespace of
  the first operator pod, or the default.
\<close>

theorem kubeRayNamespaces_runs:
  "runs (kubeRayNamespaces r) tr out \<longleftrightarrow>
    (\<exists>pods rest. tr = EListPods [] ''app.kubernetes.io/component=kuberay-operator'' pods # rest \<and>
      (case pods of
         Inl err \<Rightarrow> rest = [] \<and> out = Returned (Inl (failWith err))
       | Inr items \<Rightarrow>
           if IsOpenShift r then
             \<exists>dsci. rest = [EGetDSCInitialization ''default-dsci'' dsci] \<and>
               out = Returned (case dsci of
                   Inr d \<Rightarrow> Inr [dsci_ApplicationsNamespace d]
                 | Inl err \<Rightarrow>
                     if IsNotFound err then Inr [''opendatahub'', ''redhat-ods-applications'']
                     else Inl (emptyResult, Some err))
           else rest = [] \<and>
             out = Returned (Inr [if items = [] then ''ray-system'' else pod_Namespace (hd items)])))"
proof -
  have "kubeRayNamespaces r = ListPods [] ''app.kubernetes.io/component=kuberay-operator'' (\<lambda>pods.
      case pods of
        Inl err \<Rightarrow> Ret (Inl (failWith err))
      | Inr items \<Rightarrow>
          if IsOpenShift r then
            GetDSCInitialization ''default-dsci'' (\<lambda>dsci. Ret (case dsci of
                Inr d \<Rightarrow> Inr [dsci_ApplicationsNamespace d]
              | Inl err \<Rightarrow>
                  if IsNotFound err then Inr [''opendatahub'', ''redhat-ods-applications'']
                  else Inl (emptyResult, Some err)))
          else Ret (Inr [if items = [] then ''ray-system'' else pod_Namespace (hd items)]))"
    by (auto simp: kubeRayNamespaces_def getKubeRayOperatorNamespace_def fun_eq_iff
        defaultDSCINamespace_def odhNamespace_def rhdsAppsNamespace_def kubeRayDefaultNamespace_def
        split: list.split sum.split)
  then show ?thesis by (cases "IsOpenShift r") (auto simp: split_sum_ex)
qed

end
