(* ===== verification/Support.thy ===== *)
theory Support
  imports KubeTypes
begin

text \<open>
  The helpers of \<^verbatim>\<open>support.go\<close> the webhook is built from: environment lookup with a
  fallback, replace-or-append and lookup-and-compare on slices, and the comparison predicates. The locale \<open>keyed\<close> is the contract between the generic slice
  operations and a type whose elements are identified by a name; \<open>keyed_with\<close> adds the predicate that
  compares with a given name.
\<close>

subsection \<open>Environment variables\<close>

text \<open>The process environment is a parameter; \<open>None\<close> is an unset variable.\<close>

definition getEnv :: "strmap \<Rightarrow> string \<Rightarrow> string \<Rightarrow> string" where
  "getEnv env key fallback = (case env key of Some value \<Rightarrow> value | None \<Rightarrow> fallback)"

definition CertGeneratorImage :: "strmap \<Rightarrow> string" where
  "CertGeneratorImage env = getEnv env ''CERT_GENERATOR_IMAGE''
     ''registry.redhat.io/ubi9@sha256:770cf07083e1c85ae69c25181a205b7cdef63c11b794c89b3b487d4670b4c328''"

definition OAuthProxyImage :: "strmap \<Rightarrow> string" where
  "OAuthProxyImage env = getEnv env ''OAUTH_PROXY_IMAGE''
     ''registry.redhat.io/openshift4/ose-oauth-proxy@sha256:1ea6a01bf3e63cdcf125c6064cbd4a4a270deaf0f157b3eabb78f60556840366''"

subsection \<open>Replace or append, find and compare\<close>

text \<open>\<open>upsert\<close> overwrites the first element the predicate relates to the item, or appends it.\<close>

fun upsert :: "'a list \<Rightarrow> 'a \<Rightarrow> ('a \<Rightarrow> 'a \<Rightarrow> bool) \<Rightarrow> 'a list" where
  "upsert [] item predicate = [item]"
| "upsert (t # ts) item predicate =
     (if predicate t item then item # ts else t # upsert ts item predicate)"

text \<open>
  \<open>contains\<close> compares the first element the predicate relates to the item. The comparison
  \<^verbatim>\<open>equality.Semantic.DeepDerivative\<close> is the parameter \<open>derivative\<close>; \<open>box\<close> puts the element into the
  \<^verbatim>\<open>interface{}\<close> of the error's bad value.
\<close>

fun contains ::
    "('a \<Rightarrow> 'a \<Rightarrow> bool) \<Rightarrow> ('a \<Rightarrow> bad_value) \<Rightarrow> 'a list \<Rightarrow> 'a \<Rightarrow> ('a \<Rightarrow> 'a \<Rightarrow> bool)
      \<Rightarrow> string list \<Rightarrow> string \<Rightarrow> FieldError option" where
  "contains derivative box [] item predicate path msg = Some (field_Required path msg)"
| "contains derivative box (t # ts) item predicate path msg =
     (if predicate t item then
        if derivative item t then None else Some (field_Invalid path (box t) msg)
      else contains derivative box ts item predicate path msg)"

definition byContainerName :: "Container \<Rightarrow> Container \<Rightarrow> bool" where
  "byContainerName c1 c2 \<longleftrightarrow> c_Name c1 = c_Name c2"

definition withContainerName :: "string \<Rightarrow> Container \<Rightarrow> Container \<Rightarrow> bool" where
  "withContainerName name c1 c2 \<longleftrightarrow> c_Name c1 = name"

definition byVolumeName :: "Volume \<Rightarrow> Volume \<Rightarrow> bool" where
  "byVolumeName v1 v2 \<longleftrightarrow> v_Name v1 = v_Name v2"

definition withVolumeName :: "string \<Rightarrow> Volume \<Rightarrow> Volume \<Rightarrow> bool" where
  "withVolumeName name v1 v2 \<longleftrightarrow> v_Name v1 = name"

definition byVolumeMountName :: "VolumeMount \<Rightarrow> VolumeMount \<Rightarrow> bool" where
  "byVolumeMountName v1 v2 \<longleftrightarrow> vm_Name v1 = vm_Name v2"

definition byEnvVarName :: "EnvVar \<Rightarrow> EnvVar \<Rightarrow> bool" where
  "byEnvVarName e1 e2 \<longleftrightarrow> ev_Name e1 = ev_Name e2"

definition withEnvVarName :: "string \<Rightarrow> EnvVar \<Rightarrow> EnvVar \<Rightarrow> bool" where
  "withEnvVarName name e1 e2 \<longleftrightarrow> ev_Name e1 = name"

subsection \<open>The contract of a named type\<close>

lemma find_eq_Some: "find P xs = Some x \<Longrightarrow> x \<in> set xs \<and> P x"
  by (induction xs) (auto split: if_splits)

lemma find_append:
  "find P (xs @ ys) = (case find P xs of None \<Rightarrow> find P ys | Some x \<Rightarrow> Some x)"
  by (induction xs) simp_all

locale keyed =
  fixes key :: "'a \<Rightarrow> string" and byName :: "'a \<Rightarrow> 'a \<Rightarrow> bool"
  assumes byName: "byName a b \<longleftrightarrow> key a = key b"
begin

lemma upsert_find:
  "find (\<lambda>t. key t = k) (upsert xs x byName) =
     (if k = key x then Some x else find (\<lambda>t. key t = k) xs)"
  by (induction xs) (auto simp: byName)

lemma upsert_keys:
  "map key (upsert xs x byName) =
     (if key x \<in> key ` set xs then map key xs else map key xs @ [key x])"
  by (induction xs) (auto simp: byName)

lemma upsert_distinct:
  "distinct (map key xs) \<Longrightarrow> distinct (map key (upsert xs x byName))"
  by (simp only: upsert_keys) auto

lemma upsert_fixpoint:
  "find (\<lambda>t. key t = key x) xs = Some x \<Longrightarrow> upsert xs x byName = xs"
  by (induction xs) (auto simp: byName split: if_splits)

lemma upsert_set: "set (upsert xs x byName) \<subseteq> insert x (set xs)"
  by (induction xs) auto

text \<open>Only the first element of a name is replaced, so a later one stays the last.\<close>

lemma upsert_count:
  "length (filter (\<lambda>t. key t = k) (upsert xs x byName)) =
     (if k = key x \<and> k \<notin> key ` set xs then 1 else length (filter (\<lambda>t. key t = k) xs))"
  by (induction xs) (auto simp: byName)

lemma upsert_last_other:
  "k \<noteq> key x \<Longrightarrow> find (\<lambda>t. key t = k) (rev (upsert xs x byName)) = find (\<lambda>t. key t = k) (rev xs)"
  by (induction xs) (auto simp: byName find_append split: option.split)

lemma upsert_last:
  "1 < length (filter (\<lambda>t. key t = key x) xs) \<Longrightarrow>
   find (\<lambda>t. key t = key x) (rev (upsert xs x byName)) = find (\<lambda>t. key t = key x) (rev xs)"
proof (induction xs)
  case (Cons t ts)
  show ?case
  proof (cases "key t = key x")
    case True
    with Cons.prems obtain u where "find (\<lambda>t. key t = key x) (rev ts) = Some u"
      by (cases "find (\<lambda>t. key t = key x) (rev ts)") (auto simp: find_None_iff filter_empty_conv)
    with True show ?thesis by (simp add: byName find_append)
  next
    case False
    with Cons show ?thesis by (simp add: byName find_append)
  qed
qed simp

lemma fold_upsert_last:
  assumes "1 < length (filter (\<lambda>t. key t = k) xs)"
  shows "find (\<lambda>t. key t = k) (rev (fold (\<lambda>x xs. upsert xs x byName) items xs)) =
    find (\<lambda>t. key t = k) (rev xs)"
  using assms
proof (induction items arbitrary: xs)
  case (Cons x items)
  then have "k \<in> key ` set xs" by (cases "filter (\<lambda>t. key t = k) xs") (auto simp: filter_eq_Cons_iff)
  then have "1 < length (filter (\<lambda>t. key t = k) (upsert xs x byName))"
    using Cons.prems by (simp add: upsert_count)
  with Cons show ?case by (cases "k = key x") (simp_all add: upsert_last upsert_last_other)
qed simp

lemma upsert_hd:
  assumes "xs \<noteq> []" and "key (hd xs) \<noteq> key x"
  shows "upsert xs x byName = hd xs # upsert (tl xs) x byName"
  using assms by (cases xs) (auto simp: byName)

text \<open>A sequence of upserts, as the loops of the webhook make them.\<close>

lemma fold_upsert_find_other:
  "k \<notin> key ` set items \<Longrightarrow>
   find (\<lambda>t. key t = k) (fold (\<lambda>x xs. upsert xs x byName) items xs) = find (\<lambda>t. key t = k) xs"
  by (induction items arbitrary: xs) (auto simp: upsert_find)

lemma fold_upsert_find:
  assumes "distinct (map key items)" and "x \<in> set items"
  shows "find (\<lambda>t. key t = key x) (fold (\<lambda>x xs. upsert xs x byName) items xs) = Some x"
  using assms
proof (induction items arbitrary: xs)
  case (Cons y items)
  then show ?case
    by (cases "x = y") (auto simp: upsert_find fold_upsert_find_other)
qed simp

lemma fold_upsert_fixpoint:
  "(\<And>x. x \<in> set items \<Longrightarrow> find (\<lambda>t. key t = key x) xs = Some x) \<Longrightarrow>
   fold (\<lambda>x xs. upsert xs x byName) items xs = xs"
  by (induction items) (simp_all add: upsert_fixpoint)

lemma fold_upsert_idem:
  assumes "distinct (map key items)"
  shows "fold (\<lambda>x xs. upsert xs x byName) items (fold (\<lambda>x xs. upsert xs x byName) items xs) =
         fold (\<lambda>x xs. upsert xs x byName) items xs"
  by (intro fold_upsert_fixpoint fold_upsert_find assms)

lemma upsert_names: "key ` set (upsert xs x byName) = insert (key x) (key ` set xs)"
  by (induction xs) (auto simp: byName)

lemma fold_upsert_names:
  "key ` set (fold (\<lambda>x xs. upsert xs x byName) items xs) = key ` set items \<union> key ` set xs"
  by (induction items arbitrary: xs) (auto simp: upsert_names)

lemma fold_upsert_distinct:
  "distinct (map key xs) \<Longrightarrow> distinct (map key (fold (\<lambda>x xs. upsert xs x byName) items xs))"
  by (induction items arbitrary: xs) (simp_all add: upsert_distinct)

lemma fold_upsert_set:
  "set (fold (\<lambda>x xs. upsert xs x byName) items xs) \<subseteq> set items \<union> set xs"
proof (induction items arbitrary: xs)
  case (Cons x items)
  show ?case using Cons [of "upsert xs x byName"] upsert_set [of xs x] by auto
qed simp

lemma contains_None:
  "contains d box xs x byName path msg = None \<longleftrightarrow>
     (\<exists>t. find (\<lambda>t. key t = key x) xs = Some t \<and> d x t)"
  by (induction xs) (auto simp: byName)

lemma contains_found:
  assumes "find (\<lambda>t. key t = key x) xs = Some t"
  shows "contains d box xs x byName path msg =
           (if d x t then None else Some (field_Invalid path (box t) msg))"
  using assms by (induction xs) (auto simp: byName split: if_splits)

lemma contains_missing:
  assumes "find (\<lambda>t. key t = key x) xs = None"
  shows "contains d box xs x byName path msg = Some (field_Required path msg)"
  using assms by (induction xs) (auto simp: byName split: if_splits)

end

locale keyed_with = keyed +
  fixes withName :: "string \<Rightarrow> 'a \<Rightarrow> 'a \<Rightarrow> bool"
  assumes withName: "withName n a b \<longleftrightarrow> key a = n"
begin

lemma upsert_withName: "n = key x \<Longrightarrow> upsert xs x (withName n) = upsert xs x byName"
  by (induction xs) (auto simp: byName withName)

end

interpretation containers: keyed_with c_Name byContainerName withContainerName
  by unfold_locales (simp_all add: byContainerName_def withContainerName_def)

interpretation volumes: keyed_with v_Name byVolumeName withVolumeName
  by unfold_locales (simp_all add: byVolumeName_def withVolumeName_def)

interpretation env_vars: keyed_with ev_Name byEnvVarName withEnvVarName
  by unfold_locales (simp_all add: byEnvVarName_def withEnvVarName_def)

interpretation mounts: keyed vm_Name byVolumeMountName
  by unfold_locales (simp add: byVolumeMountName_def)

end
