(* ===== verification/PodParts.thy ===== *)
theory PodParts
  imports Names Support
begin

text \<open>
  The containers, volumes, environment variables and mounts that \<^verbatim>\<open>raycluster_webhook.go\<close> injects into
  a RayCluster's pods. Fields a Go literal leaves out have their zero value.
\<close>

definition oauthProxyContainerName :: string where
  "oauthProxyContainerName = ''oauth-proxy''"

definition oauthProxyVolumeName :: string where
  "oauthProxyVolumeName = ''proxy-tls-secret''"

definition initContainerName :: string where
  "initContainerName = ''create-cert''"

definition delegateURLs :: "string \<Rightarrow> string" where
  \<open>delegateURLs ns = ''--openshift-delegate-urls={"/":{"resource":"pods","namespace":"'' @ ns
     @ ''","verb":"get"}}''\<close>

definition oauthProxyContainer :: "strmap \<Rightarrow> RayCluster \<Rightarrow> Container" where
  [pod_defs]: "oauthProxyContainer env rayCluster =
     \<lparr>c_Name = oauthProxyContainerName,
      c_Image = OAuthProxyImage env,
      c_Command = [],
      c_Args =
        [''--https-address=:8443'',
         ''--provider=openshift'',
         ''--openshift-service-account='' @ oauthServiceAccountNameFromCluster rayCluster,
         ''--upstream=http://localhost:8265'',
         ''--tls-cert=/etc/tls/private/tls.crt'',
         ''--tls-key=/etc/tls/private/tls.key'',
         ''--cookie-secret=$(COOKIE_SECRET)'',
         delegateURLs (Namespace rayCluster)],
      c_Ports = [\<lparr>cp_Name = ''oauth-proxy'', cp_ContainerPort = 8443, cp_rest = []\<rparr>],
      c_Env =
        [\<lparr>ev_Name = ''COOKIE_SECRET'', ev_Value = [],
          ev_ValueFrom = Some
            \<lparr>evs_FieldRef = None,
             evs_SecretKeyRef = Some
               \<lparr>sks_Name = oauthSecretNameFromCluster rayCluster, sks_Key = ''cookie_secret'',
                sks_Optional = None\<rparr>,
             evs_rest = []\<rparr>\<rparr>],
      c_VolumeMounts =
        [\<lparr>vm_Name = oauthProxyVolumeName, vm_ReadOnly = True, vm_MountPath = ''/etc/tls/private'',
          vm_rest = []\<rparr>],
      c_rest = []\<rparr>"

definition oauthProxyTLSSecretVolume :: "RayCluster \<Rightarrow> Volume" where
  [pod_defs]: "oauthProxyTLSSecretVolume rayCluster =
     \<lparr>v_Name = oauthProxyVolumeName,
      v_Secret = Some \<lparr>svs_SecretName = oauthServiceTLSSecretName rayCluster, svs_rest = []\<rparr>,
      v_EmptyDir = None, v_rest = []\<rparr>"

definition certVolumeMounts :: "VolumeMount list" where
  [pod_defs]: "certVolumeMounts =
     [\<lparr>vm_Name = ''ca-vol'', vm_ReadOnly = True, vm_MountPath = ''/home/ray/workspace/ca'',
       vm_rest = []\<rparr>,
      \<lparr>vm_Name = ''server-cert'', vm_ReadOnly = False, vm_MountPath = ''/home/ray/workspace/tls'',
       vm_rest = []\<rparr>]"

definition plainEnvVar :: "string \<Rightarrow> string \<Rightarrow> EnvVar" where
  "plainEnvVar name value = \<lparr>ev_Name = name, ev_Value = value, ev_ValueFrom = None\<rparr>"

definition envVarList :: "EnvVar list" where
  [pod_defs]: "envVarList =
     [\<lparr>ev_Name = ''MY_POD_IP'', ev_Value = [],
       ev_ValueFrom = Some
         \<lparr>evs_FieldRef = Some \<lparr>ofs_APIVersion = [], ofs_FieldPath = ''status.podIP''\<rparr>,
          evs_SecretKeyRef = None, evs_rest = []\<rparr>\<rparr>,
      plainEnvVar ''RAY_USE_TLS'' ''1'',
      plainEnvVar ''RAY_TLS_SERVER_CERT'' ''/home/ray/workspace/tls/server.crt'',
      plainEnvVar ''RAY_TLS_SERVER_KEY'' ''/home/ray/workspace/tls/server.key'',
      plainEnvVar ''RAY_TLS_CA_CERT'' ''/home/ray/workspace/tls/ca.crt'']"

definition caVolumes :: "RayCluster \<Rightarrow> Volume list" where
  [pod_defs]: "caVolumes rayCluster =
     [\<lparr>v_Name = ''ca-vol'',
       v_Secret = Some \<lparr>svs_SecretName = caSecretNameFromCluster rayCluster, svs_rest = []\<rparr>,
       v_EmptyDir = None, v_rest = []\<rparr>,
      \<lparr>v_Name = ''server-cert'', v_Secret = None,
       v_EmptyDir = Some \<lparr>eds_Medium = [], eds_SizeLimit = None\<rparr>, v_rest = []\<rparr>]"

text \<open>
  The shell script of the init containers. In the Go source it is a raw string literal, so \<open>esc_n\<close> is
  the two characters backslash and \<open>n\<close>.
\<close>

definition esc_n :: string where
  "esc_n = [CHR 0x5C, CHR ''n'']"

definition certScriptStart :: string where
  \<open>certScriptStart =
     ''cd /home/ray/workspace/tls && openssl req -nodes -newkey rsa:2048 -keyout server.key -out server.csr -subj '/CN=ray-head' && printf "authorityKeyIdentifier=keyid,issuer''
     @ esc_n @ ''basicConstraints=CA:FALSE'' @ esc_n @ ''subjectAltName = @alt_names''
     @ esc_n @ ''[alt_names]'' @ esc_n @ ''DNS.1 = 127.0.0.1'' @ esc_n @ ''DNS.2 = localhost''
     @ esc_n @ ''DNS.3 = ${FQ_RAY_IP}'' @ esc_n @ ''DNS.4 = $(awk 'END{print $1}' /etc/hosts)''\<close>

definition certScriptEnd :: string where
  \<open>certScriptEnd =
     ''">./domain.ext && cp /home/ray/workspace/ca/* . && openssl x509 -req -CA ca.crt -CAkey ca.key -in server.csr -out server.crt -days 365 -CAcreateserial -extfile domain.ext''\<close>

definition rayHeadInitContainer :: "strmap \<Rightarrow> RayCluster \<Rightarrow> KubeRayConfiguration \<Rightarrow> Container" where
  [pod_defs]: "rayHeadInitContainer env rayCluster config =
     (let rayClientRoute =
            rayClientNameFromCluster rayCluster @ ''-'' @ Namespace rayCluster @ ''.''
              @ IngressDomain config;
          svcDomain = serviceNameFromCluster rayCluster @ ''.'' @ Namespace rayCluster @ ''.svc''
      in \<lparr>c_Name = initContainerName,
          c_Image = CertGeneratorImage env,
          c_Command =
            [''sh'', ''-c'',
             certScriptStart @ esc_n @ ''DNS.5 = '' @ rayClientRoute
               @ esc_n @ ''DNS.6 = '' @ svcDomain @ certScriptEnd],
          c_Args = [], c_Ports = [], c_Env = [],
          c_VolumeMounts = certVolumeMounts, c_rest = []\<rparr>)"

definition rayWorkerInitContainer :: "strmap \<Rightarrow> KubeRayConfiguration \<Rightarrow> Container" where
  [pod_defs]: "rayWorkerInitContainer env config =
     \<lparr>c_Name = initContainerName,
      c_Image = CertGeneratorImage env,
      c_Command = [''sh'', ''-c'', certScriptStart @ certScriptEnd],
      c_Args = [], c_Ports = [], c_Env = [],
      c_VolumeMounts = certVolumeMounts, c_rest = []\<rparr>"

subsection \<open>Names of the injected parts\<close>

lemma injected_names [simp]:
  "c_Name (oauthProxyContainer env rc) = oauthProxyContainerName"
  "v_Name (oauthProxyTLSSecretVolume rc) = oauthProxyVolumeName"
  "c_Name (rayHeadInitContainer env rc cfg) = initContainerName"
  "c_Name (rayWorkerInitContainer env cfg) = initContainerName"
  by (simp_all add: pod_defs Let_def)

lemma envVarList_names:
  "map ev_Name envVarList =
     [''MY_POD_IP'', ''RAY_USE_TLS'', ''RAY_TLS_SERVER_CERT'', ''RAY_TLS_SERVER_KEY'',
      ''RAY_TLS_CA_CERT'']"
  by (simp add: envVarList_def plainEnvVar_def)

lemma caVolumes_names: "map v_Name (caVolumes rc) = [''ca-vol'', ''server-cert'']"
  by (simp add: caVolumes_def)

lemma certVolumeMounts_names: "map vm_Name certVolumeMounts = [''ca-vol'', ''server-cert'']"
  by (simp add: certVolumeMounts_def)

lemma injected_distinct [simp]:
  "distinct (map ev_Name envVarList)"
  "distinct (map v_Name (caVolumes rc))"
  "distinct (map vm_Name certVolumeMounts)"
  by (simp_all add: envVarList_names caVolumes_names certVolumeMounts_names)

lemma oauth_volume_not_ca [simp]: "oauthProxyVolumeName \<notin> v_Name ` set (caVolumes rc)"
proof -
  have "v_Name ` set (caVolumes rc) = {''ca-vol'', ''server-cert''}"
    by (simp add: caVolumes_def)
  then show ?thesis by (simp add: oauthProxyVolumeName_def)
qed

lemma injected_nonempty [simp]:
  "envVarList \<noteq> []" "caVolumes rc \<noteq> []" "certVolumeMounts \<noteq> []"
  by (simp_all add: envVarList_def caVolumes_def certVolumeMounts_def)

text \<open>Everything injected depends on the cluster through its metadata only.\<close>

lemma names_cong:
  assumes "rc_Meta a = rc_Meta b"
  shows "oauthServiceAccountNameFromCluster a = oauthServiceAccountNameFromCluster b"
    and "oauthProxyContainer env a = oauthProxyContainer env b"
    and "oauthProxyTLSSecretVolume a = oauthProxyTLSSecretVolume b"
    and "caVolumes a = caVolumes b"
    and "rayHeadInitContainer env a cfg = rayHeadInitContainer env b cfg"
  using assms
  by (simp_all add: pod_defs name_defs shouldUseOldName_def rayClientNameFromCluster_def
      serviceNameFromCluster_def)

lemma names_set_head_pod [simp]:
  "oauthServiceAccountNameFromCluster (set_head_pod p rc) = oauthServiceAccountNameFromCluster rc"
  "oauthProxyContainer env (set_head_pod p rc) = oauthProxyContainer env rc"
  "oauthProxyTLSSecretVolume (set_head_pod p rc) = oauthProxyTLSSecretVolume rc"
  "caVolumes (set_head_pod p rc) = caVolumes rc"
  "rayHeadInitContainer env (set_head_pod p rc) cfg = rayHeadInitContainer env rc cfg"
  by (rule names_cong; simp)+

lemma names_workers_update [simp]:
  "oauthServiceAccountNameFromCluster (rc\<lparr>rc_Workers := ws\<rparr>) = oauthServiceAccountNameFromCluster rc"
  "oauthProxyContainer env (rc\<lparr>rc_Workers := ws\<rparr>) = oauthProxyContainer env rc"
  "oauthProxyTLSSecretVolume (rc\<lparr>rc_Workers := ws\<rparr>) = oauthProxyTLSSecretVolume rc"
  "caVolumes (rc\<lparr>rc_Workers := ws\<rparr>) = caVolumes rc"
  "rayHeadInitContainer env (rc\<lparr>rc_Workers := ws\<rparr>) cfg = rayHeadInitContainer env rc cfg"
  by (rule names_cong; simp)+

end
