(* ===== verification/Webhook.thy ===== *)
theory Webhook
  imports PodParts
begin

text \<open>
  The mutating webhook of \<^verbatim>\<open>raycluster_webhook.go\<close>: \<open>Default\<close> is the whole handler, including the
  panic of indexing an empty container list; \<open>Default_eq\<close> gives it in closed form, with
  \<open>oauth_defaulted\<close> and \<open>tls_defaulted\<close> as its two stages.
\<close>

record rayClusterWebhook =
  wh_Config :: "KubeRayConfiguration option"
  wh_OperatorVersion :: string

subsection \<open>Steps of the handler\<close>

text \<open>\<^verbatim>\<open>annotations[versionAnnotation] = w.OperatorVersion\<close>.\<close>

definition setVersionAnnotation :: "string \<Rightarrow> RayCluster \<Rightarrow> RayCluster" where
  "setVersionAnnotation version rc =
     rc\<lparr>rc_Meta := (rc_Meta rc)\<lparr>om_Annotations := (Annotations rc)(versionAnnotation \<mapsto> version)\<rparr>\<rparr>"

text \<open>The OAuth proxy sidecar, its TLS secret volume and the service account of the head group.\<close>

definition injectOAuthProxy :: "strmap \<Rightarrow> RayCluster \<Rightarrow> RayCluster" where
  "injectOAuthProxy env rc =
     (let p = head_pod rc;
          p = p\<lparr>ps_Containers :=
                  upsert (ps_Containers p) (oauthProxyContainer env rc)
                    (withContainerName oauthProxyContainerName)\<rparr>;
          p = p\<lparr>ps_Volumes :=
                  upsert (ps_Volumes p) (oauthProxyTLSSecretVolume rc)
                    (withVolumeName oauthProxyVolumeName)\<rparr>;
          p = p\<lparr>ps_ServiceAccountName := oauthServiceAccountNameFromCluster rc\<rparr>
      in set_head_pod p rc)"

text \<open>The environment variables and mounts go to \<^verbatim>\<open>Containers[0]\<close>, which panics when there is none.\<close>

definition addEnvVar :: "EnvVar \<Rightarrow> PodSpec \<Rightarrow> PodSpec go" where
  "addEnvVar envVar p =
     go_map (\<lambda>cs. p\<lparr>ps_Containers := cs\<rparr>)
       (update_first
          (\<lambda>c. c\<lparr>c_Env := upsert (c_Env c) envVar (withEnvVarName (ev_Name envVar))\<rparr>)
          (ps_Containers p))"

definition addVolumeMount :: "VolumeMount \<Rightarrow> PodSpec \<Rightarrow> PodSpec go" where
  "addVolumeMount mount p =
     go_map (\<lambda>cs. p\<lparr>ps_Containers := cs\<rparr>)
       (update_first
          (\<lambda>c. c\<lparr>c_VolumeMounts := upsert (c_VolumeMounts c) mount byVolumeMountName\<rparr>)
          (ps_Containers p))"

definition addVolume :: "Volume \<Rightarrow> PodSpec \<Rightarrow> PodSpec go" where
  "addVolume vol p =
     Ok (p\<lparr>ps_Volumes := upsert (ps_Volumes p) vol (withVolumeName (v_Name vol))\<rparr>)"

definition addInitContainer :: "Container \<Rightarrow> PodSpec \<Rightarrow> PodSpec go" where
  "addInitContainer c p =
     Ok (p\<lparr>ps_InitContainers :=
             upsert (ps_InitContainers p) c (withContainerName initContainerName)\<rparr>)"

definition injectHeadTLS :: "strmap \<Rightarrow> KubeRayConfiguration \<Rightarrow> RayCluster \<Rightarrow> RayCluster go" where
  "injectHeadTLS env cfg rc =
     go_map (\<lambda>p. set_head_pod p rc)
       (go_bind (for_each addEnvVar envVarList (head_pod rc)) (\<lambda>p.
        go_bind (addInitContainer (rayHeadInitContainer env rc cfg) p) (\<lambda>p.
        go_bind (for_each addVolume (caVolumes rc) p) (\<lambda>p.
        for_each addVolumeMount certVolumeMounts p))))"

definition injectWorkerTLS ::
    "strmap \<Rightarrow> KubeRayConfiguration \<Rightarrow> RayCluster \<Rightarrow> WorkerGroupSpec \<Rightarrow> WorkerGroupSpec go" where
  "injectWorkerTLS env cfg rc wg =
     go_map (\<lambda>p. set_worker_pod p wg)
       (go_bind (for_each addEnvVar envVarList (worker_pod wg)) (\<lambda>p.
        go_bind (for_each addVolume (caVolumes rc) p) (\<lambda>p.
        go_bind (for_each addVolumeMount certVolumeMounts p) (\<lambda>p.
        addInitContainer (rayWorkerInitContainer env cfg) p))))"

definition Default :: "strmap \<Rightarrow> rayClusterWebhook \<Rightarrow> RayCluster \<Rightarrow> RayCluster go" where
  "Default env w rayCluster =
     (let rc = setVersionAnnotation (wh_OperatorVersion w) rayCluster
      in case wh_Config w of
           None \<Rightarrow> Panics NilDereference
         | Some cfg \<Rightarrow>
             let rc = (if Deref (RayDashboardOAuthEnabled cfg) True
                       then injectOAuthProxy env rc else rc)
             in if Deref (MTLSEnabled cfg) True then
                  go_bind (injectHeadTLS env cfg rc) (\<lambda>rc.
                  go_map (\<lambda>ws. rc\<lparr>rc_Workers := ws\<rparr>)
                    (update_each (injectWorkerTLS env cfg rc) (rc_Workers rc)))
                else Ok rc)"

subsection \<open>Closed form\<close>

text \<open>What the steps compute on a pod that has a first container.\<close>

definition tls_container :: "Container \<Rightarrow> Container" where
  "tls_container c =
     c\<lparr>c_Env := fold (\<lambda>x xs. upsert xs x byEnvVarName) envVarList (c_Env c),
       c_VolumeMounts :=
         fold (\<lambda>x xs. upsert xs x byVolumeMountName) certVolumeMounts (c_VolumeMounts c)\<rparr>"

definition tls_pod :: "Container \<Rightarrow> Volume list \<Rightarrow> PodSpec \<Rightarrow> PodSpec" where
  "tls_pod init vols p =
     p\<lparr>ps_Volumes := fold (\<lambda>x xs. upsert xs x byVolumeName) vols (ps_Volumes p),
       ps_InitContainers := upsert (ps_InitContainers p) init byContainerName,
       ps_Containers := tls_container (hd (ps_Containers p)) # tl (ps_Containers p)\<rparr>"

lemma addEnvVars_Ok:
  assumes "ps_Containers p = c # cs"
  shows "for_each addEnvVar xs p =
           Ok (p\<lparr>ps_Containers :=
                   c\<lparr>c_Env := fold (\<lambda>x xs. upsert xs x byEnvVarName) xs (c_Env c)\<rparr> # cs\<rparr>)"
  using assms
proof (induction xs arbitrary: p c)
  case (Cons x xs)
  then show ?case by (simp add: addEnvVar_def env_vars.upsert_withName)
qed simp

lemma addVolumeMounts_Ok:
  assumes "ps_Containers p = c # cs"
  shows "for_each addVolumeMount xs p =
           Ok (p\<lparr>ps_Containers :=
                   c\<lparr>c_VolumeMounts :=
                       fold (\<lambda>x xs. upsert xs x byVolumeMountName) xs (c_VolumeMounts c)\<rparr> # cs\<rparr>)"
  using assms
proof (induction xs arbitrary: p c)
  case (Cons x xs)
  then show ?case by (simp add: addVolumeMount_def)
qed simp

lemma addVolumes_Ok:
  "for_each addVolume xs p =
     Ok (p\<lparr>ps_Volumes := fold (\<lambda>x xs. upsert xs x byVolumeName) xs (ps_Volumes p)\<rparr>)"
  by (induction xs arbitrary: p) (simp_all add: addVolume_def volumes.upsert_withName)

lemma addInitContainer_Ok:
  "c_Name c = initContainerName \<Longrightarrow>
   addInitContainer c p =
     Ok (p\<lparr>ps_InitContainers := upsert (ps_InitContainers p) c byContainerName\<rparr>)"
  by (simp add: addInitContainer_def containers.upsert_withName)

lemma addEnvVars_Panics:
  "ps_Containers p = [] \<Longrightarrow> for_each addEnvVar envVarList p = Panics (IndexOutOfRange 0 0)"
  by (simp add: envVarList_def addEnvVar_def)

lemma injectHeadTLS_eq:
  "injectHeadTLS env cfg rc =
     (if ps_Containers (head_pod rc) = [] then Panics (IndexOutOfRange 0 0)
      else Ok (set_head_pod
                 (tls_pod (rayHeadInitContainer env rc cfg) (caVolumes rc) (head_pod rc)) rc))"
  by (cases "ps_Containers (head_pod rc)")
    (simp_all add: injectHeadTLS_def addEnvVars_Panics addEnvVars_Ok addInitContainer_Ok
      addVolumes_Ok addVolumeMounts_Ok tls_pod_def tls_container_def)

lemma injectWorkerTLS_eq:
  "injectWorkerTLS env cfg rc wg =
     (if ps_Containers (worker_pod wg) = [] then Panics (IndexOutOfRange 0 0)
      else Ok (set_worker_pod
                 (tls_pod (rayWorkerInitContainer env cfg) (caVolumes rc) (worker_pod wg)) wg))"
  by (cases "ps_Containers (worker_pod wg)")
    (simp_all add: injectWorkerTLS_def addEnvVars_Panics addEnvVars_Ok addInitContainer_Ok
      addVolumes_Ok addVolumeMounts_Ok tls_pod_def tls_container_def)

text \<open>\<open>oauth_pod\<close> is what \<open>injectOAuthProxy\<close> makes of the head pod.\<close>

definition oauth_pod :: "strmap \<Rightarrow> RayCluster \<Rightarrow> PodSpec \<Rightarrow> PodSpec" where
  "oauth_pod env rc p =
     p\<lparr>ps_Volumes := upsert (ps_Volumes p) (oauthProxyTLSSecretVolume rc) byVolumeName,
       ps_Containers := upsert (ps_Containers p) (oauthProxyContainer env rc) byContainerName,
       ps_ServiceAccountName := oauthServiceAccountNameFromCluster rc\<rparr>"

lemma injectOAuthProxy_eq:
  "injectOAuthProxy env rc = set_head_pod (oauth_pod env rc (head_pod rc)) rc"
  by (simp add: injectOAuthProxy_def oauth_pod_def Let_def containers.upsert_withName
      volumes.upsert_withName)


text \<open>The cluster after the annotation and the OAuth step, and the whole handler in closed form.\<close>

definition oauth_defaulted ::
    "strmap \<Rightarrow> string \<Rightarrow> KubeRayConfiguration \<Rightarrow> RayCluster \<Rightarrow> RayCluster" where
  "oauth_defaulted env version cfg rayCluster =
     (let rc = setVersionAnnotation version rayCluster
      in if Deref (RayDashboardOAuthEnabled cfg) True
         then set_head_pod (oauth_pod env rc (head_pod rc)) rc else rc)"

definition tls_defaulted :: "strmap \<Rightarrow> KubeRayConfiguration \<Rightarrow> RayCluster \<Rightarrow> RayCluster" where
  "tls_defaulted env cfg rc =
     (set_head_pod (tls_pod (rayHeadInitContainer env rc cfg) (caVolumes rc) (head_pod rc)) rc)
       \<lparr>rc_Workers :=
          map (\<lambda>wg. set_worker_pod
                 (tls_pod (rayWorkerInitContainer env cfg) (caVolumes rc) (worker_pod wg)) wg)
            (rc_Workers rc)\<rparr>"

definition lacks_container :: "RayCluster \<Rightarrow> bool" where
  "lacks_container rc \<longleftrightarrow>
     ps_Containers (head_pod rc) = [] \<or>
     (\<exists>wg\<in>set (rc_Workers rc). ps_Containers (worker_pod wg) = [])"

lemma Default_eq:
  assumes "wh_Config w = Some cfg"
    and rc: "rc = oauth_defaulted env (wh_OperatorVersion w) cfg rayCluster"
  shows "Default env w rayCluster =
     (if \<not> Deref (MTLSEnabled cfg) True then Ok rc
      else if lacks_container rc then Panics (IndexOutOfRange 0 0)
      else Ok (tls_defaulted env cfg rc))"
proof -
  have "Default env w rayCluster =
     (if Deref (MTLSEnabled cfg) True then
        go_bind (injectHeadTLS env cfg rc) (\<lambda>rc.
        go_map (\<lambda>ws. rc\<lparr>rc_Workers := ws\<rparr>)
          (update_each (injectWorkerTLS env cfg rc) (rc_Workers rc)))
      else Ok rc)"
    by (simp add: Default_def assms(1) rc oauth_defaulted_def injectOAuthProxy_eq Let_def)
  then show ?thesis
    by (auto simp: injectHeadTLS_eq update_each_guarded [OF injectWorkerTLS_eq]
        lacks_container_def tls_defaulted_def)
qed

end
