(* ===== verification/Validation.thy ===== *)
theory Validation
  imports Webhook
begin

text \<open>
  The validating webhook of \<^verbatim>\<open>raycluster_webhook.go\<close>. A validator returns the list of field errors in
  the order the code appends them; \<open>ValidateCreate\<close> and \<open>ValidateUpdate\<close> return the aggregate, where
  \<open>None\<close> is the \<open>nil\<close> error. The warnings are always \<open>nil\<close>. Reading \<^verbatim>\<open>Containers[0]\<close> of a pod without
  containers panics.
\<close>

fun append_err :: "FieldError option \<Rightarrow> FieldError list" where
  "append_err None = []"
| "append_err (Some e) = [e]"

lemma append_err_Nil [simp]: "append_err e = [] \<longleftrightarrow> e = None"
  by (cases e) simp_all

definition head_path :: "string list \<Rightarrow> string list" where
  "head_path tail = [''spec'', ''headGroupSpec'', ''template'', ''spec''] @ tail"

definition worker_path :: "nat \<Rightarrow> string list \<Rightarrow> string list" where
  "worker_path i tail = [''spec'', ''workerGroupSpecs'', Itoa i, ''template'', ''spec''] @ tail"

subsection \<open>OAuth\<close>

definition validateOAuthProxyContainer ::
    "deep_derivative \<Rightarrow> strmap \<Rightarrow> RayCluster \<Rightarrow> FieldError list" where
  "validateOAuthProxyContainer dd env rayCluster =
     append_err (contains (dd_Container dd) BadContainer (ps_Containers (head_pod rayCluster))
       (oauthProxyContainer env rayCluster) byContainerName (head_path [''containers''])
       ''OAuth Proxy container is immutable'')"

definition validateOAuthProxyVolume :: "deep_derivative \<Rightarrow> RayCluster \<Rightarrow> FieldError list" where
  "validateOAuthProxyVolume dd rayCluster =
     append_err (contains (dd_Volume dd) BadVolume (ps_Volumes (head_pod rayCluster))
       (oauthProxyTLSSecretVolume rayCluster) byVolumeName (head_path [''volumes''])
       ''OAuth Proxy TLS Secret volume is immutable'')"

definition validateIngress :: "RayCluster \<Rightarrow> FieldError list" where
  "validateIngress rayCluster =
     (if Deref (hg_EnableIngress (rc_Head rayCluster)) False then
        [field_Invalid [''spec'', ''headGroupSpec'', ''enableIngress'']
           (BadBool (hg_EnableIngress (rc_Head rayCluster)))
           ''RayCluster with enableIngress set to true is not allowed'']
      else [])"

definition validateHeadGroupServiceAccountName :: "RayCluster \<Rightarrow> FieldError list" where
  "validateHeadGroupServiceAccountName rayCluster =
     (if ps_ServiceAccountName (head_pod rayCluster) \<noteq> oauthServiceAccountNameFromCluster rayCluster
      then [field_Invalid (head_path [''serviceAccountName''])
              (BadString (ps_ServiceAccountName (head_pod rayCluster)))
              ''RayCluster head group service account is immutable'']
      else [])"

subsection \<open>Mutual TLS\<close>

definition validateHeadInitContainer ::
    "deep_derivative \<Rightarrow> strmap \<Rightarrow> RayCluster \<Rightarrow> KubeRayConfiguration \<Rightarrow> FieldError list" where
  "validateHeadInitContainer dd env rayCluster config =
     append_err (contains (dd_Container dd) BadContainer (ps_InitContainers (head_pod rayCluster))
       (rayHeadInitContainer env rayCluster config) byContainerName (head_path [''initContainers''])
       ''create-cert Init Container is immutable'')"

definition validateWorkerInitContainer ::
    "deep_derivative \<Rightarrow> strmap \<Rightarrow> RayCluster \<Rightarrow> KubeRayConfiguration \<Rightarrow> FieldError list" where
  "validateWorkerInitContainer dd env rayCluster config =
     concat (map (\<lambda>(i, workerSpec).
         append_err (contains (dd_Container dd) BadContainer
           (ps_InitContainers (worker_pod workerSpec)) (rayWorkerInitContainer env config)
           byContainerName (worker_path i [''initContainers''])
           ''create-cert Init Container is immutable''))
       (List.enumerate 0 (rc_Workers rayCluster)))"

definition validateCaVolumes :: "deep_derivative \<Rightarrow> RayCluster \<Rightarrow> FieldError list" where
  "validateCaVolumes dd rayCluster =
     concat (map (\<lambda>caVol.
         append_err (contains (dd_Volume dd) BadVolume (ps_Volumes (head_pod rayCluster)) caVol
           byVolumeName (head_path [''volumes''])
           ''ca-vol and server-cert Secret volumes are immutable'')
         @ concat (map (\<lambda>(i, workerSpec).
               append_err (contains (dd_Volume dd) BadVolume (ps_Volumes (worker_pod workerSpec))
                 caVol byVolumeName (worker_path i [''volumes''])
                 ''ca-vol and server-cert Secret volumes are immutable''))
             (List.enumerate 0 (rc_Workers rayCluster))))
       (caVolumes rayCluster))"

text \<open>
  The environment of \<^verbatim>\<open>Containers[0]\<close> is read once for each variable of the (non-empty) list, so the
  loop panics on its first iteration when there is no container.
\<close>

definition validateEnvVars ::
    "deep_derivative \<Rightarrow> PodSpec \<Rightarrow> string list \<Rightarrow> FieldError list go" where
  "validateEnvVars dd p path =
     for_each (\<lambda>envVar errs.
         case ps_Containers p of
           [] \<Rightarrow> Panics (IndexOutOfRange 0 0)
         | c # _ \<Rightarrow>
             Ok (errs @ append_err (contains (dd_EnvVar dd) BadEnvVar (c_Env c) envVar byEnvVarName
                   path ''RAY_TLS related environment variables are immutable'')))
       envVarList []"

definition validateHeadEnvVars :: "deep_derivative \<Rightarrow> RayCluster \<Rightarrow> FieldError list go" where
  "validateHeadEnvVars dd rayCluster =
     validateEnvVars dd (head_pod rayCluster) (head_path [''containers'', Itoa 0, ''env''])"

definition validateWorkerEnvVars :: "deep_derivative \<Rightarrow> RayCluster \<Rightarrow> FieldError list go" where
  "validateWorkerEnvVars dd rayCluster =
     for_each (\<lambda>(i, workerSpec) errs.
         go_map (\<lambda>es. errs @ es)
           (validateEnvVars dd (worker_pod workerSpec)
              (worker_path i [''containers'', Itoa 0, ''env''])))
       (List.enumerate 0 (rc_Workers rayCluster)) []"

subsection \<open>The handlers\<close>

definition ValidateCreate ::
    "deep_derivative \<Rightarrow> strmap \<Rightarrow> rayClusterWebhook \<Rightarrow> RayCluster \<Rightarrow> FieldError list option go" where
  "ValidateCreate dd env w rayCluster =
     (let allErrors = validateIngress rayCluster
      in case wh_Config w of
           None \<Rightarrow> Panics NilDereference
         | Some cfg \<Rightarrow>
             let allErrors = allErrors @
                   (if Deref (RayDashboardOAuthEnabled cfg) True then
                      validateOAuthProxyContainer dd env rayCluster
                      @ validateOAuthProxyVolume dd rayCluster
                      @ validateHeadGroupServiceAccountName rayCluster
                    else [])
             in Ok (ToAggregate allErrors))"

definition ValidateUpdate ::
    "deep_derivative \<Rightarrow> strmap \<Rightarrow> rayClusterWebhook \<Rightarrow> RayCluster \<Rightarrow> RayCluster
      \<Rightarrow> FieldError list option go" where
  "ValidateUpdate dd env w oldObj rayCluster =
     (if \<not> IsZero (om_DeletionTimestamp (rc_Meta rayCluster)) then Ok None
      else
        let allErrors = validateIngress rayCluster
        in case wh_Config w of
             None \<Rightarrow> Panics NilDereference
           | Some cfg \<Rightarrow>
               let allErrors = allErrors @
                     (if Deref (RayDashboardOAuthEnabled cfg) True then
                        validateOAuthProxyContainer dd env rayCluster
                        @ validateOAuthProxyVolume dd rayCluster
                        @ validateHeadGroupServiceAccountName rayCluster
                      else [])
               in if Deref (MTLSEnabled cfg) True then
                    let allErrors = allErrors
                          @ validateHeadInitContainer dd env rayCluster cfg
                          @ validateWorkerInitContainer dd env rayCluster cfg
                    in go_bind (validateHeadEnvVars dd rayCluster) (\<lambda>headErrs.
                       go_bind (validateWorkerEnvVars dd rayCluster) (\<lambda>workerErrs.
                       Ok (ToAggregate (allErrors @ headErrs @ workerErrs
                             @ validateCaVolumes dd rayCluster))))
                  else Ok (ToAggregate allErrors))"

definition ValidateDelete :: "RayCluster \<Rightarrow> FieldError list option" where
  "ValidateDelete rayCluster = None"

end
