(* ===== verification/Admission.thy ===== *)
theory Admission
  imports Validation
begin

text \<open>
  What the two webhooks guarantee together. \<open>accepts_create\<close> and \<open>accepts_update\<close> are the
  abstract contract of the validator, predicates on the cluster alone; the lemmas show that the validators decide it, that the defaulter
  establishes it, and that it is a fixed point.
\<close>

subsection \<open>The loops of the validator\<close>

lemma ball_enumerate [simp]:
  "(\<forall>x\<in>set (List.enumerate n xs). P (snd x)) \<longleftrightarrow> (\<forall>x\<in>set xs. P x)"
proof -
  have "snd ` set (List.enumerate n xs) = set xs"
    by (simp flip: list.set_map)
  then show ?thesis by (metis (mono_tags, lifting) image_iff)
qed

lemma concat_enumerate_None:
  assumes "\<And>i x. g i x = None \<longleftrightarrow> P x"
  shows "(\<forall>y\<in>set (List.enumerate n xs). (case y of (i, x) \<Rightarrow> append_err (g i x)) = []) \<longleftrightarrow>
           (\<forall>x\<in>set xs. P x)"
proof -
  have "(\<forall>y\<in>set (List.enumerate n xs). (case y of (i, x) \<Rightarrow> append_err (g i x)) = []) \<longleftrightarrow>
          (\<forall>x\<in>set (List.enumerate n xs). P (snd x))"
    by (simp add: split_beta assms)
  then show ?thesis by simp
qed

lemmas container_errs_None = concat_enumerate_None [OF containers.contains_None]
lemmas volume_errs_None = concat_enumerate_None [OF volumes.contains_None]

lemma for_each_append_guarded:
  assumes "\<And>x. f x = (if bad x then Panics e else Ok (g x))"
  shows "for_each (\<lambda>x errs. go_map (\<lambda>es. errs @ es) (f x)) xs acc =
           (if \<exists>x\<in>set xs. bad x then Panics e else Ok (acc @ concat (map g xs)))"
  by (induction xs arbitrary: acc) (auto simp: assms)

text \<open>The errors \<open>validateEnvVars\<close> collects when there is a first container.\<close>

definition env_errs :: "deep_derivative \<Rightarrow> PodSpec \<Rightarrow> string list \<Rightarrow> FieldError list" where
  "env_errs dd p path =
     concat (map (\<lambda>e. append_err (contains (dd_EnvVar dd) BadEnvVar (c_Env (hd (ps_Containers p))) e
       byEnvVarName path ''RAY_TLS related environment variables are immutable'')) envVarList)"

lemma validateEnvVars_eq:
  "validateEnvVars dd p path =
     (if ps_Containers p = [] then Panics (IndexOutOfRange 0 0) else Ok (env_errs dd p path))"
proof (cases "ps_Containers p")
  case Nil
  then show ?thesis by (simp add: validateEnvVars_def envVarList_def)
next
  case (Cons c cs)
  let ?g = "\<lambda>e. append_err (contains (dd_EnvVar dd) BadEnvVar (c_Env c) e byEnvVarName path
              ''RAY_TLS related environment variables are immutable'')"
  have "for_each (\<lambda>e errs. Ok (errs @ ?g e)) xs acc = Ok (acc @ concat (map ?g xs))" for xs acc
    by (induction xs arbitrary: acc) simp_all
  with Cons show ?thesis by (simp add: validateEnvVars_def env_errs_def)
qed

definition worker_env_errs :: "deep_derivative \<Rightarrow> RayCluster \<Rightarrow> FieldError list" where
  "worker_env_errs dd rc =
     concat (map (\<lambda>x. env_errs dd (worker_pod (snd x))
                        (worker_path (fst x) [''containers'', Itoa 0, ''env'']))
       (List.enumerate 0 (rc_Workers rc)))"

lemma validateWorkerEnvVars_eq:
  "validateWorkerEnvVars dd rc =
     (if \<exists>wg\<in>set (rc_Workers rc). ps_Containers (worker_pod wg) = []
      then Panics (IndexOutOfRange 0 0) else Ok (worker_env_errs dd rc))"
proof -
  have "(\<exists>x\<in>set (List.enumerate 0 (rc_Workers rc)). ps_Containers (worker_pod (snd x)) = []) \<longleftrightarrow>
        (\<exists>wg\<in>set (rc_Workers rc). ps_Containers (worker_pod wg) = [])"
    using ball_enumerate [where P = "\<lambda>wg. ps_Containers (worker_pod wg) \<noteq> []"] by blast
  then show ?thesis
    unfolding validateWorkerEnvVars_def worker_env_errs_def split_beta
    by (subst for_each_append_guarded [OF validateEnvVars_eq]) simp
qed

subsection \<open>The contract of the validator\<close>

definition oauth_intact :: "deep_derivative \<Rightarrow> strmap \<Rightarrow> RayCluster \<Rightarrow> bool" where
  "oauth_intact dd env rc \<longleftrightarrow>
     (\<exists>c. find (\<lambda>c. c_Name c = oauthProxyContainerName) (ps_Containers (head_pod rc)) = Some c \<and>
          dd_Container dd (oauthProxyContainer env rc) c) \<and>
     (\<exists>v. find (\<lambda>v. v_Name v = oauthProxyVolumeName) (ps_Volumes (head_pod rc)) = Some v \<and>
          dd_Volume dd (oauthProxyTLSSecretVolume rc) v) \<and>
     ps_ServiceAccountName (head_pod rc) = oauthServiceAccountNameFromCluster rc"

definition tls_intact_pod :: "deep_derivative \<Rightarrow> Container \<Rightarrow> Volume list \<Rightarrow> PodSpec \<Rightarrow> bool" where
  "tls_intact_pod dd init vols p \<longleftrightarrow>
     (\<exists>c. find (\<lambda>c. c_Name c = initContainerName) (ps_InitContainers p) = Some c \<and>
          dd_Container dd init c) \<and>
     (\<forall>vol\<in>set vols. \<exists>v. find (\<lambda>v. v_Name v = v_Name vol) (ps_Volumes p) = Some v \<and>
          dd_Volume dd vol v) \<and>
     (\<forall>var\<in>set envVarList. \<exists>e. find (\<lambda>e. ev_Name e = ev_Name var)
          (c_Env (hd (ps_Containers p))) = Some e \<and> dd_EnvVar dd var e)"

definition tls_intact ::
    "deep_derivative \<Rightarrow> strmap \<Rightarrow> KubeRayConfiguration \<Rightarrow> RayCluster \<Rightarrow> bool" where
  "tls_intact dd env cfg rc \<longleftrightarrow>
     tls_intact_pod dd (rayHeadInitContainer env rc cfg) (caVolumes rc) (head_pod rc) \<and>
     (\<forall>wg\<in>set (rc_Workers rc).
        tls_intact_pod dd (rayWorkerInitContainer env cfg) (caVolumes rc) (worker_pod wg))"

definition accepts_create ::
    "deep_derivative \<Rightarrow> strmap \<Rightarrow> KubeRayConfiguration \<Rightarrow> RayCluster \<Rightarrow> bool" where
  "accepts_create dd env cfg rc \<longleftrightarrow>
     \<not> Deref (hg_EnableIngress (rc_Head rc)) False \<and>
     (Deref (RayDashboardOAuthEnabled cfg) True \<longrightarrow> oauth_intact dd env rc)"

definition accepts_update ::
    "deep_derivative \<Rightarrow> strmap \<Rightarrow> KubeRayConfiguration \<Rightarrow> RayCluster \<Rightarrow> bool" where
  "accepts_update dd env cfg rc \<longleftrightarrow>
     accepts_create dd env cfg rc \<and>
     (Deref (MTLSEnabled cfg) True \<longrightarrow> \<not> lacks_container rc \<and> tls_intact dd env cfg rc)"

lemma validateOAuth_Nil:
  "validateOAuthProxyContainer dd env rc @ validateOAuthProxyVolume dd rc
     @ validateHeadGroupServiceAccountName rc = [] \<longleftrightarrow> oauth_intact dd env rc"
  by (simp add: validateOAuthProxyContainer_def validateOAuthProxyVolume_def
      validateHeadGroupServiceAccountName_def oauth_intact_def containers.contains_None
      volumes.contains_None)

lemma validateIngress_Nil:
  "validateIngress rc = [] \<longleftrightarrow> \<not> Deref (hg_EnableIngress (rc_Head rc)) False"
  by (simp add: validateIngress_def)

lemma validateInit_Nil:
  "validateHeadInitContainer dd env rc cfg = [] \<longleftrightarrow>
     (\<exists>c. find (\<lambda>c. c_Name c = initContainerName) (ps_InitContainers (head_pod rc)) = Some c \<and>
          dd_Container dd (rayHeadInitContainer env rc cfg) c)"
  "validateWorkerInitContainer dd env rc cfg = [] \<longleftrightarrow>
     (\<forall>wg\<in>set (rc_Workers rc).
        \<exists>c. find (\<lambda>c. c_Name c = initContainerName) (ps_InitContainers (worker_pod wg)) = Some c \<and>
            dd_Container dd (rayWorkerInitContainer env cfg) c)"
  by (simp_all add: validateHeadInitContainer_def validateWorkerInitContainer_def
      containers.contains_None container_errs_None)

lemma validateCaVolumes_Nil:
  "validateCaVolumes dd rc = [] \<longleftrightarrow>
     (\<forall>vol\<in>set (caVolumes rc). \<forall>p\<in>insert (head_pod rc) (worker_pod ` set (rc_Workers rc)).
        \<exists>v. find (\<lambda>v. v_Name v = v_Name vol) (ps_Volumes p) = Some v \<and> dd_Volume dd vol v)"
  by (simp add: validateCaVolumes_def volumes.contains_None volume_errs_None)

definition env_intact :: "deep_derivative \<Rightarrow> PodSpec \<Rightarrow> bool" where
  "env_intact dd p \<longleftrightarrow>
     (\<forall>var\<in>set envVarList. \<exists>e. find (\<lambda>e. ev_Name e = ev_Name var)
          (c_Env (hd (ps_Containers p))) = Some e \<and> dd_EnvVar dd var e)"

lemma env_errs_Nil: "env_errs dd p path = [] \<longleftrightarrow> env_intact dd p"
  by (simp add: env_errs_def env_intact_def env_vars.contains_None)

lemma worker_env_errs_Nil:
  "worker_env_errs dd rc = [] \<longleftrightarrow> (\<forall>wg\<in>set (rc_Workers rc). env_intact dd (worker_pod wg))"
  using ball_enumerate [where P = "\<lambda>wg. env_intact dd (worker_pod wg)"]
  by (simp add: worker_env_errs_def env_errs_Nil)

text \<open>The errors a validation collects, and its panic, in closed form.\<close>

definition create_errs :: "deep_derivative \<Rightarrow> strmap \<Rightarrow> KubeRayConfiguration \<Rightarrow> RayCluster \<Rightarrow> FieldError list" where
  "create_errs dd env cfg rc =
     validateIngress rc @
     (if Deref (RayDashboardOAuthEnabled cfg) True then
        validateOAuthProxyContainer dd env rc @ validateOAuthProxyVolume dd rc
        @ validateHeadGroupServiceAccountName rc
      else [])"

definition tls_errs :: "deep_derivative \<Rightarrow> strmap \<Rightarrow> KubeRayConfiguration \<Rightarrow> RayCluster \<Rightarrow> FieldError list" where
  "tls_errs dd env cfg rc =
     validateHeadInitContainer dd env rc cfg @ validateWorkerInitContainer dd env rc cfg
     @ env_errs dd (head_pod rc) (head_path [''containers'', Itoa 0, ''env''])
     @ worker_env_errs dd rc @ validateCaVolumes dd rc"

lemma create_errs_Nil: "create_errs dd env cfg rc = [] \<longleftrightarrow> accepts_create dd env cfg rc"
  using validateOAuth_Nil [of dd env rc]
  by (simp add: create_errs_def accepts_create_def validateIngress_Nil)

lemma tls_errs_Nil: "tls_errs dd env cfg rc = [] \<longleftrightarrow> tls_intact dd env cfg rc"
  unfolding tls_errs_def tls_intact_def tls_intact_pod_def append_is_Nil_conv env_errs_Nil
    worker_env_errs_Nil validateInit_Nil validateCaVolumes_Nil env_intact_def
  by blast

subsection \<open>The handlers decide the contract\<close>

lemma ValidateCreate_eq:
  "ValidateCreate dd env w rc =
     (case wh_Config w of None \<Rightarrow> Panics NilDereference
      | Some cfg \<Rightarrow> Ok (ToAggregate (create_errs dd env cfg rc)))"
  by (simp add: ValidateCreate_def create_errs_def Let_def split: option.split)

lemma ValidateUpdate_eq:
  "ValidateUpdate dd env w old rc =
     (if \<not> IsZero (om_DeletionTimestamp (rc_Meta rc)) then Ok None
      else case wh_Config w of None \<Rightarrow> Panics NilDereference
      | Some cfg \<Rightarrow>
          if \<not> Deref (MTLSEnabled cfg) True then Ok (ToAggregate (create_errs dd env cfg rc))
          else if lacks_container rc then Panics (IndexOutOfRange 0 0)
          else Ok (ToAggregate (create_errs dd env cfg rc @ tls_errs dd env cfg rc)))"
  by (auto simp: ValidateUpdate_def create_errs_def tls_errs_def Let_def lacks_container_def
      validateHeadEnvVars_def validateEnvVars_eq validateWorkerEnvVars_eq split: option.split)

subsection \<open>The defaulter establishes the contract\<close>

lemma tls_container_name [simp]: "c_Name (tls_container c) = c_Name c"
  by (simp add: tls_container_def)

lemma tls_container_idem [simp]: "tls_container (tls_container c) = tls_container c"
  by (simp add: tls_container_def env_vars.fold_upsert_idem mounts.fold_upsert_idem)

lemma tls_pod_intact:
  assumes "dd_reflexive dd" and "c_Name init = initContainerName" and "distinct (map v_Name vols)"
  shows "tls_intact_pod dd init vols (tls_pod init vols p)"
  using assms
  by (auto simp: tls_intact_pod_def tls_pod_def tls_container_def containers.upsert_find
      volumes.fold_upsert_find env_vars.fold_upsert_find)

lemma oauth_defaulted_meta [simp]:
  "rc_Meta (oauth_defaulted env v cfg rc) = rc_Meta (setVersionAnnotation v rc)"
  "rc_Workers (oauth_defaulted env v cfg rc) = rc_Workers rc"
  "hg_EnableIngress (rc_Head (oauth_defaulted env v cfg rc)) = hg_EnableIngress (rc_Head rc)"
  "rc_Suspend (oauth_defaulted env v cfg rc) = rc_Suspend rc"
  by (simp_all add: oauth_defaulted_def Let_def setVersionAnnotation_def)

lemma tls_defaulted_simps [simp]:
  "rc_Meta (tls_defaulted env cfg rc) = rc_Meta rc"
  "rc_Suspend (tls_defaulted env cfg rc) = rc_Suspend rc"
  "hg_EnableIngress (rc_Head (tls_defaulted env cfg rc)) = hg_EnableIngress (rc_Head rc)"
  "head_pod (tls_defaulted env cfg rc) =
     tls_pod (rayHeadInitContainer env rc cfg) (caVolumes rc) (head_pod rc)"
  "rc_Workers (tls_defaulted env cfg rc) =
     map (\<lambda>wg. set_worker_pod
            (tls_pod (rayWorkerInitContainer env cfg) (caVolumes rc) (worker_pod wg)) wg)
       (rc_Workers rc)"
  by (simp_all add: tls_defaulted_def)

lemma tls_defaulted_names [simp]:
  "caVolumes (tls_defaulted env cfg rc) = caVolumes rc"
  "rayHeadInitContainer env (tls_defaulted env cfg rc) cfg = rayHeadInitContainer env rc cfg"
  "oauthProxyContainer env (tls_defaulted env cfg rc) = oauthProxyContainer env rc"
  "oauthProxyTLSSecretVolume (tls_defaulted env cfg rc) = oauthProxyTLSSecretVolume rc"
  "oauthServiceAccountNameFromCluster (tls_defaulted env cfg rc) =
     oauthServiceAccountNameFromCluster rc"
  by (rule names_cong; simp)+

lemma tls_defaulted_intact:
  "dd_reflexive dd \<Longrightarrow> tls_intact dd env cfg (tls_defaulted env cfg rc)"
  by (auto simp: tls_intact_def intro!: tls_pod_intact)

lemma tls_defaulted_containers [simp]:
  "lacks_container (tls_defaulted env cfg rc) = False"
  by (simp add: lacks_container_def tls_pod_def)

text \<open>The first container of the head group is the user's, not the OAuth proxy.\<close>

definition foreign_first :: "RayCluster \<Rightarrow> bool" where
  "foreign_first rc \<longleftrightarrow>
     ps_Containers (head_pod rc) \<noteq> [] \<and>
     c_Name (hd (ps_Containers (head_pod rc))) \<noteq> oauthProxyContainerName"

lemma oauth_defaulted_intact:
  assumes "dd_reflexive dd" and "Deref (RayDashboardOAuthEnabled cfg) True"
  shows "oauth_intact dd env (oauth_defaulted env v cfg rc)"
  using assms
  by (simp add: oauth_intact_def oauth_defaulted_def Let_def oauth_pod_def
      containers.upsert_find volumes.upsert_find)

lemma oauth_defaulted_foreign_first:
  "foreign_first rc \<Longrightarrow> foreign_first (oauth_defaulted env v cfg rc)"
  by (auto simp: foreign_first_def oauth_defaulted_def Let_def oauth_pod_def setVersionAnnotation_def
      containers.upsert_hd)

lemma tls_defaulted_keeps_oauth:
  assumes "oauth_intact dd env rc" and "foreign_first rc"
  shows "oauth_intact dd env (tls_defaulted env cfg rc)"
  using assms
  by (cases "ps_Containers (head_pod rc)")
    (auto simp: oauth_intact_def foreign_first_def tls_pod_def volumes.fold_upsert_find_other)

lemma tls_pod_idem:
  assumes "c_Name init = initContainerName" and "distinct (map v_Name vols)"
  shows "tls_pod init vols (tls_pod init vols p) = tls_pod init vols p"
  using assms
  by (simp add: tls_pod_def volumes.fold_upsert_idem containers.upsert_fixpoint
      containers.upsert_find)

text \<open>Re-running the OAuth step on a finished pod is undone by the TLS step.\<close>

lemma tls_oauth_pod_idem:
  fixes env rc init
  defines "Oa \<equiv> oauth_pod env rc" and "Ta \<equiv> tls_pod init (caVolumes rc)"
  assumes init: "c_Name init = initContainerName"
  shows "Ta (Oa (Ta (Oa p))) = Ta (Oa p)"
proof -
  let ?o = "oauthProxyContainer env rc"
  let ?vs = "\<lambda>vs. fold (\<lambda>x xs. upsert xs x byVolumeName) (caVolumes rc) vs"
  have vols: "upsert (?vs (upsert vs (oauthProxyTLSSecretVolume rc) byVolumeName))
                (oauthProxyTLSSecretVolume rc) byVolumeName =
              ?vs (upsert vs (oauthProxyTLSSecretVolume rc) byVolumeName)" for vs
    by (rule volumes.upsert_fixpoint) (simp add: volumes.fold_upsert_find_other volumes.upsert_find)
  note pods = Oa_def Ta_def oauth_pod_def tls_pod_def byContainerName_def
    volumes.fold_upsert_idem containers.upsert_fixpoint containers.upsert_find
  consider "ps_Containers p = []"
    | c cs where "ps_Containers p = c # cs" "c_Name c = oauthProxyContainerName"
    | c cs where "ps_Containers p = c # cs" "c_Name c \<noteq> oauthProxyContainerName"
    by (cases "ps_Containers p") auto
  then show ?thesis
  proof cases
    case 1
    with init vols show ?thesis by (simp add: pods)
  next
    case 2
    with init vols show ?thesis by (simp add: pods)
  next
    case 3
    have "upsert (upsert cs ?o byContainerName) ?o byContainerName = upsert cs ?o byContainerName"
      by (rule containers.upsert_fixpoint) (simp add: containers.upsert_find)
    with 3 init vols show ?thesis by (simp add: pods)
  qed
qed

lemma oauth_pod_cong: "rc_Meta a = rc_Meta b \<Longrightarrow> oauth_pod env a p = oauth_pod env b p"
  using names_cong [of a b] by (simp add: oauth_pod_def)

lemma setVersionAnnotation_id:
  "Annotations rc versionAnnotation = Some v \<Longrightarrow> setVersionAnnotation v rc = rc"
  by (simp add: setVersionAnnotation_def map_upd_triv)

lemma oauth_defaulted_idem:
  "oauth_defaulted env v cfg (oauth_defaulted env v cfg rc) = oauth_defaulted env v cfg rc"
proof -
  let ?a = "setVersionAnnotation v rc"
  have a: "setVersionAnnotation v ?a = ?a" and
    b: "setVersionAnnotation v (set_head_pod p ?a) = set_head_pod p ?a" for p
    by (rule setVersionAnnotation_id; simp add: setVersionAnnotation_def)+
  have "oauth_pod env ?a (oauth_pod env ?a p) = oauth_pod env ?a p" for p
    by (simp add: oauth_pod_def volumes.upsert_fixpoint volumes.upsert_find
        containers.upsert_fixpoint containers.upsert_find)
  moreover have "oauth_pod env (set_head_pod q ?a) p = oauth_pod env ?a p" for p q
    by (rule oauth_pod_cong) simp
  ultimately show ?thesis by (simp add: oauth_defaulted_def Let_def a b)
qed

lemma tls_oauth_defaulted_idem:
  fixes env v cfg rc
  defines "r1 \<equiv> oauth_defaulted env v cfg rc"
  shows "tls_defaulted env cfg (oauth_defaulted env v cfg (tls_defaulted env cfg r1)) =
         tls_defaulted env cfg r1"
proof -
  let ?r2 = "tls_defaulted env cfg r1"
  have workers: "tls_pod (rayWorkerInitContainer env cfg) (caVolumes r1)
      (tls_pod (rayWorkerInitContainer env cfg) (caVolumes r1) p) =
      tls_pod (rayWorkerInitContainer env cfg) (caVolumes r1) p" for p
    by (rule tls_pod_idem) simp_all
  have annotated: "setVersionAnnotation v ?r2 = ?r2"
    by (rule setVersionAnnotation_id) (simp add: r1_def setVersionAnnotation_def)
  show ?thesis
  proof (cases "Deref (RayDashboardOAuthEnabled cfg) True")
    case True
    let ?a = "setVersionAnnotation v rc"
    let ?T = "tls_pod (rayHeadInitContainer env r1 cfg) (caVolumes r1)"
    have meta: "rc_Meta r1 = rc_Meta ?a" by (simp add: r1_def)
    have head: "head_pod r1 = oauth_pod env ?a (head_pod ?a)"
      using True by (simp add: r1_def oauth_defaulted_def Let_def)
    have "oauth_pod env ?r2 p = oauth_pod env ?a p" for p
      by (rule oauth_pod_cong) (simp add: meta)
    moreover have "caVolumes r1 = caVolumes ?a" by (rule names_cong) (rule meta)
    ultimately have "?T (oauth_pod env ?r2 (?T (head_pod r1))) = ?T (head_pod r1)"
      by (simp add: head tls_oauth_pod_idem)
    with True workers show ?thesis
      by (simp add: oauth_defaulted_def Let_def annotated)
        (simp add: tls_defaulted_def)
  next
    case False
    then show ?thesis
      using tls_pod_idem [of "rayHeadInitContainer env r1 cfg" "caVolumes r1"] workers
      by (simp add: oauth_defaulted_def Let_def annotated) (simp add: tls_defaulted_def)
  qed
qed

end
