(* ===== verification/AdmissionProps.thy ===== *)
theory AdmissionProps
  imports Admission
begin

text \<open>
  The properties of the webhooks: what the defaulter establishes and leaves alone, that it is a fixed
  point, when its result passes the validators, what the validators accept and when either panics.
\<close>

subsection \<open>Concrete inputs\<close>

definition user_container :: Container where
  "user_container = \<lparr>c_Name = ''ray-head'', c_Image = ''ray:2'', c_Command = [], c_Args = [],
     c_Ports = [], c_Env = [], c_VolumeMounts = [], c_rest = []\<rparr>"

definition user_pod :: "Container list \<Rightarrow> PodTemplateSpec" where
  "user_pod cs = \<lparr>pt_Spec = \<lparr>ps_Volumes = [], ps_InitContainers = [], ps_Containers = cs,
     ps_ServiceAccountName = [], ps_ImagePullSecrets = [], ps_rest = []\<rparr>, pt_rest = []\<rparr>"

definition user_cluster :: "Container list \<Rightarrow> Container list \<Rightarrow> RayCluster" where
  "user_cluster head worker =
     \<lparr>rc_Kind = ''RayCluster'', rc_APIVersion = ''ray.io/v1'',
      rc_Meta = \<lparr>om_Name = ''ray'', om_Namespace = ''ns'', om_UID = ''1'', om_Annotations = Map.empty,
                 om_DeletionTimestamp = None, om_Finalizers = [], om_rest = []\<rparr>,
      rc_Suspend = None,
      rc_Head = \<lparr>hg_EnableIngress = None, hg_Template = user_pod head, hg_rest = []\<rparr>,
      rc_Workers = [\<lparr>wg_Template = user_pod worker, wg_rest = []\<rparr>], rc_rest = []\<rparr>"

definition full_config :: KubeRayConfiguration where
  "full_config =
     \<lparr>RayDashboardOAuthEnabled = None, IngressDomain = ''example.com'', MTLSEnabled = None\<rparr>"

definition full_webhook :: rayClusterWebhook where
  "full_webhook = \<lparr>wh_Config = Some full_config, wh_OperatorVersion = ''v1''\<rparr>"

abbreviation sound_cluster :: RayCluster where
  "sound_cluster \<equiv> user_cluster [user_container] [user_container]"

lemma full_facts [simp]:
  "wh_Config full_webhook = Some full_config"
  "RayDashboardOAuthEnabled full_config = None" "MTLSEnabled full_config = None"
  "hg_EnableIngress (rc_Head (user_cluster head worker)) = None"
  "om_DeletionTimestamp (rc_Meta (user_cluster head worker)) = None"
  "ps_Containers (head_pod (user_cluster head worker)) = head"
  "lacks_container (user_cluster head worker) \<longleftrightarrow> head = [] \<or> worker = []"
  "foreign_first sound_cluster"
  by (simp_all add: full_webhook_def full_config_def user_cluster_def user_pod_def lacks_container_def
      foreign_first_def user_container_def oauthProxyContainerName_def)

subsection \<open>The defaulter\<close>

lemma oauth_defaulted_containers:
  "lacks_container (oauth_defaulted env v cfg rc) \<longleftrightarrow>
     (ps_Containers (head_pod rc) = [] \<and> \<not> Deref (RayDashboardOAuthEnabled cfg) True) \<or>
     (\<exists>wg\<in>set (rc_Workers rc). ps_Containers (worker_pod wg) = [])"
proof -
  have "upsert xs x p \<noteq> []" for xs :: "Container list" and x p by (cases xs) simp_all
  then show ?thesis
    by (auto simp: lacks_container_def oauth_defaulted_def Let_def oauth_pod_def
        setVersionAnnotation_def)
qed

text \<open>
  C35 The defaulter returns a cluster or panics; it panics in exactly two cases: without a configuration,
  and with mutual TLS when a worker group, or the head group without the OAuth sidecar, has no
  container. The second is an index out of range on the user's own request.
\<close>

theorem Default_panics_iff:
  "(\<exists>e. Default env w rc = Panics e) \<longleftrightarrow>
     (case wh_Config w of
        None \<Rightarrow> True
      | Some cfg \<Rightarrow> Deref (MTLSEnabled cfg) True \<and>
          ((\<exists>wg\<in>set (rc_Workers rc). ps_Containers (worker_pod wg) = []) \<or>
           (\<not> Deref (RayDashboardOAuthEnabled cfg) True \<and> ps_Containers (head_pod rc) = [])))"
proof (cases "wh_Config w")
  case None
  then show ?thesis by (simp add: Default_def Let_def)
next
  case (Some cfg)
  then show ?thesis by (auto simp: Default_eq [OF Some refl] oauth_defaulted_containers)
qed

lemma Default_Ok:
  assumes "Default env w rc = Ok rc'"
  obtains cfg r1 where "wh_Config w = Some cfg"
    and "r1 = oauth_defaulted env (wh_OperatorVersion w) cfg rc"
    and "rc' = (if Deref (MTLSEnabled cfg) True then tls_defaulted env cfg r1 else r1)"
    and "Deref (MTLSEnabled cfg) True \<longrightarrow> \<not> lacks_container r1"
proof (cases "wh_Config w")
  case None
  with assms show ?thesis by (simp add: Default_def Let_def)
next
  case (Some cfg)
  with assms that show ?thesis
    by (auto simp: Default_eq [OF Some refl] split: if_splits)
qed

lemma Default_fixed:
  assumes "Default env w rc = Ok rc'"
  shows "Default env w rc' = Ok rc'"
proof -
  from assms obtain cfg r1 where cfg: "wh_Config w = Some cfg"
    and r1: "r1 = oauth_defaulted env (wh_OperatorVersion w) cfg rc"
    and rc': "rc' = (if Deref (MTLSEnabled cfg) True then tls_defaulted env cfg r1 else r1)"
    by (rule Default_Ok)
  show ?thesis
  proof (cases "Deref (MTLSEnabled cfg) True")
    case True
    then have "\<not> lacks_container (oauth_defaulted env (wh_OperatorVersion w) cfg rc')"
      using tls_defaulted_containers [of env cfg r1] rc'
      unfolding oauth_defaulted_containers by (auto simp: lacks_container_def)
    with True show ?thesis
      by (simp add: Default_eq [OF cfg refl] rc' r1 tls_oauth_defaulted_idem)
  next
    case False
    then show ?thesis by (simp add: Default_eq [OF cfg refl] rc' r1 oauth_defaulted_idem)
  qed
qed

text \<open>C17 Defaulting is a fixed point: a second run of the webhook on its own result changes nothing.\<close>

theorem Default_idempotent:
  assumes "Default env w rc = Ok rc'"
  shows "Default env w rc' = Ok rc'"
  by (rule Default_fixed [OF assms])

lemma Default_sound:
  "Default env full_webhook sound_cluster =
     Ok (tls_defaulted env full_config
           (oauth_defaulted env (wh_OperatorVersion full_webhook) full_config sound_cluster))"
  by (simp add: Default_eq [OF _ refl] oauth_defaulted_containers)
    (simp add: user_cluster_def user_pod_def)

definition sound_defaulted :: RayCluster where
  "sound_defaulted = tls_defaulted Map.empty full_config
     (oauth_defaulted Map.empty (wh_OperatorVersion full_webhook) full_config sound_cluster)"

theorem Default_idempotent_witness:
  "Default Map.empty full_webhook sound_defaulted = Ok sound_defaulted"
  unfolding sound_defaulted_def by (rule Default_idempotent [OF Default_sound])

subsection \<open>The validators\<close>

text \<open>
  C9 Every update of a cluster that is being deleted is admitted. Any other update is admitted exactly
  when there is a configuration and the new cluster requests no Ingress; has, with OAuth, the injected
  sidecar, its volume and the service account; and has, with mutual TLS, a container in every pod and the
  injected init container, volumes and variables in all of them. The injected volume mounts are not part
  of the condition: the validator does not look at them.
\<close>

theorem ValidateUpdate_accepts_iff:
  "ValidateUpdate dd env w old rc = Ok None \<longleftrightarrow>
     \<not> IsZero (om_DeletionTimestamp (rc_Meta rc)) \<or>
     (\<exists>cfg. wh_Config w = Some cfg \<and> accepts_update dd env cfg rc)"
proof (cases "wh_Config w")
  case (Some cfg)
  then show ?thesis
    by (auto simp: ValidateUpdate_eq accepts_update_def create_errs_Nil tls_errs_Nil)
qed (simp add: ValidateUpdate_eq)

theorem ValidateUpdate_accepts_iff_witness:
  "ValidateUpdate strict_dd Map.empty full_webhook sound_cluster
     (sound_cluster\<lparr>rc_Meta := (rc_Meta sound_cluster)\<lparr>om_DeletionTimestamp := Some 1\<rparr>\<rparr>) = Ok None"
  by (subst ValidateUpdate_accepts_iff) (simp add: IsZero_def)

text \<open>
  A creation is admitted exactly when no Ingress is requested and, with OAuth, the sidecar, its volume
  and the service account are in place. The mutual-TLS parts are not checked on creation.
\<close>

theorem ValidateCreate_accepts_iff:
  "ValidateCreate dd env w rc = Ok None \<longleftrightarrow>
     (\<exists>cfg. wh_Config w = Some cfg \<and> accepts_create dd env cfg rc)"
  by (auto simp: ValidateCreate_eq create_errs_Nil split: option.split)

lemma Default_keeps:
  assumes "Default env w rc = Ok rc'"
  shows "hg_EnableIngress (rc_Head rc') = hg_EnableIngress (rc_Head rc)"
    and "om_DeletionTimestamp (rc_Meta rc') = om_DeletionTimestamp (rc_Meta rc)"
  using assms by (auto elim!: Default_Ok simp: setVersionAnnotation_def)

lemma Default_accepted:
  assumes "Default env w rc = Ok rc'" and dd: "dd_reflexive dd"
    and "\<not> Deref (hg_EnableIngress (rc_Head rc)) False" and "foreign_first rc"
  shows "\<exists>cfg. wh_Config w = Some cfg \<and> accepts_update dd env cfg rc'"
proof -
  from assms(1) obtain cfg r1 where cfg: "wh_Config w = Some cfg"
    and r1: "r1 = oauth_defaulted env (wh_OperatorVersion w) cfg rc"
    and rc': "rc' = (if Deref (MTLSEnabled cfg) True then tls_defaulted env cfg r1 else r1)"
    by (rule Default_Ok)
  have "Deref (RayDashboardOAuthEnabled cfg) True \<longrightarrow> oauth_intact dd env rc'"
    using oauth_defaulted_intact [OF dd] tls_defaulted_keeps_oauth
      oauth_defaulted_foreign_first [OF assms(4)]
    by (auto simp: rc' r1)
  moreover have "Deref (MTLSEnabled cfg) True \<longrightarrow> \<not> lacks_container rc' \<and> tls_intact dd env cfg rc'"
    using tls_defaulted_intact [OF dd] by (simp add: rc')
  moreover have "\<not> Deref (hg_EnableIngress (rc_Head rc')) False"
    using assms(3) by (simp add: rc' r1)
  ultimately show ?thesis using cfg by (simp add: accepts_update_def accepts_create_def)
qed

text \<open>
  C7 The only way in which the defaulter's result can fail the validators is the Ingress. For a cluster
  whose first head container is its own, and not one named like the sidecar, the result is admitted on
  creation exactly if the cluster does not enable the Ingress, which the defaulter leaves as it is, and
  on update exactly if it does not or is being deleted.
\<close>

theorem Default_then_admitted:
  assumes "Default env w rc = Ok rc'" and "dd_reflexive dd"
    and "foreign_first rc"
  shows "(ValidateCreate dd env w rc' = Ok None \<longleftrightarrow> \<not> Deref (hg_EnableIngress (rc_Head rc)) False) \<and>
    (ValidateUpdate dd env w old rc' = Ok None \<longleftrightarrow>
       \<not> Deref (hg_EnableIngress (rc_Head rc)) False \<or> \<not> IsZero (om_DeletionTimestamp (rc_Meta rc)))"
proof -
  note kept = Default_keeps [OF assms(1)]
  show ?thesis
  proof (cases "Deref (hg_EnableIngress (rc_Head rc)) False")
    case True
    then have "create_errs dd env cfg rc' \<noteq> []" for cfg
      using kept(1) by (simp add: create_errs_Nil accepts_create_def)
    with True kept(2) show ?thesis
      by (simp add: ValidateCreate_eq ValidateUpdate_eq split: option.split)
  next
    case False
    obtain cfg where "wh_Config w = Some cfg" "accepts_update dd env cfg rc'"
      using Default_accepted [OF assms(1,2) False assms(3)] by blast
    then have "create_errs dd env cfg rc' = []" "Deref (MTLSEnabled cfg) True \<longrightarrow> tls_errs dd env cfg rc' = []"
      and "Deref (MTLSEnabled cfg) True \<longrightarrow> \<not> lacks_container rc'" and "wh_Config w = Some cfg"
      by (simp_all add: accepts_update_def create_errs_Nil tls_errs_Nil)
    with False show ?thesis by (simp add: ValidateCreate_eq ValidateUpdate_eq)
  qed
qed

theorem Default_then_admitted_witness:
  "ValidateCreate strict_dd Map.empty full_webhook sound_defaulted = Ok None \<and>
   ValidateUpdate strict_dd Map.empty full_webhook sound_cluster sound_defaulted = Ok None"
  unfolding sound_defaulted_def
  using Default_then_admitted [OF Default_sound, where dd = strict_dd and old = sound_cluster] by simp

end
