(* ===== verification/AdmissionSafety.thy ===== *)
theory AdmissionSafety
  imports AdmissionProps
begin

text \<open>
  What the webhooks mean for the user: which parts of a request they leave alone, what exactly is
  injected, which edits are refused, and what the version annotation does to the names of an existing
  cluster's objects.
\<close>

subsection \<open>What is left alone\<close>

lemma upsert_names_subset:
  "k \<noteq> oauthProxyVolumeName \<Longrightarrow>
   find (\<lambda>v. v_Name v = k) (ps_Volumes (head_pod (oauth_defaulted env v cfg rc))) =
   find (\<lambda>v. v_Name v = k) (ps_Volumes (head_pod rc))"
  by (simp add: oauth_defaulted_def Let_def oauth_pod_def setVersionAnnotation_def volumes.upsert_find)

lemma oauth_defaulted_pod:
  "ps_InitContainers (head_pod (oauth_defaulted env v cfg rc)) = ps_InitContainers (head_pod rc)"
  "ps_ImagePullSecrets (head_pod (oauth_defaulted env v cfg rc)) = ps_ImagePullSecrets (head_pod rc)"
  "ps_rest (head_pod (oauth_defaulted env v cfg rc)) = ps_rest (head_pod rc)"
  by (simp_all add: oauth_defaulted_def Let_def oauth_pod_def setVersionAnnotation_def)

text \<open>
  The webhook changes nothing of the metadata but the version annotation, and keeps the suspension,
  the Ingress switch, the number of worker groups, the head's pull secrets, every head volume and init
  container whose name is not one of the injected, and all fields the operator does not know.
\<close>

theorem Default_frame:
  assumes "Default env w rc = Ok rc'"
    and "k \<notin> {oauthProxyVolumeName, ''ca-vol'', ''server-cert''}" and "n \<noteq> initContainerName"
  shows "rc_Meta rc' = rc_Meta (setVersionAnnotation (wh_OperatorVersion w) rc) \<and>
    rc_Suspend rc' = rc_Suspend rc \<and>
    hg_EnableIngress (rc_Head rc') = hg_EnableIngress (rc_Head rc) \<and>
    length (rc_Workers rc') = length (rc_Workers rc) \<and>
    ps_ImagePullSecrets (head_pod rc') = ps_ImagePullSecrets (head_pod rc) \<and>
    ps_rest (head_pod rc') = ps_rest (head_pod rc) \<and>
    find (\<lambda>v. v_Name v = k) (ps_Volumes (head_pod rc')) =
      find (\<lambda>v. v_Name v = k) (ps_Volumes (head_pod rc)) \<and>
    find (\<lambda>c. c_Name c = n) (ps_InitContainers (head_pod rc')) =
      find (\<lambda>c. c_Name c = n) (ps_InitContainers (head_pod rc))"
proof -
  from assms(1) obtain cfg r1 where cfg: "wh_Config w = Some cfg"
    and r1: "r1 = oauth_defaulted env (wh_OperatorVersion w) cfg rc"
    and rc': "rc' = (if Deref (MTLSEnabled cfg) True then tls_defaulted env cfg r1 else r1)"
    by (rule Default_Ok)
  have "v_Name ` set (caVolumes r1) = {''ca-vol'', ''server-cert''}"
    by (simp add: caVolumes_def)
  then have "find (\<lambda>v. v_Name v = k) (ps_Volumes (head_pod (tls_defaulted env cfg r1))) =
      find (\<lambda>v. v_Name v = k) (ps_Volumes (head_pod r1))"
    using assms(2) by (simp add: tls_pod_def volumes.fold_upsert_find_other)
  moreover have "find (\<lambda>c. c_Name c = n) (ps_InitContainers (head_pod (tls_defaulted env cfg r1))) =
      find (\<lambda>c. c_Name c = n) (ps_InitContainers (head_pod r1))"
    using assms(3) by (simp add: tls_pod_def containers.upsert_find)
  ultimately show ?thesis
    using assms(2) by (simp add: rc' r1 oauth_defaulted_pod upsert_names_subset tls_pod_def)
qed

theorem Default_frame_witness:
  "rc_Suspend sound_defaulted = rc_Suspend sound_cluster \<and>
   find (\<lambda>v. v_Name v = ''data'') (ps_Volumes (head_pod sound_defaulted)) =
     find (\<lambda>v. v_Name v = ''data'') (ps_Volumes (head_pod sound_cluster))"
  unfolding sound_defaulted_def
  using Default_frame [OF Default_sound, of "''data''" "''setup''"]
  by (simp add: oauthProxyVolumeName_def initContainerName_def)

subsection \<open>What is injected\<close>

text \<open>The parts of mutual TLS in one pod, exactly as the webhook writes them.\<close>

definition carries_tls :: "Container \<Rightarrow> Volume list \<Rightarrow> PodSpec \<Rightarrow> bool" where
  "carries_tls init vols p \<longleftrightarrow>
     find (\<lambda>c. c_Name c = initContainerName) (ps_InitContainers p) = Some init \<and>
     (\<forall>vol\<in>set vols. find (\<lambda>v. v_Name v = v_Name vol) (ps_Volumes p) = Some vol) \<and>
     (\<forall>var\<in>set envVarList.
        find (\<lambda>e. ev_Name e = ev_Name var) (c_Env (hd (ps_Containers p))) = Some var) \<and>
     (\<forall>m\<in>set certVolumeMounts.
        find (\<lambda>x. vm_Name x = vm_Name m) (c_VolumeMounts (hd (ps_Containers p))) = Some m)"

lemma tls_pod_carries:
  assumes "c_Name init = initContainerName" and "distinct (map v_Name vols)"
  shows "carries_tls init vols (tls_pod init vols p)"
  using assms
  by (simp add: carries_tls_def tls_pod_def tls_container_def containers.upsert_find
      volumes.fold_upsert_find env_vars.fold_upsert_find mounts.fold_upsert_find)

text \<open>
  C20 With mutual TLS the webhook writes into the head pod and into every worker pod the init container
  that makes the certificate, the CA and certificate volumes, and into the first container of each the
  RAY_TLS variables and the two mounts.
\<close>

theorem Default_injects_tls:
  assumes "Default env w rc = Ok rc'" and "wh_Config w = Some cfg" and "Deref (MTLSEnabled cfg) True"
  shows "carries_tls (rayHeadInitContainer env rc' cfg) (caVolumes rc') (head_pod rc') \<and>
    list_all (\<lambda>wg. carries_tls (rayWorkerInitContainer env cfg) (caVolumes rc') (worker_pod wg))
      (rc_Workers rc')"
proof -
  from assms obtain r1 where "rc' = tls_defaulted env cfg r1"
    by (auto elim!: Default_Ok)
  then show ?thesis by (auto simp: list_all_iff intro!: tls_pod_carries)
qed

theorem Default_injects_tls_witness:
  "carries_tls (rayHeadInitContainer Map.empty sound_defaulted full_config)
     (caVolumes sound_defaulted) (head_pod sound_defaulted) \<and>
   list_all (\<lambda>wg. carries_tls (rayWorkerInitContainer Map.empty full_config)
     (caVolumes sound_defaulted) (worker_pod wg)) (rc_Workers sound_defaulted)"
  unfolding sound_defaulted_def by (rule Default_injects_tls [OF Default_sound]) simp_all

subsection \<open>Edits that are refused\<close>

text \<open>
  The value the first container of a pod gets for a variable. Names may repeat in the list: the API server
  only warns that a later entry hides the previous definition of its name, and the last one takes effect.
\<close>

definition entries :: "string \<Rightarrow> PodSpec \<Rightarrow> EnvVar list" where
  "entries name p = filter (\<lambda>e. ev_Name e = name) (c_Env (hd (ps_Containers p)))"

definition effective_value :: "string \<Rightarrow> PodSpec \<Rightarrow> string option" where
  "effective_value name p =
     map_option ev_Value (find (\<lambda>e. ev_Name e = name) (rev (c_Env (hd (ps_Containers p)))))"

lemma effective_single:
  assumes "find (\<lambda>e. ev_Name e = name) (c_Env (hd (ps_Containers p))) = Some e"
    and "length (entries name p) \<le> 1"
  shows "effective_value name p = Some (ev_Value e)"
proof -
  have once: "find (\<lambda>e. ev_Name e = name) (rev xs) = Some e"
    if "find (\<lambda>e. ev_Name e = name) xs = Some e" "length (filter (\<lambda>e. ev_Name e = name) xs) \<le> 1" for xs
    using that
    by (induction xs) (auto simp: find_append find_None_iff filter_empty_conv dest!: find_eq_Some
        split: if_splits option.split)
  from once [OF assms(1)] assms(2) show ?thesis by (simp add: effective_value_def entries_def)
qed

text \<open>
  What the deep comparison guarantees of one pod: the CA volume, and the first entry of the variable that
  turns TLS on, which is the effective one if the name is not repeated.
\<close>

definition tls_secured :: "RayCluster \<Rightarrow> PodSpec \<Rightarrow> bool" where
  "tls_secured rc p \<longleftrightarrow>
     (\<exists>v s. find (\<lambda>v. v_Name v = ''ca-vol'') (ps_Volumes p) = Some v \<and> v_Secret v = Some s \<and>
            svs_SecretName s = caSecretNameFromCluster rc) \<and>
     (\<exists>e. find (\<lambda>e. ev_Name e = ''RAY_USE_TLS'') (c_Env (hd (ps_Containers p))) = Some e \<and>
          ev_Value e = ''1'') \<and>
     (length (entries ''RAY_USE_TLS'' p) \<le> 1 \<longrightarrow> effective_value ''RAY_USE_TLS'' p = Some ''1'')"

lemma tls_intact_pod_secured:
  assumes "dd_compares_set_fields dd" and "tls_intact_pod dd init (caVolumes rc) p"
  shows "tls_secured rc p"
proof -
  let ?vol = "\<lparr>v_Name = ''ca-vol'',
     v_Secret = Some \<lparr>svs_SecretName = caSecretNameFromCluster rc, svs_rest = []\<rparr>,
     v_EmptyDir = None, v_rest = []\<rparr>"
  have ca: "caSecretNameFromCluster rc \<noteq> []"
    by (simp add: caSecretNameFromCluster_def RCCUniqueName_def)
  have "?vol \<in> set (caVolumes rc)" by (simp add: caVolumes_def)
  with assms(2) obtain v where v: "find (\<lambda>v. v_Name v = ''ca-vol'') (ps_Volumes p) = Some v"
      "dd_Volume dd ?vol v"
    unfolding tls_intact_pod_def by fastforce
  have "plainEnvVar ''RAY_USE_TLS'' ''1'' \<in> set envVarList" by (simp add: envVarList_def)
  with assms(2) obtain e where
    e: "find (\<lambda>e. ev_Name e = ''RAY_USE_TLS'') (c_Env (hd (ps_Containers p))) = Some e"
      "dd_EnvVar dd (plainEnvVar ''RAY_USE_TLS'' ''1'') e"
    unfolding tls_intact_pod_def by (fastforce simp: plainEnvVar_def)
  have "ev_Value e = ''1''"
    using assms(1) e(2) by (fastforce simp: dd_compares_set_fields_def plainEnvVar_def)
  moreover have "\<exists>s. v_Secret v = Some s \<and> svs_SecretName s = caSecretNameFromCluster rc"
    using assms(1) v(2) ca by (fastforce simp: dd_compares_set_fields_def)
  ultimately show ?thesis using v(1) e(1) effective_single [OF e(1)] by (auto simp: tls_secured_def)
qed

text \<open>
  C21 With OAuth and mutual TLS on, an admitted update of a cluster that is not being deleted cannot
  replace the sidecar's image, point the sidecar's volume or the CA volume of any pod at another secret,
  or switch the service account; and in the first container of every pod the first RAY_USE_TLS entry is
  still 1, so that TLS is on unless the entry is repeated. The assumption on the deep comparison is its
  documented one: fields set in the expected value must agree.
\<close>

theorem admitted_update_keeps_security:
  assumes "ValidateUpdate dd env w old rc = Ok None" and "IsZero (om_DeletionTimestamp (rc_Meta rc))"
    and "wh_Config w = Some cfg" and "Deref (RayDashboardOAuthEnabled cfg) True"
    and "Deref (MTLSEnabled cfg) True" and "dd_compares_set_fields dd" and "OAuthProxyImage env \<noteq> []"
  shows "(\<exists>c. find (\<lambda>c. c_Name c = ''oauth-proxy'') (ps_Containers (head_pod rc)) = Some c \<and>
            c_Image c = OAuthProxyImage env) \<and>
    (\<exists>v s. find (\<lambda>v. v_Name v = ''proxy-tls-secret'') (ps_Volumes (head_pod rc)) = Some v \<and>
       v_Secret v = Some s \<and> svs_SecretName s = oauthServiceTLSSecretName rc) \<and>
    ps_ServiceAccountName (head_pod rc) = oauthServiceAccountNameFromCluster rc \<and>
    list_all (tls_secured rc) (head_pod rc # map worker_pod (rc_Workers rc))"
proof -
  have "create_errs dd env cfg rc = []" and "tls_errs dd env cfg rc = []"
    using assms by (simp_all add: ValidateUpdate_eq split: if_splits)
  then have oauth: "oauth_intact dd env rc" and tls: "tls_intact dd env cfg rc"
    using assms(4) by (simp_all add: create_errs_Nil tls_errs_Nil accepts_create_def)
  from tls have "list_all (tls_secured rc) (head_pod rc # map worker_pod (rc_Workers rc))"
    by (auto simp: tls_intact_def list_all_iff intro: tls_intact_pod_secured [OF assms(6)])
  moreover from oauth obtain c where
    "find (\<lambda>c. c_Name c = ''oauth-proxy'') (ps_Containers (head_pod rc)) = Some c"
    "dd_Container dd (oauthProxyContainer env rc) c"
    by (auto simp: oauth_intact_def oauthProxyContainerName_def)
  moreover have "c_Image (oauthProxyContainer env rc) = OAuthProxyImage env"
    by (simp add: oauthProxyContainer_def)
  moreover have "\<exists>v s. find (\<lambda>v. v_Name v = ''proxy-tls-secret'') (ps_Volumes (head_pod rc)) = Some v \<and>
      v_Secret v = Some s \<and> svs_SecretName s = oauthServiceTLSSecretName rc"
  proof -
    obtain v where v: "find (\<lambda>v. v_Name v = ''proxy-tls-secret'') (ps_Volumes (head_pod rc)) = Some v"
      "dd_Volume dd (oauthProxyTLSSecretVolume rc) v"
      using oauth by (auto simp: oauth_intact_def oauthProxyVolumeName_def)
    moreover have "oauthServiceTLSSecretName rc \<noteq> []"
      by (simp add: oauthServiceTLSSecretName_def RCCUniqueName_def)
    ultimately show ?thesis
      using assms(6) by (fastforce simp: dd_compares_set_fields_def oauthProxyTLSSecretVolume_def)
  qed
  ultimately show ?thesis
    using oauth assms(6,7) by (auto simp: oauth_intact_def dd_compares_set_fields_def)
qed

theorem admitted_update_keeps_security_witness:
  "(\<exists>c. find (\<lambda>c. c_Name c = ''oauth-proxy'') (ps_Containers (head_pod sound_defaulted)) = Some c \<and>
        c_Image c = OAuthProxyImage Map.empty) \<and>
   (\<exists>v s. find (\<lambda>v. v_Name v = ''proxy-tls-secret'') (ps_Volumes (head_pod sound_defaulted)) = Some v \<and>
      v_Secret v = Some s \<and> svs_SecretName s = oauthServiceTLSSecretName sound_defaulted) \<and>
   ps_ServiceAccountName (head_pod sound_defaulted) =
     oauthServiceAccountNameFromCluster sound_defaulted \<and>
   list_all (tls_secured sound_defaulted)
     (head_pod sound_defaulted # map worker_pod (rc_Workers sound_defaulted))"
proof (rule admitted_update_keeps_security [where cfg = full_config])
  obtain cfg where "wh_Config full_webhook = Some cfg"
    and "accepts_update strict_dd Map.empty cfg sound_defaulted"
    unfolding sound_defaulted_def using Default_accepted [OF Default_sound, of strict_dd] by auto
  then have "create_errs strict_dd Map.empty full_config sound_defaulted = []"
    and "tls_errs strict_dd Map.empty full_config sound_defaulted = []"
    and "\<not> lacks_container sound_defaulted"
    by (simp_all add: accepts_update_def create_errs_Nil tls_errs_Nil)
  then show "ValidateUpdate strict_dd Map.empty full_webhook sound_cluster sound_defaulted = Ok None"
    by (simp add: ValidateUpdate_eq)
  show "IsZero (om_DeletionTimestamp (rc_Meta sound_defaulted))"
    by (simp add: sound_defaulted_def setVersionAnnotation_def IsZero_def)
qed (simp_all add: OAuthProxyImage_def getEnv_def)

lemma Default_never_panics:
  assumes "wh_Config w = Some cfg" and "\<not> lacks_container rc"
  shows "\<exists>rc'. Default env w rc = Ok rc'"
proof -
  have "\<not> lacks_container (oauth_defaulted env (wh_OperatorVersion w) cfg rc)"
    using assms(2) unfolding oauth_defaulted_containers by (auto simp: lacks_container_def)
  then show ?thesis by (simp add: Default_eq [OF assms(1) refl])
qed

lemma oauth_defaulted_hd:
  assumes "foreign_first rc"
  shows "hd (ps_Containers (head_pod (oauth_defaulted env v cfg rc))) = hd (ps_Containers (head_pod rc))"
  using assms
  by (auto simp: foreign_first_def oauth_defaulted_def Let_def oauth_pod_def setVersionAnnotation_def
      containers.upsert_hd)

text \<open>
  C37 The webhook can be made to leave TLS off. If the first container of a cluster's head pod names
  RAY_USE_TLS twice, the defaulter overwrites only the first entry, and the value in effect stays the one
  the user gave last; the defaulted cluster passes both validators all the same (if it enables no Ingress
  and its first head container is its own), which look at the first entry only.
\<close>

theorem repeated_variable_turns_TLS_off:
  assumes "Default env w rc = Ok rc'" and "1 < length (entries ''RAY_USE_TLS'' (head_pod rc))"
    and "dd_reflexive dd" and "\<not> Deref (hg_EnableIngress (rc_Head rc)) False" and "foreign_first rc"
  shows "effective_value ''RAY_USE_TLS'' (head_pod rc') = effective_value ''RAY_USE_TLS'' (head_pod rc) \<and>
    ValidateCreate dd env w rc' = Ok None \<and> ValidateUpdate dd env w old rc' = Ok None"
proof -
  from assms(1) obtain cfg r1 where cfg: "wh_Config w = Some cfg"
    and r1: "r1 = oauth_defaulted env (wh_OperatorVersion w) cfg rc"
    and rc': "rc' = (if Deref (MTLSEnabled cfg) True then tls_defaulted env cfg r1 else r1)"
    by (rule Default_Ok)
  have first: "hd (ps_Containers (head_pod r1)) = hd (ps_Containers (head_pod rc))"
    using assms(5) by (auto simp: r1 oauth_defaulted_hd)
  have "effective_value ''RAY_USE_TLS'' (head_pod rc') = effective_value ''RAY_USE_TLS'' (head_pod rc)"
    using assms(2) by (simp add: rc' effective_value_def entries_def first tls_pod_def tls_container_def
        env_vars.fold_upsert_last)
  moreover obtain k where k: "wh_Config w = Some k" "accepts_update dd env k rc'"
    using Default_accepted [OF assms(1,3-5)] by blast
  ultimately show ?thesis
    by (auto simp: ValidateCreate_accepts_iff ValidateUpdate_eq accepts_update_def create_errs_Nil
        tls_errs_Nil)
qed

theorem repeated_variable_turns_TLS_off_witness:
  "let off = plainEnvVar ''RAY_USE_TLS'' ''0'';
       rc = user_cluster [user_container\<lparr>c_Env := [off, off]\<rparr>] [user_container]
   in \<exists>rc'. Default Map.empty full_webhook rc = Ok rc' \<and>
        effective_value ''RAY_USE_TLS'' (head_pod rc') = Some ''0'' \<and>
        ValidateCreate strict_dd Map.empty full_webhook rc' = Ok None"
proof -
  let ?off = "plainEnvVar ''RAY_USE_TLS'' ''0''"
  let ?rc = "user_cluster [user_container\<lparr>c_Env := [?off, ?off]\<rparr>] [user_container]"
  obtain rc' where rc': "Default Map.empty full_webhook ?rc = Ok rc'"
    using Default_never_panics [of full_webhook full_config ?rc Map.empty] by auto
  have "1 < length (entries ''RAY_USE_TLS'' (head_pod ?rc))" "foreign_first ?rc"
    by (simp_all add: entries_def plainEnvVar_def foreign_first_def user_container_def
        oauthProxyContainerName_def)
  from repeated_variable_turns_TLS_off [OF rc' this(1) strict_dd_laws(1) _ this(2)] rc'
  show ?thesis by (simp add: Let_def effective_value_def plainEnvVar_def)
qed

text \<open>
  The validator panics where the defaulter does: on an update of a live cluster, without a
  configuration, or with mutual TLS on a pod without containers.
\<close>

theorem ValidateUpdate_panics_iff:
  "(\<exists>e. ValidateUpdate dd env w old rc = Panics e) \<longleftrightarrow>
     IsZero (om_DeletionTimestamp (rc_Meta rc)) \<and>
     (case wh_Config w of
        None \<Rightarrow> True
      | Some cfg \<Rightarrow> Deref (MTLSEnabled cfg) True \<and> lacks_container rc)"
  by (auto simp: ValidateUpdate_eq split: option.split)

subsection \<open>The version annotation and the names\<close>

text \<open>
  The webhook puts every cluster on the hashed names. For a cluster made before the annotation existed
  this changes the name of its ClusterRoleBinding.
\<close>

lemma Default_meta:
  "Default env w rc = Ok rc' \<Longrightarrow> rc_Meta rc' = rc_Meta (setVersionAnnotation (wh_OperatorVersion w) rc)"
  by (auto elim!: Default_Ok)

lemma Default_renames_binding:
  assumes "Default env w rc = Ok rc'" and "shouldUseOldName rc"
  shows "crbNameFromCluster rc' = RCCUniqueName (crbNameFromCluster rc)"
    and "crbNameFromCluster rc' \<noteq> crbNameFromCluster rc"
proof -
  show eq: "crbNameFromCluster rc' = RCCUniqueName (crbNameFromCluster rc)"
    using assms(2) Default_meta [OF assms(1)]
    by (simp add: crbNameFromCluster_def setVersionAnnotation_def shouldUseOldName_def)
  have "RCCUniqueName s \<noteq> s" for s by (simp add: RCCUniqueName_def)
  then show "crbNameFromCluster rc' \<noteq> crbNameFromCluster rc" unfolding eq .
qed

end
