(* ===== verification/Wiring.thy ===== *)
theory Wiring
  imports MainProgram ReconcileEnds AdmissionSafety
begin

text \<open>
  How the started operator is put together: the webhook and the controller that
  \<^verbatim>\<open>setupRayClusterController\<close> builds from the configuration and hands to the manager, the kinds the
  controller watches, and the kinds of the objects it applies.
\<close>

subsection \<open>Builders\<close>

text \<open>
  What the calls of the two builders of controller-runtime have collected when \<^verbatim>\<open>Complete\<close> is called: for
  a controller its name, the type it reconciles, the kinds it owns, the kinds it watches by a map
  function of the labels, and the reconciler; for a webhook the type and its two handlers.
\<close>

record ControllerBuilder =
  cb_Named :: string
  cb_For :: string
  cb_Owns :: "kind list"
  cb_Watches :: "(kind \<times> (strmap \<Rightarrow> Request list)) list"
  cb_Reconciler :: RayClusterReconciler

record WebhookBuilder =
  wb_For :: string
  wb_Defaulter :: rayClusterWebhook
  wb_Validator :: rayClusterWebhook

text \<open>
  What the calls on the manager and the libraries answer: the creation of the two clients, the random
  source for a number of bytes, and the two \<^verbatim>\<open>Complete\<close>.
\<close>

record Manager =
  mg_newKubeClient :: "error option"
  mg_newRouteClient :: "error option"
  mg_random :: "nat \<Rightarrow> error + byte list"
  mg_completeWebhook :: "WebhookBuilder \<Rightarrow> error option"
  mg_completeController :: "ControllerBuilder \<Rightarrow> error option"

text \<open>\<^verbatim>\<open>NewForConfigOrDie\<close> panics with the error of the creation.\<close>

definition OrDie :: "error option \<Rightarrow> unit go" where
  "OrDie err = (case err of None \<Rightarrow> Ok () | Some e \<Rightarrow> Panics (PanicCall (Error e)))"

subsection \<open>The webhook\<close>

definition newRayClusterWebhook :: "KubeRayConfiguration option \<Rightarrow> string \<Rightarrow> rayClusterWebhook" where
  "newRayClusterWebhook cfg operatorVersion = \<lparr>wh_Config = cfg, wh_OperatorVersion = operatorVersion\<rparr>"

definition SetupRayClusterWebhookWithManager ::
    "Manager \<Rightarrow> KubeRayConfiguration option \<Rightarrow> string \<Rightarrow> error + WebhookBuilder" where
  "SetupRayClusterWebhookWithManager mg cfg operatorVersion =
     (let w = newRayClusterWebhook cfg operatorVersion;
          builder = \<lparr>wb_For = ''RayCluster'', wb_Defaulter = w, wb_Validator = w\<rparr> in
      case mg_completeWebhook mg builder of Some err \<Rightarrow> Inl err | None \<Rightarrow> Inr builder)"

subsection \<open>The controller\<close>

text \<open>
  The kinds whose changes reach the controller through the owner reference; Routes only where they
  exist.
\<close>

definition ownedKinds :: "bool \<Rightarrow> kind list" where
  "ownedKinds openShift =
     [KServiceAccount, KService, KSecret, KIngress, KNetworkPolicy]
       @ (if openShift then [KRoute] else [])"

definition rayClusterController :: "RayClusterReconciler \<Rightarrow> ControllerBuilder" where
  "rayClusterController r =
     \<lparr>cb_Named = controllerName, cb_For = ''RayCluster'', cb_Owns = ownedKinds (IsOpenShift r),
      cb_Watches = [(KClusterRoleBinding, requestsForClusterRoleBinding)], cb_Reconciler = r\<rparr>"

text \<open>The salt is 16 random bytes as a string; a failure of the source is returned.\<close>

definition SetupWithManager ::
    "Manager \<Rightarrow> RayClusterReconciler \<Rightarrow> (error + ControllerBuilder) go" where
  "SetupWithManager mg r =
     go_bind (OrDie (mg_newKubeClient mg)) (\<lambda>_.
     go_bind (OrDie (mg_newRouteClient mg)) (\<lambda>_.
     case mg_random mg 16 of
       Inl err \<Rightarrow> Ok (Inl err)
     | Inr b \<Rightarrow>
         let controller = rayClusterController (r\<lparr>CookieSalt := map (\<lambda>x. char_of (unat x)) b\<rparr>) in
         case mg_completeController mg controller of
           Some err \<Rightarrow> Ok (Inl err)
         | None \<Rightarrow> Ok (Inr controller)))"

text \<open>The webhook is registered before the controller; the wait for the certificates is in \<open>Startup\<close>.\<close>

definition setupRayClusterController ::
    "Manager \<Rightarrow> CodeFlareOperatorConfiguration \<Rightarrow> bool \<Rightarrow> string
      \<Rightarrow> (error + WebhookBuilder \<times> ControllerBuilder) go" where
  "setupRayClusterController mg cfg openShift operatorVersion =
     (case SetupRayClusterWebhookWithManager mg (CFO_KubeRay cfg) operatorVersion of
        Inl err \<Rightarrow> Ok (Inl err)
      | Inr webhook \<Rightarrow>
          go_map (map_sum id (Pair webhook)) (SetupWithManager mg
            \<lparr>CookieSalt = [], rec_Config = CFO_KubeRay cfg, IsOpenShift = openShift\<rparr>))"

subsection \<open>What comes out of it\<close>

fun kind_of :: "ApplyConfig \<Rightarrow> kind" where
  "kind_of (ARoute _) = KRoute"
| "kind_of (ASecret _) = KSecret"
| "kind_of (AService _) = KService"
| "kind_of (AServiceAccount _) = KServiceAccount"
| "kind_of (AClusterRoleBinding _) = KClusterRoleBinding"
| "kind_of (AIngress _) = KIngress"
| "kind_of (ANetworkPolicy _) = KNetworkPolicy"

lemma OrDie_Ok: "OrDie err = Ok u \<longleftrightarrow> err = None"
  by (cases err) (simp_all add: OrDie_def)

lemma go_bind_Ok: "go_bind p f = Ok y \<longleftrightarrow> (\<exists>x. p = Ok x \<and> f x = Ok y)"
  by (cases p) auto

text \<open>A registered controller is the one for the reconciler with its new salt, and every call has succeeded.\<close>

lemma SetupWithManager_Inr:
  "SetupWithManager mg r = Ok (Inr b) \<longleftrightarrow>
     mg_newKubeClient mg = None \<and> mg_newRouteClient mg = None \<and>
     (\<exists>bs. mg_random mg 16 = Inr bs \<and>
        b = rayClusterController (r\<lparr>CookieSalt := map (\<lambda>x. char_of (unat x)) bs\<rparr>)) \<and>
     mg_completeController mg b = None"
  by (auto simp: SetupWithManager_def go_bind_Ok OrDie_Ok Let_def split: sum.splits option.splits)

lemma setupRayClusterController_Inr:
  "setupRayClusterController mg cfg openShift version = Ok (Inr (w, b)) \<longleftrightarrow>
     SetupRayClusterWebhookWithManager mg (CFO_KubeRay cfg) version = Inr w \<and>
     SetupWithManager mg \<lparr>CookieSalt = [], rec_Config = CFO_KubeRay cfg, IsOpenShift = openShift\<rparr> =
       Ok (Inr b)"
proof -
  have "go_map (map_sum id (Pair w')) p = Ok (Inr (w, b)) \<longleftrightarrow> w' = w \<and> p = Ok (Inr b)"
    for w' and p :: "(error + ControllerBuilder) go"
    by (cases "(map_sum id (Pair w') :: error + ControllerBuilder \<Rightarrow> _, p)" rule: go_map.cases)
      (auto simp: map_sum_def split: sum.splits)
  then show ?thesis
    by (auto simp: setupRayClusterController_def split: sum.splits)
qed

lemma controller_simps [simp]:
  "cb_Reconciler (rayClusterController r) = r" "cb_Owns (rayClusterController r) = ownedKinds (IsOpenShift r)"
  "cb_Watches (rayClusterController r) = [(KClusterRoleBinding, requestsForClusterRoleBinding)]"
  by (simp_all add: rayClusterController_def)

text \<open>Both work with the configuration the process was started with.\<close>

lemma setup_parts:
  assumes "setupRayClusterController mg cfg openShift version = Ok (Inr (w, b))"
  shows "wh_Config (wb_Defaulter w) = CFO_KubeRay cfg"
    and "wb_Validator w = wb_Defaulter w"
    and "wh_OperatorVersion (wb_Defaulter w) = version"
    and "b = rayClusterController (cb_Reconciler b)"
    and "rec_Config (cb_Reconciler b) = CFO_KubeRay cfg"
    and "IsOpenShift (cb_Reconciler b) = openShift"
  using assms
  by (auto simp: setupRayClusterController_Inr SetupWithManager_Inr newRayClusterWebhook_def
      SetupRayClusterWebhookWithManager_def Let_def split: option.splits)

text \<open>A manager that refuses nothing, with the given random bytes.\<close>

definition willing :: "byte list \<Rightarrow> Manager" where
  "willing bs =
     \<lparr>mg_newKubeClient = None, mg_newRouteClient = None, mg_random = (\<lambda>_. Inr bs),
      mg_completeWebhook = (\<lambda>_. None), mg_completeController = (\<lambda>_. None)\<rparr>"

lemma willing_SetupWithManager [simp]:
  "SetupWithManager (willing bs) r =
     Ok (Inr (rayClusterController (r\<lparr>CookieSalt := map (\<lambda>x. char_of (unat x)) bs\<rparr>)))"
  by (simp add: SetupWithManager_Inr willing_def)

lemma willing_setup [simp]:
  "setupRayClusterController (willing bs) cfg openShift version =
     (let w = newRayClusterWebhook (CFO_KubeRay cfg) version in
      Ok (Inr (\<lparr>wb_For = ''RayCluster'', wb_Defaulter = w, wb_Validator = w\<rparr>,
        rayClusterController \<lparr>CookieSalt = map (\<lambda>x. char_of (unat x)) bs, rec_Config = CFO_KubeRay cfg,
          IsOpenShift = openShift\<rparr>)))"
  unfolding Let_def setupRayClusterController_Inr willing_SetupWithManager
  by (simp add: SetupRayClusterWebhookWithManager_def willing_def Let_def)

lemma objects_watched:
  "obj \<in> set (cluster_objects r c ca nss) \<Longrightarrow>
   kind_of obj \<in> set (ownedKinds (IsOpenShift r)) \<or> kind_of obj = KClusterRoleBinding"
  by (auto simp: cluster_objects_def ca_objects_def exposure_objects_def oauth_objects_def
      ingress_objects_def policy_objects_def ownedKinds_def split: go.splits if_splits)

lemma cached_label: "(k, l) \<in> set (cacheByObject cfg openShift) \<Longrightarrow> l = RayClusterNameLabel"
  by (auto simp: cacheByObject_def split: if_splits)

end
