(* ===== verification/Store.thy ===== *)
theory Store
  imports Wiring NameProps
begin

text \<open>
  What a reconciliation leaves on the server. A \<open>store\<close> records the configuration in force under each
  key (kind, namespace, name): the last one applied there and not deleted since. It is an observation
  of the trace, so nothing is assumed of the server to define it; \<open>undisturbed\<close> is the one assumption
  some statements need, that reads and deletions are answered by what the store holds.
\<close>

subsection \<open>Keys\<close>

type_synonym object_key = "kind \<times> string option \<times> string"
type_synonym store = "object_key \<rightharpoonup> ApplyConfig"

definition key_of :: "ApplyConfig \<Rightarrow> object_key" where
  "key_of obj = (kind_of obj, ma_Namespace (obj_meta obj), ma_Name (obj_meta obj))"

lemma kind_of_policy: "is_network_policy obj \<longleftrightarrow> kind_of obj = KNetworkPolicy"
  by (cases obj) simp_all

subsection \<open>The store after a trace\<close>

text \<open>
  A forced apply replaces the fields the controller owns, which are all fields of the configuration; a
  refused call changes nothing.
\<close>

fun track :: "store \<Rightarrow> event \<Rightarrow> store" where
  "track s (EApplyObject opts ns obj None) = s(key_of obj \<mapsto> obj)"
| "track s (EDeleteClusterRoleBinding p name None) = s((KClusterRoleBinding, None, name) := None)"
| "track s _ = s"

definition configurations :: "store \<Rightarrow> event list \<Rightarrow> store" where
  "configurations s tr = foldl track s tr"

lemma configurations_append:
  "configurations s (xs @ ys) = configurations (configurations s xs) ys"
  by (simp add: configurations_def)

text \<open>
  A secret in the store is read with the data applied to it, perhaps with further keys of other
  writers; one that is not there is not read. A ClusterRoleBinding is reported missing only when it is.
\<close>

fun answered :: "store \<Rightarrow> event \<Rightarrow> bool" where
  "answered s (EGetSecret ns name res) =
     (case (s (KSecret, Some ns, name), res) of
        (Some (ASecret sec), Inr secret) \<Rightarrow> se_Data sec \<subseteq>\<^sub>m sec_Data secret
      | (Some _, Inl err) \<Rightarrow> \<not> IsNotFound err
      | (None, Inr _) \<Rightarrow> False
      | _ \<Rightarrow> True)"
| "answered s (EDeleteClusterRoleBinding p name res) =
     (case res of
        None \<Rightarrow> s (KClusterRoleBinding, None, name) \<noteq> None
      | Some err \<Rightarrow> IsNotFound err \<longrightarrow> s (KClusterRoleBinding, None, name) = None)"
| "answered s _ = True"

fun undisturbed :: "store \<Rightarrow> event list \<Rightarrow> bool" where
  "undisturbed s [] \<longleftrightarrow> True"
| "undisturbed s (ev # tr) \<longleftrightarrow> answered s ev \<and> undisturbed (track s ev) tr"

text \<open>Without a deletion, the store after a trace is decided by the accepted applies, the last first.\<close>

fun deletes_nothing :: "event \<Rightarrow> bool" where
  "deletes_nothing (EDeleteClusterRoleBinding _ _ _) = False"
| "deletes_nothing _ = True"

lemma configurations_lookup:
  assumes "list_all deletes_nothing tr"
  shows "configurations s tr k =
    (case find (\<lambda>obj. key_of obj = k) (rev (applied tr)) of None \<Rightarrow> s k | Some obj \<Rightarrow> Some obj)"
  using assms
proof (induction tr rule: rev_induct)
  case (snoc ev tr)
  have find_app: "find P (xs @ ys) = (case find P xs of None \<Rightarrow> find P ys | Some x \<Rightarrow> Some x)"
    for P :: "ApplyConfig \<Rightarrow> bool" and xs ys
    by (induction xs) auto
  from snoc show ?case
    by (cases "([ev])" rule: applied.cases) (auto simp: configurations_def find_app)
qed (simp add: configurations_def)

text \<open>With distinct keys, every accepted object is in force afterwards, and nothing else has changed.\<close>

lemma find_distinct_key:
  "distinct (map f xs) \<Longrightarrow> x \<in> set xs \<Longrightarrow> find (\<lambda>y. f y = f x) xs = Some x"
  by (induction xs) auto

lemma find_filter:
  "(\<And>x. P x \<Longrightarrow> Q x) \<Longrightarrow> find P (filter Q xs) = find P xs"
  by (induction xs) auto

lemma find_eq_None: "find P xs = None \<longleftrightarrow> (\<forall>x\<in>set xs. \<not> P x)"
  by (auto simp: find_None_iff)

text \<open>
  \<open>holds s objs\<close>: every object of the list but the network policies, whose applies may fail unnoticed,
  is in force.
\<close>

definition holds :: "store \<Rightarrow> ApplyConfig list \<Rightarrow> bool" where
  "holds s objs \<longleftrightarrow>
     list_all (\<lambda>obj. is_network_policy obj \<or> s (key_of obj) = Some obj) objs"

lemma configurations_hold:
  assumes "list_all deletes_nothing tr" and "distinct (map key_of objs)"
    and "filter (\<lambda>obj. \<not> is_network_policy obj) (applied tr) =
         filter (\<lambda>obj. \<not> is_network_policy obj) objs"
  shows "holds (configurations s tr) objs"
  unfolding holds_def list_all_iff
proof (intro ballI)
  fix obj assume obj: "obj \<in> set objs"
  show "is_network_policy obj \<or> configurations s tr (key_of obj) = Some obj"
  proof (cases "is_network_policy obj")
    case False
    let ?P = "\<lambda>x. key_of x = key_of obj" and ?Q = "\<lambda>x. \<not> is_network_policy x"
    have PQ: "?Q x" if "?P x" for x using that False by (simp add: key_of_def kind_of_policy)
    have "find ?P (rev (applied tr)) = find ?P (filter ?Q (rev (applied tr)))"
      by (rule find_filter [symmetric]) (rule PQ)
    also have "\<dots> = find ?P (filter ?Q (rev objs))" by (simp add: rev_filter [symmetric] assms(3))
    also have "\<dots> = find ?P (rev objs)" by (rule find_filter) (rule PQ)
    also have "\<dots> = Some obj"
      using find_distinct_key [of key_of "rev objs" obj] obj assms(2)
      by (simp add: rev_map [symmetric])
    finally show ?thesis
      by (simp add: configurations_lookup [OF assms(1)])
  qed simp
qed

lemma configurations_frame:
  assumes "list_all deletes_nothing tr" and "k \<notin> key_of ` snd ` set (attempts tr)"
  shows "configurations s tr k = s k"
proof -
  have "find (\<lambda>obj. key_of obj = k) (rev (applied tr)) = None"
    using assms(2) applied_attempted [of tr] by (force simp: find_eq_None)
  then show ?thesis by (simp add: configurations_lookup [OF assms(1)])
qed

subsection \<open>The keys of a cluster's objects\<close>

lemma secret_names_differ: "oauthSecretNameFromCluster c \<noteq> caSecretNameFromCluster c"
proof (cases "shouldUseOldName c")
  case True
  then have "length (oauthSecretNameFromCluster c) \<noteq> length (caSecretNameFromCluster c)"
    by (simp add: name_defs)
  then show ?thesis by metis
next
  case False
  then show ?thesis using ca_oauth.hashed_apart by metis
qed

lemma policy_names_differ: "headNWPNameFromCluster c \<noteq> workerNWPNameFromCluster c"
proof (cases "shouldUseOldName c")
  case True
  then show ?thesis by (simp add: name_defs)
next
  case False
  then show ?thesis using head_worker.hashed_apart by metis
qed

lemma public_names_differ: "dashboardNameFromCluster c \<noteq> rayClientNameFromCluster d"
  by (simp add: dashboardNameFromCluster_def rayClientNameFromCluster_def)

lemmas keys = route.name client_route.name cookie.name ca.name proxy_service.name
  service_account.name dashboard_ingress.name client_ingress.name workers_policy.name

lemmas desired_names [simp] = keys [unfolded obj_meta.simps]

lemma no_head_policy [simp]: "desiredHeadNetworkPolicy c None nss = Panics NilDereference"
  by (simp add: desiredHeadNetworkPolicy_def)

lemma head_policy_name:
  "desiredHeadNetworkPolicy c cfg nss = Ok p \<Longrightarrow> ma_Name (nw_Meta p) = headNWPNameFromCluster c"
  using head_policy.name [of c "the cfg" nss] by (cases cfg) auto

lemma head_policy_in_namespace:
  "desiredHeadNetworkPolicy c cfg nss = Ok p \<Longrightarrow> ma_Namespace (nw_Meta p) = Some (Namespace c)"
  using head_policy_namespace [of c _ nss p] by (cases cfg) auto

text \<open>The keys, as a list: they do not depend on the CA data or on the operator's namespaces.\<close>

definition cluster_keys :: "RayClusterReconciler \<Rightarrow> RayCluster \<Rightarrow> object_key list" where
  "cluster_keys r c =
     (let ns = Some (Namespace c) in
      (if isMTLSEnabled (rec_Config r) then [(KSecret, ns, caSecretNameFromCluster c)] else []) @
      (if isRayClusterSuspended c then []
       else if isRayDashboardOAuthEnabled (rec_Config r) \<and> IsOpenShift r then
         [(KRoute, ns, dashboardNameFromCluster c),
          (KSecret, ns, oauthSecretNameFromCluster c),
          (KService, ns, oauthServiceNameFromCluster c),
          (KServiceAccount, ns, oauthServiceAccountNameFromCluster c),
          (KClusterRoleBinding, None, crbNameFromCluster c),
          (KRoute, ns, rayClientNameFromCluster c)]
       else if \<not> isRayDashboardOAuthEnabled (rec_Config r) \<and> \<not> IsOpenShift r then
         [(KIngress, ns, dashboardNameFromCluster c), (KIngress, ns, rayClientNameFromCluster c)]
       else []) @
      (if rec_Config r = None then []
       else [(KNetworkPolicy, ns, headNWPNameFromCluster c),
             (KNetworkPolicy, ns, workerNWPNameFromCluster c)]))"

lemma crb_key [simp]:
  "ma_Name (cb_Meta (desiredOAuthClusterRoleBinding c)) = crbNameFromCluster c"
  by (simp add: desiredOAuthClusterRoleBinding_def)

lemma keys_of_objects: "map key_of (cluster_objects r c ca nss) = cluster_keys r c"
proof -
  have policies: "map key_of (policy_objects r c nss) =
      (if rec_Config r = None then []
       else [(KNetworkPolicy, Some (Namespace c), headNWPNameFromCluster c),
             (KNetworkPolicy, Some (Namespace c), workerNWPNameFromCluster c)])"
    by (auto simp: policy_objects_def key_of_def head_policy_name head_policy_in_namespace
        split: go.split)
  show ?thesis
    by (simp add: cluster_objects_def policies cluster_keys_def ca_objects_def exposure_objects_def
        oauth_objects_def ingress_objects_def key_of_def Let_def)
qed

lemma distinct_cluster_keys: "distinct (cluster_keys r c)"
  by (simp add: cluster_keys_def Let_def secret_names_differ policy_names_differ
      public_names_differ secret_names_differ [symmetric])

lemma distinct_objects: "distinct (map key_of (cluster_objects r c ca nss))"
  by (simp add: keys_of_objects distinct_cluster_keys)

end
