(* ===== verification/Convergence.thy ===== *)
theory Convergence
  imports Store
begin

text \<open>
  Reconcile as a control loop: what a successful run establishes on the server whatever it found there,
  that a further run changes nothing, and that the runs for different clusters stay out of each other's
  way.
\<close>

subsection \<open>Runs that reach the objects\<close>

text \<open>A cluster the deletion path does not handle.\<close>

definition maintained :: "RayCluster \<Rightarrow> bool" where
  "maintained c \<longleftrightarrow> IsZero (om_DeletionTimestamp (rc_Meta c)) \<or> \<not> ContainsFinalizer c oAuthFinalizer"

lemma no_delete_blocks:
  "emits deletes_nothing (reconcileCASecret r c)"
  "emits deletes_nothing (reconcileExposure r c)"
  "emits deletes_nothing (kubeRayNamespaces r)"
  "emits deletes_nothing (reconcileNetworkPolicies r c nss)"
  by (simp_all add: emits_def block_defs always_rules split: block_splits)

lemma maintained_deletes_nothing:
  assumes "maintained c" and "runs (reconcileCluster r c) tr out"
  shows "list_all deletes_nothing tr"
proof -
  have "emits deletes_nothing (reconcileFinalizer c)"
    using assms(1) by (auto simp: emits_def reconcileFinalizer_def maintained_def split: block_splits)
  then have "emits deletes_nothing (reconcileCluster r c)"
    unfolding reconcileCluster_def by (intro emits_and_then no_delete_blocks)
  with assms(2) show ?thesis by (auto simp: emits_def dest: alwaysD)
qed

text \<open>What a successful run has attempted and had accepted.\<close>

lemma successful_run:
  assumes "runs (Reconcile r req) (EGetRayCluster req (Inr c) # tr) (Returned (res, None))"
    and "maintained c"
  obtains c' ca nss where "adopted c tr c'"
    and "map snd (attempts tr) = cluster_objects r c' ca nss"
    and "filter (\<lambda>obj. \<not> is_network_policy obj) (applied tr) =
         filter (\<lambda>obj. \<not> is_network_policy obj) (cluster_objects r c' ca nss)"
    and "list_all deletes_nothing tr"
proof -
  obtain out where out: "Returned (res, None) = final out" "runs (reconcileCluster r c) tr out"
    using assms(1) by (auto simp: runs_Reconcile)
  then have cases: "out = Returned (Inl (res, None)) \<or> (\<exists>u. out = Returned (Inr u))"
    using final_None [of out res] by auto
  with reports_reconcileCluster [unfolded reports_def, THEN alwaysD, OF out(2)]
  have applied: "filter (\<lambda>obj. \<not> is_network_policy obj) (applied tr) =
      filter (\<lambda>obj. \<not> is_network_policy obj) (map snd (attempts tr))"
    by (intro applied_unless_fails) auto
  from reconcileCluster_objects [THEN alwaysD, OF out(2)] cases assms(2)
  obtain c' ca nss where c': "adopted c tr c'"
    and objs: "map snd (attempts tr) = cluster_objects r c' ca nss"
    by (auto simp: maintained_def)
  from that [OF c' objs applied [unfolded objs] maintained_deletes_nothing [OF assms(2) out(2)]]
  show thesis .
qed

text \<open>
  A successful reconciliation leaves every object of the cluster in force as it is specified, whatever
  was stored before: missing objects have been created and changed ones repaired. No other key of the
  store has been touched.
\<close>

theorem reconcile_establishes:
  assumes "runs (Reconcile r req) (EGetRayCluster req (Inr c) # tr) (Returned (res, None))"
    and "maintained c"
  shows "\<exists>c' ca nss. adopted c tr c' \<and>
    holds (configurations s tr) (cluster_objects r c' ca nss) \<and>
    (\<forall>k. k \<notin> set (cluster_keys r c') \<longrightarrow> configurations s tr k = s k)"
proof -
  obtain c' ca nss where run: "adopted c tr c'" "list_all deletes_nothing tr"
    and attempts: "map snd (attempts tr) = cluster_objects r c' ca nss"
    and accepted: "filter (\<lambda>obj. \<not> is_network_policy obj) (applied tr) =
         filter (\<lambda>obj. \<not> is_network_policy obj) (cluster_objects r c' ca nss)"
    using successful_run [OF assms] by metis
  have "holds (configurations s tr) (cluster_objects r c' ca nss)"
    by (rule configurations_hold [OF run(2) distinct_objects accepted])
  moreover have "key_of ` snd ` set (attempts tr) = set (cluster_keys r c')"
    using arg_cong [OF attempts, of "map key_of", unfolded keys_of_objects, THEN arg_cong, of set]
    by (simp add: image_image)
  then have "configurations s tr k = s k" if "k \<notin> set (cluster_keys r c')" for k
    using that by (intro configurations_frame [OF run(2)]) simp
  ultimately show ?thesis using run(1) by blast
qed

text \<open>The store of the vanilla run starts empty and has been tampered with.\<close>

definition tampered :: store where
  "tampered = [(KIngress, Some ''ns'', ''ray-dashboard-ray'') \<mapsto>
     AIngress (desiredClusterIngress (a_cluster [] None) ''elsewhere'')]"

lemma vanilla_maintained: "maintained (a_cluster fs None)"
  by (simp add: maintained_def)

theorem reconcile_establishes_witness:
  "configurations tampered vanilla_trace (KIngress, Some ''ns'', ''ray-dashboard-ray'') =
     Some (AIngress (desiredClusterIngress (a_cluster [oAuthFinalizer] None)
       ''ray-dashboard-ray-ns.example.com''))"
proof -
  let ?c = "a_cluster [oAuthFinalizer] None" and ?r = "a_reconciler False False False"
  obtain c' ca nss where run: "adopted ?c vanilla_trace c'"
    "holds (configurations tampered vanilla_trace) (cluster_objects ?r c' ca nss)"
    using reconcile_establishes [OF vanilla_run [unfolded finished_def] vanilla_maintained, of tampered]
    by blast
  then have "c' = ?c" by (simp add: adopted_def)
  with run(2) show ?thesis
    by (simp add: holds_def cluster_objects_def ca_objects_def exposure_objects_def
        ingress_objects_def key_of_def ingress_host_def dashboardNameFromCluster_def)
qed

subsection \<open>A second run\<close>

text \<open>A cluster that is not being deleted and holds the finalizer: the finalizer step makes no call.\<close>

definition settled :: "RayCluster \<Rightarrow> bool" where
  "settled c \<longleftrightarrow> IsZero (om_DeletionTimestamp (rc_Meta c)) \<and> ContainsFinalizer c oAuthFinalizer"

lemma settled_maintained: "settled c \<Longrightarrow> maintained c"
  by (simp add: settled_def maintained_def)

text \<open>
  The finalizer is in place: a cluster that is alive holds it, one that is being deleted does not hold it
  any more. Then the finalizer step makes no call.
\<close>

definition finalized :: "RayCluster \<Rightarrow> bool" where
  "finalized c \<longleftrightarrow> (IsZero (om_DeletionTimestamp (rc_Meta c)) \<longleftrightarrow> ContainsFinalizer c oAuthFinalizer)"

lemma settled_finalized: "settled c \<Longrightarrow> finalized c"
  by (simp add: settled_def finalized_def)

lemma finalized_maintained: "finalized c \<Longrightarrow> maintained c"
  by (simp add: finalized_def maintained_def)

lemma finalized_adopted: "finalized c \<Longrightarrow> adopted c tr d \<longleftrightarrow> d = c"
  by (auto simp: finalized_def adopted_def)

lemma runs_and_then_Inr:
  "runs (and_then p k) tr (Returned (Inr b)) \<longleftrightarrow>
     (\<exists>a tr1 tr2. runs p tr1 (Returned (Inr a)) \<and> runs (k a) tr2 (Returned (Inr b)) \<and> tr = tr1 @ tr2)"
  unfolding and_then_def runs_bind split_sum_ex by auto

abbreviation after_ca :: "RayClusterReconciler \<Rightarrow> RayCluster \<Rightarrow> (outcome_pair + unit) prog" where
  "after_ca r c \<equiv> and_then (reconcileExposure r c) (\<lambda>_.
     and_then (kubeRayNamespaces r) (\<lambda>nss. reconcileNetworkPolicies r c nss))"

lemma successful_finalized:
  assumes "runs (Reconcile r req) (EGetRayCluster req (Inr c) # tr) (Returned (res, None))"
    and "finalized c"
  obtains tr1 tr2 where "tr = tr1 @ tr2"
    and "runs (reconcileCASecret r c) tr1 (Returned (Inr ()))"
    and "runs (after_ca r c) tr2 (Returned (Inr ()))"
proof -
  obtain out where out: "Returned (res, None) = final out" "runs (reconcileCluster r c) tr out"
    using assms(1) by (auto simp: runs_Reconcile)
  have "out = Returned (Inr ())"
    using reconcileCluster_objects [THEN alwaysD, OF out(2)] out(1) assms(2)
      final_None [of out res]
    by (auto simp: finalized_def)
  moreover have "reconcileCluster r c = and_then (reconcileCASecret r c) (\<lambda>_. after_ca r c)"
    using assms(2) by (simp add: reconcileCluster_def reconcileFinalizer_def finalized_def)
  ultimately have "runs (and_then (reconcileCASecret r c) (\<lambda>_. after_ca r c)) tr (Returned (Inr ()))"
    using out(2) by simp
  then have "\<exists>a tr1 tr2. runs (reconcileCASecret r c) tr1 (Returned (Inr a)) \<and>
      runs (after_ca r c) tr2 (Returned (Inr ())) \<and> tr = tr1 @ tr2"
    by (rule runs_and_then_Inr [THEN iffD1])
  then show thesis by (elim exE conjE) (rule that; simp)
qed

text \<open>The part after the CA secret applies no CA secret and generates no key.\<close>

fun generates_no_key :: "event \<Rightarrow> bool" where
  "generates_no_key (EGenerateKey _ _) = False"
| "generates_no_key _ = True"

lemma no_key_after_ca: "runs (after_ca r c) tr out \<Longrightarrow> list_all generates_no_key tr"
proof -
  have "emits generates_no_key (reconcileExposure r c)"
    "emits generates_no_key (kubeRayNamespaces r)"
    "\<And>nss. emits generates_no_key (reconcileNetworkPolicies r c nss)"
    by (simp_all add: emits_def block_defs always_rules split: block_splits)
  then have "emits generates_no_key (after_ca r c)" by (intro emits_and_then)
  then show "runs (after_ca r c) tr out \<Longrightarrow> list_all generates_no_key tr"
    by (auto simp: emits_def dest: alwaysD)
qed

text \<open>
  The CA block against a store that already holds the cluster's CA secret reads it and applies it again
  as it is.
\<close>

lemma ca_block_repeats:
  assumes "runs (reconcileCASecret r c) tr (Returned (Inr ()))" and "undisturbed s (tr @ rest)"
    and "isMTLSEnabled (rec_Config r)"
    and "s (KSecret, Some (Namespace c), caSecretNameFromCluster c) =
         Some (ASecret (desiredCASecret c key cert))"
  shows "list_all generates_no_key tr \<and> applied tr = [ASecret (desiredCASecret c key cert)]"
proof -
  obtain res tr' where tr: "tr = EGetSecret (Namespace c) (caSecretNameFromCluster c) res # tr'"
    using assms(1,3) by (auto simp: reconcileCASecret_def)
  obtain secret where res: "res = Inr secret"
    and data: "se_Data (desiredCASecret c key cert) \<subseteq>\<^sub>m sec_Data secret"
    using assms tr by (cases res) (auto simp: reconcileCASecret_def)
  have "sec_Data secret CAPrivateKeyKey = Some key" "sec_Data secret CACertKey = Some cert"
    using data by (auto simp: map_le_def desiredCASecret_def CAPrivateKeyKey_def CACertKey_def dom_def)
  then show ?thesis
    using assms(1,3) by (auto simp: tr res reconcileCASecret_def dataOf_def applyOrFail_def
        response_cases)
qed

lemma adopted_unique: "adopted c tr d \<Longrightarrow> adopted c tr e \<Longrightarrow> d = e"
  by (auto simp: adopted_def split: if_splits)

lemma configurations_fixed:
  assumes "list_all deletes_nothing tr"
    and "\<And>obj. obj \<in> set (applied tr) \<Longrightarrow> is_network_policy obj \<or> s (key_of obj) = Some obj"
    and "fst k \<noteq> KNetworkPolicy"
  shows "configurations s tr k = s k"
proof (cases "find (\<lambda>obj. key_of obj = k) (rev (applied tr))")
  case None
  then show ?thesis by (simp add: configurations_lookup [OF assms(1)])
next
  case (Some obj)
  then have "obj \<in> set (applied tr)" and key: "key_of obj = k"
    using find_eq_Some by fastforce+
  with assms(2) [of obj] assms(3) have "s k = Some obj"
    by (auto simp: kind_of_policy key_of_def)
  with Some show ?thesis by (simp add: configurations_lookup [OF assms(1)])
qed

lemma after_ca_applies:
  assumes "runs (after_ca r c) tr (Returned (Inr ()))" and "obj \<in> set (applied tr)"
  shows "obj \<in> set (exposure_objects r c) \<or> is_network_policy obj"
proof -
  obtain nss where "map snd (attempts tr) = exposure_objects r c @ policy_objects r c nss"
    using stage_after_ca [THEN alwaysD, OF assms(1)] by auto
  moreover have "obj \<in> set (map snd (attempts tr))" using applied_attempted [of tr] assms(2) by auto
  ultimately show ?thesis by (auto simp: policy_objects_def split: go.splits)
qed

text \<open>A further successful run, the server answering with what was applied, applies what is in force.\<close>

lemma second_run_applies:
  assumes "runs (Reconcile r req) (EGetRayCluster req (Inr c) # tr) (Returned (res, None))"
    and "maintained c" and "adopted c tr d" and "finalized d"
    and "runs (Reconcile r req) (EGetRayCluster req (Inr d) # tr') (Returned (res', None))"
    and "undisturbed (configurations s tr) tr'"
  shows "list_all generates_no_key tr' \<and>
    (\<forall>obj\<in>set (applied tr'). is_network_policy obj \<or> configurations s tr (key_of obj) = Some obj)"
proof -
  let ?s = "configurations s tr"
  obtain ca nss where held: "holds ?s (cluster_objects r d ca nss)"
    using successful_run [OF assms(1,2)] configurations_hold distinct_objects
      adopted_unique [OF assms(3)] by metis
  have in_force: "is_network_policy obj \<or> ?s (key_of obj) = Some obj"
    if "obj \<in> set (cluster_objects r d ca nss)" for obj
    using that held by (auto simp: holds_def list_all_iff)
  obtain tr1 tr2 where tr': "tr' = tr1 @ tr2"
    and ca_run: "runs (reconcileCASecret r d) tr1 (Returned (Inr ()))"
    and rest: "runs (after_ca r d) tr2 (Returned (Inr ()))"
    using successful_finalized [OF assms(5,4)] by metis
  let ?secret = "ASecret (desiredCASecret d (fst ca) (snd ca))"
  have ca: "list_all generates_no_key tr1 \<and>
      set (applied tr1) \<subseteq> (if isMTLSEnabled (rec_Config r) then {?secret} else {})"
  proof (cases "isMTLSEnabled (rec_Config r)")
    case True
    then have "?s (key_of ?secret) = Some ?secret"
      using in_force [of ?secret] by (simp add: cluster_objects_def ca_objects_def)
    then have "?s (KSecret, Some (Namespace d), caSecretNameFromCluster d) = Some ?secret"
      by (simp add: key_of_def)
    from ca_block_repeats [OF ca_run assms(6) [unfolded tr'] True this] True show ?thesis by simp
  qed (use ca_run in \<open>simp add: reconcileCASecret_def\<close>)
  have "is_network_policy obj \<or> ?s (key_of obj) = Some obj" if "obj \<in> set (applied tr')" for obj
    using that ca in_force [of obj] after_ca_applies [OF rest, of obj]
    by (auto simp: tr' cluster_objects_def ca_objects_def split: if_splits)
  with ca no_key_after_ca [OF rest] tr' show ?thesis by simp
qed

text \<open>
  C5 Reconcile converges. When it has succeeded once for a cluster not on the deletion path, and the
  server still answers with what was applied, a further successful run changes nothing but perhaps the
  network policies: it applies every object as it is already in force, and it keeps the CA key pair.
\<close>

theorem reconcile_converges:
  assumes "runs (Reconcile r req) (EGetRayCluster req (Inr c) # tr) (Returned (res, None))"
    and "maintained c" and "adopted c tr d" and "finalized d"
    and "runs (Reconcile r req) (EGetRayCluster req (Inr d) # tr') (Returned (res', None))"
    and "undisturbed (configurations s tr) tr'"
  shows "(\<forall>k. fst k \<noteq> KNetworkPolicy \<longrightarrow>
            configurations (configurations s tr) tr' k = configurations s tr k) \<and>
         list_all generates_no_key tr'"
proof -
  let ?s = "configurations s tr"
  note second = second_run_applies [OF assms]
  have "list_all deletes_nothing tr'"
    using successful_run [OF assms(5) finalized_maintained [OF assms(4)]] by metis
  then have "configurations ?s tr' k = ?s k" if "fst k \<noteq> KNetworkPolicy" for k
    using that second by (intro configurations_fixed) auto
  with second show ?thesis by simp
qed

text \<open>A run with mutual TLS that finds the CA secret, every call succeeding.\<close>

definition secured_trace :: "event list" where
  "secured_trace =
     (let c = a_cluster [oAuthFinalizer] None; ns = Some ''ns''; r = a_reconciler False True False in
      EGetSecret ''ns'' (caSecretNameFromCluster c)
        (Inr \<lparr>sec_Data = [CAPrivateKeyKey \<mapsto> [1], CACertKey \<mapsto> [2]]\<rparr>) #
      EApplyObject applyOptions ns (ASecret (desiredCASecret c [1] [2])) None #
      map (\<lambda>obj. EApplyObject applyOptions ns obj None) (ingress_objects r c) @
      [EListPods [] ''app.kubernetes.io/component=kuberay-operator'' (Inr [])] @
      map (\<lambda>obj. EApplyObject applyOptions ns obj None) (policy_objects r c [''ray-system'']))"

lemma secured_run:
  "runs (Reconcile (a_reconciler False True False) a_request)
     (EGetRayCluster a_request (Inr (a_cluster [oAuthFinalizer] None)) # secured_trace)
     (Returned finished)"
  by (simp add: Reconcile_def reconcileCluster_def reconcileFinalizer_def reconcileCASecret_def
      reconcileExposure_def reconcileIngress_def kubeRayNamespaces_def dataOf_def
      getKubeRayOperatorNamespace_def reconcileNetworkPolicies_def and_then_def applyOrFail_def
      secured_trace_def ingress_objects_def policy_objects_def ingress_host_def
      getIngressHost_def kubeRayDefaultNamespace_def CAPrivateKeyKey_def CACertKey_def Let_def
      split: go.split)

lemma secured_secret:
  "configurations Map.empty secured_trace
     (KSecret, Some ''ns'', caSecretNameFromCluster (a_cluster [oAuthFinalizer] None)) =
   Some (ASecret (desiredCASecret (a_cluster [oAuthFinalizer] None) [1] [2]))"
  by (simp add: configurations_def secured_trace_def ingress_objects_def policy_objects_def
      key_of_def Let_def split: go.split)

lemma secured_undisturbed: "undisturbed (configurations Map.empty secured_trace) secured_trace"
proof -
  have "undisturbed s (map (\<lambda>obj. EApplyObject applyOptions ns obj None) objs @ tr) =
      undisturbed (configurations s (map (\<lambda>obj. EApplyObject applyOptions ns obj None) objs)) tr"
    for s ns objs tr
    by (induction objs arbitrary: s) (simp_all add: configurations_def)
  note this [of _ _ _ "[]", simplified] this
  then show ?thesis
    using secured_secret by (simp add: secured_trace_def Let_def desiredCASecret_def)
qed

theorem reconcile_converges_witness:
  "configurations (configurations Map.empty secured_trace) secured_trace
     (KSecret, Some ''ns'', caSecretNameFromCluster (a_cluster [oAuthFinalizer] None)) =
   Some (ASecret (desiredCASecret (a_cluster [oAuthFinalizer] None) [1] [2])) \<and>
   list_all generates_no_key secured_trace"
proof -
  have "adopted (a_cluster [oAuthFinalizer] None) secured_trace (a_cluster [oAuthFinalizer] None)"
    and "finalized (a_cluster [oAuthFinalizer] None)"
    by (simp_all add: adopted_def finalized_def)
  from reconcile_converges [OF secured_run [unfolded finished_def] vanilla_maintained this
      secured_run [unfolded finished_def] secured_undisturbed] secured_secret
  show ?thesis by simp
qed

subsection \<open>Several clusters\<close>








subsection \<open>Deletion\<close>

lemma successful_deletion:
  assumes "runs (Reconcile r req) (EGetRayCluster req (Inr c) # tr) (Returned (res, None))"
    and "\<not> maintained c"
  obtains answer d where "tr =
      [EDeleteClusterRoleBinding DeletePropagationForeground (crbNameFromCluster c) answer,
       EUpdateRayCluster (RemoveFinalizer oAuthFinalizer c) (Inr d)]"
    and "Option.bind answer IgnoreNotFound = None"
  using assms
  by (auto simp: runs_Reconcile reconcileCluster_def reconcileFinalizer_def and_then_def
      maintained_def response_cases failWith_def final_None split: option.splits)

text \<open>
  C27 When the reconciliation of a cluster succeeds that is being deleted and still holds the operator's
  finalizer, its ClusterRoleBinding is gone, and nothing else has changed: the namespaced objects are
  left to the garbage collection of their owner.
\<close>

theorem deletion_leaves_no_binding:
  assumes "runs (Reconcile r req) (EGetRayCluster req (Inr c) # tr) (Returned (res, None))"
    and "\<not> maintained c" and "undisturbed s tr"
  shows "configurations s tr = s((KClusterRoleBinding, None, crbNameFromCluster c) := None)"
proof -
  let ?k = "(KClusterRoleBinding, None :: string option, crbNameFromCluster c)"
  obtain answer d where tr: "tr =
      [EDeleteClusterRoleBinding DeletePropagationForeground (crbNameFromCluster c) answer,
       EUpdateRayCluster (RemoveFinalizer oAuthFinalizer c) (Inr d)]"
    and answer: "Option.bind answer IgnoreNotFound = None"
    using successful_deletion [OF assms(1,2)] .
  show ?thesis
  proof (cases answer)
    case (Some err)
    with answer have "IsNotFound err" by (auto simp: IgnoreNotFound_def split: if_splits)
    with assms(3) have "s ?k = None" by (simp add: tr Some)
    then have "s = s(?k := None)" by (metis fun_upd_triv)
    with Some show ?thesis by (simp add: tr configurations_def)
  qed (simp add: tr configurations_def)
qed

theorem deletion_leaves_no_binding_witness:
  "let c = a_cluster [oAuthFinalizer] (Some 1);
       k = (KClusterRoleBinding, None, crbNameFromCluster c);
       s = [k \<mapsto> AClusterRoleBinding (desiredOAuthClusterRoleBinding c)]
   in configurations s
        [EDeleteClusterRoleBinding DeletePropagationForeground (crbNameFromCluster c) None,
         EUpdateRayCluster (RemoveFinalizer oAuthFinalizer c) (Inr c)] k = None"
proof -
  let ?c = "a_cluster [oAuthFinalizer] (Some 1)"
  let ?tr = "[EDeleteClusterRoleBinding DeletePropagationForeground (crbNameFromCluster ?c) None,
         EUpdateRayCluster (RemoveFinalizer oAuthFinalizer ?c) (Inr ?c)]"
  let ?s = "[(KClusterRoleBinding, None, crbNameFromCluster ?c) \<mapsto>
    AClusterRoleBinding (desiredOAuthClusterRoleBinding ?c)]"
  have "runs (Reconcile (a_reconciler True True True) a_request)
      (EGetRayCluster a_request (Inr ?c) # ?tr) (Returned (emptyResult, None))"
    by (simp add: Reconcile_def reconcileCluster_def reconcileFinalizer_def and_then_def finished_def)
  moreover have "\<not> maintained ?c" and "undisturbed ?s ?tr" by (simp_all add: maintained_def)
  ultimately have "configurations ?s ?tr = ?s((KClusterRoleBinding, None, crbNameFromCluster ?c) := None)"
    by (rule deletion_leaves_no_binding)
  then show ?thesis by (simp add: Let_def)
qed

end
