(* ===== verification/References.thy ===== *)
theory References
  imports Convergence
begin

text \<open>
  The webhook makes the pods of a cluster refer to objects that the reconciler makes: the service
  account, the OAuth and CA secrets, and the serving certificate OpenShift makes for the OAuth service.
  Here the two halves are put together.
\<close>

text \<open>A reference names an object and, for an environment variable, an entry of a secret.\<close>

type_synonym reference = "object_key \<times> string option"

definition volume_references :: "string option \<Rightarrow> string \<Rightarrow> PodSpec \<Rightarrow> reference list" where
  "volume_references ns name p =
     (case find (\<lambda>v. v_Name v = name) (ps_Volumes p) of
        None \<Rightarrow> []
      | Some v \<Rightarrow>
          (case v_Secret v of None \<Rightarrow> [] | Some s \<Rightarrow> [((KSecret, ns, svs_SecretName s), None)]))"

fun env_reference :: "string option \<Rightarrow> EnvVar \<Rightarrow> reference list" where
  "env_reference ns e =
     (case ev_ValueFrom e of
        None \<Rightarrow> []
      | Some source \<Rightarrow>
          (case evs_SecretKeyRef source of
             None \<Rightarrow> []
           | Some k \<Rightarrow> [((KSecret, ns, sks_Name k), Some (sks_Key k))]))"

definition sidecar_references :: "string option \<Rightarrow> PodSpec \<Rightarrow> reference list" where
  "sidecar_references ns p =
     (case find (\<lambda>c. c_Name c = oauthProxyContainerName) (ps_Containers p) of
        None \<Rightarrow> []
      | Some c \<Rightarrow> concat (map (env_reference ns) (c_Env c)))"

definition certificate_references :: "string option \<Rightarrow> PodSpec \<Rightarrow> reference list" where
  "certificate_references ns p = volume_references ns ''ca-vol'' p @ volume_references ns ''server-cert'' p"

text \<open>What the parts with the injected names refer to, read off the pods.\<close>

definition injected_references :: "KubeRayConfiguration \<Rightarrow> RayCluster \<Rightarrow> reference list" where
  "injected_references cfg c =
     (let ns = Some (Namespace c); head = head_pod c in
      (if Deref (RayDashboardOAuthEnabled cfg) True then
         ((KServiceAccount, ns, ps_ServiceAccountName head), None)
           # sidecar_references ns head @ volume_references ns oauthProxyVolumeName head
       else []) @
      (if Deref (MTLSEnabled cfg) True then
         concat (map (certificate_references ns) (head # map worker_pod (rc_Workers c)))
       else []))"

text \<open>
  An object provides itself, and a service with the serving certificate annotation of OpenShift the secret
  that the annotation names. A secret provides the entries it is given.
\<close>

definition servingCertAnnotation :: string where
  "servingCertAnnotation = ''service.beta.openshift.io/serving-cert-secret-name''"

fun provides :: "ApplyConfig \<Rightarrow> reference \<Rightarrow> bool" where
  "provides (ASecret se) (k, entry) =
     (key_of (ASecret se) = k \<and>
      (case entry of None \<Rightarrow> True | Some x \<Rightarrow> se_StringData se x \<noteq> None \<or> se_Data se x \<noteq> None))"
| "provides (AService sv) (k, entry) =
     (entry = None \<and>
      (key_of (AService sv) = k \<or>
       (case ma_Annotations (sv_Meta sv) servingCertAnnotation of
          None \<Rightarrow> False
        | Some name \<Rightarrow> k = (KSecret, ma_Namespace (sv_Meta sv), name))))"
| "provides obj (k, entry) = (entry = None \<and> key_of obj = k)"

definition resolves :: "ApplyConfig list \<Rightarrow> reference \<Rightarrow> bool" where
  "resolves objs ref \<longleftrightarrow> list_ex (\<lambda>obj. provides obj ref) objs"

subsection \<open>The references of a defaulted cluster\<close>

text \<open>With the exact comparison, the contract of the validators says what the pods contain.\<close>

lemma strict_simps [simp]:
  "dd_Container strict_dd a b \<longleftrightarrow> a = b" "dd_Volume strict_dd x y \<longleftrightarrow> x = y"
  by (simp_all add: strict_dd_def)

lemma oauth_references:
  assumes "oauth_intact strict_dd env c"
  shows "ps_ServiceAccountName (head_pod c) = oauthServiceAccountNameFromCluster c"
    and "sidecar_references ns (head_pod c) =
      [((KSecret, ns, oauthSecretNameFromCluster c), Some ''cookie_secret'')]"
    and "volume_references ns oauthProxyVolumeName (head_pod c) =
      [((KSecret, ns, oauthServiceTLSSecretName c), None)]"
  using assms
  by (auto simp: oauth_intact_def sidecar_references_def volume_references_def)
    (simp_all add: oauthProxyContainer_def oauthProxyTLSSecretVolume_def)

lemma tls_references:
  assumes "tls_intact_pod strict_dd init (caVolumes c) p"
  shows "certificate_references ns p = [((KSecret, ns, caSecretNameFromCluster c), None)]"
  using assms
  by (auto simp: certificate_references_def tls_intact_pod_def volume_references_def caVolumes_def)

text \<open>All of them, for a cluster that satisfies the contract.\<close>

definition specified_references :: "KubeRayConfiguration \<Rightarrow> RayCluster \<Rightarrow> reference set" where
  "specified_references cfg c =
     (let ns = Some (Namespace c) in
      (if Deref (RayDashboardOAuthEnabled cfg) True then
         {((KServiceAccount, ns, oauthServiceAccountNameFromCluster c), None),
          ((KSecret, ns, oauthSecretNameFromCluster c), Some ''cookie_secret''),
          ((KSecret, ns, oauthServiceTLSSecretName c), None)}
       else {}) \<union>
      (if Deref (MTLSEnabled cfg) True then {((KSecret, ns, caSecretNameFromCluster c), None)} else {}))"

lemma injected_references_eq:
  assumes "accepts_update strict_dd env cfg c"
  shows "set (injected_references cfg c) = specified_references cfg c"
proof -
  let ?ns = "Some (Namespace c)"
  define certs where
    "certs = concat (map (certificate_references ?ns) (head_pod c # map worker_pod (rc_Workers c)))"
  have "certificate_references ?ns p = [((KSecret, ?ns, caSecretNameFromCluster c), None)]"
    if "Deref (MTLSEnabled cfg) True" "p \<in> set (head_pod c # map worker_pod (rc_Workers c))" for p
    using assms that tls_references by (auto simp: accepts_update_def tls_intact_def)
  then have "set certs = {((KSecret, ?ns, caSecretNameFromCluster c), None)}"
    if "Deref (MTLSEnabled cfg) True"
    using that by (auto simp: certs_def)
  moreover have "oauth_intact strict_dd env c" if "Deref (RayDashboardOAuthEnabled cfg) True"
    using assms that by (simp add: accepts_update_def accepts_create_def)
  note oauth_references [OF this]
  ultimately show ?thesis
    unfolding injected_references_def specified_references_def Let_def certs_def [symmetric]
    by auto
qed

subsection \<open>The references and the reconciler\<close>

text \<open>The network policies provide nothing else.\<close>

lemma resolves_without_policies:
  assumes "fst (fst ref) \<noteq> KNetworkPolicy"
  shows "resolves (filter (\<lambda>obj. \<not> is_network_policy obj) objs) ref \<longleftrightarrow> resolves objs ref"
proof -
  have "\<not> is_network_policy obj" if "provides obj ref" for obj
    using that assms by (cases "(obj, ref)" rule: provides.cases) (auto simp: key_of_def)
  then show ?thesis by (auto simp: resolves_def list_ex_iff)
qed

lemma specified_kinds: "ref \<in> specified_references cfg c \<Longrightarrow> fst (fst ref) \<noteq> KNetworkPolicy"
  by (auto simp: specified_references_def Let_def split: if_splits)

lemma resolves_specified:
  assumes "rec_Config r = Some cfg"
  shows "(\<forall>ref\<in>specified_references cfg c. resolves (cluster_objects r c ca nss) ref) \<longleftrightarrow>
    (Deref (RayDashboardOAuthEnabled cfg) True \<longrightarrow> IsOpenShift r \<and> \<not> isRayClusterSuspended c)"
proof -
  obtain p where p: "desiredHeadNetworkPolicy c (Some cfg) nss = Ok p"
    by (simp add: desiredHeadNetworkPolicy_def Let_def)
  show ?thesis
    by (auto simp: specified_references_def Let_def resolves_def assms cluster_objects_def
        ca_objects_def exposure_objects_def oauth_objects_def ingress_objects_def policy_objects_def
        p key_of_def config_defs servingCertAnnotation_def desiredOAuthService_def
        desiredOAuthSecret_def ownedMeta_def)
qed

text \<open>
  C13 The two halves of the operator fit together exactly where the sidecar is supported. After a successful
  reconciliation of a defaulted cluster, everything the webhook made its pods refer to (service account,
  secrets and their entries, the serving certificate) is provided by an applied object if and only if
  OAuth is off, or the platform is OpenShift and the cluster is not suspended. The webhook does not ask
  for the platform: elsewhere, with the default configuration, the head pod refers to a service account
  and secrets that nobody makes.
\<close>

theorem injected_references_resolve_iff:
  assumes "Default env w rc = Ok c" and "wh_Config w = Some cfg" and "rec_Config r = Some cfg"
    and "\<not> Deref (hg_EnableIngress (rc_Head rc)) False" and "foreign_first rc" and "settled c"
    and "runs (Reconcile r req) (EGetRayCluster req (Inr c) # tr) (Returned (res, None))"
  shows "list_all (resolves (applied tr)) (injected_references cfg c) \<longleftrightarrow>
    (Deref (RayDashboardOAuthEnabled cfg) True \<longrightarrow> IsOpenShift r \<and> \<not> isRayClusterSuspended c)"
proof -
  have "accepts_update strict_dd env cfg c"
    using Default_accepted [OF assms(1) strict_dd_laws(1) assms(4,5)] assms(2) by auto
  then have refs: "set (injected_references cfg c) = specified_references cfg c"
    by (rule injected_references_eq)
  obtain c' ca nss where "adopted c tr c'"
    and accepted: "filter (\<lambda>obj. \<not> is_network_policy obj) (applied tr) =
      filter (\<lambda>obj. \<not> is_network_policy obj) (cluster_objects r c' ca nss)"
    by (rule successful_run [OF assms(7) settled_maintained [OF assms(6)]])
  moreover have "c' = c" using calculation(1) assms(6) by (simp add: adopted_def settled_def)
  ultimately have "resolves (applied tr) ref \<longleftrightarrow> resolves (cluster_objects r c ca nss) ref"
    if "ref \<in> specified_references cfg c" for ref
    using resolves_without_policies [OF specified_kinds [OF that]] by metis
  then show ?thesis
    using resolves_specified [OF assms(3)] by (auto simp: list_all_iff refs)
qed

text \<open>Vanilla Kubernetes with OAuth enabled, as the built-in configuration has it.\<close>

definition proxied_cluster :: RayCluster where
  "proxied_cluster = oauth_defaulted Map.empty ''v1'' (a_config True False)
     (sound_cluster\<lparr>rc_Meta := (rc_Meta sound_cluster)\<lparr>om_Finalizers := [oAuthFinalizer]\<rparr>\<rparr>)"

definition proxied_trace :: "event list" where
  "proxied_trace =
     EListPods [] ''app.kubernetes.io/component=kuberay-operator'' (Inr []) #
     map (\<lambda>obj. EApplyObject applyOptions (Some ''ns'') obj None)
       (policy_objects (a_reconciler True False False) proxied_cluster [''ray-system''])"

lemma proxied_facts:
  "rc_Meta proxied_cluster = \<lparr>om_Name = ''ray'', om_Namespace = ''ns'', om_UID = ''1'',
     om_Annotations = [versionAnnotation \<mapsto> ''v1''], om_DeletionTimestamp = None,
     om_Finalizers = [oAuthFinalizer], om_rest = []\<rparr>"
  "rc_Suspend proxied_cluster = None"
  by (simp_all add: proxied_cluster_def user_cluster_def setVersionAnnotation_def)

lemma proxied_run:
  "runs (Reconcile (a_reconciler True False False) a_request)
     (EGetRayCluster a_request (Inr proxied_cluster) # proxied_trace) (Returned finished)"
  by (simp add: Reconcile_def reconcileCluster_def reconcileFinalizer_def reconcileCASecret_def
      reconcileExposure_def kubeRayNamespaces_def getKubeRayOperatorNamespace_def
      reconcileNetworkPolicies_def and_then_def proxied_trace_def policy_objects_def
      kubeRayDefaultNamespace_def ContainsFinalizer_def proxied_facts split: go.split)

theorem injected_references_resolve_iff_witness:
  "\<not> list_all (resolves (applied proxied_trace)) (injected_references (a_config True False) proxied_cluster)"
proof -
  let ?rc = "sound_cluster\<lparr>rc_Meta := (rc_Meta sound_cluster)\<lparr>om_Finalizers := [oAuthFinalizer]\<rparr>\<rparr>"
  let ?w = "\<lparr>wh_Config = Some (a_config True False), wh_OperatorVersion = ''v1''\<rparr>"
  have cfg: "Deref (MTLSEnabled (a_config True False)) True = False"
    "Deref (RayDashboardOAuthEnabled (a_config True False)) True = True"
    by (simp_all add: a_config_def)
  have default: "Default Map.empty ?w ?rc = Ok proxied_cluster"
    by (simp add: Default_eq [OF _ refl] cfg proxied_cluster_def)
  have "settled proxied_cluster"
    by (simp add: settled_def ContainsFinalizer_def proxied_facts)
  from injected_references_resolve_iff [OF default _ _ _ _ this proxied_run [unfolded finished_def]]
  show ?thesis by (simp add: cfg foreign_first_def user_cluster_def user_pod_def user_container_def
      oauthProxyContainerName_def)
qed

end
