(* ===== verification/Watches.thy ===== *)
theory Watches
  imports Wiring
begin

text \<open>
  From a change of an object back to the cluster it belongs to. For a kind the controller owns,
  controller-runtime documents that a change enqueues the controlling owner, when that is of the
  controller's own kind and API group, in the namespace of the object; for a kind it watches by a map
  function, what that function makes of the object. For the ClusterRoleBinding the operator's own
  function reads the labels.
\<close>

text \<open>The group of an API version \<^verbatim>\<open>group/version\<close>; the core group has none.\<close>

definition groupOf :: "string \<Rightarrow> string" where
  "groupOf apiVersion =
     (if CHR ''/'' \<in> set apiVersion then takeWhile (\<lambda>ch. ch \<noteq> CHR ''/'') apiVersion else [])"

definition controlled_by_cluster :: "OwnerReference \<Rightarrow> bool" where
  "controlled_by_cluster ref \<longleftrightarrow>
     or_Controller ref = Some True \<and> or_Kind ref = ''RayCluster'' \<and>
     groupOf (or_APIVersion ref) = ''ray.io''"

definition enqueued :: "ControllerBuilder \<Rightarrow> ApplyConfig \<Rightarrow> Request list" where
  "enqueued b obj =
     (let m = obj_meta obj in
      (if kind_of obj \<in> set (cb_Owns b) then
         map (\<lambda>ref. \<lparr>req_Name = or_Name ref, req_Namespace = Deref (ma_Namespace m) []\<rparr>)
           (filter controlled_by_cluster (ma_OwnerReferences m))
       else []) @
      concat (map (\<lambda>(k, f). if k = kind_of obj then f (ma_Labels m) else []) (cb_Watches b)))"

text \<open>A cluster as the API server hands it out, with its kind and API version filled in.\<close>

definition typed_cluster :: "RayCluster \<Rightarrow> bool" where
  "typed_cluster c \<longleftrightarrow> rc_Kind c = ''RayCluster'' \<and> groupOf (rc_APIVersion c) = ''ray.io''"

lemma own_reference: "typed_cluster c \<Longrightarrow> controlled_by_cluster (ownerRefForRayCluster c)"
  by (simp add: typed_cluster_def controlled_by_cluster_def ownerRefForRayCluster_def)

lemma enqueued_owned:
  assumes "owned_by c obj" and "typed_cluster c"
    and "kind_of obj \<in> set (ownedKinds (IsOpenShift r)) \<or> kind_of obj = KClusterRoleBinding"
  shows "enqueued (rayClusterController r) obj = [\<lparr>req_Name = Name c, req_Namespace = Namespace c\<rparr>]"
proof -
  have "KClusterRoleBinding \<notin> set (ownedKinds (IsOpenShift r))" by (simp add: ownedKinds_def)
  with assms own_reference [OF assms(2)] show ?thesis
    by (cases obj) (auto simp: enqueued_def owned_by_def Let_def ownerRefForRayCluster_def
        requestsForClusterRoleBinding_def)
qed

text \<open>
  C24 The control loop is closed: a change of any object that a reconciliation has tried to apply, be it
  namespaced or the ClusterRoleBinding, enqueues exactly the cluster the object was made for.
\<close>

theorem changes_are_noticed:
  assumes "SetupWithManager mg r = Ok (Inr b)"
    and "runs (Reconcile (cb_Reconciler b) req) (EGetRayCluster req (Inr c) # tr) out"
    and "EApplyObject opts ns obj res \<in> set tr"
    and "\<And>c'. adopted c tr c' \<Longrightarrow> typed_cluster c'"
  shows "\<exists>c'. adopted c tr c' \<and>
    enqueued b obj = [\<lparr>req_Name = Name c', req_Namespace = Namespace c'\<rparr>]"
proof -
  let ?r = "cb_Reconciler b"
  have b: "b = rayClusterController ?r" using assms(1) by (auto simp: SetupWithManager_Inr)
  obtain out' where "runs (reconcileCluster ?r c) tr out'"
    using assms(2) by (auto simp: runs_Reconcile)
  then obtain c' ca nss where c': "adopted c tr c'" and obj: "obj \<in> set (cluster_objects ?r c' ca nss)"
    using assms(3) by (rule applied_object)
  have "enqueued (rayClusterController ?r) obj = [\<lparr>req_Name = Name c', req_Namespace = Namespace c'\<rparr>]"
    using cluster_objects_owned [OF obj] assms(4) [OF c'] objects_watched [OF obj]
    by (rule enqueued_owned)
  with c' b show ?thesis by auto
qed

theorem changes_are_noticed_witness:
  "enqueued (rayClusterController (a_reconciler False False False))
     (hd (ingress_objects (a_reconciler False False False) (a_cluster [oAuthFinalizer] None))) =
   [\<lparr>req_Name = ''ray'', req_Namespace = ''ns''\<rparr>]"
proof -
  let ?c = "a_cluster [oAuthFinalizer] None" and ?r = "a_reconciler False False False"
  have "map (\<lambda>x. char_of (unat x)) (bytes ''salt'') = ''salt''" by code_simp
  then have wired: "SetupWithManager (willing (bytes ''salt'')) ?r = Ok (Inr (rayClusterController ?r))"
    by (simp add: a_reconciler_def)
  have mem: "EApplyObject applyOptions (Some ''ns'') (hd (ingress_objects ?r ?c)) None \<in> set vanilla_trace"
    by (simp add: vanilla_trace_def ingress_objects_def Let_def)
  have same: "c' = ?c" if "adopted ?c vanilla_trace c'" for c'
    using that by (simp add: adopted_def)
  have "typed_cluster ?c" by (simp add: typed_cluster_def groupOf_def inputs)
  then have typed: "typed_cluster c'" if "adopted ?c vanilla_trace c'" for c' using same [OF that] by simp
  have run: "runs (Reconcile (cb_Reconciler (rayClusterController ?r)) a_request)
      (EGetRayCluster a_request (Inr ?c) # vanilla_trace) (Returned finished)"
    using vanilla_run by simp
  from changes_are_noticed [OF wired run mem typed] show ?thesis by (auto dest: same)
qed

end
