(* ===== verification/ControlLoop.thy ===== *)
theory ControlLoop
  imports Convergence Watches
begin

text \<open>
  The reconciler in its control loop. A request waits in the queue until the worker takes it up; the
  worker makes the calls of \<open>Reconcile\<close> one at a time, and between any two of them other clients may
  change objects and clusters, and the process may be restarted. The queue follows the documented
  contract of controller-runtime: a change of a watched object enqueues what its watch maps it to, a
  cluster that changes is enqueued, a request whose reconciliation fails is kept, and a cache may
  answer with an outdated cluster only while the event of the newer one is still to come. Everything the worker
  does is the code's: its calls are those of the program tree.
\<close>

subsection \<open>One call of a program\<close>

primrec resume :: "'a prog \<Rightarrow> event \<Rightarrow> 'a prog option" where
  "resume (Ret x) ev = None"
| "resume (Panic e) ev = None"
| "resume (GetRayCluster a k) ev =
     (case ev of EGetRayCluster a' r \<Rightarrow> if a' = a then Some (k r) else None | _ \<Rightarrow> None)"
| "resume (UpdateRayCluster a k) ev =
     (case ev of EUpdateRayCluster a' r \<Rightarrow> if a' = a then Some (k r) else None | _ \<Rightarrow> None)"
| "resume (DeleteClusterRoleBinding a b k) ev =
     (case ev of EDeleteClusterRoleBinding a' b' r \<Rightarrow> if a' = a \<and> b' = b then Some (k r) else None
      | _ \<Rightarrow> None)"
| "resume (GetSecret a b k) ev =
     (case ev of EGetSecret a' b' r \<Rightarrow> if a' = a \<and> b' = b then Some (k r) else None | _ \<Rightarrow> None)"
| "resume (ApplyObject a b c k) ev =
     (case ev of EApplyObject a' b' c' r \<Rightarrow>
        if a' = a \<and> b' = b \<and> c' = c then Some (k r) else None | _ \<Rightarrow> None)"
| "resume (GetServiceAccount a b k) ev =
     (case ev of EGetServiceAccount a' b' r \<Rightarrow> if a' = a \<and> b' = b then Some (k r) else None
      | _ \<Rightarrow> None)"
| "resume (ListPods a b k) ev =
     (case ev of EListPods a' b' r \<Rightarrow> if a' = a \<and> b' = b then Some (k r) else None | _ \<Rightarrow> None)"
| "resume (DeletePod a b k) ev =
     (case ev of EDeletePod a' b' r \<Rightarrow> if a' = a \<and> b' = b then Some (k r) else None | _ \<Rightarrow> None)"
| "resume (GetDSCInitialization a k) ev =
     (case ev of EGetDSCInitialization a' r \<Rightarrow> if a' = a then Some (k r) else None | _ \<Rightarrow> None)"
| "resume (RandInt63 k) ev = (case ev of ERandInt63 r \<Rightarrow> Some (k r) | _ \<Rightarrow> None)"
| "resume (Now k) ev = (case ev of ENow r \<Rightarrow> Some (k r) | _ \<Rightarrow> None)"
| "resume (GenerateKey a k) ev =
     (case ev of EGenerateKey a' r \<Rightarrow> if a' = a then Some (k r) else None | _ \<Rightarrow> None)"
| "resume (CreateCertificate a b k) ev =
     (case ev of ECreateCertificate a' b' r \<Rightarrow> if a' = a \<and> b' = b then Some (k r) else None
      | _ \<Rightarrow> None)"

text \<open>A run is a sequence of such calls.\<close>

lemma runs_Cons: "runs p (ev # tr) out \<longleftrightarrow> (\<exists>p'. resume p ev = Some p' \<and> runs p' tr out)"
  by (cases p) (auto split: event.splits)

subsection \<open>The state of the loop\<close>

type_synonym cluster_key = "string \<times> string"

definition cluster_key :: "RayCluster \<Rightarrow> cluster_key" where
  "cluster_key c = (Namespace c, Name c)"

definition request_key :: "Request \<Rightarrow> cluster_key" where
  "request_key req = (req_Namespace req, req_Name req)"

text \<open>The reconciliation in progress: the request, the calls made so far, and what is left to do.\<close>

record Worker =
  wk_Request :: cluster_key
  wk_Calls :: "event list"
  wk_Rest :: "outcome_pair prog"

record Loop =
  lp_Reconciler :: RayClusterReconciler
  lp_Store :: store
  lp_Clusters :: "cluster_key \<rightharpoonup> RayCluster"
  lp_Pending :: "cluster_key set"
  lp_Worker :: "Worker option"

text \<open>The watches report a changed object as it was and as it is.\<close>

definition notified :: "ControllerBuilder \<Rightarrow> store \<Rightarrow> store \<Rightarrow> cluster_key set" where
  "notified b s s' =
     {request_key req |k obj req. s k \<noteq> s' k \<and> (s k = Some obj \<or> s' k = Some obj) \<and>
        req \<in> set (enqueued b obj)}"

text \<open>A change of the store, with the requests its watches make.\<close>

definition restore :: "store \<Rightarrow> Loop \<Rightarrow> Loop" where
  "restore s' lp =
     lp\<lparr>lp_Store := s', lp_Pending := lp_Pending lp \<union> 
      notified (rayClusterController (lp_Reconciler lp)) (lp_Store lp) s'\<rparr>"

text \<open>A cluster that is created, changed or removed.\<close>

definition recluster :: "cluster_key \<Rightarrow> RayCluster option \<Rightarrow> Loop \<Rightarrow> Loop" where
  "recluster q answer lp =
     lp\<lparr>lp_Clusters := (lp_Clusters lp)(q := answer), lp_Pending := insert q (lp_Pending lp)\<rparr>"

text \<open>The effect of a call of the worker.\<close>

fun perform :: "event \<Rightarrow> Loop \<Rightarrow> Loop" where
  "perform (EUpdateRayCluster c (Inr d)) lp = recluster (cluster_key d) (Some d) lp"
| "perform ev lp = restore (track (lp_Store lp) ev) lp"

text \<open>
  What a server may answer: an update returns the cluster it was made for, a read a cluster of the
  asked name; it is the current one unless an event for it is outstanding.
\<close>

definition sound_cluster_at :: "cluster_key \<Rightarrow> RayCluster \<Rightarrow> bool" where
  "sound_cluster_at q c \<longleftrightarrow> cluster_key c = q \<and> typed_cluster c"

fun told :: "Loop \<Rightarrow> event \<Rightarrow> bool" where
  "told lp (EGetRayCluster q (Inr c)) \<longleftrightarrow>
     sound_cluster_at q c \<and> (lp_Clusters lp q = Some c \<or> q \<in> lp_Pending lp)"
| "told lp (EGetRayCluster q (Inl err)) \<longleftrightarrow>
     (IsNotFound err \<longrightarrow> lp_Clusters lp q = None \<or> q \<in> lp_Pending lp)"
| "told lp (EUpdateRayCluster c (Inr d)) \<longleftrightarrow> sound_cluster_at (cluster_key c) d"
| "told lp ev \<longleftrightarrow> True"

text \<open>
  What a server answers when nobody else is at work: reads are current, an update is stored as it was sent,
  and secrets and bindings are as the store has them. It may still refuse a call.
\<close>

fun faithful :: "Loop \<Rightarrow> event \<Rightarrow> bool" where
  "faithful lp (EGetRayCluster q (Inr c)) \<longleftrightarrow> lp_Clusters lp q = Some c"
| "faithful lp (EGetRayCluster q (Inl err)) \<longleftrightarrow> (IsNotFound err \<longrightarrow> lp_Clusters lp q = None)"
| "faithful lp (EUpdateRayCluster c (Inr d)) \<longleftrightarrow> d = c"
| "faithful lp ev \<longleftrightarrow> answered (lp_Store lp) ev"

definition honest :: "Loop \<Rightarrow> event \<Rightarrow> bool" where
  "honest lp ev \<longleftrightarrow> told lp ev \<and> faithful lp ev"

subsection \<open>Steps\<close>

text \<open>
  The operator's own steps: its worker takes up a request, makes the next call of the program and gets an
  answer, or ends the reconciliation. The answers a call can get are a parameter.
\<close>

inductive operator_step :: "(Loop \<Rightarrow> event \<Rightarrow> bool) \<Rightarrow> Loop \<Rightarrow> Loop \<Rightarrow> bool" for answer where
  Pick: "q \<in> lp_Pending lp \<Longrightarrow> lp_Worker lp = None \<Longrightarrow>
    operator_step answer lp (lp\<lparr>lp_Pending := lp_Pending lp - {q},
      lp_Worker := Some \<lparr>wk_Request = q, wk_Calls = [], wk_Rest = Reconcile (lp_Reconciler lp) q\<rparr>\<rparr>)"
| Call: "lp_Worker lp = Some w \<Longrightarrow> answer lp ev \<Longrightarrow> resume (wk_Rest w) ev = Some p \<Longrightarrow>
    operator_step answer lp ((perform ev lp)
      \<lparr>lp_Worker := Some \<lparr>wk_Request = wk_Request w, wk_Calls = wk_Calls w @ [ev], wk_Rest = p\<rparr>\<rparr>)"
| Finish: "lp_Worker lp = Some w \<Longrightarrow> wk_Rest w = Ret (res, err) \<Longrightarrow>
    operator_step answer lp (lp\<lparr>lp_Worker := None,
      lp_Pending := (if err = None \<and> res = emptyResult then {} else {wk_Request w}) \<union> lp_Pending lp\<rparr>)"

text \<open>
  The steps of the whole system: the operator's own, and what happens around it. Other clients change
  objects and clusters, requests are enqueued for other reasons, and the process is restarted.
\<close>

inductive loop_step :: "Loop \<Rightarrow> Loop \<Rightarrow> bool" where
  Own: "operator_step told lp lp' \<Longrightarrow> loop_step lp lp'"
| Interfere: "loop_step lp (restore s' lp)"
| Change: "(\<And>c. answer = Some c \<Longrightarrow> sound_cluster_at q c) \<Longrightarrow> loop_step lp (recluster q answer lp)"
| Resync: "loop_step lp (lp\<lparr>lp_Pending := lp_Pending lp \<union> Q\<rparr>)"
| Restart: "SetupWithManager mg (lp_Reconciler lp) = Ok (Inr b) \<Longrightarrow>
    loop_step lp (lp\<lparr>lp_Reconciler := cb_Reconciler b, lp_Worker := None,
      lp_Pending := dom (lp_Clusters lp)\<rparr>)"

lemma operator_path: "(operator_step told)\<^sup>*\<^sup>* lp lp' \<Longrightarrow> loop_step\<^sup>*\<^sup>* lp lp'"
  by (rule rtranclp_mono [THEN predicate2D]) (auto intro: loop_step.Own)

text \<open>
  The contract of an answer predicate: it does not look at the worker, and allows nothing but what a
  server may answer at all.
\<close>

locale server =
  fixes answer :: "Loop \<Rightarrow> event \<Rightarrow> bool"
  assumes blind: "answer (lp\<lparr>lp_Worker := w\<rparr>) ev \<longleftrightarrow> answer lp ev"
    and allowed: "answer lp ev \<Longrightarrow> told lp ev"
begin

lemma step_told: "operator_step answer lp lp' \<Longrightarrow> operator_step told lp lp'"
  by (induction rule: operator_step.induct) (simp_all add: operator_step.intros allowed)

lemma path_told: "(operator_step answer)\<^sup>*\<^sup>* lp lp' \<Longrightarrow> (operator_step told)\<^sup>*\<^sup>* lp lp'"
  by (rule rtranclp_mono [THEN predicate2D]) (auto intro: step_told)

lemma loop_path: "(operator_step answer)\<^sup>*\<^sup>* lp lp' \<Longrightarrow> loop_step\<^sup>*\<^sup>* lp lp'"
  by (intro operator_path path_told)

end

lemma told_at_work [simp]: "told (lp\<lparr>lp_Worker := w\<rparr>) ev = told lp ev"
  by (cases "(lp, ev)" rule: told.cases) simp_all

lemma faithful_at_work [simp]: "faithful (lp\<lparr>lp_Worker := w\<rparr>) ev = faithful lp ev"
  by (cases "(lp, ev)" rule: faithful.cases) simp_all

interpretation any_server: server told by unfold_locales simp_all

interpretation honest_server: server honest by unfold_locales (simp_all add: honest_def)

text \<open>
  The process comes up with whatever is on the server, and every cluster is enqueued. A restart sets the
  controller up again, with a new salt.
\<close>

definition booted :: "RayClusterReconciler \<Rightarrow> store \<Rightarrow> (cluster_key \<rightharpoonup> RayCluster) \<Rightarrow> Loop" where
  "booted r s clusters =
     \<lparr>lp_Reconciler = r, lp_Store = s, lp_Clusters = clusters, lp_Pending = dom clusters,
      lp_Worker = None\<rparr>"

definition sound_clusters :: "(cluster_key \<rightharpoonup> RayCluster) \<Rightarrow> bool" where
  "sound_clusters clusters \<longleftrightarrow> (\<forall>q c. clusters q = Some c \<longrightarrow> sound_cluster_at q c)"

inductive reachable :: "Loop \<Rightarrow> bool" where
  boot: "sound_clusters clusters \<Longrightarrow> reachable (booted r s clusters)"
| step: "reachable lp \<Longrightarrow> loop_step lp lp' \<Longrightarrow> reachable lp'"

definition waiting :: "Loop \<Rightarrow> cluster_key \<Rightarrow> bool" where
  "waiting lp q \<longleftrightarrow> q \<in> lp_Pending lp \<or> (\<exists>w. lp_Worker lp = Some w \<and> wk_Request w = q)"

text \<open>The finalizer is in place and the objects of the cluster are in force.\<close>

definition served :: "Loop \<Rightarrow> RayCluster \<Rightarrow> bool" where
  "served lp c \<longleftrightarrow> finalized c \<and>
     (\<exists>ca nss. holds (lp_Store lp) (cluster_objects (lp_Reconciler lp) c ca nss))"

end
