(* ===== verification/LoopInvariant.thy ===== *)
theory LoopInvariant
  imports ControlLoop
begin

text \<open>
  The invariant of the control loop: a cluster that neither waits nor is worked on has its objects in
  force, because whoever disturbs one of them enqueues it.
\<close>

subsection \<open>Who is notified\<close>

lemma restore_simps [simp]:
  "lp_Reconciler (restore s' lp) = lp_Reconciler lp" "lp_Store (restore s' lp) = s'"
  "lp_Clusters (restore s' lp) = lp_Clusters lp" "lp_Worker (restore s' lp) = lp_Worker lp"
  "lp_Pending (restore s' lp) =
     lp_Pending lp \<union> notified (rayClusterController (lp_Reconciler lp)) (lp_Store lp) s'"
  by (simp_all add: restore_def)

lemma recluster_simps [simp]:
  "lp_Reconciler (recluster q a lp) = lp_Reconciler lp" "lp_Store (recluster q a lp) = lp_Store lp"
  "lp_Clusters (recluster q a lp) = (lp_Clusters lp)(q := a)"
  "lp_Worker (recluster q a lp) = lp_Worker lp"
  "lp_Pending (recluster q a lp) = insert q (lp_Pending lp)"
  by (simp_all add: recluster_def)

lemma request_key_simp [simp]:
  "request_key \<lparr>req_Name = Name c, req_Namespace = Namespace c\<rparr> = cluster_key c"
  by (simp add: request_key_def cluster_key_def)

text \<open>
  What the loop relies on: the watches of the controller turn a change of an object of a cluster into the
  request for that cluster. Then an object in force stays in force as long as its cluster is not
  notified.
\<close>

locale noticing =
  fixes controller :: "RayClusterReconciler \<Rightarrow> ControllerBuilder"
  assumes notices: "obj \<in> set (cluster_objects r c ca nss) \<Longrightarrow> typed_cluster c \<Longrightarrow>
    enqueued (controller r) obj = [\<lparr>req_Name = Name c, req_Namespace = Namespace c\<rparr>]"
begin

lemma unnoticed:
  assumes "obj \<in> set (cluster_objects r c ca nss)" and "sound_cluster_at q c"
    and "s k = Some obj" and "q \<notin> notified (controller r) s s'"
  shows "s' k = Some obj"
proof (rule ccontr)
  let ?req = "\<lparr>req_Name = Name c, req_Namespace = Namespace c\<rparr>"
  assume "s' k \<noteq> Some obj"
  then have "request_key ?req \<in> notified (controller r) s s'"
    unfolding notified_def using assms(3) notices [OF assms(1)] assms(2)
    by (intro CollectI exI [of _ k] exI [of _ obj] exI [of _ ?req]) (simp add: sound_cluster_at_def)
  with assms(2,4) show False by (simp add: sound_cluster_at_def)
qed

lemma holds_unnoticed:
  assumes "holds s (cluster_objects r c ca nss)" and "sound_cluster_at q c"
    and "q \<notin> notified (controller r) s s'"
  shows "holds s' (cluster_objects r c ca nss)"
  using assms(1) unnoticed [OF _ assms(2) _ assms(3)] unfolding holds_def list_all_iff by metis

end

interpretation rc: noticing rayClusterController
  by unfold_locales
    (rule enqueued_owned [OF cluster_objects_owned _ objects_watched])

lemma served_restore:
  assumes "served lp c" and "sound_cluster_at q c" and "q \<notin> lp_Pending (restore s' lp)"
  shows "served (restore s' lp) c"
proof -
  obtain ca nss where "holds (lp_Store lp) (cluster_objects (lp_Reconciler lp) c ca nss)"
    and finalized: "finalized c"
    using assms(1) unfolding served_def by blast
  from this(1) have "holds s' (cluster_objects (lp_Reconciler lp) c ca nss)"
    by (rule rc.holds_unnoticed [OF _ assms(2)]) (use assms(3) in simp)
  with finalized show ?thesis unfolding served_def restore_simps by blast
qed

subsection \<open>What a call does\<close>

text \<open>A call is a change of one cluster, or of the store.\<close>

lemma perform_cases:
  obtains (update) c d where "ev = EUpdateRayCluster c (Inr d)"
      and "perform ev lp = recluster (cluster_key d) (Some d) lp"
  | (others) "\<And>c d. ev \<noteq> EUpdateRayCluster c (Inr d)"
      and "perform ev lp = restore (track (lp_Store lp) ev) lp"
  by (cases "(ev, lp)" rule: perform.cases) auto

lemma perform_simps [simp]:
  "lp_Reconciler (perform ev lp) = lp_Reconciler lp" "lp_Worker (perform ev lp) = lp_Worker lp"
  "lp_Store (perform ev lp) = track (lp_Store lp) ev"
  by (cases ev rule: perform_cases [where lp = lp]; simp)+

lemma perform_pending: "lp_Pending lp \<subseteq> lp_Pending (perform ev lp)"
  by (cases ev rule: perform_cases [where lp = lp]) auto

subsection \<open>The worker\<close>

text \<open>
  A call that is up to date: nothing that the reconciliation of \<open>c\<close> has read or written has changed since.
\<close>

fun up_to_date :: "Loop \<Rightarrow> cluster_key \<Rightarrow> RayCluster \<Rightarrow> event \<Rightarrow> bool" where
  "up_to_date lp q c (EGetRayCluster q' (Inr d)) \<longleftrightarrow> q' = q \<longrightarrow> d = c"
| "up_to_date lp q c (EGetRayCluster q' (Inl err)) \<longleftrightarrow> q' = q \<longrightarrow> \<not> IsNotFound err"
| "up_to_date lp q c (EUpdateRayCluster d (Inr e)) \<longleftrightarrow> False"
| "up_to_date lp q c (EApplyObject opts ns obj None) \<longleftrightarrow> lp_Store lp (key_of obj) = Some obj"
| "up_to_date lp q c ev \<longleftrightarrow> True"

definition underway :: "Loop \<Rightarrow> Worker \<Rightarrow> bool" where
  "underway lp w \<longleftrightarrow>
     (\<forall>tr out. runs (wk_Rest w) tr out \<longrightarrow>
        runs (Reconcile (lp_Reconciler lp) (wk_Request w)) (wk_Calls w @ tr) out) \<and>
     (wk_Request w \<notin> lp_Pending lp \<longrightarrow>
        (\<forall>c. lp_Clusters lp (wk_Request w) = Some c \<longrightarrow>
           list_all (up_to_date lp (wk_Request w) c) (wk_Calls w)))"

definition loop_invariant :: "Loop \<Rightarrow> bool" where
  "loop_invariant lp \<longleftrightarrow>
     sound_clusters (lp_Clusters lp) \<and>
     (\<forall>w. lp_Worker lp = Some w \<longrightarrow> underway lp w) \<and>
     (\<forall>q c. lp_Clusters lp q = Some c \<longrightarrow> \<not> waiting lp q \<longrightarrow> served lp c)"

subsection \<open>The calls of the worker\<close>

text \<open>The updates of a reconciliation are of its own cluster.\<close>

fun updates_at :: "cluster_key \<Rightarrow> event \<Rightarrow> bool" where
  "updates_at q (EUpdateRayCluster d _) \<longleftrightarrow> cluster_key d = q"
| "updates_at q _ \<longleftrightarrow> True"

lemma updates_own_cluster: "emits (updates_at (cluster_key c)) (reconcileCluster r c)"
  by (intro emits_reconcileCluster)
    (simp_all add: emits_def block_defs always_rules cluster_key_def AddFinalizer_def
      RemoveFinalizer_def set_finalizers_def split: block_splits)

text \<open>Calls that are up to date belong to a run for the current cluster.\<close>

lemma up_to_date_run:
  assumes "runs (Reconcile r q) (calls @ rest) out" and "list_all (up_to_date lp q c) calls"
    and "calls \<noteq> []"
  obtains (missing) err where "calls = [EGetRayCluster q (Inl err)]" and "\<not> IsNotFound err"
      and "rest = []" and "out = Returned (emptyResult, IgnoreNotFound err)"
  | (found) later out' where "calls = EGetRayCluster q (Inr c) # later"
      and "runs (reconcileCluster r c) (later @ rest) out'" and "out = final out'"
proof -
  obtain ev later where calls: "calls = ev # later" using assms(3) by (cases calls) auto
  from assms(1) show thesis
    unfolding runs_Reconcile using assms(2) that by (auto simp: calls)
qed

lemma up_to_date_adopted:
  assumes "adopted c (later @ rest) c'" and "list_all (up_to_date lp q c) later" and "later \<noteq> []"
  shows "c' = c"
  using assms by (cases later) (auto simp: adopted_def split: if_splits)

lemma up_to_date_objects:
  assumes "runs (Reconcile r q) (calls @ rest) out" and "list_all (up_to_date lp q c) calls"
    and "EApplyObject opts ns obj res \<in> set calls"
  obtains ca nss where "obj \<in> set (cluster_objects r c ca nss)"
proof -
  have "calls \<noteq> []" using assms(3) by auto
  from assms(1,2) this show thesis
  proof (cases rule: up_to_date_run)
    case (found later out')
    then have mem: "EApplyObject opts ns obj res \<in> set later" using assms(3) by simp
    then have "EApplyObject opts ns obj res \<in> set (later @ rest)" by simp
    with found(2) obtain c' ca nss where "adopted c (later @ rest) c'"
      and "obj \<in> set (cluster_objects r c' ca nss)"
      by (rule applied_object)
    moreover have "list_all (up_to_date lp q c) later" "later \<noteq> []" using found(1) assms(2) mem by auto
    ultimately show thesis using up_to_date_adopted that by blast
  qed (use assms(3) in simp)
qed

text \<open>They stay up to date when the store changes without a notification.\<close>

lemma up_to_date_restore:
  assumes "runs (Reconcile (lp_Reconciler lp) q) (calls @ rest) out"
    and "list_all (up_to_date lp q c) calls" and "sound_cluster_at q c"
    and "q \<notin> lp_Pending (restore s' lp)"
  shows "list_all (up_to_date (restore s' lp) q c) calls"
  unfolding list_all_iff
proof
  fix ev assume ev: "ev \<in> set calls"
  with assms(2) have now: "up_to_date lp q c ev" by (simp add: list_all_iff)
  show "up_to_date (restore s' lp) q c ev"
  proof (cases "\<exists>opts ns obj. ev = EApplyObject opts ns obj None")
    case True
    then obtain opts ns obj where accepted: "ev = EApplyObject opts ns obj None" by blast
    from up_to_date_objects [OF assms(1,2) ev [unfolded accepted]]
    obtain ca nss where "obj \<in> set (cluster_objects (lp_Reconciler lp) c ca nss)" .
    from rc.unnoticed [OF this assms(3), of "lp_Store lp"] assms(4) now show ?thesis
      by (simp add: accepted)
  next
    case False
    with now show ?thesis by (cases "(lp, q, c, ev)" rule: up_to_date.cases) auto
  qed
qed

subsection \<open>The invariant\<close>

lemma sound_clustersD: "sound_clusters m \<Longrightarrow> m q = Some c \<Longrightarrow> sound_cluster_at q c"
  unfolding sound_clusters_def by blast

lemma up_to_date_store:
  "lp_Store lp' = lp_Store lp \<Longrightarrow> up_to_date lp' q c ev = up_to_date lp q c ev"
  by (cases "(lp, q, c, ev)" rule: up_to_date.cases) auto

lemma underway_restore:
  assumes "underway lp w" and "sound_clusters (lp_Clusters lp)"
  shows "underway (restore s' lp) w"
proof -
  let ?q = "wk_Request w"
  have "list_all (up_to_date (restore s' lp) ?q c) (wk_Calls w)"
    if free: "?q \<notin> lp_Pending (restore s' lp)" and c: "lp_Clusters lp ?q = Some c" for c
  proof -
    obtain tr out where "runs (wk_Rest w) tr out" using runs_total by blast
    then have "runs (Reconcile (lp_Reconciler lp) ?q) (wk_Calls w @ tr) out"
      using assms(1) by (simp add: underway_def)
    then show ?thesis
    proof (rule up_to_date_restore [OF _ _ _ free])
      show "list_all (up_to_date lp ?q c) (wk_Calls w)"
        using assms(1) free c by (simp add: underway_def)
      show "sound_cluster_at ?q c" using assms(2) c by (rule sound_clustersD)
    qed
  qed
  then show ?thesis using assms(1) unfolding underway_def by simp
qed

lemma underway_recluster:
  assumes "underway lp w"
  shows "underway (recluster q answer lp) w"
  using assms by (auto simp: underway_def list_all_iff up_to_date_store [of "recluster q answer lp" lp])

lemma underway_perform:
  assumes "underway lp w" and "sound_clusters (lp_Clusters lp)"
  shows "underway (perform ev lp) w"
  by (cases ev rule: perform_cases [where lp = lp])
    (simp_all add: underway_recluster [OF assms(1)] underway_restore [OF assms])

text \<open>A new call of the worker is up to date, unless it updates the cluster and so enqueues it.\<close>

lemma told_up_to_date:
  assumes "told lp ev" and "q \<notin> lp_Pending lp" and "lp_Clusters lp q = Some c"
    and "\<And>d e. ev \<noteq> EUpdateRayCluster d (Inr e)" and "lp_Store lp' = track (lp_Store lp) ev"
  shows "up_to_date lp' q c ev"
  using assms by (cases "(lp, q, c, ev)" rule: up_to_date.cases) auto

lemma resumed_run:
  assumes "underway lp w" and "resume (wk_Rest w) ev = Some p" and "runs p tr out"
  shows "runs (Reconcile (lp_Reconciler lp) (wk_Request w)) (wk_Calls w @ ev # tr) out"
  using assms by (auto simp: underway_def runs_Cons)

text \<open>An update of a reconciliation that is up to date is of the cluster of its request.\<close>

lemma resumed_update:
  assumes "underway lp w" and "resume (wk_Rest w) (EUpdateRayCluster d answer) = Some p"
    and "wk_Request w \<notin> lp_Pending lp" and "lp_Clusters lp (wk_Request w) = Some c"
    and "sound_cluster_at (wk_Request w) c"
  shows "cluster_key d = wk_Request w"
proof -
  let ?ev = "EUpdateRayCluster d answer"
  obtain tr out where "runs p tr out" using runs_total by blast
  from resumed_run [OF assms(1,2) this]
  have run: "runs (Reconcile (lp_Reconciler lp) (wk_Request w)) (wk_Calls w @ ?ev # tr) out" .
  have calls: "list_all (up_to_date lp (wk_Request w) c) (wk_Calls w)"
    using assms(1,3,4) by (simp add: underway_def)
  have "wk_Calls w \<noteq> []" using run by (auto simp: runs_Reconcile)
  with run calls show ?thesis
  proof (cases rule: up_to_date_run)
    case (found later out')
    have "list_all (updates_at (cluster_key c)) (later @ ?ev # tr)"
      using updates_own_cluster [unfolded emits_def] found(2) by (rule alwaysD)
    then show ?thesis using assms(5) by (simp add: sound_cluster_at_def)
  qed simp
qed

lemma underway_call:
  assumes "underway lp w" and "sound_clusters (lp_Clusters lp)" and "told lp ev"
    and "resume (wk_Rest w) ev = Some p"
  shows "underway (perform ev lp)
    \<lparr>wk_Request = wk_Request w, wk_Calls = wk_Calls w @ [ev], wk_Rest = p\<rparr>"
proof -
  let ?q = "wk_Request w" and ?lp = "perform ev lp"
  have old: "underway ?lp w" by (rule underway_perform [OF assms(1,2)])
  have "list_all (up_to_date ?lp ?q c) (wk_Calls w @ [ev])"
    if free: "?q \<notin> lp_Pending ?lp" and c: "lp_Clusters ?lp ?q = Some c" for c
  proof -
    have free': "?q \<notin> lp_Pending lp" using free perform_pending by blast
    have "up_to_date ?lp ?q c ev"
    proof (cases ev rule: perform_cases [where lp = lp])
      case (update d e)
      then have e: "cluster_key e = cluster_key d" using assms(3) by (simp add: sound_cluster_at_def)
      from free c have c': "lp_Clusters lp ?q = Some c" and other: "cluster_key e \<noteq> ?q"
        by (auto simp: update(2) split: if_splits)
      have "sound_cluster_at ?q c" using assms(2) c' by (rule sound_clustersD)
      from resumed_update [OF assms(1) assms(4) [unfolded update(1)] free' c' this] other e
      show ?thesis by simp
    next
      case others
      with c have "lp_Clusters lp ?q = Some c" by simp
      from told_up_to_date [OF assms(3) free' this others(1)] show ?thesis by simp
    qed
    with old free c show ?thesis by (simp add: underway_def)
  qed
  with resumed_run [OF assms(1,4)] show ?thesis unfolding underway_def by simp
qed

text \<open>A reconciliation that ends well and is up to date has put the objects in force.\<close>

lemma finished_served:
  assumes "underway lp w" and "wk_Rest w = Ret (res, None)" and "wk_Request w \<notin> lp_Pending lp"
    and "lp_Clusters lp (wk_Request w) = Some c"
  shows "served lp c"
proof -
  let ?q = "wk_Request w" and ?r = "lp_Reconciler lp"
  have run: "runs (Reconcile ?r ?q) (wk_Calls w @ []) (Returned (res, None))"
    using assms(1,2) unfolding underway_def by simp
  have calls: "list_all (up_to_date lp ?q c) (wk_Calls w)"
    using assms(1,3,4) by (simp add: underway_def)
  have "wk_Calls w \<noteq> []" using run by (auto simp: runs_Reconcile)
  with run calls show ?thesis
  proof (cases rule: up_to_date_run)
    case (missing err)
    then show ?thesis by (simp add: IgnoreNotFound_def)
  next
    case (found later out')
    have now: "list_all (up_to_date lp ?q c) later" using calls found(1) by simp
    have run: "runs (Reconcile ?r ?q) (EGetRayCluster ?q (Inr c) # later) (Returned (res, None))"
      using run by (simp add: found(1))
    have maintained: "maintained c"
    proof (rule ccontr)
      assume "\<not> maintained c"
      with run show False by (rule successful_deletion) (use now in simp)
    qed
    from successful_run [OF run this]
    obtain c' ca nss where c': "adopted c later c'"
      and objs: "filter (\<lambda>obj. \<not> is_network_policy obj) (applied later) =
         filter (\<lambda>obj. \<not> is_network_policy obj) (cluster_objects ?r c' ca nss)" .
    have "c' = c \<and> finalized c"
      using c' now by (auto simp: adopted_def finalized_def split: if_splits)
    then have "c' = c" and finalized: "finalized c" by blast+
    have in_force: "lp_Store lp (key_of obj) = Some obj" if "obj \<in> set (applied later)" for obj
      using that now by (induction later rule: applied.induct) auto
    have "holds (lp_Store lp) (cluster_objects ?r c ca nss)"
      unfolding holds_def list_all_iff
    proof
      fix obj assume obj: "obj \<in> set (cluster_objects ?r c ca nss)"
      have "obj \<in> set (applied later)" if "\<not> is_network_policy obj"
        using arg_cong [OF objs, of set] obj that \<open>c' = c\<close> by auto
      then show "is_network_policy obj \<or> lp_Store lp (key_of obj) = Some obj"
        using in_force by blast
    qed
    with finalized show ?thesis unfolding served_def by blast
  qed
qed

lemma loop_invariantD:
  assumes "loop_invariant lp"
  shows "sound_clusters (lp_Clusters lp)"
    and "lp_Worker lp = Some w \<Longrightarrow> underway lp w"
    and "lp_Clusters lp q = Some c \<Longrightarrow> \<not> waiting lp q \<Longrightarrow> served lp c"
  using assms unfolding loop_invariant_def by blast+

lemma invariant_booted: "sound_clusters clusters \<Longrightarrow> loop_invariant (booted r s clusters)"
  by (auto simp: loop_invariant_def booted_def waiting_def)

lemma invariant_restore:
  assumes "loop_invariant lp"
  shows "loop_invariant (restore s' lp)"
  unfolding loop_invariant_def restore_simps
proof (intro conjI allI impI)
  show sound: "sound_clusters (lp_Clusters lp)" using assms by (simp add: loop_invariant_def)
  show "underway (restore s' lp) w" if "lp_Worker lp = Some w" for w
    using that assms sound by (intro underway_restore) (auto simp: loop_invariant_def)
  fix q c assume c: "lp_Clusters lp q = Some c" "\<not> waiting (restore s' lp) q"
  then have "\<not> waiting lp q" by (auto simp: waiting_def)
  with c(1) have "served lp c" by (rule loop_invariantD(3) [OF assms])
  then show "served (restore s' lp) c"
    using sound_clustersD [OF sound c(1)]
    by (rule served_restore) (use c(2) in \<open>simp add: waiting_def\<close>)
qed

lemma invariant_recluster:
  assumes "loop_invariant lp" and "\<And>c. answer = Some c \<Longrightarrow> sound_cluster_at q c"
  shows "loop_invariant (recluster q answer lp)"
  unfolding loop_invariant_def recluster_simps
proof (intro conjI allI impI)
  show "sound_clusters ((lp_Clusters lp)(q := answer))"
    using assms unfolding loop_invariant_def sound_clusters_def by auto
  show "underway (recluster q answer lp) w" if "lp_Worker lp = Some w" for w
    using that assms(1) by (intro underway_recluster) (auto simp: loop_invariant_def)
  fix q' c assume c: "((lp_Clusters lp)(q := answer)) q' = Some c"
    "\<not> waiting (recluster q answer lp) q'"
  then have "q' \<noteq> q" and "\<not> waiting lp q'" by (auto simp: waiting_def)
  with c(1) have "served lp c" by (intro loop_invariantD(3) [OF assms(1)]) simp_all
  then show "served (recluster q answer lp) c" by (simp add: served_def)
qed

lemma invariant_perform:
  assumes "loop_invariant lp" and "told lp ev"
  shows "loop_invariant (perform ev lp)"
proof (cases ev rule: perform_cases [where lp = lp])
  case (update c d)
  with assms(2) have "sound_cluster_at (cluster_key d) d" by (simp add: sound_cluster_at_def)
  then show ?thesis unfolding update(2) by (intro invariant_recluster [OF assms(1)]) simp
qed (simp add: invariant_restore [OF assms(1)])

text \<open>Only the three parts of the state the invariant speaks of matter.\<close>

lemma underway_cong:
  assumes "lp_Reconciler lp' = lp_Reconciler lp" and "lp_Store lp' = lp_Store lp"
    and "lp_Clusters lp' = lp_Clusters lp" and "lp_Pending lp \<subseteq> lp_Pending lp' \<union> (- {wk_Request w})"
    and "underway lp w"
  shows "underway lp' w"
  using assms by (auto simp: underway_def list_all_iff up_to_date_store [OF assms(2)])

lemma served_cong:
  "lp_Reconciler lp' = lp_Reconciler lp \<Longrightarrow> lp_Store lp' = lp_Store lp \<Longrightarrow> served lp' c = served lp c"
  by (simp add: served_def)

text \<open>The steps, one by one.\<close>

lemma loop_invariantI:
  assumes "sound_clusters (lp_Clusters lp)" and "\<And>w. lp_Worker lp = Some w \<Longrightarrow> underway lp w"
    and "\<And>q c. lp_Clusters lp q = Some c \<Longrightarrow> \<not> waiting lp q \<Longrightarrow> served lp c"
  shows "loop_invariant lp"
  using assms unfolding loop_invariant_def by blast

lemma invariant_pick:
  assumes "loop_invariant lp" and "lp_Worker lp = None"
  shows "loop_invariant (lp\<lparr>lp_Pending := lp_Pending lp - {q}, lp_Worker := Some
    \<lparr>wk_Request = q, wk_Calls = [], wk_Rest = Reconcile (lp_Reconciler lp) q\<rparr>\<rparr>)" (is "loop_invariant ?lp")
proof (rule loop_invariantI)
  fix q' c assume c: "lp_Clusters ?lp q' = Some c" "\<not> waiting ?lp q'"
  with assms(2) have "\<not> waiting lp q'" by (auto simp: waiting_def)
  with c have "served lp c" by (intro loop_invariantD(3) [OF assms(1), of q']) simp_all
  then show "served ?lp c" by (simp add: served_def)
qed (use loop_invariantD(1) [OF assms(1)] in \<open>auto simp: underway_def\<close>)

lemma invariant_call:
  assumes "loop_invariant lp" and "lp_Worker lp = Some w" and "told lp ev"
    and "resume (wk_Rest w) ev = Some p"
  shows "loop_invariant ((perform ev lp)\<lparr>lp_Worker := Some
    \<lparr>wk_Request = wk_Request w, wk_Calls = wk_Calls w @ [ev], wk_Rest = p\<rparr>\<rparr>)" (is "loop_invariant ?lp")
proof (rule loop_invariantI)
  have inv: "loop_invariant (perform ev lp)" by (rule invariant_perform [OF assms(1,3)])
  then show "sound_clusters (lp_Clusters ?lp)" using loop_invariantD(1) by simp
  fix w' assume "lp_Worker ?lp = Some w'"
  moreover note underway_call [OF loop_invariantD(2) [OF assms(1,2)] loop_invariantD(1) [OF assms(1)]
      assms(3,4)]
  ultimately show "underway ?lp w'" by (intro underway_cong [of ?lp "perform ev lp"]) simp_all
next
  have inv: "loop_invariant (perform ev lp)" by (rule invariant_perform [OF assms(1,3)])
  fix q c assume c: "lp_Clusters ?lp q = Some c" "\<not> waiting ?lp q"
  with assms(2) have "\<not> waiting (perform ev lp) q" by (auto simp: waiting_def)
  with c have "served (perform ev lp) c" by (intro loop_invariantD(3) [OF inv, of q]) simp_all
  then show "served ?lp c" by (simp add: served_def)
qed

lemma invariant_finish:
  assumes "loop_invariant lp" and "lp_Worker lp = Some w" and "wk_Rest w = Ret (res, err)"
  shows "loop_invariant (lp\<lparr>lp_Worker := None, lp_Pending :=
    (if err = None \<and> res = emptyResult then {} else {wk_Request w}) \<union> lp_Pending lp\<rparr>)"
    (is "loop_invariant ?lp")
proof (rule loop_invariantI)
  fix q c assume c: "lp_Clusters ?lp q = Some c" "\<not> waiting ?lp q"
  then have c': "lp_Clusters lp q = Some c" and free: "q \<notin> lp_Pending lp"
    by (simp_all add: waiting_def)
  have "served lp c"
  proof (cases "wk_Request w = q")
    case True
    with c(2) have "err = None" by (auto simp: waiting_def split: if_splits)
    with finished_served [OF loop_invariantD(2) [OF assms(1,2)]] assms(3) True free c'
    show ?thesis by simp
  next
    case False
    with free assms(2) have "\<not> waiting lp q" by (simp add: waiting_def)
    with c' show ?thesis by (rule loop_invariantD(3) [OF assms(1)])
  qed
  then show "served ?lp c" by (simp add: served_def)
qed (use loop_invariantD(1) [OF assms(1)] in auto)

lemma invariant_resync:
  assumes "loop_invariant lp"
  shows "loop_invariant (lp\<lparr>lp_Pending := lp_Pending lp \<union> Q\<rparr>)" (is "loop_invariant ?lp")
proof (rule loop_invariantI)
  fix w assume "lp_Worker ?lp = Some w"
  with loop_invariantD(2) [OF assms] have "underway lp w" by simp
  then show "underway ?lp w" by (rule underway_cong [rotated 4]) auto
next
  fix q c assume c: "lp_Clusters ?lp q = Some c" "\<not> waiting ?lp q"
  then have "\<not> waiting lp q" by (auto simp: waiting_def)
  with c have "served lp c" by (intro loop_invariantD(3) [OF assms, of q]) simp_all
  then show "served ?lp c" by (simp add: served_def)
qed (use loop_invariantD(1) [OF assms] in simp)

lemma invariant_restart:
  assumes "loop_invariant lp"
  shows "loop_invariant (lp\<lparr>lp_Reconciler := r, lp_Worker := None, lp_Pending := dom (lp_Clusters lp)\<rparr>)"
  using loop_invariantD(1) [OF assms] by (auto simp: waiting_def intro!: loop_invariantI)

lemma invariant_operator: "operator_step told lp lp' \<Longrightarrow> loop_invariant lp \<Longrightarrow> loop_invariant lp'"
  by (induction rule: operator_step.induct)
    (simp_all only: invariant_pick invariant_call invariant_finish)

lemma invariant_step: "loop_step lp lp' \<Longrightarrow> loop_invariant lp \<Longrightarrow> loop_invariant lp'"
proof (induction rule: loop_step.induct)
  case (Change answer q lp)
  then show ?case by (intro invariant_recluster)
qed (simp_all only: invariant_operator invariant_restore invariant_resync invariant_restart)

lemma reachable_invariant: "reachable lp \<Longrightarrow> loop_invariant lp"
  by (induction rule: reachable.induct) (blast intro: invariant_booted invariant_step)+

end
