(* ===== verification/Progress.thy ===== *)
theory Progress
  imports LoopInvariant
begin

text \<open>
  The control loop makes progress by the operator's own steps: a run of \<open>Reconcile\<close> is a path of its
  worker, a run that finds everything in force consumes its request and leaves nothing behind, a worker
  that is busy can end what it is at, and from every reachable state there is such a path on which a given
  cluster comes to rest.
\<close>

subsection \<open>A run as a path\<close>

fun answers :: "(Loop \<Rightarrow> event \<Rightarrow> bool) \<Rightarrow> Loop \<Rightarrow> event list \<Rightarrow> bool" where
  "answers answer lp [] \<longleftrightarrow> True"
| "answers answer lp (ev # tr) \<longleftrightarrow> answer lp ev \<and> answers answer (perform ev lp) tr"

definition at_work :: "cluster_key \<Rightarrow> event list \<Rightarrow> outcome_pair prog \<Rightarrow> Loop \<Rightarrow> Loop" where
  "at_work q calls p lp = lp\<lparr>lp_Worker := Some \<lparr>wk_Request = q, wk_Calls = calls, wk_Rest = p\<rparr>\<rparr>"

lemma perform_at_work [simp]:
  "perform ev (lp\<lparr>lp_Worker := w\<rparr>) = (perform ev lp)\<lparr>lp_Worker := w\<rparr>"
  by (cases "(ev, lp)" rule: perform.cases) (simp_all add: recluster_def restore_def)

definition picked :: "cluster_key \<Rightarrow> Loop \<Rightarrow> Loop" where
  "picked q lp = lp\<lparr>lp_Pending := lp_Pending lp - {q}\<rparr>"

lemma fold_perform_worker [simp]: "lp_Worker (fold perform tr lp) = lp_Worker lp"
  by (induction tr arbitrary: lp) simp_all

context server
begin

lemma calls_path:
  assumes "runs p tr (Returned x)" and "answers answer lp tr"
  shows "(operator_step answer)\<^sup>*\<^sup>* (at_work q calls p lp) (at_work q (calls @ tr) (Ret x) (fold perform tr lp))"
  using assms
proof (induction tr arbitrary: p lp calls)
  case Nil
  then show ?case by (cases p) auto
next
  case (Cons ev tr)
  then obtain p' where p': "resume p ev = Some p'" "runs p' tr (Returned x)" by (auto simp: runs_Cons)
  have "operator_step answer (at_work q calls p lp) ((perform ev (at_work q calls p lp))
      \<lparr>lp_Worker := Some \<lparr>wk_Request = q, wk_Calls = calls @ [ev], wk_Rest = p'\<rparr>\<rparr>)"
    using operator_step.Call [of "at_work q calls p lp" _ answer ev p'] Cons.prems(2) p'(1)
    by (simp add: at_work_def blind)
  then have "operator_step answer (at_work q calls p lp) (at_work q (calls @ [ev]) p' (perform ev lp))"
    by (simp add: at_work_def)
  moreover have "(operator_step answer)\<^sup>*\<^sup>* (at_work q (calls @ [ev]) p' (perform ev lp))
      (at_work q ((calls @ [ev]) @ tr) (Ret x) (fold perform tr (perform ev lp)))"
    using Cons.prems(2) p'(2) by (intro Cons.IH) simp_all
  ultimately show ?case by (simp add: converse_rtranclp_into_rtranclp)
qed

lemma run_path:
  assumes "lp_Worker lp = None" and "q \<in> lp_Pending lp"
    and "runs (Reconcile (lp_Reconciler lp) q) tr (Returned finished)" and "answers answer (picked q lp) tr"
  shows "(operator_step answer)\<^sup>*\<^sup>* lp (fold perform tr (picked q lp))"
proof -
  let ?lp = "fold perform tr (picked q lp)"
  have "operator_step answer lp (at_work q [] (Reconcile (lp_Reconciler lp) q) (picked q lp))"
    using operator_step.Pick [OF assms(2,1)] by (simp add: at_work_def picked_def)
  also have "(operator_step answer)\<^sup>*\<^sup>* \<dots> (at_work q ([] @ tr) (Ret finished) ?lp)"
    by (rule calls_path [OF assms(3,4)])
  also have "operator_step answer (at_work q ([] @ tr) (Ret finished) ?lp)
      ((at_work q ([] @ tr) (Ret finished) ?lp)\<lparr>lp_Worker := None, lp_Pending :=
         {} \<union> lp_Pending (at_work q ([] @ tr) (Ret finished) ?lp)\<rparr>)"
    using operator_step.Finish [of "at_work q ([] @ tr) (Ret finished) ?lp" _ emptyResult None]
    by (simp add: at_work_def finished_def)
  also have "\<dots> = ?lp" using assms(1) by (simp add: at_work_def picked_def)
  finally show ?thesis .
qed

end

subsection \<open>The effect of a run\<close>

text \<open>Calls that do not update a cluster only change the store.\<close>

fun updates_nothing :: "event \<Rightarrow> bool" where
  "updates_nothing (EUpdateRayCluster _ _) \<longleftrightarrow> False"
| "updates_nothing (EGetRayCluster _ _) \<longleftrightarrow> False"
| "updates_nothing _ \<longleftrightarrow> True"

lemma perform_store:
  "updates_nothing ev \<Longrightarrow> perform ev lp = restore (track (lp_Store lp) ev) lp"
  by (cases "(ev, lp)" rule: perform.cases) simp_all

lemma told_updates_nothing: "updates_nothing ev \<Longrightarrow> told lp ev"
  by (cases "(lp, ev)" rule: told.cases) simp_all

lemma answers_updates_nothing: "list_all updates_nothing tr \<Longrightarrow> answers told lp tr"
  by (induction tr arbitrary: lp) (simp_all add: told_updates_nothing)

lemma faithful_updates_nothing: "updates_nothing ev \<Longrightarrow> faithful lp ev = answered (lp_Store lp) ev"
  by (cases "(lp, ev)" rule: faithful.cases) simp_all

lemma answers_undisturbed:
  "list_all updates_nothing tr \<Longrightarrow> undisturbed (lp_Store lp) tr \<Longrightarrow> answers honest lp tr"
  by (induction tr arbitrary: lp)
    (simp_all add: honest_def told_updates_nothing faithful_updates_nothing perform_store)

lemma fold_perform_state:
  assumes "list_all updates_nothing tr"
  shows "lp_Clusters (fold perform tr lp) = lp_Clusters lp"
    and "lp_Reconciler (fold perform tr lp) = lp_Reconciler lp"
    and "lp_Store (fold perform tr lp) = configurations (lp_Store lp) tr"
  using assms by (induction tr arbitrary: lp) (simp_all add: perform_store configurations_def)

lemma restore_same [simp]: "restore (lp_Store lp) lp = lp"
  by (simp add: restore_def notified_def)

text \<open>A call that changes no configuration changes nothing at all, and enqueues nothing.\<close>

lemma fold_perform_same:
  assumes "list_all updates_nothing tr" and "list_all deletes_nothing tr"
    and "\<And>obj. obj \<in> set (applied tr) \<Longrightarrow> lp_Store lp (key_of obj) = Some obj"
  shows "fold perform tr lp = lp"
  using assms
proof (induction tr)
  case (Cons ev tr)
  have "track (lp_Store lp) ev = lp_Store lp"
    using Cons.prems by (cases "(lp_Store lp, ev)" rule: track.cases) (auto simp: fun_upd_idem)
  then have "perform ev lp = lp" using Cons.prems(1) by (simp add: perform_store)
  moreover have "obj \<in> set (applied tr) \<Longrightarrow> obj \<in> set (applied (ev # tr))" for obj
    by (cases "[ev]" rule: applied.cases) auto
  ultimately show ?case using Cons by simp
qed simp

lemma after_ca_updates_nothing:
  "emits updates_nothing (and_then (reconcileCASecret r c) (\<lambda>_. after_ca r c))"
proof -
  have "emits updates_nothing (reconcileCASecret r c)" "emits updates_nothing (reconcileExposure r c)"
    "emits updates_nothing (kubeRayNamespaces r)"
    "\<And>nss. emits updates_nothing (reconcileNetworkPolicies r c nss)"
    by (simp_all add: emits_def block_defs always_rules split: block_splits)
  then show ?thesis by (intro emits_and_then)
qed

subsection \<open>Two runs\<close>

lemma distinct_applied:
  "distinct (map f (map snd (attempts tr))) \<Longrightarrow> distinct (map f (applied tr))"
proof (induction tr rule: applied.induct)
  case (2 opts ns obj tr)
  have "f ` set (applied tr) \<subseteq> f ` snd ` set (attempts tr)"
    using applied_attempted by (intro image_mono)
  with 2 show ?case by (auto simp: image_image)
qed simp_all

lemma applied_in_force:
  assumes "list_all deletes_nothing tr" and "distinct (map key_of (map snd (attempts tr)))"
    and "obj \<in> set (applied tr)"
  shows "configurations s tr (key_of obj) = Some obj"
  using find_distinct_key [of key_of "rev (applied tr)" obj] distinct_applied [OF assms(2)] assms(3)
  by (simp add: configurations_lookup [OF assms(1)] rev_map [symmetric])

lemma finalized_run_facts:
  assumes "runs (Reconcile r q) (EGetRayCluster q (Inr c) # tr) (Returned (res, None))"
    and "finalized c"
  shows "list_all updates_nothing tr \<and> list_all deletes_nothing tr"
proof -
  obtain tr1 tr2 where "tr = tr1 @ tr2" and "runs (reconcileCASecret r c) tr1 (Returned (Inr ()))"
    and "runs (after_ca r c) tr2 (Returned (Inr ()))"
    by (rule successful_finalized [OF assms])
  then have "runs (and_then (reconcileCASecret r c) (\<lambda>_. after_ca r c)) tr (Returned (Inr ()))"
    unfolding runs_and_then_Inr [of "reconcileCASecret r c"] by blast
  with after_ca_updates_nothing [unfolded emits_def] have "list_all updates_nothing tr" by (rule alwaysD)
  moreover have "list_all deletes_nothing tr"
    using successful_run [OF assms(1) finalized_maintained [OF assms(2)]] by metis
  ultimately show ?thesis ..
qed

text \<open>
  The second of two successful runs, if the server answers it with what the first has applied and accepts
  no other network policies than before, finds everything in force.
\<close>

lemma second_run_in_force:
  assumes "runs (Reconcile r q) (EGetRayCluster q (Inr c) # tr) (Returned (res, None))"
    and "runs (Reconcile r q) (EGetRayCluster q (Inr c) # tr') (Returned (res', None))"
    and "finalized c" and "undisturbed (configurations s tr) tr'"
    and "set (filter is_network_policy (applied tr')) \<subseteq> set (applied tr)"
    and "obj \<in> set (applied tr')"
  shows "configurations s tr (key_of obj) = Some obj"
proof (cases "is_network_policy obj")
  case True
  with assms(5,6) have "obj \<in> set (applied tr)" by auto
  moreover obtain c' ca nss where "map snd (attempts tr) = cluster_objects r c' ca nss"
    using successful_run [OF assms(1) finalized_maintained [OF assms(3)]] by metis
  ultimately show ?thesis
    using finalized_run_facts [OF assms(1,3)] by (intro applied_in_force) (simp_all add: distinct_objects)
next
  case False
  have "adopted c tr c" using finalized_adopted [OF assms(3)] by simp
  from second_run_applies [OF assms(1) finalized_maintained [OF assms(3)] this assms(3,2,4)] assms(6) False
  show ?thesis by blast
qed

text \<open>A successful run of a cluster with its finalizer in place, as a path.\<close>

lemma finalized_path:
  assumes "lp_Worker lp = None" and "q \<in> lp_Pending lp" and "lp_Clusters lp q = Some c"
    and "sound_cluster_at q c" and "finalized c"
    and "runs (Reconcile (lp_Reconciler lp) q) (EGetRayCluster q (Inr c) # tr) (Returned finished)"
  shows "(operator_step told)\<^sup>*\<^sup>* lp (fold perform tr (picked q lp))"
    and "undisturbed (lp_Store lp) tr \<Longrightarrow>
      (operator_step honest)\<^sup>*\<^sup>* lp (fold perform tr (picked q lp))"
proof -
  note facts = finalized_run_facts [OF assms(6) [unfolded finished_def] assms(5)]
  have "answers told (picked q lp) (EGetRayCluster q (Inr c) # tr)"
    using facts assms(3,4) by (simp add: picked_def answers_updates_nothing)
  from any_server.run_path [OF assms(1,2,6) this]
  show "(operator_step told)\<^sup>*\<^sup>* lp (fold perform tr (picked q lp))" by simp
  assume "undisturbed (lp_Store lp) tr"
  then have "answers honest (picked q lp) (EGetRayCluster q (Inr c) # tr)"
    using facts assms(3,4) by (simp add: picked_def answers_undisturbed honest_def)
  from honest_server.run_path [OF assms(1,2,6) this]
  show "(operator_step honest)\<^sup>*\<^sup>* lp (fold perform tr (picked q lp))" by simp
qed

text \<open>The first run may enqueue its own cluster; the second does not, and changes nothing.\<close>

lemma second_run_consumes:
  assumes "runs (Reconcile (lp_Reconciler lp) q) (EGetRayCluster q (Inr c) # tr) (Returned finished)"
    and "runs (Reconcile (lp_Reconciler lp) q) (EGetRayCluster q (Inr c) # tr') (Returned finished)"
    and "finalized c" and "undisturbed (configurations (lp_Store lp) tr) tr'"
    and "set (filter is_network_policy (applied tr')) \<subseteq> set (applied tr)"
  shows "fold perform tr' (picked q (fold perform tr (picked q lp))) = picked q (fold perform tr (picked q lp))"
proof -
  note runs = assms(1,2) [unfolded finished_def]
  have store: "lp_Store (picked q (fold perform tr (picked q lp))) = configurations (lp_Store lp) tr"
    using finalized_run_facts [OF runs(1) assms(3)] by (simp add: fold_perform_state picked_def)
  show ?thesis
  proof (rule fold_perform_same)
    show "list_all updates_nothing tr'" "list_all deletes_nothing tr'"
      using finalized_run_facts [OF runs(2) assms(3)] by blast+
    show "lp_Store (picked q (fold perform tr (picked q lp))) (key_of obj) = Some obj"
      if "obj \<in> set (applied tr')" for obj
      unfolding store using second_run_in_force [OF runs assms(3-5) that] .
  qed
qed

subsection \<open>A smooth run\<close>

text \<open>
  The calls of a reconciliation against a server that refuses nothing: reads are answered by the store,
  there is no pod to find, and no DSCInitialization.
\<close>

definition applies :: "ApplyConfig list \<Rightarrow> event list" where
  "applies objs = map (\<lambda>obj. EApplyObject applyOptions (ma_Namespace (obj_meta obj)) obj None) objs"

definition some_time :: Time where
  "some_time = \<lparr>t_Year = 2025, t_Month = 1, t_Day = 1, t_Nanos = 0\<rparr>"

definition some_key :: PrivateKey where
  "some_key = \<lparr>pk_PKCS1 = []\<rparr>"

definition smooth_ca :: "store \<Rightarrow> RayClusterReconciler \<Rightarrow> RayCluster \<Rightarrow> event list" where
  "smooth_ca s r c =
     (let ns = Namespace c; name = caSecretNameFromCluster c;
          set = (\<lambda>key cert. applies [ASecret (desiredCASecret c key cert)]) in
      if \<not> isMTLSEnabled (rec_Config r) then []
      else case s (KSecret, Some ns, name) of
        None \<Rightarrow>
          [EGetSecret ns name (Inl (StatusNotFound name)), ERandInt63 0, ENow some_time, ENow some_time,
           EGenerateKey 2048 (Inr some_key),
           ECreateCertificate (caTemplate 0 some_time some_time) some_key (Inr [])] @
          set (pem_EncodeToMemory ''RSA PRIVATE KEY'' (pk_PKCS1 some_key))
            (pem_EncodeToMemory ''CERTIFICATE'' [])
      | Some obj \<Rightarrow>
          let secret = \<lparr>sec_Data = (case obj of ASecret sec \<Rightarrow> se_Data sec | _ \<Rightarrow> Map.empty)\<rparr> in
          EGetSecret ns name (Inr secret) #
          set (dataOf secret CAPrivateKeyKey) (dataOf secret CACertKey))"

definition smooth_exposure :: "RayClusterReconciler \<Rightarrow> RayCluster \<Rightarrow> event list" where
  "smooth_exposure r c =
     (let objs = exposure_objects r c in
      if \<not> isRayClusterSuspended c \<and> isRayDashboardOAuthEnabled (rec_Config r) \<and> IsOpenShift r
         \<and> ps_ImagePullSecrets (head_pod c) = []
      then applies (take 4 objs) @
           [EGetServiceAccount (Namespace c) (oauthServiceAccountNameFromCluster c)
              (Inr \<lparr>sac_ImagePullSecrets = []\<rparr>),
            EListPods (Namespace c) (headPodSelector c) (Inr [])] @
           applies (drop 4 objs)
      else applies objs)"

definition smooth_namespaces :: "RayClusterReconciler \<Rightarrow> string list" where
  "smooth_namespaces r =
     (if IsOpenShift r then [odhNamespace, rhdsAppsNamespace] else [kubeRayDefaultNamespace])"

definition smooth_search :: "RayClusterReconciler \<Rightarrow> event list" where
  "smooth_search r =
     EListPods [] ''app.kubernetes.io/component=kuberay-operator'' (Inr []) #
     (if IsOpenShift r then [EGetDSCInitialization defaultDSCINamespace (Inl (StatusNotFound []))] else [])"

definition smooth_rest :: "RayClusterReconciler \<Rightarrow> RayCluster \<Rightarrow> event list" where
  "smooth_rest r c =
     smooth_exposure r c @ smooth_search r @ applies (policy_objects r c (smooth_namespaces r))"

text \<open>The configuration a started operator has: there is one, and its Ingress hosts can be made.\<close>

definition configured :: "RayClusterReconciler \<Rightarrow> bool" where
  "configured r \<longleftrightarrow> (\<exists>cfg. rec_Config r = Some cfg \<and> IngressDomain cfg \<noteq> [])"

lemma smooth_ca_runs: "runs (reconcileCASecret r c) (smooth_ca s r c) (Returned (Inr ()))"
  by (simp add: reconcileCASecret_def smooth_ca_def generateCACertificate_def applyOrFail_def
      applies_def Let_def split: option.split)

lemma smooth_exposure_runs:
  "configured r \<Longrightarrow> runs (reconcileExposure r c) (smooth_exposure r c) (Returned (Inr ()))"
  by (auto simp: reconcileExposure_def smooth_exposure_def reconcileOAuth_def reconcileIngress_def
      deleteHeadPodIfMissingImagePullSecrets_def getHeadPod_def applyOrFail_def applies_def
      exposure_objects_def oauth_objects_def ingress_objects_def configured_def getIngressHost_def
      ingress_host_def and_then_def Let_def)

lemma configured_policy:
  assumes "configured r"
  obtains p where "desiredHeadNetworkPolicy c (rec_Config r) nss = Ok p"
    and "policy_objects r c nss = [ANetworkPolicy p, ANetworkPolicy (desiredWorkersNetworkPolicy c)]"
  using assms by (cases "desiredHeadNetworkPolicy c (rec_Config r) nss")
    (auto simp: configured_def policy_objects_def)

lemma smooth_namespaces_runs:
  "runs (kubeRayNamespaces r) (smooth_search r) (Returned (Inr (smooth_namespaces r)))"
  by (simp add: kubeRayNamespaces_def getKubeRayOperatorNamespace_def smooth_search_def
      smooth_namespaces_def)

lemma smooth_policies_runs:
  assumes "configured r"
  shows "runs (reconcileNetworkPolicies r c nss) (applies (policy_objects r c nss)) (Returned (Inr ()))"
proof -
  obtain p where p: "desiredHeadNetworkPolicy c (rec_Config r) nss = Ok p"
    and objs: "policy_objects r c nss = [ANetworkPolicy p, ANetworkPolicy (desiredWorkersNetworkPolicy c)]"
    using configured_policy [OF assms] .
  with head_policy_in_namespace [OF p] show ?thesis
    by (simp add: reconcileNetworkPolicies_def applies_def)
qed

lemma smooth_rest_runs:
  assumes "configured r"
  shows "runs (after_ca r c) (smooth_rest r c) (Returned (Inr ()))"
  using smooth_exposure_runs [OF assms, of c] smooth_namespaces_runs [of r]
    smooth_policies_runs [OF assms, of c "smooth_namespaces r"]
  unfolding runs_and_then_Inr smooth_rest_def by blast

definition smooth :: "store \<Rightarrow> RayClusterReconciler \<Rightarrow> RayCluster \<Rightarrow> event list" where
  "smooth s r c = smooth_ca s r c @ smooth_rest r c"

lemma smooth_runs:
  assumes "configured r"
  shows "runs (and_then (reconcileCASecret r c) (\<lambda>_. after_ca r c)) (smooth s r c) (Returned (Inr ()))"
  using smooth_ca_runs [of r c s] smooth_rest_runs [OF assms, of c]
  unfolding runs_and_then_Inr [of "reconcileCASecret r c"] smooth_def by blast

lemma smooth_Reconcile:
  assumes "configured r" and "finalized c"
  shows "runs (Reconcile r q) (EGetRayCluster q (Inr c) # smooth s r c) (Returned finished)"
proof -
  have "reconcileCluster r c = and_then (reconcileCASecret r c) (\<lambda>_. after_ca r c)"
    using assms(2) by (simp add: reconcileCluster_def reconcileFinalizer_def finalized_def)
  then show ?thesis
    unfolding runs_Reconcile using smooth_runs [OF assms(1), of c s] final.simps(3) by metis
qed

text \<open>Only the first call of a smooth run asks for something the store decides.\<close>

fun asks :: "event \<Rightarrow> bool" where
  "asks (EGetSecret _ _ _) \<longleftrightarrow> True"
| "asks (EDeleteClusterRoleBinding _ _ _) \<longleftrightarrow> True"
| "asks _ \<longleftrightarrow> False"

lemma undisturbed_unasked: "list_all (\<lambda>ev. \<not> asks ev) tr \<Longrightarrow> undisturbed s tr"
proof (induction tr arbitrary: s)
  case (Cons ev tr)
  then show ?case by (cases "(s, ev)" rule: answered.cases) simp_all
qed simp

lemma applies_simps [simp]:
  "applied (applies objs) = objs" "list_all (\<lambda>ev. \<not> asks ev) (applies objs)"
  by (induction objs) (simp_all add: applies_def)

lemma rest_unasked: "list_all (\<lambda>ev. \<not> asks ev) (smooth_rest r c)"
  by (simp add: smooth_rest_def smooth_exposure_def smooth_search_def Let_def)

lemma smooth_undisturbed: "undisturbed s (smooth s r c)"
  using rest_unasked [of r c]
  by (auto simp: smooth_def smooth_ca_def Let_def intro!: undisturbed_unasked
      split: option.split ApplyConfig.split)

lemma smooth_policies:
  "{obj \<in> set (applied (smooth s r c)). is_network_policy obj} =
   {obj \<in> set (applied (smooth_rest r c)). is_network_policy obj}"
  by (auto simp: smooth_def smooth_ca_def Let_def split: option.split)

subsection \<open>Coming to rest\<close>

lemma comes_to_rest:
  assumes "lp_Worker lp = None" and "q \<in> lp_Pending lp" and "lp_Clusters lp q = Some c"
    and "sound_cluster_at q c" and "finalized c" and "configured (lp_Reconciler lp)"
  shows "\<exists>lp'. (operator_step honest)\<^sup>*\<^sup>* lp lp' \<and> lp_Clusters lp' = lp_Clusters lp \<and>
    lp_Reconciler lp' = lp_Reconciler lp \<and> \<not> waiting lp' q"
proof -
  let ?r = "lp_Reconciler lp" and ?s = "lp_Store lp"
  let ?tr = "smooth ?s ?r c" and ?tr' = "smooth (configurations ?s (smooth ?s ?r c)) ?r c"
  let ?lp = "fold perform ?tr (picked q lp)"
  note run = smooth_Reconcile [OF assms(6,5)]
  have state: "lp_Worker ?lp = None" "lp_Clusters ?lp = lp_Clusters lp" "lp_Reconciler ?lp = ?r"
    "lp_Store ?lp = configurations ?s ?tr"
    using assms(1) finalized_run_facts [OF run [unfolded finished_def] assms(5)]
    by (simp_all add: fold_perform_state picked_def)
  have path: "(operator_step honest)\<^sup>*\<^sup>* lp ?lp" by (rule finalized_path(2) [OF assms(1-5) run smooth_undisturbed])
  show ?thesis
  proof (cases "q \<in> lp_Pending ?lp")
    case True
    have "(operator_step honest)\<^sup>*\<^sup>* ?lp (fold perform ?tr' (picked q ?lp))"
      using finalized_path(2) [OF state(1) True _ assms(4,5), of ?tr'] assms(3) run smooth_undisturbed
      by (simp add: state(2-4))
    also have "fold perform ?tr' (picked q ?lp) = picked q ?lp"
      using smooth_policies [of ?s ?r c] smooth_policies [of "configurations ?s ?tr" ?r c]
      by (intro second_run_consumes [OF run run assms(5) smooth_undisturbed]) auto
    finally have "(operator_step honest)\<^sup>*\<^sup>* lp (picked q ?lp)" using path by (rule rtranclp_trans [rotated])
    moreover have "\<not> waiting (picked q ?lp) q" using state(1) by (simp add: waiting_def picked_def)
    moreover have "lp_Clusters (picked q ?lp) = lp_Clusters lp \<and> lp_Reconciler (picked q ?lp) = ?r"
      using state(2,3) by (simp add: picked_def)
    ultimately show ?thesis by blast
  next
    case False
    with state(1) have "\<not> waiting ?lp q" by (simp add: waiting_def)
    with path state(2,3) show ?thesis by blast
  qed
qed

lemma smooth_facts:
  assumes "configured r" and "finalized c"
  shows "list_all updates_nothing (smooth s r c)"
  using finalized_run_facts [OF smooth_Reconcile [OF assms, unfolded finished_def] assms(2)] by blast

text \<open>
  A cluster whose finalizer is not in place is updated, which enqueues it again: alive it gets the
  finalizer, and its objects with it; terminating it loses the binding and the finalizer.
\<close>

definition corrected :: "RayCluster \<Rightarrow> RayCluster" where
  "corrected c =
     (if finalized c then c
      else if IsZero (om_DeletionTimestamp (rc_Meta c)) then AddFinalizer oAuthFinalizer c
      else RemoveFinalizer oAuthFinalizer c)"

lemma corrected_facts:
  shows "finalized (corrected c)" and "sound_cluster_at q c \<Longrightarrow> sound_cluster_at q (corrected c)"
    and "om_DeletionTimestamp (rc_Meta (corrected c)) = om_DeletionTimestamp (rc_Meta c)"
  by (auto simp: corrected_def finalized_def AddFinalizer_def RemoveFinalizer_def set_finalizers_def
      ContainsFinalizer_def sound_cluster_at_def cluster_key_def typed_cluster_def)

definition correction :: "store \<Rightarrow> RayClusterReconciler \<Rightarrow> RayCluster \<Rightarrow> event list" where
  "correction s r c =
     (if IsZero (om_DeletionTimestamp (rc_Meta c)) then
        EUpdateRayCluster (AddFinalizer oAuthFinalizer c) (Inr (corrected c)) # smooth s r (corrected c)
      else
        [EDeleteClusterRoleBinding DeletePropagationForeground (crbNameFromCluster c)
           (if s (KClusterRoleBinding, None, crbNameFromCluster c) = None
            then Some (StatusNotFound []) else None),
         EUpdateRayCluster (RemoveFinalizer oAuthFinalizer c) (Inr (corrected c))])"

lemma correction_Reconcile:
  assumes "configured r" and "\<not> finalized c"
  shows "runs (Reconcile r q) (EGetRayCluster q (Inr c) # correction s r c) (Returned finished)"
proof -
  let ?rest = "\<lambda>c. and_then (reconcileCASecret r c) (\<lambda>_. after_ca r c)"
  have rest: "runs (?rest (corrected c)) (smooth s r (corrected c)) (Returned (Inr ()))"
    by (rule smooth_runs [OF assms(1)])
  have "\<exists>out. runs (reconcileCluster r c) (correction s r c) out \<and> final out = Returned finished"
  proof (cases "IsZero (om_DeletionTimestamp (rc_Meta c))")
    case True
    with assms(2) have "runs (reconcileFinalizer c)
        [EUpdateRayCluster (AddFinalizer oAuthFinalizer c) (Inr (corrected c))]
        (Returned (Inr (corrected c)))"
      by (simp add: reconcileFinalizer_def finalized_def)
    with rest have "runs (reconcileCluster r c)
        ([EUpdateRayCluster (AddFinalizer oAuthFinalizer c) (Inr (corrected c))] @
          smooth s r (corrected c)) (Returned (Inr ()))"
      unfolding reconcileCluster_def runs_and_then_Inr [of "reconcileFinalizer c"] by blast
    with True show ?thesis by (intro exI [of _ "Returned (Inr ())"]) (simp add: correction_def)
  next
    case False
    with assms(2) have "runs (reconcileCluster r c) (correction s r c) (Returned (Inl finished))"
      by (simp add: reconcileCluster_def reconcileFinalizer_def finalized_def correction_def and_then_def
          IgnoreNotFound_def)
    then show ?thesis by (intro exI [of _ "Returned (Inl finished)"]) simp
  qed
  then show ?thesis unfolding runs_Reconcile by metis
qed

lemma fold_perform_pending: "q \<in> lp_Pending lp \<Longrightarrow> q \<in> lp_Pending (fold perform tr lp)"
  by (induction tr arbitrary: lp) (auto intro: perform_pending [THEN subsetD])

lemma gets_corrected:
  assumes "lp_Worker lp = None" and "q \<in> lp_Pending lp" and "lp_Clusters lp q = Some c"
    and "sound_cluster_at q c" and "\<not> finalized c" and "configured (lp_Reconciler lp)"
  shows "\<exists>lp'. (operator_step honest)\<^sup>*\<^sup>* lp lp' \<and> lp_Worker lp' = None \<and> q \<in> lp_Pending lp' \<and>
    lp_Clusters lp' q = Some (corrected c) \<and> lp_Reconciler lp' = lp_Reconciler lp"
proof -
  let ?r = "lp_Reconciler lp" and ?d = "corrected c"
  let ?tr = "EGetRayCluster q (Inr c) # correction (lp_Store lp) ?r c"
  let ?lp = "fold perform ?tr (picked q lp)"
  have key: "cluster_key ?d = q" "cluster_key (AddFinalizer oAuthFinalizer c) = q"
    "cluster_key (RemoveFinalizer oAuthFinalizer c) = q" and sound: "sound_cluster_at q ?d"
    using assms(4) corrected_facts(2) [OF assms(4)]
    by (auto simp: sound_cluster_at_def cluster_key_def AddFinalizer_def RemoveFinalizer_def
        set_finalizers_def)
  note facts = smooth_facts [OF assms(6) corrected_facts(1)]
  have answer: "AddFinalizer oAuthFinalizer c = ?d" if "IsZero (om_DeletionTimestamp (rc_Meta c))"
    using that assms(5) by (simp add: corrected_def)
  have answer': "RemoveFinalizer oAuthFinalizer c = ?d" if "\<not> IsZero (om_DeletionTimestamp (rc_Meta c))"
    using that assms(5) by (simp add: corrected_def)
  have "answers honest (picked q lp) ?tr"
    using assms(3,4) sound key
    by (auto simp: picked_def correction_def honest_def answer answer' recluster_def
        intro!: answers_undisturbed facts smooth_undisturbed)
  from honest_server.run_path [OF assms(1,2) correction_Reconcile [OF assms(6,5)] this]
  have "(operator_step honest)\<^sup>*\<^sup>* lp ?lp" .
  moreover have "lp_Worker ?lp = None" using assms(1) by (simp add: picked_def)
  moreover have "q \<in> lp_Pending ?lp \<and> lp_Clusters ?lp q = Some ?d \<and> lp_Reconciler ?lp = ?r"
    using key by (auto simp: correction_def fold_perform_state [OF facts] picked_def
        intro!: fold_perform_pending)
  ultimately show ?thesis by blast
qed

text \<open>
  A worker that is busy can end what it is at, whatever that is: when the server refuses every further
  call, nothing changes any more, and the program, which does not panic, returns.
\<close>

definition refusal :: error where
  "refusal = StatusOther ''refused''"

text \<open>A program that can end without a change of the loop.\<close>

definition can_end :: "Loop \<Rightarrow> 'a prog \<Rightarrow> bool" where
  "can_end lp p \<longleftrightarrow> (\<exists>tr out. runs p tr out \<and> answers honest lp tr \<and> fold perform tr lp = lp)"

lemma can_end_now [simp]: "can_end lp (Ret x)" "can_end lp (Panic e)"
  unfolding can_end_def by (rule exI [of _ "[]"]; simp)+

lemma can_end_step:
  assumes "can_end lp p'" and "resume p ev = Some p'" and "honest lp ev" and "perform ev lp = lp"
  shows "can_end lp p"
proof -
  obtain tr out where "runs p' tr out" "answers honest lp tr" "fold perform tr lp = lp"
    using assms(1) unfolding can_end_def by blast
  with assms(2-) show ?thesis
    unfolding can_end_def by (intro exI [of _ "ev # tr"] exI [of _ out]) (simp add: runs_Cons)
qed

lemma every_program_can_end: "can_end lp p"
proof (induction p)
  case (GetRayCluster a k)
  then have "can_end lp (k (Inl refusal))" by simp
  then show ?case by (rule can_end_step [where ev = "EGetRayCluster a (Inl refusal)"]) (simp_all add: refusal_def honest_def split: option.split ApplyConfig.split)
next
  case (UpdateRayCluster a k)
  then have "can_end lp (k (Inl refusal))" by simp
  then show ?case by (rule can_end_step [where ev = "EUpdateRayCluster a (Inl refusal)"]) (simp_all add: refusal_def honest_def split: option.split ApplyConfig.split)
next
  case (DeleteClusterRoleBinding a b k)
  then have "can_end lp (k (Some refusal))" by simp
  then show ?case by (rule can_end_step [where ev = "EDeleteClusterRoleBinding a b (Some refusal)"]) (simp_all add: refusal_def honest_def split: option.split ApplyConfig.split)
next
  case (GetSecret a b k)
  then have "can_end lp (k (Inl refusal))" by simp
  then show ?case by (rule can_end_step [where ev = "EGetSecret a b (Inl refusal)"]) (simp_all add: refusal_def honest_def split: option.split ApplyConfig.split)
next
  case (ApplyObject a b c k)
  then have "can_end lp (k (Some refusal))" by simp
  then show ?case by (rule can_end_step [where ev = "EApplyObject a b c (Some refusal)"]) (simp_all add: refusal_def honest_def split: option.split ApplyConfig.split)
next
  case (GetServiceAccount a b k)
  then have "can_end lp (k (Inl refusal))" by simp
  then show ?case by (rule can_end_step [where ev = "EGetServiceAccount a b (Inl refusal)"]) (simp_all add: refusal_def honest_def split: option.split ApplyConfig.split)
next
  case (ListPods a b k)
  then have "can_end lp (k (Inl refusal))" by simp
  then show ?case by (rule can_end_step [where ev = "EListPods a b (Inl refusal)"]) (simp_all add: refusal_def honest_def split: option.split ApplyConfig.split)
next
  case (DeletePod a b k)
  then have "can_end lp (k (Some refusal))" by simp
  then show ?case by (rule can_end_step [where ev = "EDeletePod a b (Some refusal)"]) (simp_all add: refusal_def honest_def split: option.split ApplyConfig.split)
next
  case (GetDSCInitialization a k)
  then have "can_end lp (k (Inl refusal))" by simp
  then show ?case by (rule can_end_step [where ev = "EGetDSCInitialization a (Inl refusal)"]) (simp_all add: refusal_def honest_def split: option.split ApplyConfig.split)
next
  case (RandInt63 k)
  then have "can_end lp (k (0))" by simp
  then show ?case by (rule can_end_step [where ev = "ERandInt63 0"]) (simp_all add: refusal_def honest_def split: option.split ApplyConfig.split)
next
  case (Now k)
  then have "can_end lp (k (some_time))" by simp
  then show ?case by (rule can_end_step [where ev = "ENow some_time"]) (simp_all add: refusal_def honest_def split: option.split ApplyConfig.split)
next
  case (GenerateKey a k)
  then have "can_end lp (k (Inl refusal))" by simp
  then show ?case by (rule can_end_step [where ev = "EGenerateKey a (Inl refusal)"]) (simp_all add: refusal_def honest_def split: option.split ApplyConfig.split)
next
  case (CreateCertificate a b k)
  then have "can_end lp (k (Inl refusal))" by simp
  then show ?case by (rule can_end_step [where ev = "ECreateCertificate a b (Inl refusal)"]) (simp_all add: refusal_def honest_def split: option.split ApplyConfig.split)
qed simp_all

lemma worker_can_end:
  assumes "loop_invariant lp" and "configured (lp_Reconciler lp)"
  shows "\<exists>lp'. (operator_step honest)\<^sup>*\<^sup>* lp lp' \<and> lp_Worker lp' = None \<and> lp_Clusters lp' = lp_Clusters lp \<and>
    lp_Reconciler lp' = lp_Reconciler lp"
proof (cases "lp_Worker lp")
  case (Some w)
  let ?at = "\<lambda>calls p. at_work (wk_Request w) calls p lp"
  obtain tr out where tr: "runs (wk_Rest w) tr out" "answers honest lp tr" "fold perform tr lp = lp"
    using every_program_can_end unfolding can_end_def by blast
  have "runs (Reconcile (lp_Reconciler lp) (wk_Request w)) (wk_Calls w @ tr) out"
    using loop_invariantD(2) [OF assms(1) Some] tr(1) unfolding underway_def by blast
  moreover obtain cfg where "rec_Config (lp_Reconciler lp) = Some cfg"
    using assms(2) unfolding configured_def by blast
  ultimately have "\<exists>x. out = Returned x" using never_panics alwaysD by blast
  then obtain res err where out: "out = Returned (res, err)" by auto
  let ?ended = "?at (wk_Calls w @ tr) (Ret (res, err))"
  let ?lp = "?ended\<lparr>lp_Worker := None, lp_Pending :=
    (if err = None \<and> res = emptyResult then {} else {wk_Request w}) \<union> lp_Pending ?ended\<rparr>"
  have at: "?at (wk_Calls w) (wk_Rest w) = lp" using Some by (simp add: at_work_def)
  have "(operator_step honest)\<^sup>*\<^sup>* lp ?ended"
    using honest_server.calls_path [OF tr(1) [unfolded out] tr(2), of "wk_Request w" "wk_Calls w"]
    unfolding at tr(3) .
  moreover have "operator_step honest ?ended ?lp"
    using operator_step.Finish [of ?ended "\<lparr>wk_Request = wk_Request w, wk_Calls = wk_Calls w @ tr,
      wk_Rest = Ret (res, err)\<rparr>" res err] by (simp add: at_work_def cong: if_cong split del: if_split)
  ultimately have "(operator_step honest)\<^sup>*\<^sup>* lp ?lp" by (rule rtranclp.rtrancl_into_rtrancl)
  then show ?thesis by (rule exI [of _ ?lp, OF conjI]) (simp add: at_work_def)
qed auto

text \<open>
  From every reachable state the operator can bring a cluster to rest by steps of its own: the worker ends
  what it is at, corrects the finalizer if there is need, and reconciles the cluster at most twice, as the
  first reconciliation notifies itself.
\<close>

lemma every_cluster_can_come_to_rest:
  assumes "loop_invariant lp" and "lp_Clusters lp q = Some c" and "configured (lp_Reconciler lp)"
  shows "\<exists>lp'. (operator_step honest)\<^sup>*\<^sup>* lp lp' \<and> lp_Reconciler lp' = lp_Reconciler lp \<and>
    lp_Clusters lp' q = Some (corrected c) \<and> \<not> waiting lp' q"
proof -
  obtain lp0 where lp0: "(operator_step honest)\<^sup>*\<^sup>* lp lp0" "lp_Worker lp0 = None" "lp_Clusters lp0 q = Some c"
    "lp_Reconciler lp0 = lp_Reconciler lp"
    using worker_can_end [OF assms(1,3)] assms(2) by metis
  have inv: "loop_invariant lp0"
    using lp0(1) assms(1) by (induction rule: rtranclp_induct) (blast intro: invariant_operator honest_server.step_told)+
  have sound: "sound_cluster_at q c" using assms(1,2) loop_invariantD(1) sound_clustersD by metis
  have "\<exists>lp'. (operator_step honest)\<^sup>*\<^sup>* lp0 lp' \<and> lp_Reconciler lp' = lp_Reconciler lp \<and>
      lp_Clusters lp' q = Some (corrected c) \<and> \<not> waiting lp' q"
  proof (cases "q \<in> lp_Pending lp0")
    case False
    then have "\<not> waiting lp0 q" using lp0(2) by (simp add: waiting_def)
    with loop_invariantD(3) [OF inv lp0(3)] have "corrected c = c"
      by (simp add: served_def corrected_def)
    with lp0(3,4) \<open>\<not> waiting lp0 q\<close> show ?thesis by (intro exI [of _ lp0]) simp
  next
    case True
    have configured: "configured (lp_Reconciler lp0)" using assms(3) lp0(4) by simp
    have "\<exists>lp1. (operator_step honest)\<^sup>*\<^sup>* lp0 lp1 \<and> lp_Worker lp1 = None \<and> q \<in> lp_Pending lp1 \<and>
        lp_Clusters lp1 q = Some (corrected c) \<and> lp_Reconciler lp1 = lp_Reconciler lp0"
    proof (cases "finalized c")
      case True
      then have "corrected c = c" by (simp add: corrected_def)
      with lp0 \<open>q \<in> lp_Pending lp0\<close> show ?thesis by (intro exI [of _ lp0]) simp
    qed (rule gets_corrected [OF lp0(2) True lp0(3) sound _ configured])
    then obtain lp1 where lp1: "(operator_step honest)\<^sup>*\<^sup>* lp0 lp1" "lp_Worker lp1 = None" "q \<in> lp_Pending lp1"
        "lp_Clusters lp1 q = Some (corrected c)" "lp_Reconciler lp1 = lp_Reconciler lp0" by blast
    have "configured (lp_Reconciler lp1)" using configured lp1(5) by simp
    from comes_to_rest [OF lp1(2-4) corrected_facts(2) [OF sound] corrected_facts(1) this]
    obtain lp2 where lp2: "(operator_step honest)\<^sup>*\<^sup>* lp1 lp2" "lp_Clusters lp2 = lp_Clusters lp1"
      "lp_Reconciler lp2 = lp_Reconciler lp1" "\<not> waiting lp2 q" by blast
    have "(operator_step honest)\<^sup>*\<^sup>* lp0 lp2" by (rule rtranclp_trans [OF lp1(1) lp2(1)])
    moreover have "lp_Reconciler lp2 = lp_Reconciler lp" "lp_Clusters lp2 q = Some (corrected c)"
      using lp2(2,3) lp1(4,5) lp0(4) by simp_all
    ultimately show ?thesis using lp2(4) by blast
  qed
  with rtranclp_trans [OF lp0(1)] show ?thesis by blast
qed

end
