(* ===== verification/LoopProps.thy ===== *)
theory LoopProps
  imports Progress
begin

text \<open>
  The properties of the control loop: clusters at rest are served, every cluster can be brought to rest,
  and two clusters that share a ClusterRoleBinding never both are.
\<close>

text \<open>
  C2 Eventual consistency, as an invariant of the loop. Whatever other clients do between any two calls of
  the reconciler, whatever the server refuses, and however often the process is restarted: for a cluster
  that is neither enqueued nor being worked on, every specified object is in force except perhaps the two
  network policies, whose refused applies are not retried; and the cluster holds the operator's finalizer
  exactly if it is not being deleted.
\<close>

theorem clusters_at_rest_are_served:
  assumes "reachable lp" and "lp_Clusters lp q = Some c" and "\<not> waiting lp q"
  shows "(IsZero (om_DeletionTimestamp (rc_Meta c)) \<longleftrightarrow> ContainsFinalizer c oAuthFinalizer) \<and>
    (\<exists>ca nss. holds (lp_Store lp) (cluster_objects (lp_Reconciler lp) c ca nss))"
  using loop_invariantD(3) [OF reachable_invariant [OF assms(1)] assms(2,3)]
  by (simp add: served_def finalized_def)

text \<open>A loop that has come up with a cluster whose objects are in force, and has reconciled it once.\<close>

definition a_loop :: Loop where
  "a_loop = booted (a_reconciler False False False) (configurations Map.empty vanilla_trace)
     [a_request \<mapsto> a_cluster [oAuthFinalizer] None]"

lemma a_loop_facts [simp]:
  "lp_Worker a_loop = None" "lp_Pending a_loop = {a_request}"
  "lp_Clusters a_loop = [a_request \<mapsto> a_cluster [oAuthFinalizer] None]"
  "lp_Reconciler a_loop = a_reconciler False False False"
  "lp_Store a_loop = configurations Map.empty vanilla_trace"
  by (simp_all add: a_loop_def booted_def)

lemma a_loop_sound: "sound_cluster_at a_request (a_cluster [oAuthFinalizer] None)"
  by (simp add: sound_cluster_at_def cluster_key_def a_request_def typed_cluster_def groupOf_def inputs)

lemma a_loop_reachable: "reachable a_loop"
  unfolding a_loop_def
  by (rule reachable.boot) (use a_loop_sound in \<open>simp add: sound_clusters_def\<close>)

lemma reachable_path: "loop_step\<^sup>*\<^sup>* lp lp' \<Longrightarrow> reachable lp \<Longrightarrow> reachable lp'"
  by (induction rule: rtranclp_induct) (auto intro: reachable.step)

lemma vanilla_calls:
  "list_all updates_nothing vanilla_trace" "list_all deletes_nothing vanilla_trace"
  by (simp_all add: vanilla_trace_def ingress_objects_def policy_objects_def Let_def split: go.split)

lemma vanilla_in_force:
  "obj \<in> set (applied vanilla_trace) \<Longrightarrow> configurations Map.empty vanilla_trace (key_of obj) = Some obj"
proof (rule applied_in_force [OF vanilla_calls(2)])
  have "maintained (a_cluster [oAuthFinalizer] None)" by (simp add: maintained_def)
  from successful_run [OF vanilla_run [unfolded finished_def] this]
  show "distinct (map key_of (map snd (attempts vanilla_trace)))" using distinct_objects by metis
qed

lemma a_loop_rests: "(operator_step told)\<^sup>*\<^sup>* a_loop (picked a_request a_loop)"
proof -
  have "answers told (picked a_request a_loop)
      (EGetRayCluster a_request (Inr (a_cluster [oAuthFinalizer] None)) # vanilla_trace)"
    using a_loop_sound by (simp add: picked_def answers_updates_nothing vanilla_calls)
  from any_server.run_path [OF _ _ _ this] vanilla_run
  have "(operator_step told)\<^sup>*\<^sup>* a_loop (fold perform vanilla_trace (picked a_request a_loop))" by simp
  moreover have "fold perform vanilla_trace (picked a_request a_loop) = picked a_request a_loop"
    by (rule fold_perform_same [OF vanilla_calls]) (simp add: picked_def vanilla_in_force)
  ultimately show ?thesis by simp
qed

theorem clusters_at_rest_are_served_witness:
  "\<exists>ca nss. holds (lp_Store (picked a_request a_loop))
     (cluster_objects (a_reconciler False False False) (a_cluster [oAuthFinalizer] None) ca nss)"
proof -
  have "reachable (picked a_request a_loop)"
    by (rule reachable_path [OF operator_path [OF a_loop_rests] a_loop_reachable])
  from clusters_at_rest_are_served [OF this, of a_request "a_cluster [oAuthFinalizer] None"]
  show ?thesis by (simp add: picked_def waiting_def)
qed

text \<open>
  C6 The reconciler does not keep itself busy. The objects a first reconciliation changes may enqueue its
  own cluster again; but every further successful one that is answered with what the first has left, and
  that has no network policy accepted the first did not, is a path of the worker that changes nothing in
  the loop: it generates no key, applies only what is in force, enqueues nothing, and ends with the
  request consumed.
\<close>

theorem two_reconciliations_suffice:
  assumes "lp_Worker lp = None" and "q \<in> lp_Pending lp" and "lp_Clusters lp q = Some c"
    and "sound_cluster_at q c" and "finalized c"
    and "runs (Reconcile (lp_Reconciler lp) q) (EGetRayCluster q (Inr c) # tr) (Returned finished)"
    and "runs (Reconcile (lp_Reconciler lp) q) (EGetRayCluster q (Inr c) # tr') (Returned finished)"
    and "undisturbed (configurations (lp_Store lp) tr) tr'"
    and "set (filter is_network_policy (applied tr')) \<subseteq> set (applied tr)"
    and "lp1 = fold perform tr (picked q lp)" and "lp2 = fold perform tr' (picked q lp1)"
  shows "(operator_step told)\<^sup>*\<^sup>* lp lp1 \<and> lp_Store lp1 = configurations (lp_Store lp) tr \<and>
    (q \<in> lp_Pending lp1 \<longrightarrow> (operator_step told)\<^sup>*\<^sup>* lp1 lp2) \<and>
    lp2 = lp1\<lparr>lp_Pending := lp_Pending lp1 - {q}\<rparr> \<and> \<not> waiting lp2 q \<and>
    list_all generates_no_key tr' \<and>
    list_all (\<lambda>obj. lp_Store lp1 (key_of obj) = Some obj) (applied tr')"
proof -
  note facts = finalized_run_facts [OF assms(6) [unfolded finished_def] assms(5)]
  have state: "lp_Worker lp1 = None" "lp_Clusters lp1 q = Some c" "lp_Reconciler lp1 = lp_Reconciler lp"
    "lp_Store lp1 = configurations (lp_Store lp) tr"
    using facts assms(1,3) unfolding assms(10) by (simp_all add: fold_perform_state picked_def)
  have first: "(operator_step told)\<^sup>*\<^sup>* lp lp1" unfolding assms(10) by (rule finalized_path(1) [OF assms(1-6)])
  have second: "(operator_step told)\<^sup>*\<^sup>* lp1 lp2" if "q \<in> lp_Pending lp1"
    using finalized_path(1) [OF state(1) that state(2) assms(4,5)] assms(7) state(3) unfolding assms(11)
    by metis
  have lp2: "lp2 = picked q lp1"
    unfolding assms(11) assms(10) by (rule second_run_consumes [OF assms(6,7,5,8,9)])
  have rest: "\<not> waiting lp2 q" using state(1) by (simp add: lp2 waiting_def picked_def)
  have key: "list_all generates_no_key tr'"
    using second_run_applies [OF assms(6) [unfolded finished_def] finalized_maintained [OF assms(5)] _
        assms(5) assms(7) [unfolded finished_def] assms(8)] finalized_adopted [OF assms(5)] by metis
  have "list_all (\<lambda>obj. lp_Store lp1 (key_of obj) = Some obj) (applied tr')"
    using second_run_in_force [OF assms(6,7) [unfolded finished_def] assms(5,8,9)]
    unfolding list_all_iff state(4) by blast
  with first second lp2 rest key state(4) show ?thesis unfolding picked_def by blast
qed

theorem two_reconciliations_suffice_witness:
  "let lp = booted (a_reconciler False True False) Map.empty
         [a_request \<mapsto> a_cluster [oAuthFinalizer] None];
       lp1 = fold perform secured_trace (picked a_request lp)
   in (operator_step told)\<^sup>*\<^sup>* lp lp1 \<and>
      fold perform secured_trace (picked a_request lp1) = lp1\<lparr>lp_Pending := lp_Pending lp1 - {a_request}\<rparr> \<and>
      list_all generates_no_key secured_trace"
proof -
  let ?lp = "booted (a_reconciler False True False) Map.empty
      [a_request \<mapsto> a_cluster [oAuthFinalizer] None]"
  have lp: "lp_Worker ?lp = None" "a_request \<in> lp_Pending ?lp"
    "lp_Clusters ?lp a_request = Some (a_cluster [oAuthFinalizer] None)"
    by (simp_all add: booted_def)
  have run: "runs (Reconcile (lp_Reconciler ?lp) a_request)
      (EGetRayCluster a_request (Inr (a_cluster [oAuthFinalizer] None)) # secured_trace)
      (Returned finished)"
    using secured_run by (simp add: booted_def)
  have answers: "undisturbed (configurations (lp_Store ?lp) secured_trace) secured_trace"
    using secured_undisturbed by (simp add: booted_def)
  have "finalized (a_cluster [oAuthFinalizer] None)" by (simp add: finalized_def)
  from two_reconciliations_suffice [OF lp a_loop_sound this run run answers _ refl refl]
  show ?thesis by (auto simp: Let_def)
qed

text \<open>The steps of the loop keep the configuration and the platform.\<close>

lemma perform_reconciler: "lp_Reconciler (perform ev lp) = lp_Reconciler lp"
  by (cases "(ev, lp)" rule: perform.cases) (simp_all add: recluster_def restore_def)

lemma operator_keeps_reconciler: "operator_step answer lp lp' \<Longrightarrow> lp_Reconciler lp' = lp_Reconciler lp"
  by (induction rule: operator_step.induct) (simp_all add: perform_reconciler)

lemma step_keeps_configuration:
  "loop_step lp lp' \<Longrightarrow>
   rec_Config (lp_Reconciler lp') = rec_Config (lp_Reconciler lp) \<and>
   IsOpenShift (lp_Reconciler lp') = IsOpenShift (lp_Reconciler lp)"
  by (induction rule: loop_step.induct) (auto simp: SetupWithManager_Inr operator_keeps_reconciler)

lemma path_keeps_configuration:
  "loop_step\<^sup>*\<^sup>* lp lp' \<Longrightarrow>
   rec_Config (lp_Reconciler lp') = rec_Config (lp_Reconciler lp) \<and>
   IsOpenShift (lp_Reconciler lp') = IsOpenShift (lp_Reconciler lp)"
  by (induction rule: rtranclp_induct) (use step_keeps_configuration in \<open>auto\<close>)

lemma holdsD:
  "holds s objs \<Longrightarrow> obj \<in> set objs \<Longrightarrow> \<not> is_network_policy obj \<Longrightarrow> s (key_of obj) = Some obj"
  unfolding holds_def list_all_iff by blast

lemma binding_in_force:
  assumes "reachable lp" and "lp_Clusters lp q = Some c" and "\<not> waiting lp q"
    and "isRayDashboardOAuthEnabled (rec_Config (lp_Reconciler lp))" and "IsOpenShift (lp_Reconciler lp)"
    and "\<not> isRayClusterSuspended c"
  shows "lp_Store lp (KClusterRoleBinding, None, crbNameFromCluster c) =
    Some (AClusterRoleBinding (desiredOAuthClusterRoleBinding c))"
proof -
  let ?crb = "AClusterRoleBinding (desiredOAuthClusterRoleBinding c)"
  from loop_invariantD(3) [OF reachable_invariant [OF assms(1)] assms(2,3)] obtain ca nss
    where "holds (lp_Store lp) (cluster_objects (lp_Reconciler lp) c ca nss)"
    unfolding served_def by blast
  moreover have "?crb \<in> set (cluster_objects (lp_Reconciler lp) c ca nss)"
    using assms(4-6) by (simp add: cluster_objects_def exposure_objects_def oauth_objects_def)
  ultimately have "lp_Store lp (key_of ?crb) = Some ?crb" by (rule holdsD) simp
  then show ?thesis by (simp add: key_of_def)
qed

text \<open>
  C23 Two unsuspended clusters whose names give the same ClusterRoleBinding never both come to rest on OpenShift with
  the dashboard behind OAuth: the reconciliation of either overwrites the binding of the other, which
  enqueues that one again, for as long as both exist.
\<close>

theorem colliding_clusters_never_rest:
  assumes "reachable lp" and "lp_Clusters lp q = Some c" and "lp_Clusters lp q' = Some d" and "q \<noteq> q'"
    and "crbNameFromCluster c = crbNameFromCluster d"
    and "isRayDashboardOAuthEnabled (rec_Config (lp_Reconciler lp))" and "IsOpenShift (lp_Reconciler lp)"
    and "\<not> isRayClusterSuspended c" and "\<not> isRayClusterSuspended d"
  shows "waiting lp q \<or> waiting lp q'"
proof (rule ccontr)
  note inv = reachable_invariant [OF assms(1)]
  assume rest: "\<not> (waiting lp q \<or> waiting lp q')"
  have "Some (AClusterRoleBinding (desiredOAuthClusterRoleBinding c)) =
      Some (AClusterRoleBinding (desiredOAuthClusterRoleBinding d))"
    using binding_in_force [OF assms(1,2) _ assms(6-8)] binding_in_force [OF assms(1,3) _ assms(6,7,9)]
      rest unfolding assms(5) by metis
  then have "desiredOAuthClusterRoleBinding c = desiredOAuthClusterRoleBinding d"
    by (simp only: option.inject ApplyConfig.inject)
  then have "[\<lparr>req_Name = Name c, req_Namespace = Namespace c\<rparr>] =
      [\<lparr>req_Name = Name d, req_Namespace = Namespace d\<rparr>]"
    by (metis crb_watch_roundtrip)
  then have "cluster_key c = cluster_key d" by (simp add: cluster_key_def)
  moreover have "sound_cluster_at q c" "sound_cluster_at q' d"
    using loop_invariantD(1) [OF inv] assms(2,3) by (blast intro: sound_clustersD)+
  ultimately show False using assms(4) by (simp add: sound_cluster_at_def)
qed

text \<open>Two such clusters in one loop: when the first is at rest, the second waits.\<close>

definition rival :: "string \<Rightarrow> string \<Rightarrow> RayCluster" where
  "rival name ns =
     (let c = a_cluster [oAuthFinalizer] None in
      c\<lparr>rc_Meta := (rc_Meta c)\<lparr>om_Name := name, om_Namespace := ns,
         om_Annotations := [versionAnnotation \<mapsto> ''v1'']\<rparr>\<rparr>)"

definition rivals :: Loop where
  "rivals = booted (a_reconciler True False True) Map.empty
     [(''c'', ''a-b'') \<mapsto> rival ''a-b'' ''c'', (''b-c'', ''a'') \<mapsto> rival ''a'' ''b-c'']"

lemma rival_facts [simp]:
  "Name (rival name ns) = name" "Namespace (rival name ns) = ns" "\<not> shouldUseOldName (rival name ns)"
  "finalized (rival name ns)" "isRayClusterSuspended (rival name ns) = False"
  "sound_cluster_at (ns, name) (rival name ns)"
  by (simp_all add: rival_def inputs finalized_def ContainsFinalizer_def shouldUseOldName_def
      isRayClusterSuspended_def sound_cluster_at_def cluster_key_def typed_cluster_def groupOf_def Let_def)

theorem colliding_clusters_never_rest_witness:
  "\<exists>lp. loop_step\<^sup>*\<^sup>* rivals lp \<and> \<not> waiting lp (''c'', ''a-b'') \<and> waiting lp (''b-c'', ''a'')"
proof -
  have "reachable rivals"
    unfolding rivals_def by (rule reachable.boot) (auto simp: sound_clusters_def)
  moreover have "\<exists>lp. (operator_step honest)\<^sup>*\<^sup>* rivals lp \<and> lp_Clusters lp = lp_Clusters rivals \<and>
      lp_Reconciler lp = lp_Reconciler rivals \<and> \<not> waiting lp (''c'', ''a-b'')"
    by (rule comes_to_rest [where c = "rival ''a-b'' ''c''"])
      (simp_all add: rivals_def booted_def configured_def)
  ultimately obtain lp where lp: "loop_step\<^sup>*\<^sup>* rivals lp" "lp_Clusters lp = lp_Clusters rivals"
    "lp_Reconciler lp = lp_Reconciler rivals" "\<not> waiting lp (''c'', ''a-b'')" "reachable lp"
    using reachable_path honest_server.loop_path by blast
  have "waiting lp (''c'', ''a-b'') \<or> waiting lp (''b-c'', ''a'')"
    by (rule colliding_clusters_never_rest [OF lp(5), where c = "rival ''a-b'' ''c''"
          and d = "rival ''a'' ''b-c''"])
      (simp_all add: lp(2,3) rivals_def booted_def crb_name_eq)
  with lp show ?thesis by blast
qed

text \<open>
  C33 A cluster that another finalizer keeps alive while it is being deleted comes to rest with its
  ClusterRoleBinding in force, though the operator has given up its own finalizer. When the cluster goes
  at last, the binding stays, and no reconciliation of the missing cluster touches anything.
\<close>

theorem terminating_cluster_leaks_binding:
  assumes "reachable lp" and "lp_Clusters lp q = Some c" and "\<not> waiting lp q"
    and "\<not> IsZero (om_DeletionTimestamp (rc_Meta c))"
    and "isRayDashboardOAuthEnabled (rec_Config (lp_Reconciler lp))" and "IsOpenShift (lp_Reconciler lp)"
    and "\<not> isRayClusterSuspended c"
  shows "\<not> ContainsFinalizer c oAuthFinalizer \<and>
    lp_Store (recluster q None lp) (KClusterRoleBinding, None, crbNameFromCluster c) =
      Some (AClusterRoleBinding (desiredOAuthClusterRoleBinding c)) \<and>
    (\<forall>err tr out. runs (Reconcile (lp_Reconciler lp) q) (EGetRayCluster q (Inl err) # tr) out \<longrightarrow> tr = [])"
proof -
  have "finalized c"
    using loop_invariantD(3) [OF reachable_invariant [OF assms(1)] assms(2,3)] by (simp add: served_def)
  then show ?thesis
    using binding_in_force [OF assms(1-3,5-7)] assms(4) by (simp add: finalized_def runs_Reconcile)
qed

theorem terminating_cluster_leaks_binding_witness:
  "\<exists>lp. loop_step\<^sup>*\<^sup>* (booted (a_reconciler True False True) Map.empty
      [a_request \<mapsto> a_cluster [] (Some 1)]) lp \<and>
    lp_Store (recluster a_request None lp)
      (KClusterRoleBinding, None, crbNameFromCluster (a_cluster [] (Some 1))) \<noteq> None"
proof -
  let ?c = "a_cluster [] (Some 1)" and ?r = "a_reconciler True False True"
  let ?lp = "booted ?r Map.empty [a_request \<mapsto> ?c]"
  have sound: "sound_cluster_at a_request ?c"
    by (simp add: sound_cluster_at_def cluster_key_def a_request_def typed_cluster_def groupOf_def
        a_cluster_def)
  then have "sound_clusters [a_request \<mapsto> ?c]" by (simp add: sound_clusters_def)
  then have "reachable ?lp" by (rule reachable.boot)
  moreover have "\<exists>lp. (operator_step honest)\<^sup>*\<^sup>* ?lp lp \<and> lp_Clusters lp = lp_Clusters ?lp \<and>
      lp_Reconciler lp = lp_Reconciler ?lp \<and> \<not> waiting lp a_request"
    using sound by (intro comes_to_rest [where c = ?c])
      (simp_all add: booted_def configured_def finalized_def)
  ultimately obtain lp where lp: "loop_step\<^sup>*\<^sup>* ?lp lp" "lp_Clusters lp = lp_Clusters ?lp"
    "lp_Reconciler lp = lp_Reconciler ?lp" "\<not> waiting lp a_request" "reachable lp"
    using reachable_path honest_server.loop_path by blast
  then have "lp_Clusters lp a_request = Some ?c" "lp_Reconciler lp = ?r" by (simp_all add: booted_def)
  note lp = lp(1) this lp(4,5)
  have "lp_Store (recluster a_request None lp) (KClusterRoleBinding, None, crbNameFromCluster ?c) =
      Some (AClusterRoleBinding (desiredOAuthClusterRoleBinding ?c))"
    using terminating_cluster_leaks_binding [OF lp(5,2,4)] by (simp add: lp(3))
  with lp(1) show ?thesis by blast
qed

end
