(* ===== verification/Schemes.thy ===== *)
theory Schemes
  imports Wiring
begin

text \<open>
  The types the manager knows: what \<^verbatim>\<open>init\<close> of \<^verbatim>\<open>main.go\<close> registers in the scheme, and that it covers every
  type the started controller reads, writes, caches and watches through the manager's client. The typed
  clients of the reconciler (\<^verbatim>\<open>kubeClient\<close> and \<^verbatim>\<open>routeClient\<close>) carry schemes of their own.
\<close>

subsection \<open>Registration\<close>

datatype api_package = ClientGoScheme | RayV1 | RouteV1 | DSCInitializationV1 | AppWrapperV1beta2

definition schemeBuilders :: "api_package list" where
  "schemeBuilders = [ClientGoScheme, RayV1, RouteV1, DSCInitializationV1, AppWrapperV1beta2]"

text \<open>\<open>add\<close> is what \<^verbatim>\<open>AddToScheme\<close> of a package answers; \<^verbatim>\<open>utilruntime.Must\<close> panics with an error.\<close>

definition Must :: "error option \<Rightarrow> unit go" where
  "Must err = (case err of None \<Rightarrow> Ok () | Some e \<Rightarrow> Panics (PanicCall (Error e)))"

definition init_scheme :: "(api_package \<Rightarrow> error option) \<Rightarrow> api_package list go" where
  "init_scheme add =
     for_each (\<lambda>p scheme. go_bind (Must (add p)) (\<lambda>_. Ok (scheme @ [p]))) schemeBuilders []"

lemma init_scheme_Ok:
  "init_scheme add = Ok scheme \<longleftrightarrow> list_all (\<lambda>p. add p = None) schemeBuilders \<and> scheme = schemeBuilders"
  by (auto simp: init_scheme_def schemeBuilders_def go_bind_Ok Must_def split: option.splits)

subsection \<open>The process\<close>

text \<open>The \<^verbatim>\<open>config\<close> flag: the value given on the command line, or its default.\<close>

definition configMapFlag :: "strmap \<Rightarrow> string" where
  "configMapFlag flags = Deref (flags ''config'') ''codeflare-operator-config''"

definition operator_process ::
    "(api_package \<Rightarrow> error option) \<Rightarrow> strmap \<Rightarrow> externals \<Rightarrow> (api_package list \<times> started) process" where
  "operator_process add flags x =
     then_do (crash_on_panic (init_scheme add)) (\<lambda>scheme.
     then_do (main_setup x (configMapFlag flags)) (\<lambda>s. Continue (scheme, s)))"

subsection \<open>What the manager's client is used for\<close>

fun package_of :: "kind \<Rightarrow> api_package" where
  "package_of KRoute = RouteV1"
| "package_of _ = ClientGoScheme"

text \<open>The calls of the reconciler that go through the manager's client, with the package of their type.\<close>

fun typed_call :: "event \<Rightarrow> api_package option" where
  "typed_call (EGetRayCluster _ _) = Some RayV1"
| "typed_call (EUpdateRayCluster _ _) = Some RayV1"
| "typed_call (EDeleteClusterRoleBinding _ _ _) = Some (package_of KClusterRoleBinding)"
| "typed_call (EGetDSCInitialization _ _) = Some DSCInitializationV1"
| "typed_call _ = None"

definition known :: "api_package list \<Rightarrow> event \<Rightarrow> bool" where
  "known scheme ev \<longleftrightarrow> (case typed_call ev of None \<Rightarrow> True | Some p \<Rightarrow> p \<in> set scheme)"

text \<open>
  A process that has got to the start of its manager knows every type it goes on to use: those its cache
  filters, those its controller owns and watches, and those of every call any run of the reconciler makes
  through the manager's client.
\<close>

lemma scheme_covers_all_types:
  assumes "operator_process add flags x = Continue (scheme, s)"
    and "setupRayClusterController mg (st_Config s) (st_IsOpenShift s) version = Ok (Inr (w, b))"
    and "runs (Reconcile (cb_Reconciler b) req) tr out"
  shows "RayV1 \<in> set scheme \<and>
    package_of ` set (cb_Owns b) \<union> package_of ` fst ` set (cb_Watches b) \<subseteq> set scheme \<and>
    package_of ` fst ` set (cacheByObject (st_Config s) (st_IsOpenShift s)) \<subseteq> set scheme \<and>
    list_all (known scheme) tr"
proof -
  have scheme: "scheme = schemeBuilders"
    using assms(1) by (auto simp: operator_process_def init_scheme_Ok then_do_Continue)
  have all: "package_of k \<in> set schemeBuilders" for k
    by (cases k) (simp_all add: schemeBuilders_def)
  have "known schemeBuilders ev" for ev
    by (cases ev rule: typed_call.cases) (simp_all add: known_def schemeBuilders_def)
  then have "list_all (known schemeBuilders) tr" by (simp add: list_all_iff)
  with all show ?thesis by (auto simp: scheme schemeBuilders_def)
qed

end
