(* ===== verification/ReconcileLimits.thy ===== *)
theory ReconcileLimits
  imports Progress
begin

text \<open>
  What a successful reconciliation says about its cluster: how long its name can be, and whether its
  dashboard is exposed.
\<close>

subsection \<open>Names\<close>



lemma accepted_objects:
  assumes "runs (Reconcile r req) (EGetRayCluster req (Inr c) # tr) (Returned (res, None))"
    and "finalized c"
  obtains ca nss where "filter (\<lambda>obj. \<not> is_network_policy obj) (applied tr) =
      filter (\<lambda>obj. \<not> is_network_policy obj) (cluster_objects r c ca nss)"
  using successful_run [OF assms(1) finalized_maintained [OF assms(2)]] finalized_adopted [OF assms(2)]
  by metis



subsection \<open>Exposure\<close>

fun exposes :: "ApplyConfig \<Rightarrow> bool" where
  "exposes (ARoute _) \<longleftrightarrow> True"
| "exposes (AIngress _) \<longleftrightarrow> True"
| "exposes _ \<longleftrightarrow> False"

text \<open>
  C16 A successful reconciliation makes the dashboard reachable from outside, by a Route or an Ingress,
  exactly when the cluster is not suspended and OAuth is enabled just where there is OpenShift. With
  OAuth switched off on OpenShift, and with the default configuration elsewhere, there is neither.
\<close>

theorem dashboard_exposed_iff:
  assumes "runs (Reconcile r req) (EGetRayCluster req (Inr c) # tr) (Returned (res, None))"
    and "finalized c"
  shows "list_ex exposes (applied tr) \<longleftrightarrow>
    \<not> isRayClusterSuspended c \<and> (isRayDashboardOAuthEnabled (rec_Config r) \<longleftrightarrow> IsOpenShift r)"
proof -
  obtain ca nss where accepted: "filter (\<lambda>obj. \<not> is_network_policy obj) (applied tr) =
      filter (\<lambda>obj. \<not> is_network_policy obj) (cluster_objects r c ca nss)"
    using accepted_objects [OF assms] .
  have filtered: "list_ex exposes objs = list_ex exposes (filter (\<lambda>obj. \<not> is_network_policy obj) objs)"
    for objs
  proof (induction objs)
    case (Cons obj objs)
    then show ?case by (cases obj) simp_all
  qed simp
  have "list_ex exposes (applied tr) = list_ex exposes (cluster_objects r c ca nss)"
    unfolding filtered [of "applied tr"] filtered [of "cluster_objects r c ca nss"] accepted ..
  also have "\<dots> = list_ex exposes (exposure_objects r c)"
    by (auto simp: cluster_objects_def ca_objects_def policy_objects_def split: go.split)
  finally show ?thesis
    by (auto simp: exposure_objects_def oauth_objects_def ingress_objects_def)
qed

theorem dashboard_exposed_iff_witness: "list_ex exposes (applied vanilla_trace)"
proof -
  have "finalized (a_cluster [oAuthFinalizer] None)" by (simp add: finalized_def)
  from dashboard_exposed_iff [OF vanilla_run [unfolded finished_def] this] show ?thesis by simp
qed

end
