(* ===== verification/Permissions.thy ===== *)
theory Permissions
  imports Convergence
begin

text \<open>
  The permission markers of the sources and what the reconciler needs. A marker
  \<^verbatim>\<open>+kubebuilder:rbac\<close> becomes a rule of the operator's cluster role; \<^verbatim>\<open>core\<close> is another name of the
  empty API group. \<open>required\<close> is what the API server asks for each call: an apply both creates and
  patches, and an object read through the manager's cache is listed and watched.
\<close>

subsection \<open>Markers\<close>

record Rule =
  ru_Groups :: "string list"
  ru_Resources :: "string list"
  ru_Verbs :: "string list"

abbreviation rule :: "string \<Rightarrow> string list \<Rightarrow> string list \<Rightarrow> Rule" where
  "rule grp resources verbs \<equiv>
     \<lparr>ru_Groups = [grp], ru_Resources = resources, ru_Verbs = verbs\<rparr>"

definition allVerbs :: "string list" where
  "allVerbs = [''get'', ''list'', ''watch'', ''create'', ''update'', ''patch'', ''delete'']"

text \<open>\<^verbatim>\<open>raycluster_controller.go\<close>; where a marker lists all seven verbs, their order is not kept.\<close>

definition rayClusterMarkers :: "Rule list" where
  "rayClusterMarkers =
     [rule ''ray.io'' [''rayclusters''] allVerbs,
      rule ''ray.io'' [''rayclusters/status''] [''get'', ''update'', ''patch''],
      rule ''ray.io'' [''rayclusters/finalizers''] [''update''],
      rule ''route.openshift.io'' [''routes'', ''routes/custom-host''] allVerbs,
      rule ''networking.k8s.io'' [''ingresses''] allVerbs,
      rule ''core'' [''secrets''] [''get'', ''list'', ''create'', ''patch'', ''delete'', ''get'', ''watch''],
      rule ''core'' [''services''] allVerbs,
      rule ''core'' [''serviceaccounts''] allVerbs,
      rule ''rbac.authorization.k8s.io'' [''clusterrolebindings''] allVerbs,
      rule ''authentication.k8s.io'' [''tokenreviews''] [''create''],
      rule ''authorization.k8s.io'' [''subjectaccessreviews''] [''create''],
      rule ''dscinitialization.opendatahub.io'' [''dscinitializations''] [''get'', ''list'', ''watch''],
      rule ''networking.k8s.io'' [''networkpolicies''] allVerbs]"

text \<open>\<^verbatim>\<open>appwrapper_controller.go\<close> and \<^verbatim>\<open>appwrapper_webhook.go\<close>.\<close>

definition appWrapperMarkers :: "Rule list" where
  "appWrapperMarkers =
     [rule ''workload.codeflare.dev'' [''appwrappers''] allVerbs,
      rule ''workload.codeflare.dev'' [''appwrappers/status''] [''get'', ''update'', ''patch''],
      rule ''workload.codeflare.dev'' [''appwrappers/finalizers''] [''update''],
      rule [] [''events''] [''create'', ''watch'', ''update'', ''patch''],
      rule [] [''pods'', ''services''] allVerbs,
      rule ''apps'' [''deployments'', ''statefulsets''] allVerbs,
      rule ''batch'' [''jobs''] allVerbs,
      rule ''scheduling.sigs.k8s.io'' [''podgroups''] allVerbs,
      rule ''scheduling.x-k8s.io'' [''podgroups''] allVerbs,
      rule ''kubeflow.org'' [''pytorchjobs''] allVerbs,
      rule ''ray.io'' [''rayclusters''] allVerbs,
      rule ''ray.io'' [''rayjobs''] allVerbs,
      rule ''jobset.x-k8s.io'' [''jobsets''] allVerbs,
      rule [] [''nodes''] [''get'', ''list'', ''watch'']]"

definition appWrapperWebhookMarkers :: "Rule list" where
  "appWrapperWebhookMarkers =
     [rule ''authorization.k8s.io'' [''subjectaccessreviews''] [''create''],
      rule ''apiextensions.k8s.io'' [''customresourcedefinitions''] [''list'']]"

text \<open>The three groups of markers of \<^verbatim>\<open>main.go\<close>.\<close>

definition ingressDomainMarkers :: "Rule list" where
  "ingressDomainMarkers = [rule ''config.openshift.io'' [''ingresses''] [''get'']]"

definition certManagementMarkers :: "Rule list" where
  "certManagementMarkers =
     [rule [] [''secrets''] [''get'', ''list'', ''watch'', ''update''],
      rule ''admissionregistration.k8s.io'' [''mutatingwebhookconfigurations'']
        [''get'', ''list'', ''watch'', ''update''],
      rule ''admissionregistration.k8s.io'' [''validatingwebhookconfigurations'']
        [''get'', ''list'', ''watch'', ''update'']]"

definition apiWaitMarkers :: "Rule list" where
  "apiWaitMarkers =
     [rule ''apiextensions.k8s.io'' [''customresourcedefinitions''] [''get'', ''list'', ''watch'']]"

abbreviation operatorRole :: "Rule list" where
  "operatorRole \<equiv> rayClusterMarkers @ appWrapperMarkers @ appWrapperWebhookMarkers
     @ ingressDomainMarkers @ certManagementMarkers @ apiWaitMarkers"

subsection \<open>What a role allows\<close>

text \<open>A permission: an API group, a resource and a verb.\<close>

type_synonym permission = "string \<times> string \<times> string"

definition apiGroup :: "string \<Rightarrow> string" where
  "apiGroup g = (if g = ''core'' then [] else g)"

fun allows :: "Rule list \<Rightarrow> permission \<Rightarrow> bool" where
  "allows rules (grp, resource, verb) =
     list_ex (\<lambda>ru. grp \<in> set (map apiGroup (ru_Groups ru)) \<and> resource \<in> set (ru_Resources ru) \<and>
                   verb \<in> set (ru_Verbs ru)) rules"

lemma allows_append: "allows (rs @ ss) p \<longleftrightarrow> allows rs p \<or> allows ss p"
  by (cases p) simp

subsection \<open>What a call needs\<close>

fun resource_of :: "kind \<Rightarrow> string \<times> string" where
  "resource_of KSecret = ([], ''secrets'')"
| "resource_of KService = ([], ''services'')"
| "resource_of KServiceAccount = ([], ''serviceaccounts'')"
| "resource_of KIngress = (''networking.k8s.io'', ''ingresses'')"
| "resource_of KNetworkPolicy = (''networking.k8s.io'', ''networkpolicies'')"
| "resource_of KClusterRoleBinding = (''rbac.authorization.k8s.io'', ''clusterrolebindings'')"
| "resource_of KRoute = (''route.openshift.io'', ''routes'')"

definition on_resource :: "string \<times> string \<Rightarrow> string list \<Rightarrow> permission list" where
  "on_resource res verbs = map (\<lambda>v. (fst res, snd res, v)) verbs"

text \<open>
  \<open>roleRules\<close> gives the permissions a cluster role grants. Binding a role takes, beside the right to
  write bindings, every permission of the role itself.
\<close>

fun required :: "(string \<Rightarrow> permission list) \<Rightarrow> event \<Rightarrow> permission list" where
  "required roleRules (EGetRayCluster _ _) =
     on_resource (''ray.io'', ''rayclusters'') [''get'', ''list'', ''watch'']"
| "required roleRules (EUpdateRayCluster _ _) = on_resource (''ray.io'', ''rayclusters'') [''update'']"
| "required roleRules (EDeleteClusterRoleBinding _ _ _) =
     on_resource (resource_of KClusterRoleBinding) [''delete'']"
| "required roleRules (EGetSecret _ _ _) = on_resource (resource_of KSecret) [''get'']"
| "required roleRules (EApplyObject _ _ obj _) =
     on_resource (resource_of (kind_of obj)) [''create'', ''patch''] @
     (case obj of AClusterRoleBinding b \<Rightarrow> roleRules (cb_RoleRefName b) | _ \<Rightarrow> [])"
| "required roleRules (EGetServiceAccount _ _ _) = on_resource (resource_of KServiceAccount) [''get'']"
| "required roleRules (EListPods _ _ _) = on_resource ([], ''pods'') [''list'']"
| "required roleRules (EDeletePod _ _ _) = on_resource ([], ''pods'') [''delete'']"
| "required roleRules (EGetDSCInitialization _ _) =
     on_resource (''dscinitialization.opendatahub.io'', ''dscinitializations'')
       [''get'', ''list'', ''watch'']"
| "required roleRules _ = []"

definition permitted :: "Rule list \<Rightarrow> (string \<Rightarrow> permission list) \<Rightarrow> event \<Rightarrow> bool" where
  "permitted rules roleRules ev \<longleftrightarrow> list_all (allows rules) (required roleRules ev)"

subsection \<open>The reconciler's calls\<close>

lemmas marker_defs = rayClusterMarkers_def appWrapperMarkers_def appWrapperWebhookMarkers_def
  ingressDomainMarkers_def certManagementMarkers_def apiWaitMarkers_def allVerbs_def apiGroup_def

text \<open>The role the operator binds, and the permissions Kubernetes documents for it.\<close>

definition delegated :: "permission list" where
  "delegated =
     [(''authentication.k8s.io'', ''tokenreviews'', ''create''),
      (''authorization.k8s.io'', ''subjectaccessreviews'', ''create'')]"

fun binds_delegator :: "event \<Rightarrow> bool" where
  "binds_delegator (EApplyObject _ _ (AClusterRoleBinding b) _) =
     (cb_RoleRefName b = ''system:auth-delegator'')"
| "binds_delegator _ = True"

fun touches_pods :: "event \<Rightarrow> bool" where
  "touches_pods (EListPods _ _ _) = True"
| "touches_pods (EDeletePod _ _ _) = True"
| "touches_pods _ = False"

lemma own_kind_permitted:
  "list_all (allows rayClusterMarkers) (on_resource (resource_of k) [''create'', ''patch''])"
  by (cases k) (simp_all add: on_resource_def marker_defs)

lemma own_markers:
  assumes "binds_delegator ev" and "set (roleRules ''system:auth-delegator'') \<subseteq> set delegated"
  shows "permitted rayClusterMarkers roleRules ev \<longleftrightarrow> \<not> touches_pods ev"
proof (cases "(roleRules, ev)" rule: required.cases)
  case (5 rr opts ns obj res)
  have "list_all (allows rayClusterMarkers) delegated" by (simp add: delegated_def marker_defs)
  with assms(2) have "list_all (allows rayClusterMarkers) (roleRules ''system:auth-delegator'')"
    by (auto simp: list_all_iff)
  with 5 assms(1) own_kind_permitted show ?thesis
    by (auto simp: permitted_def split: ApplyConfig.split)
qed (auto simp: permitted_def on_resource_def marker_defs)

lemma pods_permitted: "touches_pods ev \<Longrightarrow> permitted appWrapperMarkers roleRules ev"
  by (cases ev) (simp_all add: permitted_def on_resource_def marker_defs)

lemma permitted_append:
  "permitted rs roleRules ev \<Longrightarrow> permitted (rs @ ss) roleRules ev"
  "permitted ss roleRules ev \<Longrightarrow> permitted (rs @ ss) roleRules ev"
  by (auto simp: permitted_def list_all_iff allows_append)

lemma binds_delegator_run:
  assumes "runs (Reconcile r req) tr out"
  shows "list_all binds_delegator tr"
proof -
  have "emits binds_delegator (reconcileExposure r c)" for c
    by (simp add: emits_def block_defs always_rules desiredOAuthClusterRoleBinding_def
        split: block_splits)
  moreover have "emits binds_delegator (reconcileFinalizer c)"
    "emits binds_delegator (reconcileCASecret r c)" "emits binds_delegator (kubeRayNamespaces r)"
    "emits binds_delegator (reconcileNetworkPolicies r c nss)" for c nss
    by (simp_all add: emits_def block_defs always_rules split: block_splits)
  ultimately have "emits binds_delegator (Reconcile r req)"
    by (intro emits_Reconcile emits_reconcileCluster) simp_all
  with assms show ?thesis by (auto simp: emits_def dest: alwaysD)
qed

text \<open>
  C19 The operator's role allows every call of every reconciliation, the binding of the delegator role
  included: binding it needs the permissions it grants, and the operator holds them.
\<close>

theorem reconcile_is_authorized:
  assumes "runs (Reconcile r req) tr out"
    and "set (roleRules ''system:auth-delegator'') \<subseteq> set delegated"
  shows "list_all (permitted operatorRole roleRules) tr"
proof -
  have "permitted operatorRole roleRules ev" if "ev \<in> set tr" for ev
  proof (cases "touches_pods ev")
    case True
    then show ?thesis by (intro permitted_append(2) permitted_append(1) pods_permitted)
  next
    case False
    have "binds_delegator ev"
      using binds_delegator_run [OF assms(1)] that by (auto simp: list_all_iff)
    from own_markers [of _ roleRules, OF this assms(2)] False show ?thesis by (intro permitted_append(1)) simp
  qed
  then show ?thesis by (simp add: list_all_iff)
qed

theorem reconcile_is_authorized_witness:
  "list_all (permitted operatorRole (\<lambda>_. delegated))
     (EGetRayCluster a_request (Inr (a_cluster [oAuthFinalizer] None)) # vanilla_trace)"
  by (rule reconcile_is_authorized [OF vanilla_run]) simp

lemma lists_pods: "always (kubeRayNamespaces r) (\<lambda>tr _. \<exists>ev\<in>set tr. touches_pods ev)"
  by (simp add: kubeRayNamespaces_def getKubeRayOperatorNamespace_def always_rules
      split: block_splits)

lemma after_ca_lists_pods:
  assumes "runs (after_ca r c) tr (Returned (Inr u))"
  shows "\<exists>ev\<in>set tr. touches_pods ev"
proof -
  obtain u' tr1 tr2 where "tr = tr1 @ tr2" and rest: "runs (and_then (kubeRayNamespaces r)
      (\<lambda>nss. reconcileNetworkPolicies r c nss)) tr2 (Returned (Inr u))"
    using runs_and_then_Inr [THEN iffD1, OF assms] by blast
  moreover obtain nss tr3 tr4 where "runs (kubeRayNamespaces r) tr3 (Returned (Inr nss))"
    and "tr2 = tr3 @ tr4"
    using runs_and_then_Inr [THEN iffD1, OF rest] by blast
  ultimately show ?thesis using lists_pods [THEN alwaysD] by fastforce
qed

text \<open>
  C34 The reconciler's own markers are not enough. They allow exactly the calls that touch no pod, and
  every successful reconciliation of a live cluster lists pods: it works only because the markers kept
  for the AppWrapper controller grant pods as well.
\<close>

theorem own_markers_lack_pods:
  assumes "runs (Reconcile r req) (EGetRayCluster req (Inr c) # tr) (Returned (res, None))"
    and "settled c" and "set (roleRules ''system:auth-delegator'') \<subseteq> set delegated"
  shows "(\<forall>ev\<in>set tr. permitted rayClusterMarkers roleRules ev \<longleftrightarrow> \<not> touches_pods ev) \<and>
    (\<exists>ev\<in>set tr. touches_pods ev)"
proof -
  have "binds_delegator ev" if "ev \<in> set tr" for ev
    using binds_delegator_run [OF assms(1)] that by (auto simp: list_all_iff)
  then have "\<forall>ev\<in>set tr. permitted rayClusterMarkers roleRules ev \<longleftrightarrow> \<not> touches_pods ev"
    using own_markers [of _ roleRules, OF _ assms(3)] by blast
  moreover obtain tr1 tr2 where tr: "tr = tr1 @ tr2" and run: "runs (after_ca r c) tr2 (Returned (Inr ()))"
    by (rule successful_finalized [OF assms(1) settled_finalized [OF assms(2)]])
  then have "\<exists>ev\<in>set tr. touches_pods ev" using after_ca_lists_pods [OF run] by auto
  ultimately show ?thesis by blast
qed

theorem own_markers_lack_pods_witness:
  "\<not> list_all (permitted rayClusterMarkers (\<lambda>_. delegated)) vanilla_trace"
proof -
  have "settled (a_cluster [oAuthFinalizer] None)" by (simp add: settled_def)
  from own_markers_lack_pods [OF vanilla_run [unfolded finished_def] this, of "\<lambda>_. delegated"]
  show ?thesis by (auto simp: list_all_iff)
qed

end
