(* ===== verification/WellFormed.thy ===== *)
theory WellFormed
  imports AdmissionSafety
begin

text \<open>
  Well-formedness of pods, as the API server requires it of a pod template: volumes have distinct names,
  init containers and containers together have distinct names, and every mount names a volume of the
  pod. The defaulter edits pods by name and preserves this, unless the user has given a container one of
  the operator's names in the other list.
\<close>

definition mounts_declared :: "PodSpec \<Rightarrow> Container \<Rightarrow> bool" where
  "mounts_declared p c \<longleftrightarrow> vm_Name ` set (c_VolumeMounts c) \<subseteq> v_Name ` set (ps_Volumes p)"

definition well_formed_pod :: "PodSpec \<Rightarrow> bool" where
  "well_formed_pod p \<longleftrightarrow>
     distinct (map v_Name (ps_Volumes p)) \<and>
     distinct (map c_Name (ps_InitContainers p @ ps_Containers p)) \<and>
     list_all (mounts_declared p) (ps_InitContainers p @ ps_Containers p)"

definition well_formed :: "RayCluster \<Rightarrow> bool" where
  "well_formed rc \<longleftrightarrow>
     well_formed_pod (head_pod rc) \<and> list_all (\<lambda>wg. well_formed_pod (worker_pod wg)) (rc_Workers rc)"

text \<open>The two ways a name of the user's can clash with an injected container.\<close>

definition init_name_free :: "PodSpec \<Rightarrow> bool" where
  "init_name_free p \<longleftrightarrow> initContainerName \<notin> c_Name ` set (ps_Containers p)"

definition proxy_name_free :: "PodSpec \<Rightarrow> bool" where
  "proxy_name_free p \<longleftrightarrow> oauthProxyContainerName \<notin> c_Name ` set (ps_InitContainers p)"

definition names_free :: "KubeRayConfiguration \<Rightarrow> RayCluster \<Rightarrow> bool" where
  "names_free cfg rc \<longleftrightarrow>
     (Deref (RayDashboardOAuthEnabled cfg) True \<longrightarrow> proxy_name_free (head_pod rc)) \<and>
     (Deref (MTLSEnabled cfg) True \<longrightarrow>
        init_name_free (head_pod rc) \<and>
        list_all (\<lambda>wg. init_name_free (worker_pod wg)) (rc_Workers rc))"

subsection \<open>The two edits of a pod\<close>

lemma oauth_pod_well_formed:
  assumes "well_formed_pod p"
  shows "well_formed_pod (oauth_pod env rc p) \<longleftrightarrow> proxy_name_free p"
proof -
  let ?q = "oauth_pod env rc p" and ?new = "oauthProxyContainer env rc"
  have parts: "ps_InitContainers ?q = ps_InitContainers p"
    "ps_Containers ?q = upsert (ps_Containers p) ?new byContainerName"
    "v_Name ` set (ps_Volumes ?q) = insert oauthProxyVolumeName (v_Name ` set (ps_Volumes p))"
    "c_Name ` set (ps_Containers ?q) = insert oauthProxyContainerName (c_Name ` set (ps_Containers p))"
    "distinct (map v_Name (ps_Volumes ?q))" "distinct (map c_Name (ps_Containers ?q))"
    using assms
    by (simp_all add: oauth_pod_def volumes.upsert_names containers.upsert_names well_formed_pod_def
        volumes.upsert_distinct containers.upsert_distinct)
  have "mounts_declared ?q ?new"
    by (simp add: mounts_declared_def parts) (simp add: oauthProxyContainer_def)
  moreover have "mounts_declared ?q c" if "mounts_declared p c" for c
    using that by (auto simp: mounts_declared_def parts)
  ultimately have "list_all (mounts_declared ?q) (ps_InitContainers ?q @ ps_Containers ?q)"
    using assms containers.upsert_set [of "ps_Containers p" ?new]
    by (auto simp: parts well_formed_pod_def list_all_iff)
  then show ?thesis
    using assms parts by (auto simp: well_formed_pod_def proxy_name_free_def)
qed

text \<open>What \<open>tls_pod\<close> needs of the init container and the volumes it is given.\<close>

definition certificate_parts :: "Container \<Rightarrow> Volume list \<Rightarrow> bool" where
  "certificate_parts init vols \<longleftrightarrow>
     c_Name init = initContainerName \<and> c_VolumeMounts init = certVolumeMounts \<and>
     map v_Name vols = map vm_Name certVolumeMounts"

lemma injected_certificate_parts:
  "certificate_parts (rayHeadInitContainer env rc cfg) (caVolumes rc)"
  "certificate_parts (rayWorkerInitContainer env cfg) (caVolumes rc)"
  by (simp_all add: certificate_parts_def caVolumes_names certVolumeMounts_names)
    (simp_all add: rayHeadInitContainer_def rayWorkerInitContainer_def Let_def)

lemma tls_pod_names:
  assumes "c_Name init = initContainerName" and "ps_Containers p \<noteq> []"
  shows "c_Name ` set (ps_InitContainers (tls_pod init vols p)) =
           insert initContainerName (c_Name ` set (ps_InitContainers p))"
    and "map c_Name (ps_Containers (tls_pod init vols p)) = map c_Name (ps_Containers p)"
    and "v_Name ` set (ps_Volumes (tls_pod init vols p)) =
           v_Name ` set vols \<union> v_Name ` set (ps_Volumes p)"
  using assms
  by (simp_all add: tls_pod_def containers.upsert_names volumes.fold_upsert_names)
    (cases "ps_Containers p"; simp)

lemma tls_pod_clash:
  assumes "c_Name init = initContainerName" and "ps_Containers p \<noteq> []"
    and "well_formed_pod (tls_pod init vols p)"
  shows "init_name_free p" and "c_Name ` set (ps_InitContainers p) \<inter> c_Name ` set (ps_Containers p) = {}"
proof -
  note names = tls_pod_names [OF assms(1,2), of vols]
  have "c_Name ` set (ps_Containers (tls_pod init vols p)) = c_Name ` set (ps_Containers p)"
    using arg_cong [OF names(2), of set] by simp
  then have "insert initContainerName (c_Name ` set (ps_InitContainers p)) \<inter>
      c_Name ` set (ps_Containers p) = {}"
    using assms(3) names(1) by (auto simp: well_formed_pod_def)
  then show "init_name_free p" and
    "c_Name ` set (ps_InitContainers p) \<inter> c_Name ` set (ps_Containers p) = {}"
    by (auto simp: init_name_free_def)
qed

lemma tls_pod_mounts:
  assumes parts: "certificate_parts init vols" and some: "ps_Containers p \<noteq> []"
    and wf: "well_formed_pod p"
  shows "list_all (mounts_declared (tls_pod init vols p))
    (ps_InitContainers (tls_pod init vols p) @ ps_Containers (tls_pod init vols p))"
proof -
  let ?q = "tls_pod init vols p"
  have vols: "v_Name ` set vols = vm_Name ` set certVolumeMounts"
    using parts by (metis certificate_parts_def set_map)
  have volumes: "v_Name ` set (ps_Volumes ?q) =
      vm_Name ` set certVolumeMounts \<union> v_Name ` set (ps_Volumes p)"
    using tls_pod_names(3) [OF _ some, of init vols] parts vols by (simp add: certificate_parts_def)
  have old: "mounts_declared ?q c" if "mounts_declared p c" for c
    using that by (auto simp: mounts_declared_def volumes)
  have first: "mounts_declared ?q (tls_container c)" if "mounts_declared p c" for c
    using that by (auto simp: mounts_declared_def volumes tls_container_def mounts.fold_upsert_names)
  have "mounts_declared ?q init"
    using parts by (auto simp: mounts_declared_def volumes certificate_parts_def)
  moreover obtain c cs where cs: "ps_Containers p = c # cs" using some by (cases "ps_Containers p") auto
  moreover have "ps_Containers ?q = tls_container c # cs" by (simp add: tls_pod_def cs)
  moreover have "set (ps_InitContainers ?q) \<subseteq> insert init (set (ps_InitContainers p))"
    using containers.upsert_set by (simp add: tls_pod_def)
  ultimately show ?thesis
    using wf old first by (auto simp: well_formed_pod_def list_all_iff)
qed

lemma tls_pod_well_formed:
  assumes "certificate_parts init vols" and "ps_Containers p \<noteq> []" and "well_formed_pod p"
  shows "well_formed_pod (tls_pod init vols p) \<longleftrightarrow> init_name_free p"
proof
  have init: "c_Name init = initContainerName" using assms(1) by (simp add: certificate_parts_def)
  show "well_formed_pod (tls_pod init vols p) \<Longrightarrow> init_name_free p"
    by (rule tls_pod_clash(1) [OF init assms(2)])
  assume free: "init_name_free p"
  have "distinct (map v_Name (ps_Volumes (tls_pod init vols p)))"
    and "distinct (map c_Name (ps_InitContainers (tls_pod init vols p)))"
    using assms(3)
    by (simp_all add: tls_pod_def volumes.fold_upsert_distinct containers.upsert_distinct
        well_formed_pod_def)
  moreover have "c_Name ` set (ps_Containers (tls_pod init vols p)) = c_Name ` set (ps_Containers p)"
    using arg_cong [OF tls_pod_names(2) [OF init assms(2), of vols], of set] by simp
  ultimately show "well_formed_pod (tls_pod init vols p)"
    using tls_pod_mounts [OF assms] free assms(3) tls_pod_names(1,2) [OF init assms(2), of vols]
    by (auto simp: well_formed_pod_def init_name_free_def)
qed

subsection \<open>The defaulter\<close>

lemma oauth_defaulted_head:
  "head_pod (oauth_defaulted env v cfg rc) =
     (if Deref (RayDashboardOAuthEnabled cfg) True
      then oauth_pod env (setVersionAnnotation v rc) (head_pod rc) else head_pod rc)"
  by (simp add: oauth_defaulted_def Let_def setVersionAnnotation_def)

lemma oauth_defaulted_well_formed:
  assumes "well_formed rc"
  shows "well_formed (oauth_defaulted env v cfg rc) \<longleftrightarrow>
    (Deref (RayDashboardOAuthEnabled cfg) True \<longrightarrow> proxy_name_free (head_pod rc))"
  using assms oauth_pod_well_formed [of "head_pod rc"]
  by (auto simp: well_formed_def oauth_defaulted_head)

lemma oauth_defaulted_init_free:
  "init_name_free (head_pod (oauth_defaulted env v cfg rc)) = init_name_free (head_pod rc)"
  by (simp add: oauth_defaulted_head init_name_free_def oauth_pod_def containers.upsert_names
      initContainerName_def oauthProxyContainerName_def)

text \<open>A head pod in which the sidecar's name is taken stays ill-formed.\<close>

lemma proxy_clash:
  assumes "\<not> proxy_name_free p"
  shows "c_Name ` set (ps_InitContainers (oauth_pod env rc p)) \<inter>
         c_Name ` set (ps_Containers (oauth_pod env rc p)) \<noteq> {}"
  using assms by (auto simp: proxy_name_free_def oauth_pod_def containers.upsert_names)

lemma defaulted_head_well_formed:
  assumes "well_formed_pod (head_pod rc)" and r1: "r1 = oauth_defaulted env v cfg rc"
    and some: "ps_Containers (head_pod r1) \<noteq> []"
  shows "well_formed_pod (tls_pod (rayHeadInitContainer env r1 cfg) (caVolumes r1) (head_pod r1)) \<longleftrightarrow>
    init_name_free (head_pod rc) \<and>
    (Deref (RayDashboardOAuthEnabled cfg) True \<longrightarrow> proxy_name_free (head_pod rc))"
proof (cases "well_formed_pod (head_pod r1)")
  case True
  then have "Deref (RayDashboardOAuthEnabled cfg) True \<longrightarrow> proxy_name_free (head_pod rc)"
    using assms(1) oauth_pod_well_formed by (auto simp: r1 oauth_defaulted_head)
  then show ?thesis
    using tls_pod_well_formed [OF injected_certificate_parts(1) some True]
      oauth_defaulted_init_free [of env v cfg rc] by (simp add: r1)
next
  case False
  then have clash: "Deref (RayDashboardOAuthEnabled cfg) True" "\<not> proxy_name_free (head_pod rc)"
    using assms(1) oauth_pod_well_formed by (auto simp: r1 oauth_defaulted_head split: if_splits)
  then have "\<not> well_formed_pod (tls_pod (rayHeadInitContainer env r1 cfg) (caVolumes r1) (head_pod r1))"
    using tls_pod_clash(2) [OF injected_names(3) some] proxy_clash [OF clash(2)]
    by (auto simp: r1 oauth_defaulted_head)
  with clash show ?thesis by simp
qed

text \<open>
  C18 The defaulter is type-correct: from a well-formed cluster it makes a well-formed one exactly when no
  user container carries the name of an injected init container and no user init container the name of
  the injected sidecar.
\<close>

theorem Default_well_formed_iff:
  assumes "Default env w rc = Ok rc'" and "wh_Config w = Some cfg" and "well_formed rc"
  shows "well_formed rc' \<longleftrightarrow> names_free cfg rc"
proof -
  obtain r1 where r1: "r1 = oauth_defaulted env (wh_OperatorVersion w) cfg rc"
    and rc': "rc' = (if Deref (MTLSEnabled cfg) True then tls_defaulted env cfg r1 else r1)"
    and lacks: "Deref (MTLSEnabled cfg) True \<longrightarrow> \<not> lacks_container r1"
    using assms(1,2) by (auto elim!: Default_Ok)
  have wf: "well_formed_pod (head_pod rc)" "list_all (\<lambda>wg. well_formed_pod (worker_pod wg)) (rc_Workers rc)"
    using assms(3) by (simp_all add: well_formed_def)
  show ?thesis
  proof (cases "Deref (MTLSEnabled cfg) True")
    case False
    then show ?thesis
      using oauth_defaulted_well_formed [OF assms(3)] by (simp add: rc' r1 names_free_def)
  next
    case True
    with lacks have some: "ps_Containers (head_pod r1) \<noteq> []"
      "wg \<in> set (rc_Workers rc) \<Longrightarrow> ps_Containers (worker_pod wg) \<noteq> []" for wg
      by (auto simp: lacks_container_def r1)
    have "well_formed_pod (tls_pod (rayWorkerInitContainer env cfg) (caVolumes r1) (worker_pod wg)) \<longleftrightarrow>
        init_name_free (worker_pod wg)" if "wg \<in> set (rc_Workers rc)" for wg
      using that wf(2)
      by (intro tls_pod_well_formed injected_certificate_parts some) (auto simp: list_all_iff)
    then have "list_all (\<lambda>wg. well_formed_pod (worker_pod wg)) (rc_Workers rc') \<longleftrightarrow>
        list_all (\<lambda>wg. init_name_free (worker_pod wg)) (rc_Workers rc)"
      using True by (simp add: rc' list_all_iff r1)
    then show ?thesis
      using True defaulted_head_well_formed [OF wf(1) r1 some(1)]
      by (auto simp: rc' well_formed_def names_free_def)
  qed
qed

theorem Default_well_formed_iff_witness:
  "well_formed sound_defaulted \<and>
   (\<exists>rc'. Default Map.empty full_webhook
      (user_cluster [user_container\<lparr>c_Name := initContainerName\<rparr>] [user_container]) = Ok rc' \<and>
      \<not> well_formed rc')"
proof -
  let ?bad = "user_cluster [user_container\<lparr>c_Name := initContainerName\<rparr>] [user_container]"
  have wf: "well_formed sound_cluster" "well_formed ?bad"
    and free: "names_free full_config sound_cluster" "\<not> names_free full_config ?bad"
    by (simp_all add: well_formed_def well_formed_pod_def names_free_def init_name_free_def
        proxy_name_free_def user_cluster_def user_pod_def user_container_def mounts_declared_def
        initContainerName_def oauthProxyContainerName_def)
  have "Default Map.empty full_webhook sound_cluster = Ok sound_defaulted"
    unfolding sound_defaulted_def by (rule Default_sound)
  from Default_well_formed_iff [OF this full_facts(1) wf(1)] free(1)
  have "well_formed sound_defaulted" by simp
  moreover obtain rc' where "Default Map.empty full_webhook ?bad = Ok rc'"
    using Default_never_panics [OF full_facts(1), of ?bad] by auto
  moreover from Default_well_formed_iff [OF this full_facts(1) wf(2)] free(2)
  have "\<not> well_formed rc'" by simp
  ultimately show ?thesis by blast
qed

end
