(* ===== verification/AdmissionFlow.thy ===== *)
theory AdmissionFlow
  imports AdmissionSafety
begin

text \<open>
  From requests to stored clusters. The \<^verbatim>\<open>+kubebuilder:webhook\<close> markers register the handlers with the
  API server; \<open>admit\<close> is the passage of a request through them: the registered defaulter, then whatever
  other mutating webhooks do, then the registered validator. A handler that panics gives no answer,
  which under the failure policy \<^verbatim>\<open>fail\<close> denies the request.
\<close>

subsection \<open>Registration\<close>

record WebhookMarker =
  wm_Path :: string
  wm_Mutating :: bool
  wm_FailurePolicy :: string
  wm_SideEffects :: string
  wm_Groups :: "string list"
  wm_Resources :: "string list"
  wm_Verbs :: "string list"
  wm_Versions :: "string list"
  wm_Name :: string
  wm_AdmissionReviewVersions :: "string list"

definition rayClusterWebhooks :: "WebhookMarker list" where
  "rayClusterWebhooks =
     [\<lparr>wm_Path = ''/mutate-ray-io-v1-raycluster'', wm_Mutating = True, wm_FailurePolicy = ''fail'',
       wm_SideEffects = ''None'', wm_Groups = [''ray.io''], wm_Resources = [''rayclusters''],
       wm_Verbs = [''create'', ''update''], wm_Versions = [''v1''],
       wm_Name = ''mraycluster.ray.openshift.ai'', wm_AdmissionReviewVersions = [''v1'']\<rparr>,
      \<lparr>wm_Path = ''/validate-ray-io-v1-raycluster'', wm_Mutating = False, wm_FailurePolicy = ''fail'',
       wm_SideEffects = ''None'', wm_Groups = [''ray.io''], wm_Resources = [''rayclusters''],
       wm_Verbs = [''create'', ''update''], wm_Versions = [''v1''],
       wm_Name = ''vraycluster.ray.openshift.ai'', wm_AdmissionReviewVersions = [''v1'']\<rparr>]"

text \<open>The AppWrapper library's handlers are registered the same way, but default only new objects.\<close>

definition appWrapperWebhooks :: "WebhookMarker list" where
  "appWrapperWebhooks =
     [\<lparr>wm_Path = ''/mutate-workload-codeflare-dev-v1beta2-appwrapper'', wm_Mutating = True,
       wm_FailurePolicy = ''fail'', wm_SideEffects = ''None'', wm_Groups = [''workload.codeflare.dev''],
       wm_Resources = [''appwrappers''], wm_Verbs = [''create''], wm_Versions = [''v1beta2''],
       wm_Name = ''mappwrapper.kb.io'', wm_AdmissionReviewVersions = [''v1'']\<rparr>,
      \<lparr>wm_Path = ''/validate-workload-codeflare-dev-v1beta2-appwrapper'', wm_Mutating = False,
       wm_FailurePolicy = ''fail'', wm_SideEffects = ''None'', wm_Groups = [''workload.codeflare.dev''],
       wm_Resources = [''appwrappers''], wm_Verbs = [''create'', ''update''], wm_Versions = [''v1beta2''],
       wm_Name = ''vappwrapper.kb.io'', wm_AdmissionReviewVersions = [''v1'']\<rparr>]"

definition registered :: "WebhookMarker list \<Rightarrow> bool \<Rightarrow> string \<Rightarrow> string \<Rightarrow> bool" where
  "registered markers mutating resource verb =
     list_ex (\<lambda>m. wm_Mutating m = mutating \<and> resource \<in> set (wm_Resources m) \<and>
                  verb \<in> set (wm_Verbs m)) markers"

lemma rayclusters_registered [simp]:
  "registered rayClusterWebhooks mutating ''rayclusters'' verb \<longleftrightarrow>
     verb = ''create'' \<or> verb = ''update''"
  by (auto simp: registered_def rayClusterWebhooks_def)

subsection \<open>Requests\<close>

datatype request =
    CreateRequest RayCluster
  | UpdateRequest RayCluster RayCluster
  | DeleteRequest RayCluster

datatype verdict = Stored RayCluster | Removed | Denied

fun verb_of :: "request \<Rightarrow> string" where
  "verb_of (CreateRequest _) = ''create''"
| "verb_of (UpdateRequest _ _) = ''update''"
| "verb_of (DeleteRequest _) = ''delete''"

text \<open>The handlers that are not registered for the verb of a request are not called.\<close>

definition mutate :: "strmap \<Rightarrow> rayClusterWebhook \<Rightarrow> string \<Rightarrow> RayCluster \<Rightarrow> RayCluster go" where
  "mutate env w verb c =
     (if registered rayClusterWebhooks True ''rayclusters'' verb then Default env w c else Ok c)"

fun validate :: "deep_derivative \<Rightarrow> strmap \<Rightarrow> rayClusterWebhook \<Rightarrow> request \<Rightarrow> FieldError list option go" where
  "validate dd env w req =
     (if registered rayClusterWebhooks False ''rayclusters'' (verb_of req) then
        (case req of
           CreateRequest c \<Rightarrow> ValidateCreate dd env w c
         | UpdateRequest old c \<Rightarrow> ValidateUpdate dd env w old c
         | DeleteRequest c \<Rightarrow> Ok (ValidateDelete c))
      else Ok None)"

definition verdict_of :: "FieldError list option go \<Rightarrow> verdict \<Rightarrow> verdict" where
  "verdict_of answer v = (case answer of Ok None \<Rightarrow> v | _ \<Rightarrow> Denied)"

text \<open>\<open>others\<close> is what the other mutating webhooks of the cluster make of the object.\<close>

fun admit ::
    "deep_derivative \<Rightarrow> strmap \<Rightarrow> rayClusterWebhook \<Rightarrow> (RayCluster \<Rightarrow> RayCluster) \<Rightarrow> request
      \<Rightarrow> verdict" where
  "admit dd env w others (CreateRequest c) =
     (case mutate env w ''create'' c of
        Panics _ \<Rightarrow> Denied
      | Ok c' \<Rightarrow> verdict_of (validate dd env w (CreateRequest (others c'))) (Stored (others c')))"
| "admit dd env w others (UpdateRequest old c) =
     (case mutate env w ''update'' c of
        Panics _ \<Rightarrow> Denied
      | Ok c' \<Rightarrow> verdict_of (validate dd env w (UpdateRequest old (others c'))) (Stored (others c')))"
| "admit dd env w others (DeleteRequest c) =
     verdict_of (validate dd env w (DeleteRequest c)) Removed"

lemma verdict_of_Stored [simp]:
  "verdict_of answer (Stored c) = Stored d \<longleftrightarrow> answer = Ok None \<and> c = d"
  by (auto simp: verdict_of_def split: go.split option.split)

text \<open>The clusters the API server can come to hold.\<close>

inductive stored :: "deep_derivative \<Rightarrow> strmap \<Rightarrow> rayClusterWebhook \<Rightarrow> (RayCluster \<Rightarrow> RayCluster)
    \<Rightarrow> RayCluster \<Rightarrow> bool" for dd env w others where
  created: "admit dd env w others (CreateRequest c) = Stored c' \<Longrightarrow> stored dd env w others c'"
| updated: "stored dd env w others old \<Longrightarrow> admit dd env w others (UpdateRequest old c) = Stored c' \<Longrightarrow>
    stored dd env w others c'"

lemma sound_stored: "stored strict_dd Map.empty full_webhook id sound_defaulted"
proof -
  have default: "Default Map.empty full_webhook sound_cluster = Ok sound_defaulted"
    unfolding sound_defaulted_def by (rule Default_sound)
  have "accepts_create strict_dd Map.empty full_config sound_defaulted"
    using Default_accepted [OF default, of strict_dd] by (auto simp: accepts_update_def)
  then have "ValidateCreate strict_dd Map.empty full_webhook sound_defaulted = Ok None"
    by (simp add: ValidateCreate_eq create_errs_Nil)
  then show ?thesis
    using default by (intro stored.created [where c = sound_cluster]) (simp add: mutate_def)
qed

text \<open>
  C12 Whatever other webhooks do to an object on its way, every cluster that was ever stored and is not
  being deleted satisfies the contract of creation: it asks for no Ingress and, with OAuth, its head pod
  has the sidecar, the TLS volume and the service account.
\<close>

theorem stored_clusters_are_guarded:
  assumes "stored dd env w others c"
  shows "\<not> IsZero (om_DeletionTimestamp (rc_Meta c)) \<or>
    (\<exists>cfg. wh_Config w = Some cfg \<and> accepts_create dd env cfg c)"
  using assms
proof (induction rule: stored.induct)
  case (created c c')
  then have "ValidateCreate dd env w c' = Ok None"
    by (auto simp: mutate_def split: go.splits)
  then show ?case by (auto simp: ValidateCreate_eq create_errs_Nil split: option.splits)
next
  case (updated old c c')
  then have "ValidateUpdate dd env w old c' = Ok None"
    by (auto simp: mutate_def split: go.splits)
  then show ?case
    by (auto simp: ValidateUpdate_eq create_errs_Nil split: option.splits if_splits)
qed

theorem stored_clusters_are_guarded_witness:
  "accepts_create strict_dd Map.empty full_config sound_defaulted"
  using stored_clusters_are_guarded [OF sound_stored]
  by (auto simp: IsZero_def sound_defaulted_def user_cluster_def setVersionAnnotation_def)

text \<open>
  Without other mutating webhooks every stored cluster is a fixed point of the defaulter, so its pods
  carry all injected parts, those of mutual TLS included, which creation does not check.
\<close>

theorem stored_clusters_are_defaulted:
  assumes "stored dd env w id c"
  shows "Default env w c = Ok c"
proof -
  have "\<exists>d. Default env w d = Ok c"
    using assms by (cases rule: stored.cases) (auto simp: mutate_def split: go.splits)
  then show ?thesis using Default_fixed by blast
qed

theorem stored_clusters_are_defaulted_witness:
  "Default Map.empty full_webhook sound_defaulted = Ok sound_defaulted"
  by (rule stored_clusters_are_defaulted [OF sound_stored])

end
