(* ===== verification/FilteredLog.thy ===== *)
theory FilteredLog
  imports KubeTypes
begin

text \<open>
  The filtered logger of \<^verbatim>\<open>support.go\<close>. A \<^verbatim>\<open>logr.LogSink\<close> is an interface. A value of it is either one
  of the library's implementations, here \<open>Foreign\<close> with a state \<open>'s\<close>, whose methods are a parameter, or
  the struct \<open>logSink\<close> of the operator with the sink it wraps in its only field. A method call is
  dispatched on the value: the first equation of each function below calls the method of a foreign sink,
  the second is the body of the method of \<open>logSink\<close>. So a method that returns a sink can return a
  filtering or an unfiltered one.
\<close>

text \<open>Values passed to the logger are an \<^verbatim>\<open>any\<close> in Go.\<close>

datatype log_value = LogString string | LogError error | LogBool bool

text \<open>
  The methods of a foreign sink: what it writes, entries of a type \<open>'e\<close>, and the sink it returns. \<open>Init\<close>
  returns nothing, but may change the sink.
\<close>

record ('s, 'e) sink_methods =
  sm_Init :: "int \<Rightarrow> 's \<Rightarrow> 's"
  sm_Enabled :: "int \<Rightarrow> 's \<Rightarrow> bool"
  sm_Info :: "int \<Rightarrow> string \<Rightarrow> log_value list \<Rightarrow> 's \<Rightarrow> 'e list"
  sm_Error :: "error \<Rightarrow> string \<Rightarrow> log_value list \<Rightarrow> 's \<Rightarrow> 'e list"
  sm_WithValues :: "log_value list \<Rightarrow> 's \<Rightarrow> 's"
  sm_WithName :: "string \<Rightarrow> 's \<Rightarrow> 's"

datatype 's LogSink = Foreign 's | logSink "'s LogSink"

fun logSink_Init :: "('s, 'e) sink_methods \<Rightarrow> 's LogSink \<Rightarrow> int \<Rightarrow> 's LogSink" where
  "logSink_Init m (Foreign s) info = Foreign (sm_Init m info s)"
| "logSink_Init m (logSink sink) info = logSink (logSink_Init m sink info)"

fun logSink_Enabled :: "('s, 'e) sink_methods \<Rightarrow> 's LogSink \<Rightarrow> int \<Rightarrow> bool" where
  "logSink_Enabled m (Foreign s) level = sm_Enabled m level s"
| "logSink_Enabled m (logSink sink) level = logSink_Enabled m sink level"

fun logSink_Info ::
    "('s, 'e) sink_methods \<Rightarrow> 's LogSink \<Rightarrow> int \<Rightarrow> string \<Rightarrow> log_value list \<Rightarrow> 'e list" where
  "logSink_Info m (Foreign s) level msg keysAndValues = sm_Info m level msg keysAndValues s"
| "logSink_Info m (logSink sink) level msg keysAndValues = logSink_Info m sink level msg keysAndValues"

fun logSink_Error ::
    "('s, 'e) sink_methods \<Rightarrow> 's LogSink \<Rightarrow> error \<Rightarrow> string \<Rightarrow> log_value list \<Rightarrow> 'e list" where
  "logSink_Error m (Foreign s) err msg keysAndValues = sm_Error m err msg keysAndValues s"
| "logSink_Error m (logSink sink) err msg keysAndValues =
     (if IsConflict err then
        logSink_Info m sink 1 msg (keysAndValues @ [LogString ''error'', LogString (Error err)])
      else logSink_Error m sink err msg keysAndValues)"

fun logSink_WithValues :: "('s, 'e) sink_methods \<Rightarrow> 's LogSink \<Rightarrow> log_value list \<Rightarrow> 's LogSink" where
  "logSink_WithValues m (Foreign s) keysAndValues = Foreign (sm_WithValues m keysAndValues s)"
| "logSink_WithValues m (logSink sink) keysAndValues =
     logSink (logSink_WithValues m sink keysAndValues)"

fun logSink_WithName :: "('s, 'e) sink_methods \<Rightarrow> 's LogSink \<Rightarrow> string \<Rightarrow> 's LogSink" where
  "logSink_WithName m (Foreign s) name = Foreign (sm_WithName m name s)"
| "logSink_WithName m (logSink sink) name = logSink (logSink_WithName m sink name)"

text \<open>A \<^verbatim>\<open>logr.Logger\<close>: its level and its sink.\<close>

record 's Logger =
  lg_Level :: int
  lg_Sink :: "'s LogSink"

definition FilteredLogger :: "'s Logger \<Rightarrow> 's Logger" where
  "FilteredLogger logger = logger\<lparr>lg_Sink := logSink (lg_Sink logger)\<rparr>"

subsection \<open>Derived loggers\<close>

text \<open>The ways a client gets one sink from another.\<close>

datatype derivation = Init int | WithValues "log_value list" | WithName string

fun derive :: "('s, 'e) sink_methods \<Rightarrow> derivation list \<Rightarrow> 's LogSink \<Rightarrow> 's LogSink" where
  "derive m [] sink = sink"
| "derive m (Init info # ds) sink = derive m ds (logSink_Init m sink info)"
| "derive m (WithValues kvs # ds) sink = derive m ds (logSink_WithValues m sink kvs)"
| "derive m (WithName name # ds) sink = derive m ds (logSink_WithName m sink name)"

text \<open>Every sink derived from a filtering one filters, around what is derived from the sink it wraps.\<close>

lemma derive_logSink: "derive m ds (logSink sink) = logSink (derive m ds sink)"
  by (induction m ds sink rule: derive.induct) simp_all

lemma derive_Foreign: "\<exists>s'. derive m ds (Foreign s) = Foreign s'"
  by (induction m ds "Foreign s" arbitrary: s rule: derive.induct) simp_all

text \<open>Filtering twice is filtering once.\<close>

lemma logSink_idem:
  "logSink_Error m (logSink (logSink sink)) = logSink_Error m (logSink sink)"
  by (simp add: fun_eq_iff)

text \<open>
  C40 The filter is not lost on the way: whatever chain of \<open>WithValues\<close>, \<open>WithName\<close> and \<open>Init\<close> calls a
  client makes on a filtered logger, the sink it ends up with writes what the sink derived in the same
  way from the unfiltered logger would write, except that an update conflict, however deeply wrapped, is
  written at debug level 1 with its text as a value instead of as an error.
\<close>

theorem filtered_logger:
  assumes "sink = derive m ds (lg_Sink (FilteredLogger logger))"
    and "plain = derive m ds (lg_Sink logger)"
  shows "logSink_Enabled m sink level = logSink_Enabled m plain level \<and>
    logSink_Info m sink level msg kvs = logSink_Info m plain level msg kvs \<and>
    logSink_Error m sink err msg kvs =
      (if IsConflict err then
         logSink_Info m plain 1 msg (kvs @ [LogString ''error'', LogString (Error err)])
       else logSink_Error m plain err msg kvs)"
  using assms by (simp add: FilteredLogger_def derive_logSink)

text \<open>A foreign sink that writes what it is told, with the values it was given before.\<close>

definition memo :: "(log_value list, string \<times> log_value list) sink_methods" where
  "memo = \<lparr>sm_Init = (\<lambda>_ s. s), sm_Enabled = (\<lambda>_ _. True),
     sm_Info = (\<lambda>level msg kvs s. [(''INFO '' @ msg, s @ kvs)]),
     sm_Error = (\<lambda>err msg kvs s. [(''ERROR '' @ msg, s @ kvs)]),
     sm_WithValues = (\<lambda>kvs s. s @ kvs), sm_WithName = (\<lambda>_ s. s)\<rparr>"

theorem filtered_logger_witness:
  "let logger = \<lparr>lg_Level = 0, lg_Sink = Foreign []\<rparr>; kvs = [LogBool True];
       sink = derive memo [Init 0, WithName ''ray'', WithValues kvs] (lg_Sink (FilteredLogger logger))
   in logSink_Error memo sink (StatusConflict ''c'') ''update'' [] =
        [(''INFO update'', kvs @ [LogString ''error'', LogString (Error (StatusConflict ''c''))])]"
  using filtered_logger [of _ memo "[Init 0, WithName ''ray'', WithValues [LogBool True]]"
      "\<lparr>lg_Level = 0, lg_Sink = Foreign []\<rparr>", OF refl refl, of 0 "''update''" "[]" "StatusConflict ''c''"]
  by (simp add: memo_def Let_def)

end
