(* ===== verification/Spec2Isabelle.thy ===== *)
theory Spec2Isabelle
  imports Startup NetPolicy HashVectors References LoopProps Schemes ReconcileLimits Permissions WellFormed AdmissionFlow FilteredLog
begin

text \<open>
  A model of the CodeFlare operator (the Go program under \<^verbatim>\<open>src/\<close>): a Kubernetes operator that secures Ray
  clusters. Its parts and the theories that model them:

  \<^item> \<^verbatim>\<open>main.go\<close> loads the configuration, builds the manager and starts everything. \<open>Setup\<close> has its helpers
    (\<open>namespaceOrDie\<close>, \<open>loadIntoOrCreate\<close>, \<open>isOpenShift\<close>, \<open>getClusterDomain\<close>, the derived options),
    \<open>MainProgram\<close> the function \<open>main\<close> up to the start of the manager with its early exits, \<open>Schemes\<close> the
    registration of types in \<open>init\<close> and the process as a whole, \<open>Startup\<close> the goroutines it spawns: the wait for the RayCluster API as a function of what the select statement
    receives, and the three threads with the certificate signal as a step relation, which the
    RayCluster goroutine, read as a function, refines.
  \<^item> \<^verbatim>\<open>pkg/config/config.go\<close> is \<open>Config\<close>.
  \<^item> \<^verbatim>\<open>pkg/controllers/support.go\<close> is \<open>Support\<close> (slice operations, comparison predicates) and \<open>FilteredLog\<close>
    (the filtering log sink), with its hash in \<open>Names\<close> and its objects in \<open>Desired\<close>.
  \<^item> \<^verbatim>\<open>pkg/controllers/raycluster_webhook.go\<close> is \<open>PodParts\<close> (what is injected), \<open>Webhook\<close> (the defaulter) and
    \<open>Validation\<close> (the validators).
  \<^item> \<^verbatim>\<open>pkg/controllers/raycluster_controller.go\<close> is \<open>Names\<close> (object names), \<open>Desired\<close> (the objects),
    \<open>Certificates\<close> (the CA), \<open>Reconciler\<close> (\<open>Reconcile\<close> block by block) and \<open>Wiring\<close> (how the webhook and
    the controller are built from the configuration, with the arguments of every call of the builders
    and every failure on the way).
  \<^item> The permission markers of all files, those of \<^verbatim>\<open>appwrapper_controller.go\<close> and
    \<^verbatim>\<open>appwrapper_webhook.go\<close> included, are the rules of \<open>Permissions\<close>; the webhook markers are in
    \<open>AdmissionFlow\<close>.

  Foundations: \<open>Prelude\<close> (pointers, panics and loops of Go), \<open>GoStd\<close> (SHA-256, SHA-1, hexadecimal, base64
  and PEM of the Go library, computed on bytes), \<open>KubeTypes\<close> (the fields of the Kubernetes and KubeRay
  types the code touches, everything else in opaque components, and errors by their reason), \<open>Api\<close> (the
  outside world).

  \<^bold>\<open>How the code is represented.\<close> A pointer is an option; a panic is a value of type \<open>go\<close>; an error is a
  value of type \<open>error\<close>. A function that talks to the server is a tree of calls with continuations, and
  \<open>runs p tr out\<close> relates it to the traces of calls and responses it can make. A response can be
  anything of its type, so a statement about all runs covers every behaviour of the server and every
  interference between two calls. Trees are finite, so every program ends. The wait for the API is a loop without end: it is a function of the finite list of
  rounds received so far, and still waiting is one of its results. The threads of the start are a step
  relation with an invariant; the measure \<open>work_left\<close> shows that the start can be completed.

  \<^bold>\<open>What the lemmas show.\<close> \<open>Admission\<close> brings the two webhooks into closed form and relates them to the
  contract \<open>accepts_update\<close>; \<open>AdmissionProps\<close> and \<open>AdmissionSafety\<close> state the results: defaulting is
  idempotent, when its result is admitted, which updates are admitted, what they cannot change, how a
  repeated variable gets around them, what is injected and what is left alone, and when the handlers
  panic. \<open>NameProps\<close> decides which names can
  collide, \<open>HashVectors\<close> checks the hash against the names the repository's tests expect, \<open>Ownership\<close> who
  owns an object, \<open>NetPolicy\<close> which traffic the head's policy admits. \<open>Traces\<close> is the calculus of
  statements over all runs, \<open>Summaries\<close> and \<open>ReconcileSpec\<close> apply it to the blocks of \<open>Reconcile\<close>: the
  latter has the specification \<open>cluster_objects\<close>, the list of objects a cluster is entitled to, which
  \<open>Reconcile\<close> refines. \<open>ReconcileProps\<close>, \<open>ReconcileSafety\<close>, \<open>ReconcileCare\<close> and \<open>ReconcileEnds\<close> state the
  results: what is applied, in which order and where, the life of the finalizer, which failures are
  reported, when keys are made and pods deleted, and how a run ends.

  The remaining theories look at the operator as a whole. \<open>Store\<close> reads off a trace which configuration is in force
  under which key and shows that the keys of a cluster's objects are distinct; \<open>Convergence\<close> concludes
  that a successful run establishes the specified objects whatever was there, that a second one changes
  nothing, that clusters do not disturb each other, and that a deletion leaves no binding. \<open>References\<close> decides
  when what the webhook makes pods refer to is what the reconciler makes. \<open>Watches\<close>
  closes the loop: a change of an applied object enqueues its cluster. \<open>AdmissionFlow\<close> passes requests
  through the registered handlers and states what holds of every stored cluster, \<open>WellFormed\<close> when the
  defaulter keeps pods well-formed. \<open>Permissions\<close> compares the calls of a run with the permission
  markers; \<open>ReconcileLimits\<close> says how long the name of a reconciled cluster can be and when its dashboard is
  exposed. This theory has the properties that span the start, the webhook and the reconciler.

  \<^bold>\<open>The control loop.\<close> \<open>ControlLoop\<close> puts the reconciler into its loop as a step relation: the worker takes
  a request from the queue and makes the calls of \<open>Reconcile\<close> one by one (\<open>resume\<close> is one call of a program
  tree, \<open>runs_Cons\<close> relates it to the runs): these are the operator's own steps, \<open>operator_step\<close>, with
  what the server may answer as a parameter (\<open>told\<close>, or \<open>honest\<close> when nobody else is at work). In
  \<open>loop_step\<close> other clients change objects and clusters between any two of them, and the process is
  restarted with a new cookie salt. \<open>LoopInvariant\<close> proves the invariant by
  rule induction: a cluster neither enqueued nor in work has its finalizer in place and its objects in
  force, because every change of an object in force enqueues its cluster. \<open>Progress\<close> turns runs into paths
  of \<open>operator_step\<close> and constructs, for every reachable state, such a path to rest, which ends whatever
  the worker is busy with; \<open>LoopProps\<close> and this theory state the
  results, among them that two clusters sharing a ClusterRoleBinding never both rest, and that the pods of
  a defaulted cluster at rest find everything the webhook made them refer to.

  \<^bold>\<open>Interfaces.\<close> The locales \<open>keyed\<close> and \<open>keyed_with\<close> (\<open>Support\<close>) are the contract between the slice
  operations and a type identified by a name, interpreted for containers, volumes, variables and
  mounts; \<open>hashed_name\<close>, \<open>suffix_named\<close> and \<open>apart_names\<close> (\<open>Names\<close>) the contract of the name functions;
  \<open>owned_object\<close> (\<open>Ownership\<close>) the one of the applied objects; \<open>server\<close> (\<open>ControlLoop\<close>) the contract of the
  answers the worker gets, interpreted for both kinds of server; \<open>noticing\<close> (\<open>LoopInvariant\<close>) what the control loop
  relies on in the watches, interpreted for the controller the operator builds.

  \<^bold>\<open>Parameters.\<close> \<open>deep_derivative\<close> is the deep comparison of the Kubernetes library, the record \<open>externals\<close>
  what the calls of \<open>main\<close> answer, \<open>env\<close> the process environment; RSA key generation, certificate signing,
  the clock and the random source are calls of the program tree. \<open>policy_admits\<close> is the documented meaning
  of a network policy, \<open>enqueued\<close> that of the watches of a controller, \<open>admit\<close> that of a webhook registration
  and \<open>required\<close> that of a permission, used only to state what the code's policies, watches and markers
  mean. The record \<open>Manager\<close> is what the calls of the two setup functions answer. The rules of \<open>loop_step\<close>
  and the predicate \<open>told\<close> state the documented contract of the work queue and of the caches, as weakly as the
  invariant needs it: the watches of a change enqueue what \<open>enqueued\<close> says, a request is forgotten only when
  its reconciliation ended without an error, the caches may lag behind while an event is outstanding, and
  a starting controller enqueues every cluster. \<open>undisturbed\<close> is the assumption of \<open>Convergence\<close> that reads and deletions are answered by what was
  applied, \<open>roleRules\<close> gives the rules of the cluster role the operator binds, and the record
  \<open>sink_methods\<close> of \<open>FilteredLog\<close> has the methods of the log sink the operator wraps.
  \<open>effective_value\<close> is how Kubernetes reads a list of variables in which a name is repeated: the last entry
  hides the others.

  \<^bold>\<open>Not modelled.\<close> Logging and its flags apart from the filtering sink, the AppWrapper controllers (a
  library the operator only starts; its two files here hold only markers), the inside of the libraries
  the operator calls, and the merging of field managers on the server: \<open>Store\<close> follows the configurations
  the operator applies, not the fields other writers own. The control loop has one worker, which is the
  default the code leaves in place. What is left of the source is licences, imports, log messages and
  comments.
\<close>

section \<open>Properties that span components\<close>

text \<open>
  C15 Every object the reconciler applies is of a kind whose changes come back to it, and is visible to it:
  if the cache filters the kind by a label, the object carries that label.
\<close>

theorem applied_objects_watched_and_visible:
  assumes "setupRayClusterController mg cfg openShift version = Ok (Inr (w, b))"
    and "runs (Reconcile (cb_Reconciler b) req) (EGetRayCluster req (Inr c) # tr) out"
    and "EApplyObject opts ns obj res \<in> set tr"
  shows "(kind_of obj \<in> set (cb_Owns b) \<or> kind_of obj \<in> fst ` set (cb_Watches b)) \<and>
    (case map_of (cacheByObject cfg openShift) (kind_of obj) of
       None \<Rightarrow> \<not> appWrapperDisabled cfg
     | Some label \<Rightarrow> ma_Labels (obj_meta obj) label \<noteq> None)"
proof -
  let ?r = "cb_Reconciler b"
  note parts = setup_parts [OF assms(1)]
  obtain out' where "runs (reconcileCluster ?r c) tr out'"
    using assms(2) by (auto simp: runs_Reconcile)
  then obtain c' ca nss where obj: "obj \<in> set (cluster_objects ?r c' ca nss)"
    using assms(3) by (rule applied_object)
  have kind: "kind_of obj \<in> set (ownedKinds openShift) \<or> kind_of obj = KClusterRoleBinding"
    using objects_watched [OF obj] parts(6) by simp
  have label: "ma_Labels (obj_meta obj) RayClusterNameLabel \<noteq> None"
    using cluster_objects_owned [OF obj] by (simp add: owned_by_def)
  have "case map_of (cacheByObject cfg openShift) (kind_of obj) of
       None \<Rightarrow> \<not> appWrapperDisabled cfg
     | Some label \<Rightarrow> ma_Labels (obj_meta obj) label \<noteq> None"
    using kind label
    by (cases "kind_of obj") (auto simp: cacheByObject_def ownedKinds_def split: option.split if_splits)
  moreover have "cb_Owns b = ownedKinds openShift"
    and "cb_Watches b = [(KClusterRoleBinding, requestsForClusterRoleBinding)]"
    by (subst parts(4), simp add: parts(6))+
  ultimately show ?thesis using kind by simp
qed

theorem applied_objects_watched_and_visible_witness:
  "let cfg = (defaultConfiguration [])\<lparr>CFO_KubeRay := Some (a_config False False)\<rparr>;
       obj = hd (ingress_objects (a_reconciler False False False) (a_cluster [oAuthFinalizer] None))
   in cb_Reconciler (rayClusterController (a_reconciler False False False)) =
        a_reconciler False False False \<and>
      kind_of obj \<in> set (ownedKinds False) \<and>
      ma_Labels (obj_meta obj) RayClusterNameLabel \<noteq> None"
proof -
  let ?cfg = "(defaultConfiguration [])\<lparr>CFO_KubeRay := Some (a_config False False)\<rparr>"
  let ?r = "a_reconciler False False False"
  let ?obj = "hd (ingress_objects ?r (a_cluster [oAuthFinalizer] None))"
  let ?w = "newRayClusterWebhook (CFO_KubeRay ?cfg) ''v1''"
  have "map (\<lambda>x. char_of (unat x)) (bytes ''salt'') = ''salt''" by code_simp
  then have wired: "setupRayClusterController (willing (bytes ''salt'')) ?cfg False ''v1'' =
      Ok (Inr (\<lparr>wb_For = ''RayCluster'', wb_Defaulter = ?w, wb_Validator = ?w\<rparr>, rayClusterController ?r))"
    by (simp add: a_reconciler_def Let_def)
  have mem: "EApplyObject applyOptions (Some ''ns'') ?obj None \<in> set vanilla_trace"
    by (simp add: vanilla_trace_def ingress_objects_def Let_def)
  have run: "runs (Reconcile (cb_Reconciler (rayClusterController ?r)) a_request)
      (EGetRayCluster a_request (Inr (a_cluster [oAuthFinalizer] None)) # vanilla_trace)
      (Returned finished)"
    using vanilla_run by simp
  from applied_objects_watched_and_visible [OF wired run mem]
  have "case map_of (cacheByObject ?cfg False) (kind_of ?obj) of
       None \<Rightarrow> \<not> appWrapperDisabled ?cfg
     | Some label \<Rightarrow> ma_Labels (obj_meta ?obj) label \<noteq> None"
    and "kind_of ?obj \<in> set (ownedKinds False) \<or> kind_of ?obj = KClusterRoleBinding" by simp_all
  then show ?thesis
    by (simp add: Let_def ingress_objects_def cacheByObject_def appWrapperDisabled_def
        defaultConfiguration_def)
qed

text \<open>
  C25 A started operator never dereferences a missing configuration: no run of its reconciler panics, its
  webhook panics only on pods without containers, and its Ingress hosts can always be made.
\<close>

theorem started_operator_is_configured:
  assumes "main_setup x configMapName = Continue s"
    and "setupRayClusterController mg (st_Config s) (st_IsOpenShift s) version = Ok (Inr (w, b))"
  shows "always (Reconcile (cb_Reconciler b) req) (\<lambda>tr out. \<exists>res. out = Returned res) \<and>
    (lacks_container rc \<or> (\<exists>rc'. Default env (wb_Defaulter w) rc = Ok rc')) \<and>
    (\<exists>host. getIngressHost (rec_Config (cb_Reconciler b)) c name = Inr host)"
proof -
  obtain k where k: "CFO_KubeRay (st_Config s) = Some k" "IngressDomain k \<noteq> []"
    using assms(1) by (rule main_setup_Continue) (auto dest: resolveIngressDomain_Continue)
  then have "rec_Config (cb_Reconciler b) = Some k" and "wh_Config (wb_Defaulter w) = Some k"
    using setup_parts [OF assms(2)] by simp_all
  with k(2) show ?thesis
    using never_panics [of "cb_Reconciler b" k] Default_never_panics [of "wb_Defaulter w" k rc env]
    by (auto simp: getIngressHost_def)
qed

theorem started_operator_is_configured_witness:
  "\<exists>w b. setupRayClusterController (willing [1, 2]) (st_Config openshift_started)
       (st_IsOpenShift openshift_started) ''v1'' = Ok (Inr (w, b)) \<and>
     always (Reconcile (cb_Reconciler b) a_request) (\<lambda>tr out. \<exists>res. out = Returned res) \<and>
     (\<exists>host. getIngressHost (rec_Config (cb_Reconciler b)) sound_cluster ''dashboard'' = Inr host)"
proof -
  obtain w b where wired: "setupRayClusterController (willing [1, 2]) (st_Config openshift_started)
       (st_IsOpenShift openshift_started) ''v1'' = Ok (Inr (w, b))"
    by (simp add: Let_def)
  from started_operator_is_configured [OF openshift_starts wired] wired show ?thesis by blast
qed

text \<open>
  C3 From the start of the process to clusters at rest: however long a started operator has been running
  and whatever has happened to it, it can bring every cluster to rest by the steps of its own worker, with
  no other client or restart helping, against a server that answers truthfully and stores what it is sent
  (it may refuse what an earlier reconciliation still asks for). The cluster then differs from what it was
  at most in the operator's finalizer, which it holds exactly if it is not being deleted, and its objects,
  except perhaps the network policies, are in force.
\<close>

theorem started_operator_serves_every_cluster:
  assumes "operator_process add flags x = Continue (scheme, st)"
    and "setupRayClusterController mg (st_Config st) (st_IsOpenShift st) version = Ok (Inr (w, b))"
    and "sound_clusters clusters"
    and "loop_step\<^sup>*\<^sup>* (booted (cb_Reconciler b) s clusters) lp" and "lp_Clusters lp q = Some c"
  shows "\<exists>lp'. (operator_step honest)\<^sup>*\<^sup>* lp lp' \<and> lp_Reconciler lp' = lp_Reconciler lp \<and>
    lp_Clusters lp' q = Some (corrected c) \<and> \<not> waiting lp' q \<and> served lp' (corrected c)"
proof -
  have "main_setup x (configMapFlag flags) = Continue st"
    using assms(1) by (auto simp: operator_process_def then_do_Continue)
  then obtain k where "CFO_KubeRay (st_Config st) = Some k" "IngressDomain k \<noteq> []"
    by (rule main_setup_Continue) (auto dest: resolveIngressDomain_Continue)
  then have "configured (cb_Reconciler b)"
    using setup_parts [OF assms(2)] by (simp add: configured_def)
  then have configured: "configured (lp_Reconciler lp)"
    using path_keeps_configuration [OF assms(4)] by (simp add: configured_def booted_def)
  have reachable: "reachable lp" by (rule reachable_path [OF assms(4) reachable.boot [OF assms(3)]])
  from every_cluster_can_come_to_rest [OF reachable_invariant [OF this] assms(5) configured]
  obtain lp' where lp': "(operator_step honest)\<^sup>*\<^sup>* lp lp'" "lp_Reconciler lp' = lp_Reconciler lp"
    "lp_Clusters lp' q = Some (corrected c)" "\<not> waiting lp' q" by blast
  have "reachable lp'" by (rule reachable_path [OF honest_server.loop_path [OF lp'(1)] reachable])
  then have "served lp' (corrected c)"
    using loop_invariantD(3) [OF reachable_invariant lp'(3,4)] by blast
  with lp' show ?thesis by blast
qed

theorem started_operator_serves_every_cluster_witness:
  "\<exists>r lp'. (operator_step honest)\<^sup>*\<^sup>* (booted r Map.empty [a_request \<mapsto> a_cluster [] None]) lp' \<and>
     lp_Clusters lp' a_request = Some (corrected (a_cluster [] None)) \<and> \<not> waiting lp' a_request \<and>
     served lp' (corrected (a_cluster [] None))"
proof -
  have "init_scheme (\<lambda>_. None) = Ok schemeBuilders" by (simp add: init_scheme_Ok list_all_iff)
  then have start: "operator_process (\<lambda>_. None) Map.empty openshift_world =
      Continue (schemeBuilders, openshift_started)"
    using openshift_starts by (simp add: operator_process_def configMapFlag_def)
  obtain w b where wired: "setupRayClusterController (willing [1, 2]) (st_Config openshift_started)
       (st_IsOpenShift openshift_started) ''v1'' = Ok (Inr (w, b))"
    by (simp add: Let_def)
  let ?clusters = "[a_request \<mapsto> a_cluster [] None]"
  have "sound_clusters ?clusters"
    by (auto simp: sound_clusters_def sound_cluster_at_def cluster_key_def a_request_def
        typed_cluster_def groupOf_def a_cluster_def)
  from started_operator_serves_every_cluster [OF start wired this rtranclp.rtrancl_refl, of Map.empty
      a_request "a_cluster [] None"]
  have "\<exists>lp'. (operator_step honest)\<^sup>*\<^sup>* (booted (cb_Reconciler b) Map.empty ?clusters) lp' \<and>
      lp_Clusters lp' a_request = Some (corrected (a_cluster [] None)) \<and> \<not> waiting lp' a_request \<and>
      served lp' (corrected (a_cluster [] None))"
    by (simp add: booted_def) blast
  then show ?thesis by blast
qed

text \<open>A reference is satisfied by an object in force.\<close>

definition satisfied :: "store \<Rightarrow> reference \<Rightarrow> bool" where
  "satisfied s ref \<longleftrightarrow> (\<exists>k obj. s k = Some obj \<and> provides obj ref)"

lemma resolves_satisfied:
  assumes "holds s objs" and "resolves objs ref" and "fst (fst ref) \<noteq> KNetworkPolicy"
  shows "satisfied s ref"
proof -
  have "resolves (filter (\<lambda>obj. \<not> is_network_policy obj) objs) ref"
    using assms(2) by (simp add: resolves_without_policies [OF assms(3)])
  then obtain obj where "obj \<in> set objs" "\<not> is_network_policy obj" "provides obj ref"
    by (auto simp: resolves_def list_ex_iff)
  with holdsD [OF assms(1)] show ?thesis unfolding satisfied_def by metis
qed

text \<open>
  C4 The webhook and the control loop together. Suppose that OAuth is off, or that the platform is OpenShift
  and the cluster not suspended; that the user's cluster does not enable the Ingress; and that the first
  container of its head is the user's own (not one named like the OAuth proxy). Then the pods of the
  defaulted cluster, once it is at rest, find everything the webhook made them refer to (the service
  account, the secrets with their entries, the serving certificate) on the server. The two share one
  configuration because they are set up from it together.
\<close>

theorem resting_pods_find_their_references:
  assumes "setupRayClusterController mg cfg openShift version = Ok (Inr (w, b))"
    and "CFO_KubeRay cfg = Some k" and "sound_clusters clusters"
    and "loop_step\<^sup>*\<^sup>* (booted (cb_Reconciler b) s clusters) lp"
    and "lp_Clusters lp q = Some c" and "\<not> waiting lp q"
    and "Default env (wb_Defaulter w) rc = Ok c"
    and "\<not> Deref (hg_EnableIngress (rc_Head rc)) False" and "foreign_first rc"
    and "Deref (RayDashboardOAuthEnabled k) True \<longrightarrow> openShift \<and> \<not> isRayClusterSuspended c"
  shows "list_all (satisfied (lp_Store lp)) (injected_references k c)"
proof -
  let ?r = "lp_Reconciler lp"
  note parts = setup_parts [OF assms(1)]
  have r: "rec_Config ?r = Some k" "IsOpenShift ?r = openShift"
    using path_keeps_configuration [OF assms(4)] parts(5,6) assms(2) by (simp_all add: booted_def)
  have "accepts_update strict_dd env k c"
    using Default_accepted [OF assms(7) strict_dd_laws(1) assms(8,9)] parts(1) assms(2) by auto
  then have refs: "set (injected_references k c) = specified_references k c"
    by (rule injected_references_eq)
  have "reachable lp" by (rule reachable_path [OF assms(4) reachable.boot [OF assms(3)]])
  then obtain ca nss where "holds (lp_Store lp) (cluster_objects ?r c ca nss)"
    using loop_invariantD(3) [OF reachable_invariant assms(5,6)] unfolding served_def by blast
  moreover have "\<forall>ref\<in>specified_references k c. resolves (cluster_objects ?r c ca nss) ref"
    using assms(10) by (simp add: resolves_specified [OF r(1)] r(2))
  ultimately show ?thesis
    using resolves_satisfied specified_kinds unfolding list_all_iff refs by blast
qed

text \<open>OpenShift with OAuth: the defaulted cluster has been brought to rest.\<close>

theorem resting_pods_find_their_references_witness:
  "\<exists>lp :: Loop. lp_Clusters lp a_request = Some proxied_cluster \<and>
     list_all (satisfied (lp_Store lp)) (injected_references (a_config True False) proxied_cluster)"
proof -
  let ?rc = "sound_cluster\<lparr>rc_Meta := (rc_Meta sound_cluster)\<lparr>om_Finalizers := [oAuthFinalizer]\<rparr>\<rparr>"
  let ?cfg = "(defaultConfiguration [])\<lparr>CFO_KubeRay := Some (a_config True False)\<rparr>"
  let ?clusters = "[a_request \<mapsto> proxied_cluster]"
  obtain w b where wired: "setupRayClusterController (willing [1, 2]) ?cfg True ''v1'' = Ok (Inr (w, b))"
    by (simp add: Let_def)
  note parts = setup_parts [OF wired]
  have flags: "Deref (MTLSEnabled (a_config True False)) True = False"
    "Deref (RayDashboardOAuthEnabled (a_config True False)) True = True"
    by (simp_all add: a_config_def)
  have default: "Default Map.empty (wb_Defaulter w) ?rc = Ok proxied_cluster"
    using parts(1,3) by (simp add: Default_eq [OF _ refl] flags proxied_cluster_def)
  have typed: "rc_Kind proxied_cluster = ''RayCluster''" "rc_APIVersion proxied_cluster = ''ray.io/v1''"
    by (simp_all add: proxied_cluster_def user_cluster_def oauth_defaulted_def
        setVersionAnnotation_def Let_def)
  have sound: "sound_cluster_at a_request proxied_cluster"
    using typed by (simp add: sound_cluster_at_def cluster_key_def a_request_def typed_cluster_def
        groupOf_def proxied_facts)
  then have clusters: "sound_clusters ?clusters" by (auto simp: sound_clusters_def)
  have "finalized proxied_cluster" by (simp add: finalized_def ContainsFinalizer_def proxied_facts)
  moreover have "configured (cb_Reconciler b)" using parts(5) by (simp add: configured_def)
  ultimately obtain lp where rested: "(operator_step honest)\<^sup>*\<^sup>* (booted (cb_Reconciler b) Map.empty ?clusters) lp"
    "lp_Clusters lp = ?clusters" "\<not> waiting lp a_request"
    using comes_to_rest [of "booted (cb_Reconciler b) Map.empty ?clusters" a_request proxied_cluster] sound
    by (auto simp: booted_def)
  note lp = honest_server.loop_path [OF rested(1)] rested(2,3)
  have "list_all (satisfied (lp_Store lp)) (injected_references (a_config True False) proxied_cluster)"
    by (rule resting_pods_find_their_references [OF wired _ clusters lp(1) _ lp(3) default])
      (simp_all add: lp(2) foreign_first_def user_cluster_def user_pod_def user_container_def
        oauthProxyContainerName_def isRayClusterSuspended_def proxied_facts)
  moreover have "lp_Clusters lp a_request = Some proxied_cluster" by (simp add: lp(2))
  ultimately show ?thesis by blast
qed

text \<open>
  C32 A cluster from before the hashed names that the webhook has rewritten since leaves its
  ClusterRoleBinding behind: when it is deleted, no run of the reconciler deletes the binding under the
  name it was created with.
\<close>

theorem upgraded_cluster_leaks_binding:
  assumes "Default env w rc = Ok rc'" and "shouldUseOldName rc"
    and "Name d = Name rc'" and "Namespace d = Namespace rc'"
    and "Annotations d versionAnnotation = Annotations rc' versionAnnotation"
    and "\<not> IsZero (om_DeletionTimestamp (rc_Meta d))" and "ContainsFinalizer d oAuthFinalizer"
    and "runs (Reconcile r req) (EGetRayCluster req (Inr d) # tr) out"
  shows "EDeleteClusterRoleBinding p (crbNameFromCluster rc) res \<notin> set tr"
proof -
  have "crbNameFromCluster d = crbNameFromCluster rc'"
    using assms(3-5) by (simp add: crbNameFromCluster_def shouldUseOldName_def)
  then have "always (reconcileCluster r d)
      (\<lambda>tr _. EDeleteClusterRoleBinding p (crbNameFromCluster rc) res \<notin> set tr)"
    using Default_renames_binding(2) [OF assms(1,2)] assms(6,7)
    by (auto simp: reconcileCluster_def and_then_def reconcileFinalizer_def split: block_splits)
  with assms(8) show ?thesis by (auto simp: runs_Reconcile dest: alwaysD)
qed

theorem upgraded_cluster_leaks_binding_witness:
  "let d = sound_defaulted\<lparr>rc_Meta := (rc_Meta sound_defaulted)
             \<lparr>om_DeletionTimestamp := Some 1, om_Finalizers := [oAuthFinalizer]\<rparr>\<rparr>;
       tr = [EDeleteClusterRoleBinding DeletePropagationForeground (crbNameFromCluster d) None,
             EUpdateRayCluster (RemoveFinalizer oAuthFinalizer d) (Inr d)]
   in runs (Reconcile (a_reconciler True True True) a_request)
        (EGetRayCluster a_request (Inr d) # tr) (Returned finished) \<and>
      EDeleteClusterRoleBinding DeletePropagationForeground ''ray-ns-auth'' None \<notin> set tr"
proof -
  let ?d = "sound_defaulted\<lparr>rc_Meta := (rc_Meta sound_defaulted)
             \<lparr>om_DeletionTimestamp := Some 1, om_Finalizers := [oAuthFinalizer]\<rparr>\<rparr>"
  let ?tr = "[EDeleteClusterRoleBinding DeletePropagationForeground (crbNameFromCluster ?d) None,
             EUpdateRayCluster (RemoveFinalizer oAuthFinalizer ?d) (Inr ?d)]"
  have old: "shouldUseOldName sound_cluster" and name: "Name sound_cluster = ''ray''"
    and ns: "Namespace sound_cluster = ''ns''"
    by (simp_all add: shouldUseOldName_def user_cluster_def)
  have crb: "crbNameFromCluster sound_cluster = ''ray-ns-auth''"
    using old by (simp add: crbNameFromCluster_def name ns)
  have default: "Default Map.empty full_webhook sound_cluster = Ok sound_defaulted"
    unfolding sound_defaulted_def by (rule Default_sound)
  have finalizer: "ContainsFinalizer ?d oAuthFinalizer" by (simp add: ContainsFinalizer_def)
  then have run: "runs (Reconcile (a_reconciler True True True) a_request)
      (EGetRayCluster a_request (Inr ?d) # ?tr) (Returned finished)"
    by (simp add: Reconcile_def reconcileCluster_def reconcileFinalizer_def and_then_def)
  have "EDeleteClusterRoleBinding DeletePropagationForeground (crbNameFromCluster sound_cluster) None
      \<notin> set ?tr"
    by (rule upgraded_cluster_leaks_binding [OF default old _ _ _ _ finalizer run]) simp_all
  with run crb show ?thesis by simp
qed

end
